(* ===== verification/Go_Prelude.thy ===== *)
theory Go_Prelude
  imports Main "HOL-Library.Word" "HOL-Library.Sublist" "HOL-Library.Signed_Division"
    "HOL-Library.Multiset"
begin

section \<open>The fragment of Go that every component uses\<close>

text \<open>
  Shared vocabulary of the development: Go error values and their chains (\<open>errors.New\<close>,
  \<open>fmt.Errorf\<close> with and without \<open>%w\<close>, \<open>errors.Join\<close>, \<open>errors.Is\<close>), results of
  calls that can fail or panic, Go maps that can be nil and are ranged over in an unspecified
  order, decimal printing, and the two's complement conversions between \<open>int64\<close>,
  \<open>uint64\<close> and \<open>int\<close> (64 bits wide).

  The collections \<open>go_result\<close> (facts that invert \<open>bindR\<close> and its relatives) and
  \<open>go_text\<close> (facts on printed text) carry most component proofs.
\<close>

named_theorems go_result "inversion of results, for simp"
named_theorems go_text "lengths and values of printed text, for simp"

subsection \<open>Error values\<close>

text \<open>
  An error value keeps its format string and its \<open>%q\<close>/\<open>%s\<close>/\<open>%T\<close> arguments
  unrendered: \<open>Errorf\<close> is \<open>errors.New\<close> or \<open>fmt.Errorf\<close> without \<open>%w\<close>,
  \<open>Wrapf\<close> is \<open>fmt.Errorf\<close> with one \<open>%w\<close>, \<open>Joined\<close> is a non-empty
  \<open>errors.Join\<close>. The two sentinels are those of error.go; \<open>Foreign\<close> is an error made
  by code outside the repository.
\<close>

datatype goerror =
    ErrNotExist
  | ErrUnimplemented
  | Foreign string
  | Errorf string "string list"
  | Wrapf string "string list" goerror
  | Joined "goerror list"

text \<open>\<open>errors.Is\<close>: the target is met somewhere along the chain.\<close>

fun errors_Is :: "goerror \<Rightarrow> goerror \<Rightarrow> bool" where
  "errors_Is (Wrapf f args e) t = (Wrapf f args e = t \<or> errors_Is e t)"
| "errors_Is (Joined es) t = (Joined es = t \<or> (\<exists>e \<in> set es. errors_Is e t))"
| "errors_Is e t = (e = t)"

text \<open>\<open>errors.Join\<close> drops nil errors and is nil when nothing is left.\<close>

definition errors_Join :: "goerror option list \<Rightarrow> goerror option" where
  "errors_Join es =
     (case List.map_filter id es of [] \<Rightarrow> None | e # es' \<Rightarrow> Some (Joined (e # es')))"

lemma errors_Is_refl [simp]: "errors_Is e e"
  by (cases e) auto

lemma errors_Join_eq_None [simp]: "errors_Join es = None \<longleftrightarrow> set es \<subseteq> {None}"
proof -
  have "List.map_filter id es = [] \<longleftrightarrow> set es \<subseteq> {None}"
    by (induction es) (auto simp: List.map_filter_def split: option.splits)
  then show ?thesis by (auto simp: errors_Join_def split: list.splits)
qed

lemma errors_Join_Some: "errors_Join (map Some es) = (if es = [] then None else Some (Joined es))"
  by (cases es) (simp_all add: errors_Join_def List.map_filter_def comp_def)

subsection \<open>Results\<close>

text \<open>
  A call that returns \<open>(value, error)\<close> is a result; a run-time panic (a failed type
  assertion, a nil map write, a nil pointer dereference) is \<open>Panics\<close>.
\<close>

datatype 'a result = Ok 'a | Err goerror | Panics

text \<open>\<open>bindR r f\<close> is \<open>x, err := r; if err != nil { return err }; f(x)\<close>.\<close>

fun bindR :: "'a result \<Rightarrow> ('a \<Rightarrow> 'b result) \<Rightarrow> 'b result" where
  "bindR (Ok x) f = f x"
| "bindR (Err e) f = Err e"
| "bindR Panics f = Panics"

text \<open>\<open>wrapR w r\<close> is \<open>if err != nil { return w(err) }\<close>.\<close>

fun wrapR :: "(goerror \<Rightarrow> goerror) \<Rightarrow> 'a result \<Rightarrow> 'a result" where
  "wrapR w (Ok x) = Ok x"
| "wrapR w (Err e) = Err (w e)"
| "wrapR w Panics = Panics"

definition guardR :: "bool \<Rightarrow> goerror \<Rightarrow> unit result" where
  "guardR b e = (if b then Ok () else Err e)"

lemma bindR_eq_Ok [go_result]: "bindR r f = Ok y \<longleftrightarrow> (\<exists>x. r = Ok x \<and> f x = Ok y)"
  by (cases r) auto

lemma bindR_eq_Err [go_result]:
  "bindR r f = Err e \<longleftrightarrow> r = Err e \<or> (\<exists>x. r = Ok x \<and> f x = Err e)"
  by (cases r) auto

lemma bindR_eq_Panics [go_result]:
  "bindR r f = Panics \<longleftrightarrow> r = Panics \<or> (\<exists>x. r = Ok x \<and> f x = Panics)"
  by (cases r) auto

lemma wrapR_eq_Ok [go_result]: "wrapR w r = Ok y \<longleftrightarrow> r = Ok y"
  by (cases r) auto

lemma wrapR_eq_Err [go_result]: "wrapR w r = Err e \<longleftrightarrow> (\<exists>e'. r = Err e' \<and> e = w e')"
  by (cases r) auto

lemma wrapR_eq_Panics [go_result]: "wrapR w r = Panics \<longleftrightarrow> r = Panics"
  by (cases r) auto

lemma guardR_eq_Ok [go_result]: "guardR b e = Ok u \<longleftrightarrow> b"
  by (simp add: guardR_def)

lemma guardR_eq_Err [go_result]: "guardR b e = Err e' \<longleftrightarrow> \<not> b \<and> e' = e"
  by (auto simp: guardR_def)

lemma guardR_not_Panics [go_result]: "guardR b e \<noteq> Panics"
  by (simp add: guardR_def)

lemma bindR_assoc: "bindR (bindR r f) g = bindR r (\<lambda>x. bindR (f x) g)"
  by (cases r) auto

lemma bindR_Ok_right [simp]: "bindR r Ok = r"
  by (cases r) auto

lemma bindR_cong [fundef_cong]:
  "r = r' \<Longrightarrow> (\<And>x. r' = Ok x \<Longrightarrow> f x = f' x) \<Longrightarrow> bindR r f = bindR r' f'"
  by (cases r') auto

text \<open>
  The loop \<open>for _, x := range xs { y, err := f(x); if err != nil { return err };
  ys = append(ys, y) }\<close>.
\<close>

fun traverseR :: "('a \<Rightarrow> 'b result) \<Rightarrow> 'a list \<Rightarrow> 'b list result" where
  "traverseR f [] = Ok []"
| "traverseR f (x # xs) = bindR (f x) (\<lambda>y. bindR (traverseR f xs) (\<lambda>ys. Ok (y # ys)))"

lemma traverseR_eq_Ok [go_result]:
  "traverseR f xs = Ok ys \<longleftrightarrow> list_all2 (\<lambda>x y. f x = Ok y) xs ys"
  by (induction xs arbitrary: ys) (auto simp: go_result list_all2_Cons1)

lemma traverseR_Ok_iff: "(\<exists>ys. traverseR f xs = Ok ys) \<longleftrightarrow> (\<forall>x \<in> set xs. \<exists>y. f x = Ok y)"
  by (induction xs) (auto simp: go_result)

lemma traverseR_eq_Err:
  "traverseR f xs = Err e \<longleftrightarrow>
     (\<exists>us x vs. xs = us @ x # vs \<and> (\<forall>u \<in> set us. \<exists>y. f u = Ok y) \<and> f x = Err e)"
proof (induction xs)
  case Nil
  then show ?case by simp
next
  case (Cons a xs)
  have "traverseR f (a # xs) = Err e \<longleftrightarrow>
      f a = Err e \<or> (\<exists>y. f a = Ok y \<and> traverseR f xs = Err e)"
    by (cases "f a") (auto simp: go_result)
  also have "\<dots> \<longleftrightarrow> (\<exists>us x vs. a # xs = us @ x # vs \<and> (\<forall>u \<in> set us. \<exists>y. f u = Ok y) \<and> f x = Err e)"
    (is "?l \<longleftrightarrow> ?r")
  proof
    assume ?l
    then show ?r
    proof
      assume "f a = Err e"
      then show ?r by (intro exI [of _ "[]"]) auto
    next
      assume "\<exists>y. f a = Ok y \<and> traverseR f xs = Err e"
      then obtain us x vs where "xs = us @ x # vs" "\<forall>u \<in> set us. \<exists>y. f u = Ok y" "f x = Err e"
        and "\<exists>y. f a = Ok y"
        using Cons.IH by auto
      then show ?r by (intro exI [of _ "a # us"]) auto
    qed
  next
    assume ?r
    then obtain us x vs where eq: "a # xs = us @ x # vs"
      and ok: "\<forall>u \<in> set us. \<exists>y. f u = Ok y" and err: "f x = Err e"
      by blast
    show ?l
    proof (cases us)
      case Nil
      with eq err show ?thesis by simp
    next
      case (Cons u us')
      with eq ok err Cons.IH show ?thesis by auto
    qed
  qed
  finally show ?case .
qed

lemma traverseR_not_Panics: "(\<And>x. x \<in> set xs \<Longrightarrow> f x \<noteq> Panics) \<Longrightarrow> traverseR f xs \<noteq> Panics"
  by (induction xs) (auto simp: go_result)

subsection \<open>Go maps\<close>

text \<open>
  A Go map is nil (\<open>None\<close>) or a finite table. Reading a nil map misses, writing it panics.
  \<open>range\<close> visits every entry once in an order the language leaves open:
  \<open>enumerates es m\<close> says that \<open>es\<close> is one such order.
\<close>

type_synonym ('k, 'v) gomap = "('k \<rightharpoonup> 'v) option"

fun gm_lookup :: "('k, 'v) gomap \<Rightarrow> 'k \<Rightarrow> 'v option" where
  "gm_lookup None k = None"
| "gm_lookup (Some m) k = m k"

fun gm_store :: "('k, 'v) gomap \<Rightarrow> 'k \<Rightarrow> 'v \<Rightarrow> ('k, 'v) gomap result" where
  "gm_store None k v = Panics"
| "gm_store (Some m) k v = Ok (Some (m(k \<mapsto> v)))"

definition enumerates :: "('k \<times> 'v) list \<Rightarrow> ('k \<rightharpoonup> 'v) \<Rightarrow> bool" where
  "enumerates es m \<longleftrightarrow> distinct (map fst es) \<and> map_of es = m"

lemma enumerates_map_of: "distinct (map fst es) \<Longrightarrow> enumerates es (map_of es)"
  by (simp add: enumerates_def)

lemma enumerates_entries: "enumerates es m \<Longrightarrow> set es = {(k, v). m k = Some v}"
  by (auto simp: enumerates_def)

lemma enumerates_distinct: "enumerates es m \<Longrightarrow> distinct es"
  by (simp add: enumerates_def distinct_map)

lemma enumerates_mset: "enumerates es m \<Longrightarrow> enumerates es' m \<Longrightarrow> mset es = mset es'"
  by (metis enumerates_distinct enumerates_entries set_eq_iff_mset_eq_distinct)

subsection \<open>A keyed store: the interface of tables with last-write-wins\<close>

text \<open>
  What the clients of MapList and of Registry rely on: reading back what was set, and
  nothing else changing. The lemmas on whole sequences of writes are proved once here.
\<close>

locale keyed_store =
  fixes get :: "'m \<Rightarrow> 'k \<Rightarrow> 'v option"
    and put :: "'k \<Rightarrow> 'v \<Rightarrow> 'm \<Rightarrow> 'm"
    and inv :: "'m \<Rightarrow> bool"
  assumes get_put: "inv m \<Longrightarrow> get (put k v m) k' = (if k' = k then Some v else get m k')"
    and inv_put: "inv m \<Longrightarrow> inv (put k v m)"
begin

lemma inv_puts: "inv m \<Longrightarrow> inv (fold (\<lambda>(k, v). put k v) kvs m)"
  by (induction kvs arbitrary: m) (auto simp: inv_put)

lemma get_puts:
  "inv m \<Longrightarrow> get (fold (\<lambda>(k, v). put k v) kvs m) k =
     (case map_of (rev kvs) k of Some v \<Rightarrow> Some v | None \<Rightarrow> get m k)"
proof (induction kvs arbitrary: m)
  case Nil
  then show ?case by simp
next
  case (Cons kv kvs)
  then show ?case
    by (cases kv) (auto simp: get_put inv_put map_add_def split: option.splits)
qed

lemma put_put: "inv m \<Longrightarrow> get (put k v (put k u m)) = get (put k v m)"
  by (rule ext) (simp add: get_put inv_put)

lemma put_commute:
  "inv m \<Longrightarrow> k \<noteq> l \<Longrightarrow> get (put k v (put l u m)) = get (put l u (put k v m))"
  by (rule ext) (simp add: get_put inv_put)

end

subsection \<open>Integers\<close>

text \<open>
  \<open>int\<close> is 64 bits wide. \<open>int_of_uint64\<close> is Go's conversion \<open>int(v)\<close> of a
  \<open>uint64\<close>: the same bits read as two's complement. Values of \<open>int64\<close> that are
  only compared, divided by constants or printed are kept as HOL integers in
  \<open>int64_range\<close>; Go's \<open>/\<close> and \<open>%\<close> round towards zero, which is \<open>sdiv\<close> and
  \<open>smod\<close>.
\<close>

definition int64_range :: "int set" where
  "int64_range = {- (2 ^ 63) ..< 2 ^ 63}"

definition int_of_uint64 :: "64 word \<Rightarrow> int" where
  "int_of_uint64 v = sint v"

lemma int_of_uint64_eq:
  "int_of_uint64 v = (if uint v < 2 ^ 63 then uint v else uint v - 2 ^ 64)"
proof -
  have u: "0 \<le> uint v" "uint v < 2 ^ 64"
    using uint_lt2p [of v] by simp_all
  have "sint v = (uint v + 2 ^ 63) mod 2 ^ 64 - 2 ^ 63"
    by (simp add: sint_uint signed_take_bit_eq_take_bit_shift take_bit_eq_mod)
  also have "\<dots> = (if uint v < 2 ^ 63 then uint v else uint v - 2 ^ 64)"
  proof (cases "uint v < 2 ^ 63")
    case True
    with u show ?thesis by (simp add: mod_pos_pos_trivial)
  next
    case False
    have "(uint v + 2 ^ 63) mod 2 ^ 64 = (uint v - 2 ^ 63) mod 2 ^ 64"
      by (simp add: mod_eq_dvd_iff)
    with False u show ?thesis by (simp add: mod_pos_pos_trivial)
  qed
  finally show ?thesis
    by (simp add: int_of_uint64_def)
qed

text \<open>A \<open>float64\<close> is only compared with zero and passed on: a finite value is kept as
  mantissa and exponent.\<close>

datatype float64 = Finite int int | PosInf | NegInf | NaN

fun float_nonzero :: "float64 \<Rightarrow> bool" where
  "float_nonzero (Finite m e) = (m \<noteq> 0)"
| "float_nonzero PosInf = True"
| "float_nonzero NegInf = True"
| "float_nonzero NaN = True"

subsection \<open>Decimal printing, \<open>%d\<close>\<close>

definition digit :: "nat \<Rightarrow> char" where
  "digit n = char_of (48 + n)"

definition digit_val :: "char \<Rightarrow> nat" where
  "digit_val c = of_char c - 48"

fun show_nat :: "nat \<Rightarrow> string" where
  "show_nat n = (if n < 10 then [digit n] else show_nat (n div 10) @ [digit (n mod 10)])"

declare show_nat.simps [simp del]

definition show_int :: "int \<Rightarrow> string" where
  "show_int i = (if i < 0 then CHR ''-'' # show_nat (nat (- i)) else show_nat (nat i))"

definition read_nat :: "string \<Rightarrow> nat" where
  "read_nat s = foldl (\<lambda>n c. 10 * n + digit_val c) 0 s"

lemma digit_val_digit [simp]: "n < 10 \<Longrightarrow> digit_val (digit n) = n"
  by (simp add: digit_val_def digit_def)

lemma read_nat_append: "read_nat (s @ [c]) = 10 * read_nat s + digit_val c"
  by (simp add: read_nat_def)

lemma read_show_nat [simp]: "read_nat (show_nat n) = n"
proof (induction n rule: show_nat.induct)
  case (1 n)
  show ?case
  proof (cases "n < 10")
    case True
    then show ?thesis by (simp add: show_nat.simps [of n] read_nat_def)
  next
    case False
    with 1 show ?thesis by (simp add: show_nat.simps [of n] read_nat_append)
  qed
qed

lemma length_show_nat_1 [go_text]: "n < 10 \<Longrightarrow> length (show_nat n) = 1"
  by (simp add: show_nat.simps [of n])

lemma length_show_nat_2 [go_text]: "10 \<le> n \<Longrightarrow> n < 100 \<Longrightarrow> length (show_nat n) = 2"
  by (simp add: show_nat.simps [of n] length_show_nat_1)

lemma length_show_nat_3 [go_text]: "100 \<le> n \<Longrightarrow> n < 1000 \<Longrightarrow> length (show_nat n) = 3"
  by (simp add: show_nat.simps [of n] length_show_nat_2)

lemma length_show_nat_4 [go_text]: "1000 \<le> n \<Longrightarrow> n < 10000 \<Longrightarrow> length (show_nat n) = 4"
  by (simp add: show_nat.simps [of n] length_show_nat_3)

lemma set_show_nat: "set (show_nat n) \<subseteq> digit ` {..<10}"
proof (induction n rule: show_nat.induct)
  case (1 n)
  then show ?case by (cases "n < 10") (auto simp: show_nat.simps [of n])
qed

lemma show_nat_not_Nil [simp]: "show_nat n \<noteq> []"
  by (subst show_nat.simps) simp

subsection \<open>Strings\<close>

text \<open>
  A Go string is its bytes: a \<open>char\<close> is a byte. \<open>str_index\<close> is \<open>strings.Index\<close>
  and \<open>Cut\<close> is \<open>strings.Cut\<close>.
\<close>

fun str_index :: "string \<Rightarrow> string \<Rightarrow> nat option" where
  "str_index sep [] = (if sep = [] then Some 0 else None)"
| "str_index sep (c # s) =
     (if prefix sep (c # s) then Some 0 else map_option Suc (str_index sep s))"

definition Cut :: "string \<Rightarrow> string \<Rightarrow> string \<times> string \<times> bool" where
  "Cut s sep =
     (case str_index sep s of
        None \<Rightarrow> (s, [], False)
      | Some i \<Rightarrow> (take i s, drop (i + length sep) s, True))"

lemma str_index_Some:
  "str_index sep s = Some i \<Longrightarrow> s = take i s @ sep @ drop (i + length sep) s"
proof (induction s arbitrary: i)
  case Nil
  then show ?case by (simp split: if_splits)
next
  case (Cons c s)
  show ?case
  proof (cases "prefix sep (c # s)")
    case True
    with Cons.prems show ?thesis by (auto simp: prefix_def)
  next
    case False
    with Cons.prems obtain j where "str_index sep s = Some j" "i = Suc j" by auto
    with Cons.IH [of j] show ?thesis by simp
  qed
qed

lemma str_index_char:
  "str_index [c] s = (if c \<in> set s then Some (length (takeWhile (\<lambda>x. x \<noteq> c) s)) else None)"
  by (induction s) auto

lemma takeWhile_upto: "c \<notin> set xs \<Longrightarrow> takeWhile (\<lambda>x. x \<noteq> c) (xs @ c # ys) = xs"
  by (induction xs) auto

lemma Cut_char_in: "c \<notin> set xs \<Longrightarrow> Cut (xs @ c # ys) [c] = (xs, ys, True)"
  by (simp add: Cut_def str_index_char takeWhile_upto)

lemma Cut_char_out: "c \<notin> set s \<Longrightarrow> Cut s [c] = (s, [], False)"
  by (simp add: Cut_def str_index_char)

lemma Cut_char_cases:
  obtains "c \<notin> set s" "Cut s [c] = (s, [], False)"
  | xs ys where "c \<notin> set xs" "s = xs @ c # ys" "Cut s [c] = (xs, ys, True)"
  by (metis Cut_char_in Cut_char_out split_list_first)

lemma triple: "x = (fst x, fst (snd x), snd (snd x))"
  by simp

end
