(* ===== verification/Opaque.thy ===== *)
theory Opaque
  imports Go_Prelude
begin

section \<open>Opaque strings and the header list (opaque/)\<close>

text \<open>
  \<open>opaque.String\<close> prints and marshals as a mask. \<open>opaque.MapList\<close> is a slice of
  name/value pairs with map-like \<open>Get\<close>, \<open>Set\<close> and \<open>Iter\<close>. A slice is a header
  into a backing array that other slices may share, so \<open>Set\<close> is modelled on an explicit
  store of arrays; \<open>maplist_put\<close> is its specification on plain lists.
\<close>

subsection \<open>String\<close>

datatype opaque_string = Opaque_String (raw: string)

definition maskedString :: string where
  "maskedString = ''[REDACTED]''"

definition String_MarshalText :: "opaque_string \<Rightarrow> string result" where
  "String_MarshalText s = Ok maskedString"

definition String_String :: "opaque_string \<Rightarrow> string" where
  "String_String s = maskedString"

text \<open>\<open>%#v\<close> of a string without quotes, backslashes or control bytes is the string in
  double quotes.\<close>

definition String_GoString :: "opaque_string \<Rightarrow> string" where
  "String_GoString s = [CHR 0x22] @ maskedString @ [CHR 0x22]"

definition String_MarshalBinary :: "opaque_string \<Rightarrow> string result" where
  "String_MarshalBinary s = Ok maskedString"

subsection \<open>MapList: reading\<close>

record pair =
  Name :: string
  Value :: opaque_string

type_synonym maplist = "pair list"

text \<open>\<open>Iter\<close> hands the pairs to \<open>yield\<close> until it answers false; the state is what the
  loop body of the caller reads and writes.\<close>

fun MapList_Iter ::
    "maplist \<Rightarrow> (string \<Rightarrow> opaque_string \<Rightarrow> 's \<Rightarrow> bool \<times> 's) \<Rightarrow> 's \<Rightarrow> 's" where
  "MapList_Iter [] yield s = s"
| "MapList_Iter (p # ps) yield s =
     (case yield (Name p) (Value p) s of
        (True, s') \<Rightarrow> MapList_Iter ps yield s'
      | (False, s') \<Rightarrow> s')"

fun MapList_Get :: "maplist \<Rightarrow> string \<Rightarrow> opaque_string option" where
  "MapList_Get [] name = None"
| "MapList_Get (p # ps) name = (if Name p = name then Some (Value p) else MapList_Get ps name)"

subsection \<open>MapList: writing, on values\<close>

text \<open>What \<open>Set\<close> promises: the first pair with the name gets the value, or a pair is added
  at the end.\<close>

fun maplist_put :: "string \<Rightarrow> opaque_string \<Rightarrow> maplist \<Rightarrow> maplist" where
  "maplist_put name val [] = [\<lparr>Name = name, Value = val\<rparr>]"
| "maplist_put name val (p # ps) =
     (if Name p = name then p\<lparr>Value := val\<rparr> # ps else p # maplist_put name val ps)"

definition distinct_names :: "maplist \<Rightarrow> bool" where
  "distinct_names ps \<longleftrightarrow> distinct (map Name ps)"

lemma MapList_Get_put:
  "MapList_Get (maplist_put n v ps) n' = (if n' = n then Some v else MapList_Get ps n')"
  by (induction ps) auto

lemma names_put:
  "map Name (maplist_put n v ps) = (if n \<in> Name ` set ps then map Name ps else map Name ps @ [n])"
  by (induction ps) auto

lemma distinct_names_put: "distinct_names ps \<Longrightarrow> distinct_names (maplist_put n v ps)"
  by (auto simp: distinct_names_def names_put)

interpretation maplist: keyed_store MapList_Get maplist_put distinct_names
  by unfold_locales (auto simp: MapList_Get_put distinct_names_put)

lemma MapList_Get_map_of: "MapList_Get ps = map_of (map (\<lambda>p. (Name p, Value p)) ps)"
  by (rule ext, induct_tac ps) auto

subsection \<open>MapList: writing, in the store of backing arrays\<close>

text \<open>
  A slice is nil or the first \<open>len\<close> elements of an array. \<open>arrays\<close> is the heap and
  \<open>fresh\<close> the next free address.
\<close>

datatype slice = NilSlice | Slice (addr: nat) (len: nat)

record store =
  arrays :: "nat \<Rightarrow> pair list"
  fresh :: nat

fun read_slice :: "store \<Rightarrow> slice \<Rightarrow> maplist" where
  "read_slice h NilSlice = []"
| "read_slice h (Slice a n) = take n (arrays h a)"

fun live :: "store \<Rightarrow> slice \<Rightarrow> bool" where
  "live h NilSlice = True"
| "live h (Slice a n) = (a < fresh h \<and> n \<le> length (arrays h a))"

definition alloc :: "pair list \<Rightarrow> store \<Rightarrow> nat \<times> store" where
  "alloc xs h = (fresh h, h\<lparr>arrays := (arrays h)(fresh h := xs), fresh := Suc (fresh h)\<rparr>)"

text \<open>\<open>(*ml)[i].Value = val\<close>\<close>

definition set_value :: "nat \<Rightarrow> nat \<Rightarrow> opaque_string \<Rightarrow> store \<Rightarrow> store" where
  "set_value a i val h =
     h\<lparr>arrays := (arrays h)(a := (arrays h a)[i := (arrays h a ! i)\<lparr>Value := val\<rparr>])\<rparr>"

text \<open>The index at which the loop of \<open>Set\<close> finds the name.\<close>

fun name_index :: "string \<Rightarrow> maplist \<Rightarrow> nat option" where
  "name_index name [] = None"
| "name_index name (p # ps) = (if Name p = name then Some 0 else map_option Suc (name_index name ps))"

text \<open>
  \<open>Set\<close> through a pointer to a slice variable: \<open>None\<close> is the nil pointer, which panics.
  A found name clones the array before the write; otherwise the pairs are copied into a new
  array with room for one more, and the new pair is appended there.
\<close>

fun MapList_Set ::
    "slice option \<Rightarrow> string \<Rightarrow> opaque_string \<Rightarrow> store \<Rightarrow> (slice \<times> store) result" where
  "MapList_Set None name val h = Panics"
| "MapList_Set (Some ml) name val h =
     (case name_index name (read_slice h ml) of
        Some i \<Rightarrow>
          (let xs = read_slice h ml; (a, h') = alloc xs h
           in Ok (Slice a (length xs), set_value a i val h'))
      | None \<Rightarrow>
          (let xs = read_slice h ml @ [\<lparr>Name = name, Value = val\<rparr>]; (a, h') = alloc xs h
           in Ok (Slice a (length xs), h')))"

lemma name_index_None: "name_index n ps = None \<Longrightarrow> maplist_put n v ps = ps @ [\<lparr>Name = n, Value = v\<rparr>]"
  by (induction ps) (auto split: if_splits)

lemma name_index_Some:
  "name_index n ps = Some i \<Longrightarrow>
     i < length ps \<and> maplist_put n v ps = ps[i := (ps ! i)\<lparr>Value := v\<rparr>]"
  by (induction ps arbitrary: i) (auto split: if_splits)

lemma read_alloc_live: "live h s \<Longrightarrow> read_slice (snd (alloc xs h)) s = read_slice h s"
  by (cases s) (auto simp: alloc_def)

lemma read_set_value_other: "addr s \<noteq> a \<or> s = NilSlice \<Longrightarrow> read_slice (set_value a i v h) s = read_slice h s"
  by (cases s) (auto simp: set_value_def)

text \<open>C34: \<open>MapList.Set\<close> implements the map update on values, through a non-nil pointer it
  never panics, the new slice is a fresh copy, and no slice that existed before, even one
  that shares the old backing array, sees the write (``does not affect shallow copies'').\<close>

theorem MapList_Set_refines:
  assumes "live h ml"
  shows "\<exists>ml' h'. MapList_Set (Some ml) name val h = Ok (ml', h') \<and> live h' ml' \<and>
     read_slice h' ml' = maplist_put name val (read_slice h ml) \<and>
     (\<forall>s. live h s \<longrightarrow> live h' s \<and> read_slice h' s = read_slice h s)"
proof (cases "name_index name (read_slice h ml)")
  case None
  have "live (snd (alloc xs h)) s" if "live h s" for s xs
    using that by (cases s) (auto simp: alloc_def)
  with None show ?thesis
    by (auto simp: name_index_None [OF None] Let_def split_def read_alloc_live)
       (auto simp: alloc_def)
next
  case (Some i)
  let ?xs = "read_slice h ml"
  let ?h = "set_value (fresh h) i val (snd (alloc ?xs h))"
  have old: "live ?h s \<and> read_slice ?h s = read_slice h s" if "live h s" for s
    using that by (cases s) (auto simp: alloc_def set_value_def)
  have "read_slice ?h (Slice (fresh h) (length ?xs)) = maplist_put name val ?xs"
    using name_index_Some [OF Some] by (simp add: alloc_def set_value_def)
  moreover have "live ?h (Slice (fresh h) (length ?xs))"
    by (simp add: alloc_def set_value_def)
  ultimately show ?thesis
    using Some old by (auto simp: Let_def alloc_def split_def)
qed

theorem MapList_Set_refines_witness:
  "\<exists>h ml. live h ml \<and> (\<exists>ml' h'. MapList_Set (Some ml) ''k'' (Opaque_String ''v'') h = Ok (ml', h') \<and>
     read_slice h' ml' = [\<lparr>Name = ''k'', Value = Opaque_String ''v''\<rparr>] \<and>
     read_slice h' ml = [\<lparr>Name = ''k'', Value = Opaque_String ''u''\<rparr>])"
proof -
  let ?h = "\<lparr>arrays = (\<lambda>_. [\<lparr>Name = ''k'', Value = Opaque_String ''u''\<rparr>]), fresh = 1\<rparr>"
  let ?ml = "Slice 0 1"
  have live: "live ?h ?ml" by simp
  from MapList_Set_refines [OF live, of "''k''" "Opaque_String ''v''"] live
  have "\<exists>ml' h'. MapList_Set (Some ?ml) ''k'' (Opaque_String ''v'') ?h = Ok (ml', h') \<and>
     read_slice h' ml' = [\<lparr>Name = ''k'', Value = Opaque_String ''v''\<rparr>] \<and>
     read_slice h' ?ml = [\<lparr>Name = ''k'', Value = Opaque_String ''u''\<rparr>]"
    by fastforce
  with live show ?thesis by blast
qed

end
