(* ===== verification/Identifiable.thy ===== *)
theory Identifiable
  imports Go_Prelude
begin

section \<open>Component identifiers (identifiable.go)\<close>

text \<open>
  An \<open>Id\<close> is a string \<open>type\<close> or \<open>type/name\<close>. \<open>Id_UnmarshalText\<close> is the only
  way an id enters from a configuration file. The regular expressions and
  \<open>strings.TrimSpace\<close> work on the UTF-8 decoding of the bytes, which is modelled as Go
  decodes it (an invalid byte is U+FFFD of width one). The Unicode classes Z, C and S above
  ASCII are tables of the Go runtime: they are the parameter \<open>uni\<close>.
\<close>

type_synonym Id = string

definition typeAndNameSeparator :: string where
  "typeAndNameSeparator = ''/''"

subsection \<open>UTF-8 and white space\<close>

definition byte :: "char \<Rightarrow> nat" where
  "byte c = of_char c"

definition cont :: "nat \<Rightarrow> bool" where
  "cont b \<longleftrightarrow> 0x80 \<le> b \<and> b \<le> 0xBF"

text \<open>The first rune of a byte string and its width, as \<open>utf8.DecodeRuneInString\<close>:
  the lead byte fixes how many continuation bytes must follow, and shortest-form, surrogate
  and upper-bound checks restrict the first of them.\<close>

definition rune_or_error :: "bool \<Rightarrow> nat \<Rightarrow> nat \<Rightarrow> nat \<times> nat" where
  "rune_or_error ok r w = (if ok then (r, w) else (0xFFFD, 1))"

definition conts :: "nat \<Rightarrow> nat list \<Rightarrow> bool" where
  "conts n bs \<longleftrightarrow> n \<le> length bs \<and> list_all cont (take n bs)"

fun decode_rune :: "nat list \<Rightarrow> nat \<times> nat" where
  "decode_rune [] = (0xFFFD, 0)"
| "decode_rune (a # bs) =
     (if a < 0x80 then (a, 1)
      else if 0xC2 \<le> a \<and> a \<le> 0xDF then
        rune_or_error (conts 1 bs) ((a - 0xC0) * 64 + (bs ! 0 - 0x80)) 2
      else if 0xE0 \<le> a \<and> a \<le> 0xEF then
        rune_or_error (conts 2 bs \<and> (a = 0xE0 \<longrightarrow> 0xA0 \<le> bs ! 0) \<and> (a = 0xED \<longrightarrow> bs ! 0 \<le> 0x9F))
          ((a - 0xE0) * 4096 + (bs ! 0 - 0x80) * 64 + (bs ! 1 - 0x80)) 3
      else if 0xF0 \<le> a \<and> a \<le> 0xF4 then
        rune_or_error (conts 3 bs \<and> (a = 0xF0 \<longrightarrow> 0x90 \<le> bs ! 0) \<and> (a = 0xF4 \<longrightarrow> bs ! 0 \<le> 0x8F))
          ((a - 0xF0) * 262144 + (bs ! 0 - 0x80) * 4096 + (bs ! 1 - 0x80) * 64 + (bs ! 2 - 0x80)) 4
      else (0xFFFD, 1))"

lemma snd_rune_or_error: "0 < w \<Longrightarrow> 0 < snd (rune_or_error ok r w)"
  by (simp add: rune_or_error_def)

lemma rune_or_error_valid:
  "fst (rune_or_error ok r w) \<noteq> 0xFFFD \<Longrightarrow> ok \<and> snd (rune_or_error ok r w) = w"
  by (auto simp: rune_or_error_def split: if_splits)

lemma decode_rune_width: "bs \<noteq> [] \<Longrightarrow> 0 < snd (decode_rune bs)"
  by (cases bs) (auto simp: snd_rune_or_error)

function runes :: "nat list \<Rightarrow> nat list" where
  "runes bs = (if bs = [] then [] else fst (decode_rune bs) # runes (drop (snd (decode_rune bs)) bs))"
  by pat_completeness auto
termination
  by (relation "measure length") (use decode_rune_width in \<open>auto intro: diff_less\<close>)

declare runes.simps [simp del]

text \<open>The UTF-8 encodings of the characters for which \<open>unicode.IsSpace\<close> holds.\<close>

definition space_encodings :: "nat list list" where
  "space_encodings =
     [[0x09], [0x0A], [0x0B], [0x0C], [0x0D], [0x20], [0xC2, 0x85], [0xC2, 0xA0],
      [0xE1, 0x9A, 0x80]] @ map (\<lambda>b. [0xE2, 0x80, b]) ([0x80..<0x8B] @ [0xA8, 0xA9, 0xAF]) @
      [[0xE2, 0x81, 0x9F], [0xE3, 0x80, 0x80]]"

function strip :: "nat list list \<Rightarrow> nat list \<Rightarrow> nat list" where
  "strip es bs =
     (case find (\<lambda>e. e \<noteq> [] \<and> prefix e bs) es of
        None \<Rightarrow> bs
      | Some e \<Rightarrow> strip es (drop (length e) bs))"
  by pat_completeness auto
termination
  by (relation "measure (\<lambda>(es, bs). length bs)")
    (auto simp: find_Some_iff prefix_def)

declare strip.simps [simp del]

text \<open>\<open>strings.TrimSpace\<close>: strip encodings of spaces at the front, then at the back.\<close>

definition TrimSpace :: "string \<Rightarrow> string" where
  "TrimSpace s =
     (let f = strip space_encodings (map byte s);
          b = rev (strip (map rev space_encodings) (rev f))
      in map char_of b)"

subsection \<open>The two regular expressions\<close>

definition alpha :: "nat \<Rightarrow> bool" where
  "alpha b \<longleftrightarrow> 65 \<le> b \<and> b \<le> 90 \<or> 97 \<le> b \<and> b \<le> 122"

definition word_byte :: "nat \<Rightarrow> bool" where
  "word_byte b \<longleftrightarrow> 48 \<le> b \<and> b \<le> 57 \<or> alpha b \<or> b = 95"

text \<open>\<open>^[a-zA-Z][0-9a-zA-Z_]{0,62}$\<close>\<close>

definition typeRegexp :: "string \<Rightarrow> bool" where
  "typeRegexp s =
     (case map byte s of
        [] \<Rightarrow> False
      | c # cs \<Rightarrow> alpha c \<and> length cs \<le> 62 \<and> list_all word_byte cs)"

text \<open>The class \<open>[\pZ\pC\pS]\<close>: spelled out for ASCII, \<open>uni\<close> above it.\<close>

definition excluded :: "(nat \<Rightarrow> bool) \<Rightarrow> nat \<Rightarrow> bool" where
  "excluded uni r =
     (if r < 128
      then r \<le> 32 \<or> r = 127 \<or> r \<in> set [36, 43, 60, 61, 62, 94, 96, 124, 126]
      else uni r)"

text \<open>\<open>^[^\pZ\pC\pS]+$\<close>\<close>

definition nameRegexp :: "(nat \<Rightarrow> bool) \<Rightarrow> string \<Rightarrow> bool" where
  "nameRegexp uni s \<longleftrightarrow>
     s \<noteq> [] \<and> list_all (\<lambda>r. \<not> excluded uni r) (runes (map byte s))"

subsection \<open>Ids\<close>

definition Id_String :: "Id \<Rightarrow> string" where
  "Id_String i = i"

definition Id_split :: "Id \<Rightarrow> string \<times> string" where
  "Id_split i = (case Cut i typeAndNameSeparator of (t, n, _) \<Rightarrow> (t, n))"

definition Id_Type :: "Id \<Rightarrow> string" where
  "Id_Type i = fst (Id_split i)"

definition Id_Name :: "Id \<Rightarrow> string" where
  "Id_Name i = snd (Id_split i)"

definition Id_WithName :: "Id \<Rightarrow> string \<Rightarrow> Id" where
  "Id_WithName i name =
     (let v = fst (Id_split i) in if name = [] then v else v @ ''/'' @ name)"

definition Id_MarshalText :: "Id \<Rightarrow> string result" where
  "Id_MarshalText i = Ok i"

definition Id_UnmarshalText :: "(nat \<Rightarrow> bool) \<Rightarrow> string \<Rightarrow> Id result" where
  "Id_UnmarshalText uni idStr =
     (case Cut idStr typeAndNameSeparator of (typeStr0, nameStr0, hasName) \<Rightarrow>
      let typeStr = TrimSpace typeStr0 in
      if typeStr = [] then
        (if hasName
         then Err (Errorf ''in %q id: the part before %s should not be empty'' [idStr, typeAndNameSeparator])
         else Err (Errorf ''id must not be empty'' []))
      else if \<not> typeRegexp typeStr then Err (Errorf ''invalid character(s) in type %q'' [typeStr])
      else if hasName then
        (let nameStr = TrimSpace nameStr0 in
         if nameStr = [] then
           Err (Errorf ''in %q id: the part after %s should not be empty'' [idStr, typeAndNameSeparator])
         else if \<not> nameRegexp uni nameStr then Err (Errorf ''invalid character(s) in name %q'' [nameStr])
         else Ok (typeStr @ ''/'' @ nameStr))
      else Ok typeStr)"

subsection \<open>Splitting and rebuilding ids\<close>

lemma Id_split_cases:
  obtains "CHR ''/'' \<notin> set i" "Id_split i = (i, [])"
  | t n where "CHR ''/'' \<notin> set t" "i = t @ CHR ''/'' # n" "Id_split i = (t, n)"
  by (rule Cut_char_cases [of "CHR ''/''" i]) (auto simp: Id_split_def typeAndNameSeparator_def)

lemma Id_split_no_name [simp]: "CHR ''/'' \<notin> set t \<Longrightarrow> Id_split t = (t, [])"
  by (simp add: Id_split_def typeAndNameSeparator_def Cut_char_out)

lemma Id_split_name [simp]: "CHR ''/'' \<notin> set t \<Longrightarrow> Id_split (t @ CHR ''/'' # n) = (t, n)"
  by (simp add: Id_split_def typeAndNameSeparator_def Cut_char_in)

lemma Id_Type_no_slash: "CHR ''/'' \<notin> set (Id_Type i)"
  by (rule Id_split_cases [of i]) (auto simp: Id_Type_def)

lemma Id_WithName_type: "Id_Type (Id_WithName i name) = Id_Type i"
  using Id_Type_no_slash [of i] by (simp add: Id_WithName_def Id_Type_def Let_def)

lemma Id_WithName_name: "Id_Name (Id_WithName i name) = name"
  using Id_Type_no_slash [of i] by (simp add: Id_WithName_def Id_Type_def Id_Name_def Let_def)

lemma Id_WithName_inj:
  "Id_WithName i name = Id_WithName j name' \<longleftrightarrow> Id_Type i = Id_Type j \<and> name = name'"
proof
  assume "Id_WithName i name = Id_WithName j name'"
  then show "Id_Type i = Id_Type j \<and> name = name'" by (metis Id_WithName_type Id_WithName_name)
qed (simp add: Id_WithName_def Id_Type_def)

text \<open>C31: the type and the name put into an id by \<open>WithName\<close> are read back, ids with
  different names or different types are different, and an id is rebuilt from its parts
  unless it ends in a bare separator.\<close>

theorem Id_WithName_parts:
  "Id_Type (Id_WithName i name) = Id_Type i \<and> Id_Name (Id_WithName i name) = name \<and>
   (Id_WithName i name = Id_WithName j name' \<longleftrightarrow> Id_Type i = Id_Type j \<and> name = name') \<and>
   (Id_WithName i (Id_Name i) = i \<longleftrightarrow> i \<noteq> Id_Type i @ ''/'')"
proof -
  have "Id_WithName i (Id_Name i) = i \<longleftrightarrow> i \<noteq> Id_Type i @ ''/''"
    by (rule Id_split_cases [of i]) (auto simp: Id_WithName_def Id_Type_def Id_Name_def Let_def)
  then show ?thesis by (simp add: Id_WithName_type Id_WithName_name Id_WithName_inj)
qed

subsection \<open>Trimming what the regular expressions accept\<close>

lemma byte_less [simp]: "byte c < 256"
  by (simp add: byte_def)

lemma map_char_of_byte [simp]: "map char_of (map byte s) = s"
  by (simp add: byte_def comp_def)

lemma strip_id: "(\<And>e. e \<in> set es \<Longrightarrow> e \<noteq> [] \<Longrightarrow> \<not> prefix e bs) \<Longrightarrow> strip es bs = bs"
  by (subst strip.simps) (auto simp: find_None_iff split: option.splits dest: find_Some_iff [THEN iffD1])

lemma TrimSpace_id:
  assumes "\<And>e. e \<in> set space_encodings \<Longrightarrow> \<not> prefix e (map byte s)"
    and "\<And>e. e \<in> set space_encodings \<Longrightarrow> \<not> suffix e (map byte s)"
  shows "TrimSpace s = s"
proof -
  have "strip space_encodings (map byte s) = map byte s"
    using assms(1) by (rule strip_id)
  moreover have "strip (map rev space_encodings) (rev (map byte s)) = rev (map byte s)"
    by (rule strip_id) (use assms(2) in \<open>auto simp: suffix_to_prefix\<close>)
  ultimately show ?thesis by (simp add: TrimSpace_def del: map_map)
qed

lemma space_encodings_shape:
  "e \<in> set space_encodings \<Longrightarrow>
     \<exists>l ls. e = l # ls \<and> \<not> cont l \<and> \<not> alpha l \<and> \<not> word_byte (last e) \<and>
       decode_rune (e @ rest) = decode_rune e"
  by (auto simp: space_encodings_def upt_rec cont_def conts_def rune_or_error_def alpha_def word_byte_def)

lemma typeRegexp_bytes:
  "typeRegexp s \<Longrightarrow> \<exists>c cs. map byte s = c # cs \<and> alpha c \<and> list_all word_byte (c # cs)"
  by (auto simp: typeRegexp_def word_byte_def split: list.splits)

lemma typeRegexp_no_slash: "typeRegexp s \<Longrightarrow> CHR ''/'' \<notin> set s"
proof
  assume "typeRegexp s" and "CHR ''/'' \<in> set s"
  then have "word_byte (byte (CHR ''/''))"
    using typeRegexp_bytes [of s] by (metis image_eqI list.set_map list_all_iff)
  then show False by (simp add: byte_def word_byte_def alpha_def)
qed

lemma TrimSpace_type: "typeRegexp s \<Longrightarrow> TrimSpace s = s"
proof (rule TrimSpace_id)
  fix e
  assume s: "typeRegexp s" and e: "e \<in> set space_encodings"
  from typeRegexp_bytes [OF s] obtain c cs where bs: "map byte s = c # cs" "alpha c"
    and all: "list_all word_byte (c # cs)" by (elim exE conjE)
  from space_encodings_shape [OF e] obtain l ls where l: "e = l # ls" "\<not> alpha l"
    "\<not> word_byte (last e)" by blast
  show "\<not> prefix e (map byte s)" using bs l by auto
  show "\<not> suffix e (map byte s)"
  proof
    assume "suffix e (map byte s)"
    with l(1) have "last e = last (map byte s)" "map byte s \<noteq> []"
      by (auto simp: suffix_def)
    then have "last e \<in> set (c # cs)" using bs(1) last_in_set by metis
    with all l(3) show False by (simp add: list_all_iff) blast
  qed
qed

text \<open>What is used of the tables of package unicode: every white-space character lies in
  Z or C, and the replacement character U+FFFD lies in S.\<close>

definition unicode_tables :: "(nat \<Rightarrow> bool) \<Rightarrow> bool" where
  "unicode_tables uni \<longleftrightarrow>
     uni 0xFFFD \<and> (\<forall>r \<in> set ([0x85, 0xA0, 0x1680] @ [0x2000..<0x200B] @ [0x2028, 0x2029, 0x202F, 0x205F, 0x3000]). uni r)"

lemma excluded_space:
  "unicode_tables uni \<Longrightarrow> e \<in> set space_encodings \<Longrightarrow> excluded uni (fst (decode_rune e))"
  by (auto simp: space_encodings_def upt_rec cont_def conts_def rune_or_error_def excluded_def
      unicode_tables_def)

lemma decode_rune_shape:
  "\<exists>n ok r w. decode_rune (a # as) = rune_or_error (conts n as \<and> ok) r w \<and> w = Suc n"
proof -
  consider (ascii) "a < 0x80" | (two) "\<not> a < 0x80" "0xC2 \<le> a \<and> a \<le> 0xDF"
    | (three) "\<not> a < 0x80" "\<not> (0xC2 \<le> a \<and> a \<le> 0xDF)" "0xE0 \<le> a \<and> a \<le> 0xEF"
    | (four) "\<not> a < 0x80" "\<not> (0xC2 \<le> a \<and> a \<le> 0xDF)" "\<not> (0xE0 \<le> a \<and> a \<le> 0xEF)"
        "0xF0 \<le> a \<and> a \<le> 0xF4"
    | (bad) "\<not> a < 0x80" "\<not> (0xC2 \<le> a \<and> a \<le> 0xDF)" "\<not> (0xE0 \<le> a \<and> a \<le> 0xEF)"
        "\<not> (0xF0 \<le> a \<and> a \<le> 0xF4)"
    by blast
  then show ?thesis
  proof cases
    case ascii
    then have "decode_rune (a # as) = rune_or_error (conts 0 as \<and> True) a (Suc 0)"
      by (simp add: rune_or_error_def conts_def)
    then show ?thesis by blast
  next
    case two
    then have "\<exists>ok r. decode_rune (a # as) = rune_or_error (conts 1 as \<and> ok) r 2"
      by (simp only: decode_rune.simps if_True if_False simp_thms) (intro exI [of _ True], simp only: simp_thms, blast)
    moreover have "(2::nat) = Suc 1" by simp
    ultimately show ?thesis by blast
  next
    case three
    then have "\<exists>ok r. decode_rune (a # as) = rune_or_error (conts 2 as \<and> ok) r 3"
      by (simp only: decode_rune.simps if_True if_False simp_thms) blast
    moreover have "(3::nat) = Suc 2" by simp
    ultimately show ?thesis by blast
  next
    case four
    then have "\<exists>ok r. decode_rune (a # as) = rune_or_error (conts 3 as \<and> ok) r 4"
      by (simp only: decode_rune.simps if_True if_False simp_thms) blast
    moreover have "(4::nat) = Suc 3" by simp
    ultimately show ?thesis by blast
  next
    case bad
    then have "decode_rune (a # as) = rune_or_error (conts 0 as \<and> False) 0 (Suc 0)"
      by (simp only: decode_rune.simps if_False simp_thms rune_or_error_def One_nat_def)
    then show ?thesis by blast
  qed
qed

lemma decode_rune_valid:
  assumes "bs \<noteq> []" and "fst (decode_rune bs) \<noteq> 0xFFFD"
  obtains c cs rest where "bs = (c # cs) @ rest" "snd (decode_rune bs) = Suc (length cs)"
    "list_all cont cs"
proof -
  obtain a as where bs: "bs = a # as" using assms(1) by (cases bs) auto
  obtain n ok r where d: "decode_rune bs = rune_or_error (conts n as \<and> ok) r (Suc n)"
    using decode_rune_shape [of a as] bs by blast
  with assms(2) rune_or_error_valid [of "conts n as \<and> ok" r "Suc n"]
  have "conts n as" and "snd (decode_rune bs) = Suc n" by auto
  then show thesis using that [of a "take n as" "drop n as"] bs by (simp add: conts_def)
qed

lemma runes_suffix:
  assumes "e \<in> set space_encodings" and "suffix e bs"
  shows "0xFFFD \<in> set (runes bs) \<or> fst (decode_rune e) \<in> set (runes bs)"
  using assms(2)
proof (induction bs rule: runes.induct)
  case (1 bs)
  obtain l ls where e: "e = l # ls" "\<not> cont l"
    using space_encodings_shape [OF assms(1)] by blast
  with "1.prems" have ne: "bs \<noteq> []" by auto
  have rs: "runes bs = fst (decode_rune bs) # runes (drop (snd (decode_rune bs)) bs)"
    using ne by (subst runes.simps) simp
  show ?case
  proof (cases "fst (decode_rune bs) = 0xFFFD")
    case True
    with rs show ?thesis by simp
  next
    case False
    then obtain c cs rest where bs: "bs = (c # cs) @ rest"
      and w: "snd (decode_rune bs) = Suc (length cs)" and cs: "list_all cont cs"
      using decode_rune_valid [OF ne False] by metis
    show ?thesis
    proof (cases "suffix e rest")
      case True
      with bs w have "suffix e (drop (snd (decode_rune bs)) bs)" by simp
      from "1.IH" [OF ne this] show ?thesis using rs by auto
    next
      case False
      moreover have "suffix e ((c # cs) @ rest)" using "1.prems" bs by simp
      ultimately obtain us where us: "e = us @ rest" "suffix us (c # cs)"
        unfolding suffix_append by blast
      have "us \<noteq> []" using us(1) \<open>\<not> suffix e rest\<close> by auto
      with e us(1) obtain us' where "us = l # us'" by (cases us) auto
      then obtain zs where "c # cs = zs @ l # us'" using us(2) by (auto simp: suffix_def)
      with cs e(2) \<open>us = l # us'\<close> have "us = c # cs"
        by (cases zs) auto
      with us(1) bs have "e = bs" by simp
      with rs show ?thesis by simp
    qed
  qed
qed

lemma TrimSpace_name:
  assumes "nameRegexp uni s" and uni: "unicode_tables uni"
  shows "TrimSpace s = s"
proof (rule TrimSpace_id)
  fix e
  assume e: "e \<in> set space_encodings"
  have ok: "\<not> excluded uni r" if "r \<in> set (runes (map byte s))" for r
    using assms(1) that by (auto simp: nameRegexp_def list_all_iff)
  have "excluded uni 0xFFFD" using uni by (simp add: excluded_def unicode_tables_def)
  with ok excluded_space [OF uni e] show "\<not> suffix e (map byte s)"
    using runes_suffix [OF e] by blast
  show "\<not> prefix e (map byte s)"
  proof
    assume "prefix e (map byte s)"
    then obtain rest where r: "map byte s = e @ rest" by (auto simp: prefix_def)
    with space_encodings_shape [OF e, of rest] have "fst (decode_rune e) \<in> set (runes (map byte s))"
      by (subst runes.simps) auto
    with ok excluded_space [OF uni e] show False by blast
  qed
qed

lemma Id_UnmarshalText_Ok:
  assumes "Id_UnmarshalText uni inp = Ok i"
  obtains t where "typeRegexp t" "i = t" "CHR ''/'' \<notin> set inp" "t = TrimSpace inp"
  | t n where "typeRegexp t" "nameRegexp uni n" "i = t @ CHR ''/'' # n"
  using assms
  by (rule_tac Cut_char_cases [of "CHR ''/''" inp])
    (auto simp: Id_UnmarshalText_def Let_def typeAndNameSeparator_def split: if_splits)

text \<open>C30: ids read from text are in normal form: marshalling an accepted id and reading it
  again gives the same id, its type matches the type expression, its name is absent or
  matches the name expression, and the id is \<open>type\<close> or \<open>type/name\<close> of its parts.\<close>

theorem Id_UnmarshalText_roundtrip:
  assumes uni: "unicode_tables uni" and ok: "Id_UnmarshalText uni inp = Ok i"
  shows "bindR (Id_MarshalText i) (Id_UnmarshalText uni) = Ok i \<and> typeRegexp (Id_Type i) \<and>
    (Id_Name i = [] \<or> nameRegexp uni (Id_Name i)) \<and> Id_WithName i (Id_Name i) = i"
  using ok
proof (cases rule: Id_UnmarshalText_Ok)
  case (1 t)
  then have ns: "CHR ''/'' \<notin> set i" and tr: "TrimSpace i = i"
    by (simp_all add: typeRegexp_no_slash TrimSpace_type)
  moreover have "i \<noteq> []" using 1 by (auto simp: typeRegexp_def)
  ultimately show ?thesis using 1
    by (simp add: Id_MarshalText_def Id_UnmarshalText_def typeAndNameSeparator_def Cut_char_out
        Id_Type_def Id_Name_def Id_WithName_def)
next
  case (2 t n)
  then have ns: "CHR ''/'' \<notin> set t" and "TrimSpace t = t" "TrimSpace n = n"
    by (simp_all add: typeRegexp_no_slash TrimSpace_type TrimSpace_name [OF _ uni])
  moreover have "t \<noteq> []" "n \<noteq> []" using 2 by (auto simp: typeRegexp_def nameRegexp_def)
  ultimately show ?thesis using 2
    by (simp add: Id_MarshalText_def Id_UnmarshalText_def typeAndNameSeparator_def Cut_char_in
        Id_Type_def Id_Name_def Id_WithName_def)
qed

text \<open>A witness for the hypotheses: white space around both parts is trimmed.\<close>

lemma Id_UnmarshalText_roundtrip_witness:
  "\<exists>i. Id_UnmarshalText (\<lambda>_. True) '' otlp / eu-1 '' = Ok i \<and>
     bindR (Id_MarshalText i) (Id_UnmarshalText (\<lambda>_. True)) = Ok i \<and> i = ''otlp/eu-1''"
proof -
  have "Id_UnmarshalText (\<lambda>_. True) '' otlp / eu-1 '' = Ok ''otlp/eu-1''"
    by code_simp
  moreover have "unicode_tables (\<lambda>_. True)" by (simp add: unicode_tables_def)
  ultimately show ?thesis using Id_UnmarshalText_roundtrip by blast
qed

lemma runes_ascii: "list_all (\<lambda>b. b < 0x80) bs \<Longrightarrow> runes bs = bs"
  by (induction bs) (subst runes.simps, simp)+

text \<open>A name of any positive length is accepted, although the comment on
  \<open>nameRegexp\<close> (lines 23 to 25) says a name consists of 1 to 1024 characters.\<close>

theorem Id_name_length_unbounded:
  "Id_UnmarshalText uni (''otlp/'' @ replicate (Suc n) CHR ''x'') =
     Ok (''otlp/'' @ replicate (Suc n) CHR ''x'')"
proof -
  let ?x = "replicate (Suc n) CHR ''x''"
  have "runes (map byte ?x) = map byte ?x"
    by (rule runes_ascii) (simp add: list_all_iff byte_def)
  then have name: "nameRegexp u ?x" for u
    by (simp add: nameRegexp_def excluded_def list_all_iff byte_def)
  then have trim: "TrimSpace ?x = ?x"
    by (rule TrimSpace_name [of "\<lambda>_. True"]) (simp add: unicode_tables_def)
  have t: "typeRegexp ''otlp''" by (simp add: typeRegexp_def byte_def alpha_def word_byte_def)
  have "Cut (''otlp'' @ CHR ''/'' # ?x) ''/'' = (''otlp'', ?x, True)"
    by (rule Cut_char_in) simp
  then show ?thesis
    using name trim t TrimSpace_type [OF t]
    by (simp add: Id_UnmarshalText_def typeAndNameSeparator_def del: replicate_Suc)
qed

end
