(* ===== verification/Registry.thy ===== *)
theory Registry
  imports Go_Prelude
begin

section \<open>Component registries (registry.go)\<close>

text \<open>
  A registry maps a component type to the constructor of its configuration. It is a Go map,
  so it may be nil: reading a nil registry misses and writing one panics.
\<close>

type_synonym 'a registry = "(string, unit \<Rightarrow> 'a) gomap"

definition Registry_Get :: "'a registry \<Rightarrow> string \<Rightarrow> (unit \<Rightarrow> 'a) option" where
  "Registry_Get r name = gm_lookup r name"

text \<open>\<open>New\<close> returns \<open>(zero, false)\<close> on a miss: \<open>None\<close>.\<close>

definition Registry_New :: "'a registry \<Rightarrow> string \<Rightarrow> 'a option" where
  "Registry_New r name =
     (case Registry_Get r name of None \<Rightarrow> None | Some v \<Rightarrow> Some (v ()))"

definition Registry_Set :: "'a registry \<Rightarrow> string \<Rightarrow> (unit \<Rightarrow> 'a) \<Rightarrow> 'a registry result" where
  "Registry_Set r name v = gm_store r name v"

text \<open>\<open>maps.Copy(dst, src)\<close> on the entries of \<open>src\<close>.\<close>

definition maps_Copy :: "('k \<rightharpoonup> 'v) \<Rightarrow> ('k \<rightharpoonup> 'v) \<Rightarrow> ('k \<rightharpoonup> 'v)" where
  "maps_Copy dst src = (\<lambda>k. case src k of Some v \<Rightarrow> Some v | None \<Rightarrow> dst k)"

fun MergeRegistry :: "'a registry \<Rightarrow> 'a registry \<Rightarrow> 'a registry" where
  "MergeRegistry None None = Some Map.empty"
| "MergeRegistry a b =
     (let v = Map.empty;
          v1 = (case a of Some m \<Rightarrow> maps_Copy v m | None \<Rightarrow> v);
          v2 = (case b of Some m \<Rightarrow> maps_Copy v1 m | None \<Rightarrow> v1)
      in Some v2)"

text \<open>\<open>Set\<close> as a function on registries, for the interface: it cannot fail on a made map.\<close>

definition registered :: "string \<Rightarrow> (unit \<Rightarrow> 'a) \<Rightarrow> 'a registry \<Rightarrow> 'a registry" where
  "registered name v r = (case Registry_Set r name v of Ok r' \<Rightarrow> r' | _ \<Rightarrow> r)"

lemma Registry_Set_made: "r \<noteq> None \<Longrightarrow> Registry_Set r name v = Ok (registered name v r)"
  by (cases r) (simp_all add: Registry_Set_def registered_def)

lemma Registry_Set_nil: "Registry_Set None name v = Panics"
  by (simp add: Registry_Set_def)

interpretation registry: keyed_store Registry_Get registered "\<lambda>r. r \<noteq> None"
proof unfold_locales
  fix r :: "'a registry" and k v k'
  assume "r \<noteq> None"
  then show "Registry_Get (registered k v r) k' = (if k' = k then Some v else Registry_Get r k')"
    by (cases r) (simp_all add: registered_def Registry_Set_def Registry_Get_def)
next
  fix r :: "'a registry" and k v
  assume "r \<noteq> None"
  then show "registered k v r \<noteq> None"
    by (cases r) (simp_all add: registered_def Registry_Set_def)
qed

lemma Registry_New_registered:
  "r \<noteq> None \<Longrightarrow> Registry_New (registered n v r) n' = (if n' = n then Some (v ()) else Registry_New r n')"
  by (simp add: Registry_New_def registry.get_put)

lemma Registry_Get_Merge:
  "Registry_Get (MergeRegistry a b) name =
     (case Registry_Get b name of Some v \<Rightarrow> Some v | None \<Rightarrow> Registry_Get a name)"
  by (cases a; cases b) (auto simp: Registry_Get_def maps_Copy_def split: option.splits)

lemma MergeRegistry_made: "MergeRegistry a b \<noteq> None"
  by (cases a; cases b) simp_all

text \<open>C35: merging two registries is registering the second one's entries on top of the
  first one's, in any order of iteration, and never gives a nil registry: on a conflict the
  second registry wins, and a type known to neither is unknown to the merge.\<close>

theorem MergeRegistry_refines:
  assumes "enumerates as (\<lambda>k. gm_lookup a k)" and "enumerates bs (\<lambda>k. gm_lookup b k)"
  shows "Registry_Get (MergeRegistry a b) =
      Registry_Get (fold (\<lambda>(k, v). registered k v) (as @ bs) (Some Map.empty)) \<and>
    MergeRegistry a b \<noteq> None"
proof -
  have map_rev: "map_of (rev es) = map_of es" if "distinct (map fst es)" for es :: "(string \<times> (unit \<Rightarrow> 'a)) list"
    by (rule map_of_inject_set [THEN iffD2]) (use that in \<open>simp_all add: rev_map [symmetric]\<close>)
  have "Registry_Get (fold (\<lambda>(k, v). registered k v) (as @ bs) (Some Map.empty)) k =
      (case map_of (rev (as @ bs)) k of Some v \<Rightarrow> Some v | None \<Rightarrow> None)" for k
    by (subst registry.get_puts) (simp_all add: Registry_Get_def cong: option.case_cong)
  moreover have "map_of as = gm_lookup a" "map_of bs = gm_lookup b"
    "distinct (map fst as)" "distinct (map fst bs)"
    using assms by (simp_all add: enumerates_def)
  ultimately have "Registry_Get (fold (\<lambda>(k, v). registered k v) (as @ bs) (Some Map.empty)) k =
      Registry_Get (MergeRegistry a b) k" for k
    by (simp add: map_rev map_add_def Registry_Get_Merge) (simp add: Registry_Get_def split: option.splits)
  then show ?thesis using MergeRegistry_made by (auto simp: fun_eq_iff)
qed

theorem MergeRegistry_refines_witness:
  "Registry_Get (MergeRegistry (Some [''a'' \<mapsto> \<lambda>_. 1 :: nat, ''b'' \<mapsto> \<lambda>_. 2]) (Some [''b'' \<mapsto> \<lambda>_. 3])) =
     Registry_Get (fold (\<lambda>(k, v). registered k v)
       ([(''b'', \<lambda>_. 2), (''a'', \<lambda>_. 1)] @ [(''b'', \<lambda>_. 3)]) (Some Map.empty))"
  using MergeRegistry_refines [of "[(''b'', \<lambda>_. 2 :: nat), (''a'', \<lambda>_. 1)]"
      "Some [''a'' \<mapsto> \<lambda>_. 1, ''b'' \<mapsto> \<lambda>_. 2]" "[(''b'', \<lambda>_. 3)]" "Some [''b'' \<mapsto> \<lambda>_. 3]"]
  by (simp add: enumerates_def fun_eq_iff)

end
