(* ===== verification/Attr.thy ===== *)
theory Attr
  imports Go_Prelude
begin

section \<open>Attributes of the resource (attr.go)\<close>

text \<open>
  An attribute value is decoded from what the YAML library hands over as \<open>any\<close>; the
  dynamic type of that value is the constructor of \<open>yaml_any\<close>, with \<open>YOther\<close> for every
  type the switch has no case for. An \<open>attribute.Value\<close> is the constructor call of
  package attribute that made it. A single-value type assertion \<open>item.(T)\<close> that fails
  panics.
\<close>

datatype yaml_any =
    YString string
  | YUint64 "64 word"
  | YFloat64 float64
  | YBool bool
  | YSlice "yaml_any list"
  | YNil
  | YOther string

datatype attr_value =
    StringValue string
  | IntValue int
  | Float64Value float64
  | BoolValue bool
  | Int64SliceValue "int list"
  | StringSliceValue "string list"
  | IntSliceValue "int list"
  | Float64SliceValue "float64 list"
  | BoolSliceValue "bool list"

record attr =
  Key :: string
  Val :: attr_value

fun type_name :: "yaml_any \<Rightarrow> string" where
  "type_name (YString _) = ''string''"
| "type_name (YUint64 _) = ''uint64''"
| "type_name (YFloat64 _) = ''float64''"
| "type_name (YBool _) = ''bool''"
| "type_name (YSlice _) = ''[]interface {}''"
| "type_name YNil = ''<nil>''"
| "type_name (YOther t) = t"

subsection \<open>Decoding\<close>

text \<open>The bodies of the four loops: the checked assertion to string, the unchecked others.\<close>

fun item_string :: "yaml_any \<Rightarrow> string result" where
  "item_string (YString s) = Ok s"
| "item_string _ = Err (Errorf ''mixed slice types'' [])"

fun item_int :: "yaml_any \<Rightarrow> int result" where
  "item_int (YUint64 w) = Ok (int_of_uint64 w)"
| "item_int _ = Panics"

fun item_float64 :: "yaml_any \<Rightarrow> float64 result" where
  "item_float64 (YFloat64 f) = Ok f"
| "item_float64 _ = Panics"

fun item_bool :: "yaml_any \<Rightarrow> bool result" where
  "item_bool (YBool b) = Ok b"
| "item_bool _ = Panics"

fun decodeSlice :: "yaml_any list \<Rightarrow> attr_value result" where
  "decodeSlice [] = Ok (Int64SliceValue [])"
| "decodeSlice (v # vs) =
     (case v of
        YString _ \<Rightarrow> bindR (traverseR item_string (v # vs)) (\<lambda>xs. Ok (StringSliceValue xs))
      | YUint64 _ \<Rightarrow> bindR (traverseR item_int (v # vs)) (\<lambda>xs. Ok (IntSliceValue xs))
      | YFloat64 _ \<Rightarrow> bindR (traverseR item_float64 (v # vs)) (\<lambda>xs. Ok (Float64SliceValue xs))
      | YBool _ \<Rightarrow> bindR (traverseR item_bool (v # vs)) (\<lambda>xs. Ok (BoolSliceValue xs))
      | _ \<Rightarrow> Err (Errorf ''unexpected element type %T'' [type_name v]))"

fun decodeValue :: "yaml_any \<Rightarrow> attr_value result" where
  "decodeValue (YString s) = Ok (StringValue s)"
| "decodeValue (YUint64 w) = Ok (IntValue (int_of_uint64 w))"
| "decodeValue (YFloat64 f) = Ok (Float64Value f)"
| "decodeValue (YBool b) = Ok (BoolValue b)"
| "decodeValue (YSlice vs) = decodeSlice vs"
| "decodeValue YNil = Err (Errorf ''unexpected null value'' [])"
| "decodeValue (YOther t) = Err (Errorf ''unexpected value type %T'' [t])"

text \<open>
  \<open>unmarshal(&kv)\<close> is the YAML library's; its outcome is an argument. On an error the
  receiver keeps its old key and value, and the message names the old key.
\<close>

definition Attr_UnmarshalYAML :: "(string \<times> yaml_any) result \<Rightarrow> attr \<Rightarrow> attr result" where
  "Attr_UnmarshalYAML kv a =
     bindR kv (\<lambda>(k, v).
       bindR (wrapR (Wrapf ''%s: %w'' [Key a]) (decodeValue v)) (\<lambda>x.
         Ok \<lparr>Key = k, Val = x\<rparr>))"

text \<open>\<open>a.Value.AsString()\<close> is package attribute's: an argument.\<close>

definition Attr_MarshalYAML :: "(attr_value \<Rightarrow> string) \<Rightarrow> attr \<Rightarrow> (string \<rightharpoonup> string) result" where
  "Attr_MarshalYAML AsString a = Ok [''key'' \<mapsto> Key a, ''value'' \<mapsto> AsString (Val a)]"

subsection \<open>What a value denotes\<close>

text \<open>The specification: \<open>denotes v x\<close> says that \<open>x\<close> carries exactly the data of \<open>v\<close>.\<close>

fun denotes :: "yaml_any \<Rightarrow> attr_value \<Rightarrow> bool" where
  "denotes (YString s) x \<longleftrightarrow> x = StringValue s"
| "denotes (YUint64 w) x \<longleftrightarrow> x = IntValue (uint w)"
| "denotes (YFloat64 f) x \<longleftrightarrow> x = Float64Value f"
| "denotes (YBool b) x \<longleftrightarrow> x = BoolValue b"
| "denotes (YSlice vs) x \<longleftrightarrow>
     (vs = [] \<and> x = Int64SliceValue []) \<or>
     (vs \<noteq> [] \<and> (\<exists>ss. vs = map YString ss \<and> x = StringSliceValue ss)) \<or>
     (vs \<noteq> [] \<and> (\<exists>ws. vs = map YUint64 ws \<and> x = IntSliceValue (map uint ws))) \<or>
     (vs \<noteq> [] \<and> (\<exists>fs. vs = map YFloat64 fs \<and> x = Float64SliceValue fs)) \<or>
     (vs \<noteq> [] \<and> (\<exists>bs. vs = map YBool bs \<and> x = BoolSliceValue bs))"
| "denotes _ x \<longleftrightarrow> False"

fun uints :: "yaml_any \<Rightarrow> 64 word set" where
  "uints (YUint64 w) = {w}"
| "uints (YSlice vs) = {w. YUint64 w \<in> set vs}"
| "uints _ = {}"

fun same_type :: "yaml_any \<Rightarrow> yaml_any \<Rightarrow> bool" where
  "same_type (YString _) v = (\<exists>s. v = YString s)"
| "same_type (YUint64 _) v = (\<exists>w. v = YUint64 w)"
| "same_type (YFloat64 _) v = (\<exists>f. v = YFloat64 f)"
| "same_type (YBool _) v = (\<exists>b. v = YBool b)"
| "same_type _ v = False"

lemma item_Ok [go_result]:
  "item_string v = Ok s \<longleftrightarrow> v = YString s"
  "item_int v = Ok i \<longleftrightarrow> (\<exists>w. v = YUint64 w \<and> i = int_of_uint64 w)"
  "item_float64 v = Ok f \<longleftrightarrow> v = YFloat64 f"
  "item_bool v = Ok b \<longleftrightarrow> v = YBool b"
  by (cases v; auto)+

lemma item_not_Ok:
  "item_string v \<noteq> Panics"
  "item_int v \<noteq> Err e" "item_int v = Panics \<longleftrightarrow> \<not> same_type (YUint64 w) v"
  "item_float64 v \<noteq> Err e" "item_float64 v = Panics \<longleftrightarrow> \<not> same_type (YFloat64 f) v"
  "item_bool v \<noteq> Err e" "item_bool v = Panics \<longleftrightarrow> \<not> same_type (YBool b) v"
  by (cases v; simp)+

lemma list_all2_map_iff: "list_all2 (\<lambda>x y. x = g y) xs ys \<longleftrightarrow> xs = map g ys"
  by (auto simp: list_all2_conv_all_nth list_eq_iff_nth_eq)

lemma list_all2_image_iff:
  "list_all2 (\<lambda>x y. \<exists>w. x = g w \<and> y = h w) xs ys \<longleftrightarrow> (\<exists>ws. xs = map g ws \<and> ys = map h ws)"
    (is "?l \<longleftrightarrow> ?r")
proof
  assume ?l
  then show ?r
  proof (induction rule: list_all2_induct)
    case Nil
    then show ?case by simp
  next
    case (Cons x xs y ys)
    then obtain w ws where "x # xs = map g (w # ws) \<and> y # ys = map h (w # ws)" by auto
    then show ?case by (rule exI)
  qed
next
  assume ?r
  then show ?l by (auto simp: list_all2_conv_all_nth)
qed

lemma traverse_Panics:
  assumes "\<And>x e. f x \<noteq> Err e"
  shows "traverseR f xs = Panics \<longleftrightarrow> (\<exists>x \<in> set xs. f x = Panics)"
proof (induction xs)
  case (Cons x xs)
  then show ?case using assms by (cases "f x") (auto simp: go_result)
qed simp

lemmas traverse_item =
  traverseR_eq_Ok item_Ok list_all2_map_iff list_all2_image_iff

lemma decodeSlice_Ok:
  "vs \<noteq> [] \<Longrightarrow> decodeSlice vs = Ok x \<longleftrightarrow>
     (\<exists>ss. vs = map YString ss \<and> x = StringSliceValue ss) \<or>
     (\<exists>ws. vs = map YUint64 ws \<and> x = IntSliceValue (map int_of_uint64 ws)) \<or>
     (\<exists>fs. vs = map YFloat64 fs \<and> x = Float64SliceValue fs) \<or>
     (\<exists>bs. vs = map YBool bs \<and> x = BoolSliceValue bs)"
proof (cases vs)
  case (Cons u us)
  show ?thesis
  proof (cases u)
    case (YUint64 w)
    have "decodeSlice vs = Ok x \<longleftrightarrow>
        (\<exists>xs. (\<exists>ws. vs = map YUint64 ws \<and> xs = map int_of_uint64 ws) \<and> x = IntSliceValue xs)"
      by (simp add: Cons YUint64 go_result traverse_item eq_commute [of _ x]
          del: traverseR.simps Cons_eq_map_conv)
    moreover have "\<And>ss. vs \<noteq> map YString ss" "\<And>fs. vs \<noteq> map YFloat64 fs" "\<And>bs. vs \<noteq> map YBool bs"
      by (auto simp: Cons YUint64)
    ultimately show ?thesis by blast
  qed (use Cons in \<open>auto simp: go_result traverse_item simp del: traverseR.simps\<close>)
qed simp

lemma decodeSlice_Panics:
  "decodeSlice vs = Panics \<longleftrightarrow>
     (\<exists>u us. vs = u # us \<and> (\<forall>s. u \<noteq> YString s) \<and> same_type u u \<and> (\<exists>w \<in> set us. \<not> same_type u w))"
proof (cases vs)
  case (Cons u us)
  have s: "traverseR item_string xs \<noteq> Panics" for xs
    by (rule traverseR_not_Panics) (rule item_not_Ok)
  show ?thesis unfolding Cons
  proof (cases u)
    case (YUint64 w)
    then show "decodeSlice (u # us) = Panics \<longleftrightarrow> (\<exists>u' us'. u # us = u' # us' \<and>
        (\<forall>s. u' \<noteq> YString s) \<and> same_type u' u' \<and> (\<exists>w \<in> set us'. \<not> same_type u' w))"
      by (simp add: go_result traverse_Panics item_not_Ok(2) item_not_Ok(3) [of _ w])
  next
    case (YFloat64 f)
    then show "decodeSlice (u # us) = Panics \<longleftrightarrow> (\<exists>u' us'. u # us = u' # us' \<and>
        (\<forall>s. u' \<noteq> YString s) \<and> same_type u' u' \<and> (\<exists>w \<in> set us'. \<not> same_type u' w))"
      by (simp add: go_result traverse_Panics item_not_Ok(4) item_not_Ok(5) [of _ f])
  next
    case (YBool b)
    then show "decodeSlice (u # us) = Panics \<longleftrightarrow> (\<exists>u' us'. u # us = u' # us' \<and>
        (\<forall>s. u' \<noteq> YString s) \<and> same_type u' u' \<and> (\<exists>w \<in> set us'. \<not> same_type u' w))"
      by (simp add: go_result traverse_Panics item_not_Ok(6) item_not_Ok(7) [of _ b])
  qed (use s in \<open>auto simp: go_result simp del: traverseR.simps\<close>)
qed simp

subsection \<open>Properties\<close>

text \<open>C32: a decoded attribute value denotes exactly the YAML value it came from, provided
  every unsigned integer in it fits a signed 64-bit integer; every value that denotes
  anything is accepted.\<close>

theorem decodeValue_denotes:
  assumes "\<forall>w \<in> uints v. uint w < 2 ^ 63"
  shows "decodeValue v = Ok x \<longleftrightarrow> denotes v x"
proof (cases v)
  case (YSlice vs)
  have ints: "map int_of_uint64 ws = map uint ws" if "vs = map YUint64 ws" for ws
    using assms that YSlice by (auto simp: int_of_uint64_eq)
  have "(\<exists>ws. vs = map YUint64 ws \<and> x = IntSliceValue (map int_of_uint64 ws)) \<longleftrightarrow>
      (\<exists>ws. vs = map YUint64 ws \<and> x = IntSliceValue (map uint ws))"
    using ints by metis
  with YSlice decodeSlice_Ok [of vs x] show ?thesis by (cases "vs = []") auto
qed (use assms in \<open>auto simp: int_of_uint64_eq\<close>)

lemma decodeValue_denotes_witness:
  "decodeValue (YSlice [YUint64 1, YUint64 2]) = Ok (IntSliceValue [1, 2])"
  by (subst decodeValue_denotes) (auto intro: exI [of _ "[1, 2]"])

text \<open>An unsigned integer that does not fit wraps to a negative attribute without an
  error.\<close>

theorem decodeValue_wraps:
  assumes "2 ^ 63 \<le> uint w"
  shows "decodeValue (YUint64 w) = Ok (IntValue (uint w - 2 ^ 64)) \<and> uint w - 2 ^ 64 < 0"
  using assms uint_lt2p [of w] by (simp add: int_of_uint64_eq)

lemma decodeValue_wraps_witness:
  "decodeValue (YUint64 18446744073709551615) = Ok (IntValue (- 1))"
  using decodeValue_wraps [of "18446744073709551615"] by simp

text \<open>C33: decoding panics on exactly the sequences whose first element is an integer, a
  float or a boolean and that hold an element of another type; a mixed sequence that starts
  with a string is the error ``mixed slice types'' instead.\<close>

theorem decodeValue_panics_iff:
  "(decodeValue v = Panics \<longleftrightarrow>
     (\<exists>u us. v = YSlice (u # us) \<and> (\<forall>s. u \<noteq> YString s) \<and> same_type u u \<and>
        (\<exists>w \<in> set us. \<not> same_type u w))) \<and>
   (\<forall>s us. list_ex (\<lambda>w. \<not> same_type (YString s) w) us \<longleftrightarrow>
     decodeValue (YSlice (YString s # us)) = Err (Errorf ''mixed slice types'' []))"
proof
  show "decodeValue v = Panics \<longleftrightarrow>
     (\<exists>u us. v = YSlice (u # us) \<and> (\<forall>s. u \<noteq> YString s) \<and> same_type u u \<and>
        (\<exists>w \<in> set us. \<not> same_type u w))"
    by (cases v) (simp_all add: decodeSlice_Panics)
  have str: "item_string v = Err e \<longleftrightarrow> \<not> same_type (YString s) v \<and> e = Errorf ''mixed slice types'' []"
    for v e s by (cases v) auto
  have "traverseR item_string us = Err e \<longleftrightarrow>
      list_ex (\<lambda>w. \<not> same_type (YString s) w) us \<and> e = Errorf ''mixed slice types'' []" for us e s
  proof (induction us)
    case (Cons u us)
    then show ?case by (cases u) (auto simp: go_result)
  qed simp
  then show "\<forall>s us. list_ex (\<lambda>w. \<not> same_type (YString s) w) us \<longleftrightarrow>
     decodeValue (YSlice (YString s # us)) = Err (Errorf ''mixed slice types'' [])"
    by (simp add: go_result)
qed

end
