(* ===== verification/Z_Util.thy ===== *)
theory Z_Util
  imports Go_Prelude
begin

section \<open>Small helpers (internal/z)\<close>

text \<open>\<open>z.Err\<close> prefixes a non-nil error; the format is called without arguments in the
  repository. \<open>Take\<close>, \<open>TakeIf\<close> and \<open>Enable\<close> append an option on a condition; a nil
  pointer is \<open>None\<close>.\<close>

definition z_Err :: "goerror option \<Rightarrow> string \<Rightarrow> goerror option" where
  "z_Err err fmt = (case err of None \<Rightarrow> None | Some e \<Rightarrow> Some (Wrapf ''%s: %w'' [fmt] e))"

definition TakeIf :: "'o list \<Rightarrow> 't option \<Rightarrow> ('t \<Rightarrow> bool) \<Rightarrow> ('t \<Rightarrow> 'o) \<Rightarrow> 'o list" where
  "TakeIf opts v cond f =
     (case v of None \<Rightarrow> opts | Some x \<Rightarrow> if \<not> cond x then opts else opts @ [f x])"

definition Take :: "'o list \<Rightarrow> 't option \<Rightarrow> ('t \<Rightarrow> 'o) \<Rightarrow> 'o list" where
  "Take opts v f = TakeIf opts v (\<lambda>_. True) f"

definition Enable :: "'o list \<Rightarrow> bool \<Rightarrow> (unit \<Rightarrow> 'o) \<Rightarrow> 'o list" where
  "Enable opts v f = (if \<not> v then opts else opts @ [f ()])"

lemma z_Err_eq_None [simp]: "z_Err err fmt = None \<longleftrightarrow> err = None"
  by (simp add: z_Err_def split: option.splits)

lemma Take_eq: "Take opts v f = opts @ (case v of None \<Rightarrow> [] | Some x \<Rightarrow> [f x])"
  by (simp add: Take_def TakeIf_def split: option.splits)

lemma Enable_Take: "Enable opts v f = Take opts (if v then Some () else None) f"
  by (simp add: Enable_def Take_eq)

end
