(* ===== verification/Config.thy ===== *)
theory Config
  imports Registry Identifiable Z_Util
begin

section \<open>Configuration (config.go)\<close>

text \<open>
  The configuration of the library and its decoding from YAML. An interface value or a
  pointer held in a map may be nil, so the maps hold options. What the YAML library does is
  an argument: \<open>marshal\<close> turns a syntax node back into text, \<open>um\<close> decodes text into a
  component configuration, which it may change even when it reports an error.
\<close>

record provider_config =
  ProviderProcessors :: "Id list"
  ProviderExporters :: "Id list"

record ('p, 'e) config =
  Enabled :: "bool option"
  ProcessorRegistry :: "'p registry"
  ExporterRegistry :: "'e registry"
  Processors :: "(Id, 'p option) gomap"
  Exporters :: "(Id, 'e option) gomap"
  Providers :: "(Id, provider_config option) gomap"

definition NewConfig :: "'p registry \<Rightarrow> 'e registry \<Rightarrow> ('p, 'e) config" where
  "NewConfig DefaultProcessorRegistry DefaultExporterRegistry =
     \<lparr>Enabled = None, ProcessorRegistry = DefaultProcessorRegistry,
      ExporterRegistry = DefaultExporterRegistry,
      Processors = Some Map.empty, Exporters = Some Map.empty, Providers = Some Map.empty\<rparr>"

definition Config_IsEnabled :: "('p, 'e) config \<Rightarrow> bool" where
  "Config_IsEnabled c = (case Enabled c of None \<Rightarrow> True | Some b \<Rightarrow> b)"

subsection \<open>The interfaces of component configurations\<close>

text \<open>
  A method may act on the world \<open>'w\<close> (open files, dial). \<open>None\<close> for the options is the
  nil slice, by which a processor says that it is not for this kind of provider. \<open>'c\<close> are
  the exporters and readers that the methods build.
\<close>

record ('w, 'to, 'mo, 'lo) processor_config =
  TracerOpts :: "'w \<Rightarrow> 'to list option result \<times> 'w"
  MeterOpts :: "'w \<Rightarrow> 'mo list option result \<times> 'w"
  LoggerOpts :: "'w \<Rightarrow> 'lo list option result \<times> 'w"

record ('w, 'c, 'to, 'mo, 'lo) exporter_config =
  SpanExporter :: "'w \<Rightarrow> ('c \<times> 'to list) result \<times> 'w"
  MetricExporter :: "'w \<Rightarrow> ('c \<times> 'mo list) result \<times> 'w"
  MetricReader :: "'w \<Rightarrow> ('c \<times> 'mo list) result \<times> 'w"
  LogExporter :: "'w \<Rightarrow> ('c \<times> 'lo list) result \<times> 'w"

definition UnimplementedProcessorConfig :: "('w, 'to, 'mo, 'lo) processor_config" where
  "UnimplementedProcessorConfig =
     \<lparr>TracerOpts = (\<lambda>w. (Ok None, w)), MeterOpts = (\<lambda>w. (Ok None, w)), LoggerOpts = (\<lambda>w. (Ok None, w))\<rparr>"

definition UnimplementedExporterConfig :: "('w, 'c, 'to, 'mo, 'lo) exporter_config" where
  "UnimplementedExporterConfig =
     \<lparr>SpanExporter = (\<lambda>w. (Err ErrUnimplemented, w)), MetricExporter = (\<lambda>w. (Err ErrUnimplemented, w)),
      MetricReader = (\<lambda>w. (Err ErrUnimplemented, w)), LogExporter = (\<lambda>w. (Err ErrUnimplemented, w))\<rparr>"

subsection \<open>Decoding\<close>

text \<open>The intermediate struct \<open>config\<close>: the entries of its two maps of nodes are listed in
  the order in which \<open>range\<close> visits them; a node may be nil.\<close>

record 'n raw_config =
  raw_Enabled :: "bool option"
  raw_Processors :: "(Id \<times> 'n option) list"
  raw_Exporters :: "(Id \<times> 'n option) list"
  raw_Providers :: "(Id, provider_config option) gomap"

definition opt_list :: "'a option \<Rightarrow> 'a list" where
  "opt_list x = (case x of None \<Rightarrow> [] | Some y \<Rightarrow> [y])"

text \<open>The body of the loop for a key whose type is registered: what is stored and which
  errors are appended. A failing \<open>MarshalYAML\<close> does not stop the decoding.\<close>

definition decode_node ::
    "('n \<Rightarrow> string \<times> goerror option) \<Rightarrow> (string \<Rightarrow> 'd \<Rightarrow> 'd \<times> goerror option) \<Rightarrow>
     Id \<Rightarrow> 'n option \<Rightarrow> 'd \<Rightarrow> 'd \<times> goerror list" where
  "decode_node marshal um k node d =
     (case node of
        None \<Rightarrow> (d, [])
      | Some n \<Rightarrow>
          (case marshal n of (raw, err) \<Rightarrow>
           case um raw d of (d', err') \<Rightarrow>
             (d', map (Wrapf ''%q: get raw: %w'' [k]) (opt_list err) @
                  map (Wrapf ''%q: unmarshal: %w'' [k]) (opt_list err'))))"

text \<open>The loop over one of the two maps, with the map and the errors built so far.\<close>

fun decode_components ::
    "'d registry \<Rightarrow> ('n \<Rightarrow> string \<times> goerror option) \<Rightarrow> (string \<Rightarrow> 'd \<Rightarrow> 'd \<times> goerror option) \<Rightarrow>
     (Id \<times> 'n option) list \<Rightarrow> (Id \<rightharpoonup> 'd option) \<times> goerror list \<Rightarrow> (Id \<rightharpoonup> 'd option) \<times> goerror list" where
  "decode_components reg marshal um [] (m, errs) = (m, errs)"
| "decode_components reg marshal um ((k, node) # es) (m, errs) =
     (case Registry_New reg (Id_Type k) of
        None \<Rightarrow> decode_components reg marshal um es (m, errs @ [Errorf ''%q: unknown type'' [Id_String k]])
      | Some d \<Rightarrow>
          (case decode_node marshal um k node d of (d', errs') \<Rightarrow>
             decode_components reg marshal um es (m(k \<mapsto> Some d'), errs @ errs')))"

definition Config_UnmarshalYAML ::
    "'p registry \<Rightarrow> 'e registry \<Rightarrow> ('n \<Rightarrow> string \<times> goerror option) \<Rightarrow>
     (string \<Rightarrow> 'p \<Rightarrow> 'p \<times> goerror option) \<Rightarrow> (string \<Rightarrow> 'e \<Rightarrow> 'e \<times> goerror option) \<Rightarrow>
     goerror + 'n raw_config \<Rightarrow> ('p, 'e) config \<Rightarrow> ('p, 'e) config \<times> goerror option" where
  "Config_UnmarshalYAML DefaultProcessorRegistry DefaultExporterRegistry marshal um_p um_e raw c =
     (case raw of
        Inl err \<Rightarrow> (c, Some err)
      | Inr c_ \<Rightarrow>
          (let reg_processor = (if ProcessorRegistry c = None then DefaultProcessorRegistry else ProcessorRegistry c);
               reg_exporter = (if ExporterRegistry c = None then DefaultExporterRegistry else ExporterRegistry c);
               (ps, errs_processor) = decode_components reg_processor marshal um_p (raw_Processors c_) (Map.empty, []);
               (es, errs_exporter) = decode_components reg_exporter marshal um_e (raw_Exporters c_) (Map.empty, [])
           in (c\<lparr>Enabled := raw_Enabled c_, Processors := Some ps, Exporters := Some es,
                 Providers := raw_Providers c_\<rparr>,
               errors_Join
                 [z_Err (errors_Join (map Some errs_processor)) ''.processor'',
                  z_Err (errors_Join (map Some errs_exporter)) ''.exporter''])))"

subsection \<open>What one entry contributes\<close>

definition component_of ::
    "'d registry \<Rightarrow> ('n \<Rightarrow> string \<times> goerror option) \<Rightarrow> (string \<Rightarrow> 'd \<Rightarrow> 'd \<times> goerror option) \<Rightarrow>
     Id \<times> 'n option \<Rightarrow> 'd option" where
  "component_of reg marshal um kn =
     map_option (\<lambda>d. fst (decode_node marshal um (fst kn) (snd kn) d)) (Registry_New reg (Id_Type (fst kn)))"

definition errors_of ::
    "'d registry \<Rightarrow> ('n \<Rightarrow> string \<times> goerror option) \<Rightarrow> (string \<Rightarrow> 'd \<Rightarrow> 'd \<times> goerror option) \<Rightarrow>
     Id \<times> 'n option \<Rightarrow> goerror list" where
  "errors_of reg marshal um kn =
     (case Registry_New reg (Id_Type (fst kn)) of
        None \<Rightarrow> [Errorf ''%q: unknown type'' [Id_String (fst kn)]]
      | Some d \<Rightarrow> snd (decode_node marshal um (fst kn) (snd kn) d))"

lemma decode_components_errors:
  "snd (decode_components reg marshal um es (m, errs)) =
     errs @ concat (map (errors_of reg marshal um) es)"
  by (induction reg marshal um es "(m, errs)" arbitrary: m errs rule: decode_components.induct)
    (auto simp: errors_of_def split: option.splits prod.splits)

lemma decode_components_map:
  "distinct (map fst es) \<Longrightarrow>
   fst (decode_components reg marshal um es (m, errs)) k =
     (case map_of es k of
        None \<Rightarrow> m k
      | Some node \<Rightarrow>
          (case component_of reg marshal um (k, node) of None \<Rightarrow> m k | Some d \<Rightarrow> Some (Some d)))"
proof (induction reg marshal um es "(m, errs)" arbitrary: m errs rule: decode_components.induct)
  case (2 reg marshal um k' node es m errs)
  from "2.prems" have k': "map_of es k' = None" and d: "distinct (map fst es)"
    by (simp_all add: map_of_eq_None_iff)
  show ?case
  proof (cases "Registry_New reg (Id_Type k')")
    case None
    with "2.hyps"(1) [OF None d] k' show ?thesis
      by (cases "k = k'") (auto simp: component_of_def split: option.splits)
  next
    case (Some x)
    obtain x' errs' where x': "decode_node marshal um k' node x = (x', errs')" by fastforce
    from "2.hyps"(2) [OF Some x' [symmetric] d] k' Some x' show ?thesis
      by (cases "k = k'") (auto simp: component_of_def split: option.splits)
  qed
qed simp

lemma errors_Join_pair:
  "errors_Join [a, b] = (case opt_list a @ opt_list b of [] \<Rightarrow> None | es \<Rightarrow> Some (Joined es))"
  by (cases a; cases b) (simp_all add: errors_Join_def opt_list_def List.map_filter_simps)

subsection \<open>Properties\<close>

text \<open>C28: what \<open>Config.UnmarshalYAML\<close> leaves in the configuration. Whatever the order
  of iteration, the processors are exactly the entries whose type is registered (in the
  configuration's registry, or the default one when it is nil), each decoded from its node
  into a fresh value of its type, an erroneous entry included; the same holds for exporters,
  and the providers are taken over as they are.\<close>

theorem Config_UnmarshalYAML_contents:
  assumes "distinct (map fst (raw_Processors r))" and "distinct (map fst (raw_Exporters r))"
    and "Config_UnmarshalYAML dp de marshal um_p um_e (Inr r) c = (c', err)"
    and "rp = (if ProcessorRegistry c = None then dp else ProcessorRegistry c)"
    and "re = (if ExporterRegistry c = None then de else ExporterRegistry c)"
  shows "gm_lookup (Processors c') k = map_option Some (Option.bind (map_of (raw_Processors r) k)
           (\<lambda>node. component_of rp marshal um_p (k, node))) \<and>
    gm_lookup (Exporters c') k = map_option Some (Option.bind (map_of (raw_Exporters r) k)
           (\<lambda>node. component_of re marshal um_e (k, node))) \<and>
    Providers c' = raw_Providers r \<and> Enabled c' = raw_Enabled r"
  using assms decode_components_map [OF assms(1), of rp marshal um_p Map.empty "[]" k]
    decode_components_map [OF assms(2), of re marshal um_e Map.empty "[]" k]
  by (auto simp: Config_UnmarshalYAML_def Let_def split: prod.splits option.splits)

lemma Config_UnmarshalYAML_contents_witness:
  "gm_lookup (Processors (fst (Config_UnmarshalYAML (Some [''sampler'' \<mapsto> \<lambda>_. 0 :: nat]) (None :: nat registry)
      (\<lambda>n. (n, None)) (\<lambda>raw d. (length raw, None)) (\<lambda>raw d. (d, None))
      (Inr \<lparr>raw_Enabled = None, raw_Processors = [(''batcher/foo'', Some ''xx''), (''sampler'', Some ''abc'')],
         raw_Exporters = [], raw_Providers = None\<rparr>)
      (NewConfig None None)))) ''sampler'' = Some (Some 3)"
  (is "gm_lookup (Processors (fst (Config_UnmarshalYAML ?dp ?de ?m ?p ?e (Inr ?r) ?c))) _ = _")
proof -
  obtain c' err where u: "Config_UnmarshalYAML ?dp ?de ?m ?p ?e (Inr ?r) ?c = (c', err)" by fastforce
  have "Id_Type ''sampler'' = ''sampler''" by code_simp
  then show ?thesis
    using Config_UnmarshalYAML_contents [OF _ _ u refl refl, of "''sampler''"] u
    by (simp add: NewConfig_def component_of_def Registry_New_def Registry_Get_def decode_node_def)
qed

text \<open>C29: \<open>Config.UnmarshalYAML\<close> reports every failing entry, in iteration order and under
  the section it belongs to: nothing is dropped when another entry fails, and the error is
  nil exactly when every key has a registered type and every node that is present decodes.\<close>

theorem Config_UnmarshalYAML_errors:
  assumes "rp = (if ProcessorRegistry c = None then dp else ProcessorRegistry c)"
    and "re = (if ExporterRegistry c = None then de else ExporterRegistry c)"
    and "ep = concat (map (errors_of rp marshal um_p) (raw_Processors r))"
    and "ee = concat (map (errors_of re marshal um_e) (raw_Exporters r))"
  shows "snd (Config_UnmarshalYAML dp de marshal um_p um_e (Inr r) c) =
     (if ep = [] \<and> ee = [] then None
      else Some (Joined ((if ep = [] then [] else [Wrapf ''%s: %w'' [''.processor''] (Joined ep)]) @
                         (if ee = [] then [] else [Wrapf ''%s: %w'' [''.exporter''] (Joined ee)]))))"
proof -
  obtain ps where ps: "decode_components rp marshal um_p (raw_Processors r) (Map.empty, []) = (ps, ep)"
    using decode_components_errors [of rp marshal um_p "raw_Processors r" Map.empty "[]"] assms(3)
    by (metis append_Nil prod.collapse)
  obtain es where es: "decode_components re marshal um_e (raw_Exporters r) (Map.empty, []) = (es, ee)"
    using decode_components_errors [of re marshal um_e "raw_Exporters r" Map.empty "[]"] assms(4)
    by (metis append_Nil prod.collapse)
  show ?thesis
    by (simp add: Config_UnmarshalYAML_def Let_def ps es assms(1,2) [symmetric] errors_Join_Some
        z_Err_def errors_Join_pair opt_list_def)
qed

lemma Config_UnmarshalYAML_errors_witness:
  "snd (Config_UnmarshalYAML (Some [''sampler'' \<mapsto> \<lambda>_. 0 :: nat]) (None :: nat registry)
      (\<lambda>n. (n, None)) (\<lambda>raw d. (length raw, None)) (\<lambda>raw d. (d, None))
      (Inr \<lparr>raw_Enabled = None, raw_Processors = [(''batcher/foo'', Some ''xx''), (''sampler'', Some ''abc'')],
         raw_Exporters = [], raw_Providers = None\<rparr>)
      (NewConfig None None)) =
   Some (Joined [Wrapf ''%s: %w'' [''.processor''] (Joined [Errorf ''%q: unknown type'' [''batcher/foo'']])])"
proof -
  have "Id_Type ''sampler'' = ''sampler''" "Id_Type ''batcher/foo'' = ''batcher''" by code_simp+
  then show ?thesis
    by (subst Config_UnmarshalYAML_errors [OF refl refl refl refl])
      (simp add: NewConfig_def errors_of_def Registry_New_def Registry_Get_def decode_node_def
        opt_list_def Id_String_def)
qed

end
