(* ===== verification/Component.thy ===== *)
theory Component
  imports Go_Prelude
begin

section \<open>Lifecycle components (component.go, logger.go)\<close>

text \<open>
  What the resolver knows of a component is whether it implements \<open>Start\<close> and
  \<open>Shutdown\<close> (the two type assertions) and what these calls do to the world \<open>'w\<close>. The
  wrappers \<open>SpanComponent\<close> and \<open>LogComponent\<close> build such a component from an exporter
  and its processor. \<open>multiLogger\<close> fans records out to several loggers.
\<close>

record ('c, 'w) lifecycle =
  has_Start :: "'c \<Rightarrow> bool"
  call_Start :: "'c \<Rightarrow> 'w \<Rightarrow> goerror option \<times> 'w"
  has_Shutdown :: "'c \<Rightarrow> bool"
  call_Shutdown :: "'c \<Rightarrow> 'w \<Rightarrow> goerror option \<times> 'w"

subsection \<open>Wrapping an exporter and its processor\<close>

text \<open>\<open>Bare\<close> is a component that is tracked unwrapped: a metric reader or exporter, or the
  log exporter of package pretty.\<close>

datatype ('x, 'p) component =
    SpanComponent (exporter: 'x) (processor: 'p)
  | LogComponent (exporter: 'x) (processor: 'p)
  | Bare (exporter: 'x)

text \<open>\<open>spanComponent\<close> always has \<open>Start\<close> and passes it on when the exporter has one;
  \<open>logComponent\<close> embeds the interface \<open>log.Exporter\<close>, which has no \<open>Start\<close>.\<close>

fun component_has_Start :: "('x, 'w) lifecycle \<Rightarrow> ('x, 'p) component \<Rightarrow> bool" where
  "component_has_Start lx (SpanComponent v p) = True"
| "component_has_Start lx (LogComponent v p) = False"
| "component_has_Start lx (Bare v) = has_Start lx v"

fun component_Start ::
    "('x, 'w) lifecycle \<Rightarrow> ('x, 'p) component \<Rightarrow> 'w \<Rightarrow> goerror option \<times> 'w" where
  "component_Start lx (SpanComponent v p) w =
     (if \<not> has_Start lx v then (None, w) else call_Start lx v w)"
| "component_Start lx (LogComponent v p) w = (None, w)"
| "component_Start lx (Bare v) w = call_Start lx v w"

fun component_has_Shutdown :: "('x, 'w) lifecycle \<Rightarrow> ('x, 'p) component \<Rightarrow> bool" where
  "component_has_Shutdown lx (SpanComponent v p) = True"
| "component_has_Shutdown lx (LogComponent v p) = True"
| "component_has_Shutdown lx (Bare v) = has_Shutdown lx v"

fun component_Shutdown ::
    "('x, 'w) lifecycle \<Rightarrow> ('p \<Rightarrow> 'w \<Rightarrow> goerror option \<times> 'w) \<Rightarrow> ('x, 'p) component \<Rightarrow> 'w \<Rightarrow>
     goerror option \<times> 'w" where
  "component_Shutdown lx shut_p (SpanComponent v p) w = shut_p p w"
| "component_Shutdown lx shut_p (LogComponent v p) w = shut_p p w"
| "component_Shutdown lx shut_p (Bare v) w = call_Shutdown lx v w"

definition component_lifecycle ::
    "('x, 'w) lifecycle \<Rightarrow> ('p \<Rightarrow> 'w \<Rightarrow> goerror option \<times> 'w) \<Rightarrow> (('x, 'p) component, 'w) lifecycle" where
  "component_lifecycle lx shut_p =
     \<lparr>has_Start = component_has_Start lx, call_Start = component_Start lx,
      has_Shutdown = component_has_Shutdown lx, call_Shutdown = component_Shutdown lx shut_p\<rparr>"

subsection \<open>Several loggers as one\<close>

text \<open>A logger is its \<open>Emit\<close> and \<open>Enabled\<close> on the world; \<open>Enabled\<close> may act too
  (the SDK asks its processors), so asking stops at the first logger that answers true.\<close>

record ('rec, 'par, 'w) logger =
  Emit :: "'rec \<Rightarrow> 'w \<Rightarrow> 'w"
  Enabled_logger :: "'par \<Rightarrow> 'w \<Rightarrow> bool \<times> 'w"



text \<open>\<open>multiLoggerProvider.Logger\<close>: one logger of each provider, in order.\<close>

fun multiLoggerProvider_Logger ::
    "(string \<Rightarrow> 'o list \<Rightarrow> 'w \<Rightarrow> ('rec, 'par, 'w) logger \<times> 'w) list \<Rightarrow> string \<Rightarrow> 'o list \<Rightarrow> 'w \<Rightarrow>
     ('rec, 'par, 'w) logger list \<times> 'w" where
  "multiLoggerProvider_Logger [] name opts w = ([], w)"
| "multiLoggerProvider_Logger (p # ps) name opts w =
     (case p name opts w of (l, w') \<Rightarrow>
      case multiLoggerProvider_Logger ps name opts w' of (ls, w'') \<Rightarrow> (l # ls, w''))"





end
