(* ===== verification/Resolver.thy ===== *)
theory Resolver
  imports Config Component
begin

section \<open>The resolver (resolver.go)\<close>

text \<open>
  \<open>Make\<close> wraps a configuration; \<open>Tracer\<close>, \<open>Meter\<close> and \<open>Logger\<close> build and cache
  providers; \<open>Start\<close> and \<open>Shutdown\<close> drive the components of every provider built so
  far. A provider made by the SDK is its address and the options it was made with;
  \<open>allocs\<close> is the next free address, so that two providers are the same object exactly
  when their addresses agree. The order in which \<open>range\<close> visits the maps is an argument of
  \<open>Start\<close> and \<open>Shutdown\<close>.
\<close>

datatype ('to, 'mo, 'lo) provider_value =
    TracerValue nat "'to list"
  | MeterValue nat "'mo list"
  | LoggerValue nat "'lo list"

record ('c, 'to, 'mo, 'lo) provider =
  provider_value :: "('to, 'mo, 'lo) provider_value"
  provider_components :: "Id \<rightharpoonup> 'c"

type_synonym ('w, 'c, 'to, 'mo, 'lo) resolver_config =
  "(('w, 'to, 'mo, 'lo) processor_config, ('w, 'c, 'to, 'mo, 'lo) exporter_config) config"

record ('w, 'c, 'to, 'mo, 'lo) resolver =
  resolver_config :: "('w, 'c, 'to, 'mo, 'lo) resolver_config"
  resolver_providers :: "(Id, ('c, 'to, 'mo, 'lo) provider) gomap"
  allocs :: nat

text \<open>What a provider method returns: a provider and an error, or a panic. \<open>Noop\<close> is the
  no-op provider of the SDK, \<open>Nil\<close> a nil interface value.\<close>

datatype 'o handle = Noop | NilHandle | Provider nat "'o list"

datatype 'o reply = Reply "'o handle" "goerror option" | Crash

definition Make ::
    "('w, 'to, 'mo, 'lo) processor_config registry \<Rightarrow> ('w, 'c, 'to, 'mo, 'lo) exporter_config registry \<Rightarrow>
     ('w, 'c, 'to, 'mo, 'lo) resolver_config option \<Rightarrow> ('w, 'c, 'to, 'mo, 'lo) resolver" where
  "Make dp de c0 =
     (let c = (case c0 of
                 None \<Rightarrow> NewConfig dp de
               | Some c \<Rightarrow> if \<not> Config_IsEnabled c then NewConfig dp de else c);
          c = (if Processors c = None then c\<lparr>Processors := Some Map.empty\<rparr> else c);
          c = (if Exporters c = None then c\<lparr>Exporters := Some Map.empty\<rparr> else c);
          c = (if Providers c = None then c\<lparr>Providers := Some Map.empty\<rparr> else c)
      in \<lparr>resolver_config = c, resolver_providers = Some Map.empty, allocs = 0\<rparr>)"

subsection \<open>Collecting options from processors and exporters\<close>

text \<open>The processor loop of the three methods: \<open>opts_of\<close> is the method asked for, \<open>what\<close>
  the message when the processor is not for this kind of provider.\<close>

fun add_processors ::
    "(Id, 'p option) gomap \<Rightarrow> ('p \<Rightarrow> 'w \<Rightarrow> 'o list option result \<times> 'w) \<Rightarrow> string \<Rightarrow> Id list \<Rightarrow>
     'o list \<Rightarrow> 'w \<Rightarrow> 'o list result \<times> 'w" where
  "add_processors ps opts_of what [] opts w = (Ok opts, w)"
| "add_processors ps opts_of what (i # is) opts w =
     (case gm_lookup ps i of
        None \<Rightarrow> (Err (Wrapf ''processor %q: %w'' [Id_String i] (Errorf ''not found'' [])), w)
      | Some None \<Rightarrow> (Err (Wrapf ''processor %q: %w'' [Id_String i] (Errorf what [])), w)
      | Some (Some c) \<Rightarrow>
          (case opts_of c w of
             (Err e, w') \<Rightarrow> (Err (Wrapf ''processor %q: %w'' [Id_String i] e), w')
           | (Panics, w') \<Rightarrow> (Panics, w')
           | (Ok None, w') \<Rightarrow> (Err (Wrapf ''processor %q: %w'' [Id_String i] (Errorf what [])), w')
           | (Ok (Some opts'), w') \<Rightarrow> add_processors ps opts_of what is (opts @ opts') w'))"

text \<open>The exporter loop: \<open>build\<close> makes the component and its options from the interface
  value that is configured under the id.\<close>

fun add_exporters ::
    "(Id, 'e option) gomap \<Rightarrow> ('e option \<Rightarrow> 'w \<Rightarrow> ('c \<times> 'o list) result \<times> 'w) \<Rightarrow> Id list \<Rightarrow>
     (Id \<rightharpoonup> 'c) \<times> 'o list \<Rightarrow> 'w \<Rightarrow> ((Id \<rightharpoonup> 'c) \<times> 'o list) result \<times> 'w" where
  "add_exporters es build [] acc w = (Ok acc, w)"
| "add_exporters es build (i # is) (comps, opts) w =
     (case gm_lookup es i of
        None \<Rightarrow> (Err (Wrapf ''exporter %q: %w'' [Id_String i] (Errorf ''not found'' [])), w)
      | Some c \<Rightarrow>
          (case build c w of
             (Err e, w') \<Rightarrow> (Err (Wrapf ''exporter %q: %w'' [Id_String i] e), w')
           | (Panics, w') \<Rightarrow> (Panics, w')
           | (Ok (v, opts'), w') \<Rightarrow> add_exporters es build is (comps(i \<mapsto> v), opts @ opts') w'))"

fun build_span ::
    "('w, 'c, 'to, 'mo, 'lo) exporter_config option \<Rightarrow> 'w \<Rightarrow> ('c \<times> 'to list) result \<times> 'w" where
  "build_span None w = (Err (Errorf ''not a span exporter'' []), w)"
| "build_span (Some c) w = SpanExporter c w"

fun build_log ::
    "('w, 'c, 'to, 'mo, 'lo) exporter_config option \<Rightarrow> 'w \<Rightarrow> ('c \<times> 'lo list) result \<times> 'w" where
  "build_log None w = (Err (Errorf ''not a log exporter'' []), w)"
| "build_log (Some c) w = LogExporter c w"

text \<open>The meter has no type assertion: it calls the method, which panics on a nil interface.
  It prefers the reader and falls back to the exporter only when the reader is
  unimplemented.\<close>

fun build_metric ::
    "('w, 'c, 'to, 'mo, 'lo) exporter_config option \<Rightarrow> 'w \<Rightarrow> ('c \<times> 'mo list) result \<times> 'w" where
  "build_metric None w = (Panics, w)"
| "build_metric (Some c) w =
     (case MetricReader c w of
        (Ok x, w') \<Rightarrow> (Ok x, w')
      | (Panics, w') \<Rightarrow> (Panics, w')
      | (Err e, w') \<Rightarrow>
          if \<not> errors_Is e ErrUnimplemented then (Err e, w')
          else (case MetricExporter c w' of
                  (Ok x, w'') \<Rightarrow> (Ok x, w'')
                | (Panics, w'') \<Rightarrow> (Panics, w'')
                | (Err e', w'') \<Rightarrow>
                    if \<not> errors_Is e' ErrUnimplemented then (Err e', w'')
                    else (Err ErrUnimplemented, w'')))"

subsection \<open>The three provider methods\<close>

definition ensure_providers :: "('w, 'c, 'to, 'mo, 'lo) resolver \<Rightarrow> ('w, 'c, 'to, 'mo, 'lo) resolver" where
  "ensure_providers r =
     (if resolver_providers r = None then r\<lparr>resolver_providers := Some Map.empty\<rparr> else r)"

text \<open>\<open>r.providers[id] = &provider{...}\<close> with the provider allocated at \<open>allocs\<close>.\<close>

definition store_provider ::
    "Id \<Rightarrow> ('c, 'to, 'mo, 'lo) provider \<Rightarrow> ('w, 'c, 'to, 'mo, 'lo) resolver \<Rightarrow>
     ('w, 'c, 'to, 'mo, 'lo) resolver" where
  "store_provider i p r =
     (case gm_store (resolver_providers r) i p of
        Ok m \<Rightarrow> r\<lparr>resolver_providers := m, allocs := Suc (allocs r)\<rparr>
      | _ \<Rightarrow> r)"

definition Tracer ::
    "string \<Rightarrow> 'to list \<Rightarrow> ('w, 'c, 'to, 'mo, 'lo) resolver \<Rightarrow> 'w \<Rightarrow>
     'to reply \<times> ('w, 'c, 'to, 'mo, 'lo) resolver \<times> 'w" where
  "Tracer name opts r0 w =
     (let i = Id_WithName ''tracer'' name; r = ensure_providers r0 in
      case gm_lookup (resolver_providers r) i of
        Some p \<Rightarrow>
          (case provider_value p of
             TracerValue a os \<Rightarrow> (Reply (Provider a os) None, r, w)
           | _ \<Rightarrow> (Crash, r, w))
      | None \<Rightarrow>
          (case gm_lookup (Providers (resolver_config r)) i of
             None \<Rightarrow> (Reply Noop (Some ErrNotExist), r, w)
           | Some None \<Rightarrow> (Crash, r, w)
           | Some (Some c) \<Rightarrow>
               (case add_processors (Processors (resolver_config r)) TracerOpts ''not for the tracer''
                       (ProviderProcessors c) opts w of
                  (Err e, w') \<Rightarrow> (Reply Noop (Some e), r, w')
                | (Panics, w') \<Rightarrow> (Crash, r, w')
                | (Ok opts', w') \<Rightarrow>
                    (case add_exporters (Exporters (resolver_config r)) build_span
                            (ProviderExporters c) (Map.empty, opts') w' of
                       (Err e, w'') \<Rightarrow> (Reply Noop (Some e), r, w'')
                     | (Panics, w'') \<Rightarrow> (Crash, r, w'')
                     | (Ok (comps, opts''), w'') \<Rightarrow>
                         (Reply (Provider (allocs r) opts'') None,
                          store_provider i
                            \<lparr>provider_value = TracerValue (allocs r) opts'', provider_components = comps\<rparr> r,
                          w'')))))"

definition Meter ::
    "string \<Rightarrow> 'mo list \<Rightarrow> ('w, 'c, 'to, 'mo, 'lo) resolver \<Rightarrow> 'w \<Rightarrow>
     'mo reply \<times> ('w, 'c, 'to, 'mo, 'lo) resolver \<times> 'w" where
  "Meter name opts r0 w =
     (let i = Id_WithName ''meter'' name; r = ensure_providers r0 in
      case gm_lookup (resolver_providers r) i of
        Some p \<Rightarrow>
          (case provider_value p of
             MeterValue a os \<Rightarrow> (Reply (Provider a os) None, r, w)
           | _ \<Rightarrow> (Crash, r, w))
      | None \<Rightarrow>
          (case gm_lookup (Providers (resolver_config r)) i of
             None \<Rightarrow> (Reply Noop (Some ErrNotExist), r, w)
           | Some None \<Rightarrow> (Crash, r, w)
           | Some (Some c) \<Rightarrow>
               (case add_processors (Processors (resolver_config r)) MeterOpts ''not for the meter''
                       (ProviderProcessors c) opts w of
                  (Err e, w') \<Rightarrow> (Reply Noop (Some e), r, w')
                | (Panics, w') \<Rightarrow> (Crash, r, w')
                | (Ok opts', w') \<Rightarrow>
                    (case add_exporters (Exporters (resolver_config r)) build_metric
                            (ProviderExporters c) (Map.empty, opts') w' of
                       (Err e, w'') \<Rightarrow> (Reply Noop (Some e), r, w'')
                     | (Panics, w'') \<Rightarrow> (Crash, r, w'')
                     | (Ok (comps, opts''), w'') \<Rightarrow>
                         (Reply (Provider (allocs r) opts'') None,
                          store_provider i
                            \<lparr>provider_value = MeterValue (allocs r) opts'', provider_components = comps\<rparr> r,
                          w'')))))"

text \<open>\<open>Logger\<close> answers a nil provider, not the no-op one, when the id is not configured
  (line 295).\<close>

definition Logger ::
    "string \<Rightarrow> 'lo list \<Rightarrow> ('w, 'c, 'to, 'mo, 'lo) resolver \<Rightarrow> 'w \<Rightarrow>
     'lo reply \<times> ('w, 'c, 'to, 'mo, 'lo) resolver \<times> 'w" where
  "Logger name opts r0 w =
     (let i = Id_WithName ''logger'' name; r = ensure_providers r0 in
      case gm_lookup (resolver_providers r) i of
        Some p \<Rightarrow>
          (case provider_value p of
             LoggerValue a os \<Rightarrow> (Reply (Provider a os) None, r, w)
           | _ \<Rightarrow> (Crash, r, w))
      | None \<Rightarrow>
          (case gm_lookup (Providers (resolver_config r)) i of
             None \<Rightarrow> (Reply NilHandle (Some ErrNotExist), r, w)
           | Some None \<Rightarrow> (Crash, r, w)
           | Some (Some c) \<Rightarrow>
               (case add_processors (Processors (resolver_config r)) LoggerOpts ''not for the logger''
                       (ProviderProcessors c) opts w of
                  (Err e, w') \<Rightarrow> (Reply Noop (Some e), r, w')
                | (Panics, w') \<Rightarrow> (Crash, r, w')
                | (Ok opts', w') \<Rightarrow>
                    (case add_exporters (Exporters (resolver_config r)) build_log
                            (ProviderExporters c) (Map.empty, opts') w' of
                       (Err e, w'') \<Rightarrow> (Reply Noop (Some e), r, w'')
                     | (Panics, w'') \<Rightarrow> (Crash, r, w'')
                     | (Ok (comps, opts''), w'') \<Rightarrow>
                         (Reply (Provider (allocs r) opts'') None,
                          store_provider i
                            \<lparr>provider_value = LoggerValue (allocs r) opts'', provider_components = comps\<rparr> r,
                          w'')))))"

subsection \<open>Start and Shutdown\<close>

text \<open>
  Both range over the providers and, inside, over the components of each. \<open>visit\<close> lists the
  components in the order of such a double range. The calls made are logged with their
  outcome.
\<close>

datatype call = StartCall Id Id "goerror option" | ShutdownCall Id Id "goerror option"

definition visit :: "(Id \<times> (Id \<times> 'c) list) list \<Rightarrow> (Id \<times> Id \<times> 'c) list" where
  "visit es = concat (map (\<lambda>(pid, cs). map (\<lambda>(cid, c). (pid, cid, c)) cs) es)"

definition visits ::
    "(Id \<times> (Id \<times> 'c) list) list \<Rightarrow> ('w, 'c, 'to, 'mo, 'lo) resolver \<Rightarrow> bool" where
  "visits es r \<longleftrightarrow>
     distinct (map fst es) \<and>
     (\<forall>pid cs. (pid, cs) \<in> set es \<longrightarrow>
        (\<exists>p. gm_lookup (resolver_providers r) pid = Some p \<and> enumerates cs (provider_components p))) \<and>
     (\<forall>pid p. gm_lookup (resolver_providers r) pid = Some p \<longrightarrow> pid \<in> fst ` set es)"

fun start_loop ::
    "('c, 'w) lifecycle \<Rightarrow> (Id \<times> Id \<times> 'c) list \<Rightarrow> (Id \<times> Id \<times> 'c) list \<Rightarrow> call list \<Rightarrow> 'w \<Rightarrow>
     (Id \<times> Id \<times> 'c) list \<times> goerror option \<times> call list \<times> 'w" where
  "start_loop lc [] started log w = (started, None, log, w)"
| "start_loop lc ((pid, cid, c) # cs) started log w =
     (if \<not> has_Start lc c then start_loop lc cs started log w
      else (case call_Start lc c w of
              (Some e, w') \<Rightarrow>
                (started, Some (Wrapf ''provider[%q].component[%q]: %w'' [pid, cid] e),
                 log @ [StartCall pid cid (Some e)], w')
            | (None, w') \<Rightarrow>
                start_loop lc cs (started @ [(pid, cid, c)]) (log @ [StartCall pid cid None]) w'))"

text \<open>The deferred function: shut down what was started, ignoring errors.\<close>

fun stop_loop ::
    "('c, 'w) lifecycle \<Rightarrow> (Id \<times> Id \<times> 'c) list \<Rightarrow> call list \<Rightarrow> 'w \<Rightarrow> call list \<times> 'w" where
  "stop_loop lc [] log w = (log, w)"
| "stop_loop lc ((pid, cid, c) # cs) log w =
     (if \<not> has_Shutdown lc c then stop_loop lc cs log w
      else (case call_Shutdown lc c w of
              (e, w') \<Rightarrow> stop_loop lc cs (log @ [ShutdownCall pid cid e]) w'))"

definition Resolver_Start ::
    "('c, 'w) lifecycle \<Rightarrow> (Id \<times> (Id \<times> 'c) list) list \<Rightarrow> 'w \<Rightarrow> goerror option \<times> call list \<times> 'w" where
  "Resolver_Start lc es w =
     (case start_loop lc (visit es) [] [] w of
        (started, None, log, w') \<Rightarrow> (None, log, w')
      | (started, Some e, log, w') \<Rightarrow>
          (case stop_loop lc started log w' of (log', w'') \<Rightarrow> (Some e, log', w'')))"

fun shutdown_loop ::
    "('c, 'w) lifecycle \<Rightarrow> (Id \<times> Id \<times> 'c) list \<Rightarrow> goerror list \<Rightarrow> call list \<Rightarrow> 'w \<Rightarrow>
     goerror list \<times> call list \<times> 'w" where
  "shutdown_loop lc [] errs log w = (errs, log, w)"
| "shutdown_loop lc ((pid, cid, c) # cs) errs log w =
     (if \<not> has_Shutdown lc c then shutdown_loop lc cs errs log w
      else (case call_Shutdown lc c w of
              (Some e, w') \<Rightarrow>
                shutdown_loop lc cs (errs @ [Wrapf ''provider[%q][%q]: %w'' [pid, cid] e])
                  (log @ [ShutdownCall pid cid (Some e)]) w'
            | (None, w') \<Rightarrow> shutdown_loop lc cs errs (log @ [ShutdownCall pid cid None]) w'))"

definition Resolver_Shutdown ::
    "('c, 'w) lifecycle \<Rightarrow> (Id \<times> (Id \<times> 'c) list) list \<Rightarrow> 'w \<Rightarrow> goerror option \<times> call list \<times> 'w" where
  "Resolver_Shutdown lc es w =
     (case shutdown_loop lc (visit es) [] [] w of
        (errs, log, w') \<Rightarrow> (errors_Join (map Some errs), log, w'))"

subsection \<open>Facts about the lifecycle loops\<close>

text \<open>Which components run after a sequence of calls: a successful \<open>Start\<close> adds the
  component, a \<open>Shutdown\<close> removes it whatever it answers.\<close>

fun running :: "call list \<Rightarrow> (Id \<times> Id) set \<Rightarrow> (Id \<times> Id) set" where
  "running [] S = S"
| "running (StartCall p c None # cs) S = running cs (insert (p, c) S)"
| "running (StartCall p c (Some e) # cs) S = running cs S"
| "running (ShutdownCall p c e # cs) S = running cs (S - {(p, c)})"

fun call_key :: "call \<Rightarrow> Id \<times> Id" where
  "call_key (StartCall p c e) = (p, c)"
| "call_key (ShutdownCall p c e) = (p, c)"

fun is_start :: "call \<Rightarrow> bool" where
  "is_start (StartCall p c e) = True"
| "is_start (ShutdownCall p c e) = False"

abbreviation key_of :: "Id \<times> Id \<times> 'c \<Rightarrow> Id \<times> Id" where
  "key_of x \<equiv> (fst x, fst (snd x))"

abbreviation comp_of :: "Id \<times> Id \<times> 'c \<Rightarrow> 'c" where
  "comp_of x \<equiv> snd (snd x)"

definition startable :: "('c, 'w) lifecycle \<Rightarrow> (Id \<times> Id \<times> 'c) list \<Rightarrow> (Id \<times> Id \<times> 'c) list" where
  "startable lc = filter (\<lambda>x. has_Start lc (comp_of x))"

definition stoppable :: "('c, 'w) lifecycle \<Rightarrow> (Id \<times> Id \<times> 'c) list \<Rightarrow> (Id \<times> Id \<times> 'c) list" where
  "stoppable lc = filter (\<lambda>x. has_Shutdown lc (comp_of x))"

abbreviation started_call :: "Id \<times> Id \<times> 'c \<Rightarrow> call" where
  "started_call x \<equiv> StartCall (fst x) (fst (snd x)) None"

lemma running_append: "running (xs @ ys) S = running ys (running xs S)"
  by (induction xs S rule: running.induct) auto

lemma running_starts: "running (map started_call xs) S = S \<union> key_of ` set xs"
  by (induction xs arbitrary: S) auto

text \<open>The outcome of the start loop: either every startable component was started, or the
  startable ones before the first that fails were.\<close>

definition start_outcome ::
    "('c, 'w) lifecycle \<Rightarrow> (Id \<times> Id \<times> 'c) list \<Rightarrow> (Id \<times> Id \<times> 'c) list \<Rightarrow> call list \<Rightarrow>
     (Id \<times> Id \<times> 'c) list \<Rightarrow> goerror option \<Rightarrow> call list \<Rightarrow> bool" where
  "start_outcome lc cs started log started' err log' \<longleftrightarrow>
     (case err of
        None \<Rightarrow> started' = started @ startable lc cs \<and> log' = log @ map started_call (startable lc cs)
      | Some e \<Rightarrow> (\<exists>pre x post e'. cs = pre @ x # post \<and> has_Start lc (comp_of x) \<and>
          e = Wrapf ''provider[%q].component[%q]: %w'' [fst x, fst (snd x)] e' \<and>
          started' = started @ startable lc pre \<and>
          log' = log @ map started_call (startable lc pre) @ [StartCall (fst x) (fst (snd x)) (Some e')]))"

lemma start_outcome_skip:
  "\<not> has_Start lc (comp_of y) \<Longrightarrow> start_outcome lc cs started log started' err log' \<Longrightarrow>
   start_outcome lc (y # cs) started log started' err log'"
  unfolding start_outcome_def startable_def
  by (cases err) (auto, (rule_tac x = "y # pre" in exI, auto)+)

lemma start_outcome_start:
  "has_Start lc (comp_of y) \<Longrightarrow>
   start_outcome lc cs (started @ [y]) (log @ [started_call y]) started' err log' \<Longrightarrow>
   start_outcome lc (y # cs) started log started' err log'"
  unfolding start_outcome_def startable_def
  by (cases err) (auto, (rule_tac x = "y # pre" in exI, auto)+)

lemma start_loop_outcome:
  "start_loop lc cs started log w = (started', err, log', w') \<Longrightarrow>
   start_outcome lc cs started log started' err log'"
proof (induction lc cs started log w rule: start_loop.induct)
  case (1 lc started log w)
  then show ?case by (auto simp: start_outcome_def startable_def)
next
  case (2 lc pid cid c cs started log w)
  obtain r w1 where r: "call_Start lc c w = (r, w1)" by fastforce
  show ?case
  proof (cases "has_Start lc c")
    case False
    with 2 show ?thesis by (simp add: start_outcome_skip)
  next
    case True
    show ?thesis
    proof (cases r)
      case None
      with 2(2) [OF _ r [symmetric] None] 2(3) True r show ?thesis
        by (simp add: start_outcome_start [of lc "(pid, cid, c)"])
    next
      case (Some e)
      with 2(3) True r show ?thesis
        unfolding start_outcome_def by (auto simp: startable_def intro!: exI [of _ "[]"])
    qed
  qed
qed

lemma stop_loop_log:
  "stop_loop lc cs log w = (log', w') \<Longrightarrow>
   \<exists>stops. log' = log @ stops \<and> map call_key stops = map key_of (stoppable lc cs) \<and>
     (\<forall>k \<in> set stops. \<not> is_start k)"
proof (induction lc cs log w rule: stop_loop.induct)
  case (2 lc pid cid c cs log w)
  obtain e w1 where e: "call_Shutdown lc c w = (e, w1)" by fastforce
  show ?case
  proof (cases "has_Shutdown lc c")
    case False
    with 2 show ?thesis by (auto simp: stoppable_def)
  next
    case True
    with 2(2) [OF _ e [symmetric]] 2(3) e obtain stops where
      "log' = (log @ [ShutdownCall pid cid e]) @ stops" "map call_key stops = map key_of (stoppable lc cs)"
      "\<forall>k \<in> set stops. \<not> is_start k" by auto
    with True show ?thesis
      by (intro exI [of _ "ShutdownCall pid cid e # stops"]) (auto simp: stoppable_def)
  qed
qed (simp add: stoppable_def)

lemma running_stops:
  "\<forall>k \<in> set ks. \<not> is_start k \<Longrightarrow> running ks S = S - call_key ` set ks"
proof (induction ks arbitrary: S)
  case (Cons k ks)
  then show ?case by (cases k) auto
qed simp

lemma visit_keys:
  assumes "visits es r"
  shows "distinct (map key_of (visit es))"
    and "(pid, cid, c) \<in> set (visit es) \<longleftrightarrow>
      (\<exists>p. gm_lookup (resolver_providers r) pid = Some p \<and> provider_components p cid = Some c)"
proof -
  have cs: "distinct (map fst cs)" if "(pid, cs) \<in> set es" for pid cs
    using assms that by (fastforce simp: visits_def enumerates_def)
  from assms have "distinct (map fst es)" by (simp add: visits_def)
  then show "distinct (map key_of (visit es))" using cs
  proof (induction es)
    case (Cons e es)
    obtain pid xs where e: "e = (pid, xs)" by fastforce
    have "distinct (map fst xs)" using Cons.prems(2) e by auto
    then have "distinct (map (key_of \<circ> (\<lambda>(cid, c). (pid, cid, c))) xs)"
      by (auto simp: distinct_map inj_on_def comp_def split: prod.splits)
    moreover have "distinct (map key_of (visit es))" using Cons by auto
    moreover have "pid \<notin> fst ` set (visit es)"
      using Cons.prems(1) e by (force simp: visit_def)
    ultimately show ?case
      by (auto simp: visit_def e comp_def split: prod.splits) force+
  qed (simp add: visit_def)
  have "(pid, cid, c) \<in> set (visit es) \<longleftrightarrow> (\<exists>cs. (pid, cs) \<in> set es \<and> (cid, c) \<in> set cs)"
    by (force simp: visit_def)
  also have "\<dots> \<longleftrightarrow> (\<exists>p. gm_lookup (resolver_providers r) pid = Some p \<and> provider_components p cid = Some c)"
    (is "?l \<longleftrightarrow> ?r")
  proof
    assume ?l
    then show ?r using assms by (fastforce simp: visits_def dest: enumerates_entries)
  next
    assume ?r
    then obtain p cs where p: "gm_lookup (resolver_providers r) pid = Some p"
      "provider_components p cid = Some c" and cs: "(pid, cs) \<in> set es"
      using assms by (fastforce simp: visits_def)
    with assms have "enumerates cs (provider_components p)"
      unfolding visits_def by (metis option.inject)
    with p cs show ?l by (auto dest: enumerates_entries)
  qed
  finally show "(pid, cid, c) \<in> set (visit es) \<longleftrightarrow>
      (\<exists>p. gm_lookup (resolver_providers r) pid = Some p \<and> provider_components p cid = Some c)" .
qed

definition component_at ::
    "('w, 'c, 'to, 'mo, 'lo) resolver \<Rightarrow> Id \<Rightarrow> Id \<Rightarrow> 'c option" where
  "component_at r pid cid =
     (case gm_lookup (resolver_providers r) pid of
        None \<Rightarrow> None
      | Some p \<Rightarrow> provider_components p cid)"

lemma visit_component_at:
  "visits es r \<Longrightarrow> (pid, cid, c) \<in> set (visit es) \<longleftrightarrow> component_at r pid cid = Some c"
  by (auto simp: visit_keys component_at_def split: option.splits)

lemma visit_key_set:
  "visits es r \<Longrightarrow> key_of ` {x \<in> set (visit es). P (comp_of x)} =
     {(pid, cid). \<exists>c. component_at r pid cid = Some c \<and> P c}"
  by (force simp: visit_component_at [symmetric])

lemma distinct_map_filter: "distinct (map f xs) \<Longrightarrow> distinct (map f (filter P xs))"
  by (simp add: distinct_map inj_on_def)

lemma filter_starts [simp]:
  "filter is_start (map started_call xs) = map started_call xs"
  "filter (\<lambda>k. \<not> is_start k) (map started_call xs) = []"
  by (induction xs) auto

lemma Resolver_Start_log:
  assumes "Resolver_Start lc es w = (err, log, w')"
  shows "case err of
      None \<Rightarrow> log = map started_call (startable lc (visit es))
    | Some e \<Rightarrow> (\<exists>pre x post e' stops. visit es = pre @ x # post \<and>
        log = map started_call (startable lc pre) @ StartCall (fst x) (fst (snd x)) (Some e') # stops \<and>
        map call_key stops = map key_of (stoppable lc (startable lc pre)) \<and>
        (\<forall>k \<in> set stops. \<not> is_start k))"
proof -
  obtain started err0 log0 w0 where l: "start_loop lc (visit es) [] [] w = (started, err0, log0, w0)"
    using prod_cases4 by blast
  from start_loop_outcome [OF l] have o: "start_outcome lc (visit es) [] [] started err0 log0" .
  show ?thesis
  proof (cases err0)
    case None
    with o l assms show ?thesis by (auto simp: Resolver_Start_def start_outcome_def)
  next
    case (Some e)
    obtain log1 w1 where st: "stop_loop lc started log0 w0 = (log1, w1)" by fastforce
    from stop_loop_log [OF st] obtain stops where "log1 = log0 @ stops"
      "map call_key stops = map key_of (stoppable lc started)" "\<forall>k \<in> set stops. \<not> is_start k"
      by blast
    with Some o l st assms show ?thesis
      by (auto simp: Resolver_Start_def start_outcome_def) blast
  qed
qed

subsection \<open>Properties of Start and Shutdown\<close>

text \<open>C1: \<open>Start\<close> is all or nothing, for every order in which the maps are visited. When
  it returns nil, exactly the components that implement \<open>Start\<close> run; when it returns an
  error, every component it started that can be shut down has been shut down again. No
  component is started or shut down twice, and none is shut down that was not started.\<close>

theorem Resolver_Start_all_or_nothing:
  assumes "visits es r" and "Resolver_Start lc es w = (err, log, w')"
  shows "(err = None \<longrightarrow>
       running log {} = {(pid, cid). \<exists>c. component_at r pid cid = Some c \<and> has_Start lc c}) \<and>
     (err \<noteq> None \<longrightarrow>
       running log {} \<subseteq> {(pid, cid). \<exists>c. component_at r pid cid = Some c \<and> \<not> has_Shutdown lc c}) \<and>
     distinct (map call_key (filter is_start log)) \<and>
     distinct (map call_key (filter (\<lambda>k. \<not> is_start k) log)) \<and>
     (\<forall>pid cid e. ShutdownCall pid cid e \<in> set log \<longrightarrow> StartCall pid cid None \<in> set log)"
proof (cases err)
  case None
  with Resolver_Start_log [OF assms(2)] have log: "log = map started_call (startable lc (visit es))"
    by simp
  have "distinct (map key_of (startable lc (visit es)))"
    unfolding startable_def by (rule distinct_map_filter) (rule visit_keys(1) [OF assms(1)])
  then show ?thesis
    using None log visit_key_set [OF assms(1), of "has_Start lc"]
    by (auto simp: running_starts startable_def comp_def)
next
  case (Some e)
  from Resolver_Start_log [OF assms(2)] Some obtain pre x post e' stops where
    v: "visit es = pre @ x # post" and
    log: "log = map started_call (startable lc pre) @ StartCall (fst x) (fst (snd x)) (Some e') # stops" and
    keys: "map call_key stops = map key_of (stoppable lc (startable lc pre))" and
    stops: "\<forall>k \<in> set stops. \<not> is_start k" by auto
  have d: "distinct (map key_of (pre @ x # post))" using visit_keys(1) [OF assms(1)] v by simp
  have ds: "distinct (map key_of (startable lc pre))"
    unfolding startable_def by (rule distinct_map_filter) (use d in simp)
  then have dst: "distinct (map call_key stops)"
    unfolding keys stoppable_def by (rule distinct_map_filter)
  have set_stops: "call_key ` set stops = key_of ` set (stoppable lc (startable lc pre))"
    using arg_cong [OF keys, of set] by simp
  have run: "running log {} = key_of ` set (startable lc pre) - key_of ` set (stoppable lc (startable lc pre))"
    unfolding log by (simp add: running_append running_starts running_stops [OF stops] set_stops)
  have sub: "running log {} \<subseteq> {(pid, cid). \<exists>c. component_at r pid cid = Some c \<and> \<not> has_Shutdown lc c}"
  proof
    fix k
    assume "k \<in> running log {}"
    then obtain y where y: "y \<in> set pre" "k = key_of y" "\<not> has_Shutdown lc (comp_of y)"
      unfolding run startable_def stoppable_def by auto
    moreover have "component_at r (fst y) (fst (snd y)) = Some (comp_of y)"
      unfolding visit_component_at [OF assms(1), symmetric] using y(1) v by simp
    ultimately show "k \<in> {(pid, cid). \<exists>c. component_at r pid cid = Some c \<and> \<not> has_Shutdown lc c}"
      by auto
  qed
  have fs: "filter is_start stops = []" "filter (\<lambda>k. \<not> is_start k) stops = stops"
    using stops by (auto simp: filter_empty_conv intro: filter_True)
  have d1: "distinct (map call_key (filter is_start log))"
    using d ds fs by (auto simp: log startable_def comp_def)
  have d2: "distinct (map call_key (filter (\<lambda>k. \<not> is_start k) log))"
    using dst fs by (simp add: log)
  have prior: "\<forall>pid cid f. ShutdownCall pid cid f \<in> set log \<longrightarrow> StartCall pid cid None \<in> set log"
  proof (intro allI impI)
    fix pid cid f
    assume "ShutdownCall pid cid f \<in> set log"
    then have "ShutdownCall pid cid f \<in> set stops" by (auto simp: log)
    then have "call_key (ShutdownCall pid cid f) \<in> key_of ` set (stoppable lc (startable lc pre))"
      using set_stops by blast
    then show "StartCall pid cid None \<in> set log" by (force simp: log stoppable_def)
  qed
  show ?thesis using Some sub d1 d2 prior by blast
qed

lemma shutdown_loop_log:
  "shutdown_loop lc cs errs log w = (errs', log', w') \<Longrightarrow>
   \<exists>stops. log' = log @ stops \<and> map call_key stops = map key_of (stoppable lc cs) \<and>
     (\<forall>k \<in> set stops. \<not> is_start k) \<and>
     errs' = errs @ concat (map (\<lambda>k. case k of
        ShutdownCall pid cid (Some e) \<Rightarrow> [Wrapf ''provider[%q][%q]: %w'' [pid, cid] e] | _ \<Rightarrow> []) stops)"
proof (induction lc cs errs log w rule: shutdown_loop.induct)
  case (2 lc pid cid c cs errs log w)
  obtain e w1 where e: "call_Shutdown lc c w = (e, w1)" by fastforce
  show ?case
  proof (cases "has_Shutdown lc c")
    case False
    with 2 show ?thesis by (auto simp: stoppable_def)
  next
    case True
    with 2(2,3) [OF _ e [symmetric]] 2(4) e obtain stops where
      "log' = (log @ [ShutdownCall pid cid e]) @ stops \<and> map call_key stops = map key_of (stoppable lc cs) \<and>
       (\<forall>k \<in> set stops. \<not> is_start k) \<and>
       errs' = errs @ concat (map (\<lambda>k. case k of
        ShutdownCall pid cid (Some e) \<Rightarrow> [Wrapf ''provider[%q][%q]: %w'' [pid, cid] e] | _ \<Rightarrow> [])
          (ShutdownCall pid cid e # stops))"
      by (cases e) auto
    with True show ?thesis
      by (intro exI [of _ "ShutdownCall pid cid e # stops"]) (auto simp: stoppable_def)
  qed
qed (simp add: stoppable_def)

text \<open>C2: \<open>Shutdown\<close> reaches every component that can be shut down exactly once, in every
  order of iteration, whatever the others answer; its error joins one entry for each call
  that failed and is nil when none did.\<close>

theorem Resolver_Shutdown_complete:
  assumes "visits es r" and "Resolver_Shutdown lc es w = (err, log, w')"
  shows "distinct (map call_key log) \<and>
     call_key ` set log = {(pid, cid). \<exists>c. component_at r pid cid = Some c \<and> has_Shutdown lc c} \<and>
     list_all (\<lambda>k. \<not> is_start k) log \<and>
     err = (let es = concat (map (\<lambda>k. case k of
               ShutdownCall pid cid (Some e) \<Rightarrow> [Wrapf ''provider[%q][%q]: %w'' [pid, cid] e] | _ \<Rightarrow> []) log)
            in if es = [] then None else Some (Joined es))"
proof -
  obtain errs where l: "shutdown_loop lc (visit es) [] [] w = (errs, log, w')"
    and err: "err = errors_Join (map Some errs)"
    using assms(2) by (auto simp: Resolver_Shutdown_def split: prod.splits)
  from shutdown_loop_log [OF l] have keys: "map call_key log = map key_of (stoppable lc (visit es))"
    and ns: "\<forall>k \<in> set log. \<not> is_start k"
    and errs: "errs = concat (map (\<lambda>k. case k of
        ShutdownCall pid cid (Some e) \<Rightarrow> [Wrapf ''provider[%q][%q]: %w'' [pid, cid] e] | _ \<Rightarrow> []) log)"
    by auto
  have "distinct (map call_key log)"
    unfolding keys stoppable_def by (rule distinct_map_filter) (rule visit_keys(1) [OF assms(1)])
  moreover have "call_key ` set log = {(pid, cid). \<exists>c. component_at r pid cid = Some c \<and> has_Shutdown lc c}"
    using visit_key_set [OF assms(1), of "has_Shutdown lc"] arg_cong [OF keys, of set]
    by (simp add: stoppable_def)
  ultimately show ?thesis
    using ns errs err by (simp add: list_all_iff errors_Join_Some Let_def)
qed

end
