(* ===== verification/Resolver_Providers.thy ===== *)
theory Resolver_Providers
  imports Resolver
begin

section \<open>Providers: caching, isolation and contents\<close>

text \<open>
  \<open>Tracer\<close>, \<open>Meter\<close> and \<open>Logger\<close> are three copies of one procedure. The locale
  \<open>provider_method\<close> states what they share; its lemmas are proved once and reach each of
  the three through its interpretation. \<open>resolver_step\<close> is a call of any of the three with
  any arguments, in any world; \<open>resolver_reachable\<close> are the resolvers that \<open>Make\<close> and
  such calls give.
\<close>

fun value_kind :: "('to, 'mo, 'lo) provider_value \<Rightarrow> Id" where
  "value_kind (TracerValue a os) = ''tracer''"
| "value_kind (MeterValue a os) = ''meter''"
| "value_kind (LoggerValue a os) = ''logger''"

fun value_addr :: "('to, 'mo, 'lo) provider_value \<Rightarrow> nat" where
  "value_addr (TracerValue a os) = a"
| "value_addr (MeterValue a os) = a"
| "value_addr (LoggerValue a os) = a"

fun as_tracer :: "('to, 'mo, 'lo) provider_value \<Rightarrow> (nat \<times> 'to list) option" where
  "as_tracer (TracerValue a os) = Some (a, os)"
| "as_tracer v = None"

fun as_meter :: "('to, 'mo, 'lo) provider_value \<Rightarrow> (nat \<times> 'mo list) option" where
  "as_meter (MeterValue a os) = Some (a, os)"
| "as_meter v = None"

fun as_logger :: "('to, 'mo, 'lo) provider_value \<Rightarrow> (nat \<times> 'lo list) option" where
  "as_logger (LoggerValue a os) = Some (a, os)"
| "as_logger v = None"

abbreviation provider_of ::
    "('w, 'c, 'to, 'mo, 'lo) resolver \<Rightarrow> Id \<Rightarrow> ('c, 'to, 'mo, 'lo) provider option" where
  "provider_of r i \<equiv> gm_lookup (resolver_providers r) i"

lemma ensure_providers_simps [simp]:
  "provider_of (ensure_providers r) = provider_of r"
  "resolver_config (ensure_providers r) = resolver_config r"
  "allocs (ensure_providers r) = allocs r"
  "resolver_providers (ensure_providers r) \<noteq> None"
  by (auto simp: ensure_providers_def)

lemma ensure_providers_id: "resolver_providers r \<noteq> None \<Longrightarrow> ensure_providers r = r"
  by (simp add: ensure_providers_def)

lemma provider_of_made: "provider_of r i = Some p \<Longrightarrow> ensure_providers r = r"
  by (cases "resolver_providers r") (auto simp: ensure_providers_def)

lemma store_provider_simps [simp]:
  "resolver_config (store_provider i p r) = resolver_config r"
  "resolver_providers r \<noteq> None \<Longrightarrow> provider_of (store_provider i p r) j = (if j = i then Some p else provider_of r j)"
  "resolver_providers r \<noteq> None \<Longrightarrow> allocs (store_provider i p r) = Suc (allocs r)"
  by (cases "resolver_providers r"; auto simp: store_provider_def)+

subsection \<open>The loops, when they succeed\<close>

lemma add_processors_Ok:
  "add_processors ps opts_of what is opts w = (Ok os, w') \<Longrightarrow>
   \<exists>pss. os = opts @ concat pss \<and>
     list_all2 (\<lambda>i xs. \<exists>c u u'. gm_lookup ps i = Some (Some c) \<and> opts_of c u = (Ok (Some xs), u')) is pss"
proof (induction ps opts_of what "is" opts w rule: add_processors.induct)
  case (2 ps opts_of what i "is" opts w)
  from "2.prems" obtain c xs w1 where c: "gm_lookup ps i = Some (Some c)" "opts_of c w = (Ok (Some xs), w1)"
    and rest: "add_processors ps opts_of what is (opts @ xs) w1 = (Ok os, w')"
    by (auto split: option.splits prod.splits result.splits)
  from "2.IH" [OF c(1) refl c(2) [symmetric] refl refl rest] obtain pss where
    "os = (opts @ xs) @ concat pss"
    "list_all2 (\<lambda>i xs. \<exists>c u u'. gm_lookup ps i = Some (Some c) \<and> opts_of c u = (Ok (Some xs), u')) is pss"
    by blast
  with c show ?case by (intro exI [of _ "xs # pss"]) auto
qed simp

lemma add_exporters_Ok:
  "add_exporters es build is (comps, opts) w = (Ok (comps', os), w') \<Longrightarrow>
   \<exists>vs. os = opts @ concat (map snd vs) \<and> comps' = comps(is [\<mapsto>] map fst vs) \<and>
     list_all2 (\<lambda>i x. \<exists>c u u'. gm_lookup es i = Some c \<and> build c u = (Ok x, u')) is vs"
proof (induction es build "is" "(comps, opts)" w arbitrary: comps opts rule: add_exporters.induct)
  case (2 es build i "is" comps opts w)
  from "2.prems" obtain c v xs w1 where c: "gm_lookup es i = Some c" "build c w = (Ok (v, xs), w1)"
    and rest: "add_exporters es build is (comps(i \<mapsto> v), opts @ xs) w1 = (Ok (comps', os), w')"
    by (auto split: option.splits prod.splits result.splits)
  from "2.hyps" [OF c(1) c(2) [symmetric] refl refl rest] obtain vs where
    "os = (opts @ xs) @ concat (map snd vs)" "comps' = (comps(i \<mapsto> v))(is [\<mapsto>] map fst vs)"
    "list_all2 (\<lambda>i x. \<exists>c u u'. gm_lookup es i = Some c \<and> build c u = (Ok x, u')) is vs"
    by blast
  with c show ?case by (intro exI [of _ "(v, xs) # vs"]) auto
qed simp

subsection \<open>The invariant\<close>

text \<open>Every cached provider has the kind its id names and an address of its own.\<close>

definition resolver_inv :: "('w, 'c, 'to, 'mo, 'lo) resolver \<Rightarrow> bool" where
  "resolver_inv r \<longleftrightarrow>
     (\<forall>i p. provider_of r i = Some p \<longrightarrow>
        Id_Type i = value_kind (provider_value p) \<and> value_addr (provider_value p) < allocs r) \<and>
     (\<forall>i j p q. provider_of r i = Some p \<longrightarrow> provider_of r j = Some q \<longrightarrow>
        value_addr (provider_value p) = value_addr (provider_value q) \<longrightarrow> i = j)"

locale provider_method =
  fixes op :: "string \<Rightarrow> 'o list \<Rightarrow> ('w, 'c, 'to, 'mo, 'lo) resolver \<Rightarrow> 'w \<Rightarrow>
      'o reply \<times> ('w, 'c, 'to, 'mo, 'lo) resolver \<times> 'w"
    and kind :: Id
    and missing :: "'o handle"
    and opts_of :: "('w, 'to, 'mo, 'lo) processor_config \<Rightarrow> 'w \<Rightarrow> 'o list option result \<times> 'w"
    and what :: string
    and build :: "('w, 'c, 'to, 'mo, 'lo) exporter_config option \<Rightarrow> 'w \<Rightarrow> ('c \<times> 'o list) result \<times> 'w"
    and inject :: "nat \<Rightarrow> 'o list \<Rightarrow> ('to, 'mo, 'lo) provider_value"
    and view :: "('to, 'mo, 'lo) provider_value \<Rightarrow> (nat \<times> 'o list) option"
  assumes op_cached: "provider_of r (Id_WithName kind name) = Some p \<Longrightarrow>
      op name opts r w =
        ((case view (provider_value p) of Some (a, os) \<Rightarrow> Reply (Provider a os) None | None \<Rightarrow> Crash), r, w)"
    and op_fresh: "provider_of r (Id_WithName kind name) = None \<Longrightarrow>
      op name opts r w =
       (case gm_lookup (Providers (resolver_config r)) (Id_WithName kind name) of
          None \<Rightarrow> (Reply missing (Some ErrNotExist), ensure_providers r, w)
        | Some None \<Rightarrow> (Crash, ensure_providers r, w)
        | Some (Some c) \<Rightarrow>
            (case add_processors (Processors (resolver_config r)) opts_of what (ProviderProcessors c) opts w of
               (Err e, w') \<Rightarrow> (Reply Noop (Some e), ensure_providers r, w')
             | (Panics, w') \<Rightarrow> (Crash, ensure_providers r, w')
             | (Ok opts', w') \<Rightarrow>
                 (case add_exporters (Exporters (resolver_config r)) build (ProviderExporters c)
                         (Map.empty, opts') w' of
                    (Err e, w'') \<Rightarrow> (Reply Noop (Some e), ensure_providers r, w'')
                  | (Panics, w'') \<Rightarrow> (Crash, ensure_providers r, w'')
                  | (Ok (comps, opts''), w'') \<Rightarrow>
                      (Reply (Provider (allocs r) opts'') None,
                       store_provider (Id_WithName kind name)
                         \<lparr>provider_value = inject (allocs r) opts'', provider_components = comps\<rparr>
                         (ensure_providers r),
                       w''))))"
    and view_inject: "view (inject a os) = Some (a, os)"
    and view_inv: "view v = Some (a, os) \<Longrightarrow> v = inject a os"
    and kind_inject: "value_kind (inject a os) = kind"
    and addr_inject: "value_addr (inject a os) = a"
    and view_kind: "value_kind v = kind \<Longrightarrow> view v \<noteq> None"
    and missing_absent: "missing = Noop \<or> missing = NilHandle"
    and kind_plain: "Id_Type kind = kind"
begin

text \<open>A call either answers from the cache or changes at most the entry of its own id.\<close>

lemma op_cases:
  assumes "op name opts r w = (rep, r', w')"
  obtains (cached) p where "provider_of r (Id_WithName kind name) = Some p" "r' = r" "w' = w"
      "rep = (case view (provider_value p) of Some (a, os) \<Rightarrow> Reply (Provider a os) None | None \<Rightarrow> Crash)"
  | (built) c w1 opts1 comps os where "provider_of r (Id_WithName kind name) = None"
      "gm_lookup (Providers (resolver_config r)) (Id_WithName kind name) = Some (Some c)"
      "add_processors (Processors (resolver_config r)) opts_of what (ProviderProcessors c) opts w = (Ok opts1, w1)"
      "add_exporters (Exporters (resolver_config r)) build (ProviderExporters c) (Map.empty, opts1) w1 =
        (Ok (comps, os), w')"
      "rep = Reply (Provider (allocs r) os) None"
      "r' = store_provider (Id_WithName kind name)
         \<lparr>provider_value = inject (allocs r) os, provider_components = comps\<rparr> (ensure_providers r)"
  | (failed) h where "provider_of r (Id_WithName kind name) = None" "r' = ensure_providers r"
      "rep = Crash \<or> (\<exists>e. rep = Reply h (Some e))" "h = Noop \<or> h = missing"
proof (cases "provider_of r (Id_WithName kind name)")
  case (Some p)
  with op_cached [OF Some, of opts w] assms cached show thesis by simp
next
  case None
  with op_fresh [OF None, of opts w] assms show thesis
    by (auto split: option.splits prod.splits result.splits intro: built failed)
qed

lemma config_same: "op name opts r w = (rep, r', w') \<Longrightarrow> resolver_config r' = resolver_config r"
  by (erule op_cases) auto

lemma keeps: "op name opts r w = (rep, r', w') \<Longrightarrow> provider_of r i = Some p \<Longrightarrow> provider_of r' i = Some p"
  by (erule op_cases) auto

lemma frame:
  "op name opts r w = (rep, r', w') \<Longrightarrow> i \<noteq> Id_WithName kind name \<Longrightarrow> provider_of r' i = provider_of r i"
  by (erule op_cases) auto

lemma failure_leaves_no_trace:
  "op name opts r w = (rep, r', w') \<Longrightarrow> (\<And>a os. rep \<noteq> Reply (Provider a os) None) \<Longrightarrow>
   provider_of r' = provider_of r \<and> allocs r' = allocs r"
  by (erule op_cases) auto

lemma stored:
  assumes "op name opts r w = (Reply (Provider a os) None, r', w')"
  shows "\<exists>p. provider_of r' (Id_WithName kind name) = Some p \<and> provider_value p = inject a os"
  using assms
proof (cases rule: op_cases)
  case (cached p)
  then show ?thesis by (auto split: option.splits dest: view_inv)
next
  case (built c w1 opts1 comps os')
  then show ?thesis by auto
next
  case (failed h)
  then show ?thesis using missing_absent by auto
qed

lemma from_cache:
  "provider_of r (Id_WithName kind name) = Some p \<Longrightarrow> provider_value p = inject a os \<Longrightarrow>
   op name opts r w = (Reply (Provider a os) None, r, w)"
  by (simp add: op_cached view_inject)

lemma inv_step:
  assumes inv: "resolver_inv r" and op: "op name opts r w = (rep, r', w')"
  shows "resolver_inv r'"
  using op
proof (cases rule: op_cases)
  case (built c w1 opts1 comps os)
  have t: "Id_Type (Id_WithName kind name) = kind"
    using Id_WithName_type [of kind name] kind_plain by simp
  let ?i = "Id_WithName kind name"
  have kinds: "Id_Type j = value_kind (provider_value p) \<and> value_addr (provider_value p) < Suc (allocs r)"
    if "provider_of r' j = Some p" for j p
    using that inv built(6) t
    by (cases "j = ?i") (auto simp: kind_inject addr_inject resolver_inv_def less_Suc_eq)
  have unique: "j = l" if j: "provider_of r' j = Some p" and l: "provider_of r' l = Some q"
      and eq: "value_addr (provider_value p) = value_addr (provider_value q)" for j l p q
  proof -
    have old: "value_addr (provider_value x) < allocs r" if "provider_of r k = Some x" for k x
      using inv that by (simp add: resolver_inv_def)
    have new: "value_addr (provider_value x) = allocs r" if "provider_of r' ?i = Some x" for x
      using that built(6) by (auto simp: addr_inject)
    have same: "provider_of r' k = provider_of r k" if "k \<noteq> ?i" for k
      using that built(6) by simp
    show ?thesis
    proof (cases "j = ?i"; cases "l = ?i")
      assume "j = ?i" "l \<noteq> ?i"
      then show ?thesis using j l eq new [of p] same [of l] old [of l q] by simp
    next
      assume "j \<noteq> ?i" "l = ?i"
      then show ?thesis using j l eq new [of q] same [of j] old [of j p] by simp
    next
      assume "j \<noteq> ?i" "l \<noteq> ?i"
      then show ?thesis using j l eq same [of j] same [of l] inv by (simp add: resolver_inv_def)
    qed simp
  qed
  have "allocs r' = Suc (allocs r)" using built(6) by simp
  with kinds unique show ?thesis unfolding resolver_inv_def by simp
next
  case (failed h)
  then show ?thesis using inv by (simp add: resolver_inv_def)
qed (use inv in simp)

lemma no_assertion_fails:
  assumes "resolver_inv r" and "provider_of r (Id_WithName kind name) = Some p"
  shows "\<exists>a os. op name opts r w = (Reply (Provider a os) None, r, w)"
proof -
  have "value_kind (provider_value p) = kind"
    using assms Id_WithName_type [of kind name] kind_plain by (auto simp: resolver_inv_def)
  then have "view (provider_value p) \<noteq> None" by (rule view_kind)
  with assms show ?thesis by (auto simp: op_cached split: prod.splits)
qed

text \<open>What a freshly built provider consists of, in configuration order.\<close>

lemma contents:
  assumes "op name opts r w = (Reply (Provider a os) None, r', w')"
    and fresh: "provider_of r (Id_WithName kind name) = None"
  shows "\<exists>c pss vs. gm_lookup (Providers (resolver_config r)) (Id_WithName kind name) = Some (Some c) \<and>
     os = opts @ concat pss @ concat (map snd vs) \<and>
     list_all2 (\<lambda>i xs. \<exists>p u u'. gm_lookup (Processors (resolver_config r)) i = Some (Some p) \<and>
        opts_of p u = (Ok (Some xs), u')) (ProviderProcessors c) pss \<and>
     list_all2 (\<lambda>i x. \<exists>e u u'. gm_lookup (Exporters (resolver_config r)) i = Some e \<and>
        build e u = (Ok x, u')) (ProviderExporters c) vs \<and>
     component_at r' (Id_WithName kind name) = Map.empty(ProviderExporters c [\<mapsto>] map fst vs)"
  using assms(1)
proof (cases rule: op_cases)
  case (built c w1 opts1 comps os')
  from add_processors_Ok [OF built(3)] obtain pss where pss: "opts1 = opts @ concat pss"
    "list_all2 (\<lambda>i xs. \<exists>p u u'. gm_lookup (Processors (resolver_config r)) i = Some (Some p) \<and>
        opts_of p u = (Ok (Some xs), u')) (ProviderProcessors c) pss" by blast
  from add_exporters_Ok [OF built(4)] obtain vs where vs: "os' = opts1 @ concat (map snd vs)"
    "comps = Map.empty(ProviderExporters c [\<mapsto>] map fst vs)"
    "list_all2 (\<lambda>i x. \<exists>e u u'. gm_lookup (Exporters (resolver_config r)) i = Some e \<and>
        build e u = (Ok x, u')) (ProviderExporters c) vs" by blast
  show ?thesis
    using built pss vs
    by (intro exI [of _ c] exI [of _ pss] exI [of _ vs]) (auto simp: component_at_def fun_eq_iff)
qed (use fresh missing_absent in auto)

end

subsection \<open>The three methods are provider methods\<close>

lemma plain_kinds:
  "Id_Type ''tracer'' = ''tracer''" "Id_Type ''meter'' = ''meter''" "Id_Type ''logger'' = ''logger''"
  by code_simp+

interpretation tracer: provider_method Tracer "''tracer''" Noop TracerOpts "''not for the tracer''"
    build_span TracerValue as_tracer
proof
  fix r :: "('w, 'c, 'to, 'mo, 'lo) resolver" and name and opts :: "'to list" and w :: 'w and p
  assume c: "provider_of r (Id_WithName ''tracer'' name) = Some p"
  then show "Tracer name opts r w =
        ((case as_tracer (provider_value p) of Some (a, os) \<Rightarrow> Reply (Provider a os) None | None \<Rightarrow> Crash), r, w)"
    by (simp add: Tracer_def Let_def provider_of_made [OF c] split: provider_value.split)
next
  fix v :: "('to, 'mo, 'lo) provider_value" and a os
  show "as_tracer v = Some (a, os) \<Longrightarrow> v = TracerValue a os" by (cases v) auto
  show "value_kind v = ''tracer'' \<Longrightarrow> as_tracer v \<noteq> None" by (cases v) auto
qed (simp_all add: Tracer_def Let_def plain_kinds cong: option.case_cong prod.case_cong result.case_cong)

interpretation meter: provider_method Meter "''meter''" Noop MeterOpts "''not for the meter''"
    build_metric MeterValue as_meter
proof
  fix r :: "('w, 'c, 'to, 'mo, 'lo) resolver" and name and opts :: "'mo list" and w :: 'w and p
  assume c: "provider_of r (Id_WithName ''meter'' name) = Some p"
  then show "Meter name opts r w =
        ((case as_meter (provider_value p) of Some (a, os) \<Rightarrow> Reply (Provider a os) None | None \<Rightarrow> Crash), r, w)"
    by (simp add: Meter_def Let_def provider_of_made [OF c] split: provider_value.split)
next
  fix v :: "('to, 'mo, 'lo) provider_value" and a os
  show "as_meter v = Some (a, os) \<Longrightarrow> v = MeterValue a os" by (cases v) auto
  show "value_kind v = ''meter'' \<Longrightarrow> as_meter v \<noteq> None" by (cases v) auto
qed (simp_all add: Meter_def Let_def plain_kinds cong: option.case_cong prod.case_cong result.case_cong)

interpretation logger: provider_method Logger "''logger''" NilHandle LoggerOpts "''not for the logger''"
    build_log LoggerValue as_logger
proof
  fix r :: "('w, 'c, 'to, 'mo, 'lo) resolver" and name and opts :: "'lo list" and w :: 'w and p
  assume c: "provider_of r (Id_WithName ''logger'' name) = Some p"
  then show "Logger name opts r w =
        ((case as_logger (provider_value p) of Some (a, os) \<Rightarrow> Reply (Provider a os) None | None \<Rightarrow> Crash), r, w)"
    by (simp add: Logger_def Let_def provider_of_made [OF c] split: provider_value.split)
next
  fix v :: "('to, 'mo, 'lo) provider_value" and a os
  show "as_logger v = Some (a, os) \<Longrightarrow> v = LoggerValue a os" by (cases v) auto
  show "value_kind v = ''logger'' \<Longrightarrow> as_logger v \<noteq> None" by (cases v) auto
qed (simp_all add: Logger_def Let_def plain_kinds cong: option.case_cong prod.case_cong result.case_cong)

subsection \<open>Reachable resolvers\<close>

inductive resolver_step ::
    "('w, 'c, 'to, 'mo, 'lo) resolver \<Rightarrow> ('w, 'c, 'to, 'mo, 'lo) resolver \<Rightarrow> bool" where
  tracer_step: "Tracer name opts r w = (rep, r', w') \<Longrightarrow> resolver_step r r'"
| meter_step: "Meter name opts' r w = (rep', r', w') \<Longrightarrow> resolver_step r r'"
| logger_step: "Logger name opts'' r w = (rep'', r', w') \<Longrightarrow> resolver_step r r'"

inductive_cases resolver_stepE: "resolver_step r r'"

definition resolver_reachable ::
    "('w, 'c, 'to, 'mo, 'lo) resolver \<Rightarrow> ('w, 'c, 'to, 'mo, 'lo) resolver \<Rightarrow> bool" where
  "resolver_reachable = resolver_step\<^sup>*\<^sup>*"

lemma step_config: "resolver_step r r' \<Longrightarrow> resolver_config r' = resolver_config r"
  by (erule resolver_stepE) (rule tracer.config_same meter.config_same logger.config_same, assumption)+

lemma step_keeps: "resolver_step r r' \<Longrightarrow> provider_of r i = Some p \<Longrightarrow> provider_of r' i = Some p"
  by (erule resolver_stepE) (erule tracer.keeps meter.keeps logger.keeps, assumption)+

lemma step_inv: "resolver_step r r' \<Longrightarrow> resolver_inv r \<Longrightarrow> resolver_inv r'"
  by (erule resolver_stepE) (erule (1) tracer.inv_step meter.inv_step logger.inv_step)+

lemma reachable_keeps:
  "resolver_reachable r r' \<Longrightarrow> provider_of r i = Some p \<Longrightarrow> provider_of r' i = Some p"
  unfolding resolver_reachable_def by (induction rule: rtranclp_induct) (auto intro: step_keeps)

lemma reachable_config: "resolver_reachable r r' \<Longrightarrow> resolver_config r' = resolver_config r"
  unfolding resolver_reachable_def by (induction rule: rtranclp_induct) (auto dest: step_config)

lemma reachable_inv: "resolver_reachable r r' \<Longrightarrow> resolver_inv r \<Longrightarrow> resolver_inv r'"
  unfolding resolver_reachable_def by (induction rule: rtranclp_induct) (auto intro: step_inv)

lemma Make_inv: "resolver_inv (Make dp de c)"
  by (simp add: Make_def Let_def resolver_inv_def)

lemma reachable_step: "resolver_reachable r r' \<Longrightarrow> resolver_step r' r'' \<Longrightarrow> resolver_reachable r r''"
  unfolding resolver_reachable_def by auto

end
