(* ===== verification/Resolver_Properties.thy ===== *)
theory Resolver_Properties
  imports Resolver_Providers
begin

section \<open>Properties of the resolver\<close>

text \<open>
  The properties of the provider methods and of the whole lifecycle, over the lemmas of
  \<open>provider_method\<close>, with a small configuration on which their hypotheses hold.
\<close>

subsection \<open>A configuration to run\<close>

text \<open>An exporter that answers every method with the component and option \<open>n\<close>; the world
  counts the components built.\<close>

definition sample_exporter :: "nat \<Rightarrow> (nat, nat, nat, nat, nat) exporter_config" where
  "sample_exporter n =
     \<lparr>SpanExporter = (\<lambda>w. (Ok (n, [n]), Suc w)), MetricExporter = (\<lambda>w. (Err ErrUnimplemented, w)),
      MetricReader = (\<lambda>w. (Ok (n, [n]), Suc w)), LogExporter = (\<lambda>w. (Ok (n, [n]), Suc w))\<rparr>"

definition sample_config :: "(nat, nat, nat, nat, nat) resolver_config" where
  "sample_config =
     \<lparr>Enabled = Some True, ProcessorRegistry = None, ExporterRegistry = None,
      Processors = None,
      Exporters = Some [''otlp'' \<mapsto> Some (sample_exporter 1), ''debug'' \<mapsto> Some (sample_exporter 2)],
      Providers = Some
        [''tracer'' \<mapsto> Some \<lparr>ProviderProcessors = [], ProviderExporters = [''otlp'', ''debug'']\<rparr>,
         ''tracer/x'' \<mapsto> Some \<lparr>ProviderProcessors = [], ProviderExporters = [''debug'', ''debug'']\<rparr>,
         ''meter'' \<mapsto> Some \<lparr>ProviderProcessors = [''gone''], ProviderExporters = []\<rparr>]\<rparr>"

definition sample_resolver :: "(nat, nat, nat, nat, nat) resolver" where
  "sample_resolver = Make None None (Some sample_config)"

definition sample_traced :: "(nat, nat, nat, nat, nat) resolver" where
  "sample_traced = fst (snd (Tracer [] [] sample_resolver 0))"

lemma sample_ids:
  "Id_WithName ''tracer'' [] = ''tracer''" "Id_WithName ''tracer'' ''x'' = ''tracer/x''"
  "Id_WithName ''meter'' [] = ''meter''" "Id_WithName ''logger'' [] = ''logger''"
  by code_simp+

lemma sample_Tracer:
  "Tracer [] [] sample_resolver 0 =
     (Reply (Provider 0 [1, 2]) None,
      sample_resolver\<lparr>resolver_providers := Some
        [''tracer'' \<mapsto> \<lparr>provider_value = TracerValue 0 [1, 2],
           provider_components = [''otlp'' \<mapsto> 1, ''debug'' \<mapsto> 2]\<rparr>],
        allocs := 1\<rparr>, 2)"
  by (simp add: Tracer_def sample_resolver_def Make_def sample_config_def
      Config_IsEnabled_def ensure_providers_def sample_ids sample_exporter_def store_provider_def Let_def)

lemma sample_traced_simps:
  "sample_traced = sample_resolver\<lparr>resolver_providers := Some
      [''tracer'' \<mapsto> \<lparr>provider_value = TracerValue 0 [1, 2],
         provider_components = [''otlp'' \<mapsto> 1, ''debug'' \<mapsto> 2]\<rparr>], allocs := 1\<rparr>"
  by (simp add: sample_traced_def sample_Tracer)

lemma sample_reachable: "resolver_reachable sample_resolver sample_traced"
proof -
  have "resolver_step sample_resolver sample_traced"
    by (rule resolver_step.tracer_step [of "[]" "[]" _ 0]) (simp add: sample_Tracer sample_traced_simps)
  then show ?thesis by (simp add: resolver_reachable_def)
qed



subsection \<open>Caching\<close>

text \<open>C5: a provider that \<open>Tracer\<close> returned without error is the provider of its name for
  the life of the resolver: after any further calls, a call with that name answers the same
  object with a nil error, whatever options it passes, and neither builds anything nor
  changes the resolver. The same holds for \<open>Meter\<close> and \<open>Logger\<close>.\<close>

theorem provider_cached:
  assumes "resolver_reachable r1 r2"
  shows "(Tracer name topts r w = (Reply (Provider a tos) None, r1, w1) \<longrightarrow>
      Tracer name topts' r2 w2 = (Reply (Provider a tos) None, r2, w2)) \<and>
    (Meter name mopts r w = (Reply (Provider a mos) None, r1, w1) \<longrightarrow>
      Meter name mopts' r2 w2 = (Reply (Provider a mos) None, r2, w2)) \<and>
    (Logger name lopts r w = (Reply (Provider a los) None, r1, w1) \<longrightarrow>
      Logger name lopts' r2 w2 = (Reply (Provider a los) None, r2, w2))"
  using tracer.stored [of name topts r w a tos r1 w1] meter.stored [of name mopts r w a mos r1 w1]
    logger.stored [of name lopts r w a los r1 w1] reachable_keeps [OF assms]
  by (intro conjI impI) (blast intro: tracer.from_cache meter.from_cache logger.from_cache)+

lemma provider_cached_witness:
  "Tracer [] [7] sample_traced 9 = (Reply (Provider 0 [1, 2]) None, sample_traced, 9)"
  using provider_cached [of sample_traced sample_traced "[]" "[]" sample_resolver 0 0 "[1, 2]" 2 "[7]" 9]
  by (simp add: resolver_reachable_def sample_Tracer sample_traced_simps)


lemma sample_Tracer_x:
  "Tracer ''x'' [] sample_traced 3 =
     (Reply (Provider 1 [2, 2]) None,
      sample_resolver\<lparr>resolver_providers := Some
        [''tracer'' \<mapsto> \<lparr>provider_value = TracerValue 0 [1, 2],
           provider_components = [''otlp'' \<mapsto> 1, ''debug'' \<mapsto> 2]\<rparr>,
         ''tracer/x'' \<mapsto> \<lparr>provider_value = TracerValue 1 [2, 2],
           provider_components = [''debug'' \<mapsto> 2]\<rparr>],
        allocs := 2\<rparr>, 5)"
  by (simp add: Tracer_def sample_traced_simps sample_resolver_def Make_def sample_config_def
      Config_IsEnabled_def ensure_providers_def sample_ids sample_exporter_def store_provider_def Let_def
      numeral_2_eq_2)


subsection \<open>Failed calls\<close>

text \<open>C26: a call that fails or panics leaves the set of providers as it was, so it neither
  registers a half-built provider nor hides the failure from the next call, which tries
  again. The exporters such a call has already built are therefore reachable from no provider:
  no \<open>Shutdown\<close> will close them.\<close>

theorem failed_call_leaves_no_trace:
  assumes "\<And>a os. trep \<noteq> Reply (Provider a os) None" "\<And>a os. mrep \<noteq> Reply (Provider a os) None"
    "\<And>a os. lrep \<noteq> Reply (Provider a os) None"
  shows "(Tracer name topts r w = (trep, r', w') \<longrightarrow>
        provider_of r' = provider_of r \<and> component_at r' = component_at r) \<and>
     (Meter name mopts r w = (mrep, r', w') \<longrightarrow>
        provider_of r' = provider_of r \<and> component_at r' = component_at r) \<and>
     (Logger name lopts r w = (lrep, r', w') \<longrightarrow>
        provider_of r' = provider_of r \<and> component_at r' = component_at r)"
proof -
  have "component_at r' = component_at r" if "provider_of r' = provider_of r"
    using that by (simp add: component_at_def fun_eq_iff)
  then show ?thesis
    using assms
    by (meson tracer.failure_leaves_no_trace meter.failure_leaves_no_trace logger.failure_leaves_no_trace)
qed

lemma sample_Meter:
  "Meter [] [] sample_resolver 0 =
     (Reply Noop (Some (Wrapf ''processor %q: %w'' [''gone''] (Errorf ''not found'' []))), sample_resolver, 0)"
  by (simp add: Meter_def sample_resolver_def Make_def sample_config_def Id_String_def
      Config_IsEnabled_def ensure_providers_def sample_ids Let_def)

lemma failed_call_leaves_no_trace_witness:
  "provider_of (fst (snd (Meter [] [] sample_resolver 0))) = provider_of sample_resolver"
  using failed_call_leaves_no_trace [of Crash "fst (Meter [] [] sample_resolver 0)" Crash "[]" "[]"
      sample_resolver 0 "fst (snd (Meter [] [] sample_resolver 0))" "snd (snd (Meter [] [] sample_resolver 0))"
      "[]" "[]"]
  by (simp add: sample_Meter)

subsection \<open>Contents of a provider\<close>

text \<open>A provider stored under \<open>i\<close> is assembled from the configuration of \<open>i\<close>: its options
  are the caller's, then those of the configured processors, then those of the exporters,
  in configuration order, and its components are the exporters under their ids.\<close>

definition assembled ::
    "(('w, 'to, 'mo, 'lo) processor_config \<Rightarrow> 'w \<Rightarrow> 'o list option result \<times> 'w) \<Rightarrow>
     (('w, 'c, 'to, 'mo, 'lo) exporter_config option \<Rightarrow> 'w \<Rightarrow> ('c \<times> 'o list) result \<times> 'w) \<Rightarrow>
     Id \<Rightarrow> 'o list \<Rightarrow> ('w, 'c, 'to, 'mo, 'lo) resolver \<Rightarrow> ('w, 'c, 'to, 'mo, 'lo) resolver \<Rightarrow> 'o list \<Rightarrow> bool" where
  "assembled opts_of build i opts r r' os \<longleftrightarrow>
     (\<exists>c pss vs. gm_lookup (Providers (resolver_config r)) i = Some (Some c) \<and>
        os = opts @ concat pss @ concat (map snd vs) \<and>
        list_all2 (\<lambda>j xs. \<exists>p u u'. gm_lookup (Processors (resolver_config r)) j = Some (Some p) \<and>
           opts_of p u = (Ok (Some xs), u')) (ProviderProcessors c) pss \<and>
        list_all2 (\<lambda>j x. \<exists>e u u'. gm_lookup (Exporters (resolver_config r)) j = Some e \<and>
           build e u = (Ok x, u')) (ProviderExporters c) vs \<and>
        component_at r' i = Map.empty(ProviderExporters c [\<mapsto>] map fst vs))"

lemma assembled_dom:
  assumes "assembled opts_of build i opts r r' os"
  shows "\<exists>c. gm_lookup (Providers (resolver_config r)) i = Some (Some c) \<and>
     dom (component_at r' i) = set (ProviderExporters c)"
  using assms by (auto simp: assembled_def dest!: list_all2_lengthD)

lemmas assembled_provider =
  tracer.contents [folded assembled_def] meter.contents [folded assembled_def]
  logger.contents [folded assembled_def]


lemma sample_fresh:
  "provider_of sample_resolver i = None"
  "resolver_config sample_resolver = sample_config\<lparr>Processors := Some Map.empty\<rparr>"
  by (simp_all add: sample_resolver_def Make_def sample_config_def Config_IsEnabled_def)


text \<open>The resolver keeps one component for each exporter of a provider exactly when the
  configuration lists no exporter twice. An id listed twice is built twice and registered with
  the SDK twice, but the first component is overwritten: \<open>Start\<close> and \<open>Shutdown\<close> never
  reach it.\<close>

theorem repeated_exporter_is_lost:
  assumes "provider_of r (Id_WithName ''tracer'' name) = None"
    and "Tracer name opts r w = (Reply (Provider a os) None, r', w')"
    and "gm_lookup (Providers (resolver_config r)) (Id_WithName ''tracer'' name) = Some (Some c)"
  shows "card (dom (component_at r' (Id_WithName ''tracer'' name))) = length (ProviderExporters c) \<longleftrightarrow>
     distinct (ProviderExporters c)"
  using assembled_dom [OF assembled_provider(1) [OF assms(2,1)]] assms(3)
  by (auto simp: distinct_card card_distinct)

lemma sample_fresh_x:
  "provider_of sample_traced ''tracer/x'' = None"
  "gm_lookup (Providers (resolver_config sample_traced)) ''tracer/x'' =
     Some (Some \<lparr>ProviderProcessors = [], ProviderExporters = [''debug'', ''debug'']\<rparr>)"
  by (simp_all add: sample_traced_simps sample_fresh sample_config_def)

lemma repeated_exporter_is_lost_witness:
  "card (dom (component_at (fst (snd (Tracer ''x'' [] sample_traced 3))) ''tracer/x'')) \<noteq> 2"
  using repeated_exporter_is_lost [of sample_traced "''x''", unfolded sample_ids,
      OF sample_fresh_x(1) sample_Tracer_x sample_fresh_x(2)]
  by (simp add: sample_Tracer_x del: One_nat_def)

subsection \<open>From construction to shutdown\<close>



text \<open>The world logs what was shut down; every component has both methods.\<close>

definition sample_lifecycle :: "(nat, nat) lifecycle" where
  "sample_lifecycle =
     \<lparr>has_Start = (\<lambda>c. True), call_Start = (\<lambda>c w. (if c = 2 then Some ErrNotExist else None, Suc w)),
      has_Shutdown = (\<lambda>c. True), call_Shutdown = (\<lambda>c w. (None, Suc w))\<rparr>"

definition sample_order :: "(Id \<times> (Id \<times> nat) list) list" where
  "sample_order = [(''tracer'', [(''otlp'', 1), (''debug'', 2)])]"

lemma sample_visits: "visits sample_order sample_traced"
  by (auto simp: visits_def sample_order_def sample_traced_simps enumerates_def fun_eq_iff)



lemma Resolver_Start_all_or_nothing_witness:
  "fst (Resolver_Start sample_lifecycle sample_order 0) =
     Some (Wrapf ''provider[%q].component[%q]: %w'' [''tracer'', ''debug''] ErrNotExist) \<and>
   running (fst (snd (Resolver_Start sample_lifecycle sample_order 0))) {} = {}"
  using Resolver_Start_all_or_nothing [OF sample_visits, of sample_lifecycle 0
      "fst (Resolver_Start sample_lifecycle sample_order 0)"
      "fst (snd (Resolver_Start sample_lifecycle sample_order 0))"
      "snd (snd (Resolver_Start sample_lifecycle sample_order 0))"]
  by (simp add: Resolver_Start_def sample_order_def sample_lifecycle_def visit_def)

lemma Resolver_Shutdown_complete_witness:
  "map call_key (fst (snd (Resolver_Shutdown sample_lifecycle sample_order 0))) =
     [(''tracer'', ''otlp''), (''tracer'', ''debug'')] \<and>
   fst (Resolver_Shutdown sample_lifecycle sample_order 0) = None"
  using Resolver_Shutdown_complete [OF sample_visits, of sample_lifecycle 0
      "fst (Resolver_Shutdown sample_lifecycle sample_order 0)"
      "fst (snd (Resolver_Shutdown sample_lifecycle sample_order 0))"
      "snd (snd (Resolver_Shutdown sample_lifecycle sample_order 0))"]
  by (simp add: Resolver_Shutdown_def sample_order_def sample_lifecycle_def visit_def errors_Join_Some)

subsection \<open>Providers that are not configured\<close>

text \<open>With no configuration, or a disabled one, no provider can be obtained: every name of
  every kind answers \<open>ErrNotExist\<close> and nothing is stored. What comes with that error is the
  no-op provider for a tracer and a meter, but a nil provider for a logger, on which the next
  call panics.\<close>

theorem disabled_resolver:
  assumes "case c of None \<Rightarrow> True | Some c \<Rightarrow> \<not> Config_IsEnabled c" and "r = Make dp de c"
  shows "Tracer name topts r w = (Reply Noop (Some ErrNotExist), r, w) \<and>
     Meter name mopts r w = (Reply Noop (Some ErrNotExist), r, w) \<and>
     Logger name lopts r w = (Reply NilHandle (Some ErrNotExist), r, w)"
proof -
  have "resolver_providers r = Some Map.empty" "Providers (resolver_config r) = Some Map.empty"
    using assms by (auto simp: Make_def NewConfig_def Let_def split: option.splits)
  then show ?thesis
    by (simp add: Tracer_def Meter_def Logger_def Let_def ensure_providers_def)
qed

lemma disabled_resolver_witness:
  "Logger [] [] (Make None None (Some (sample_config\<lparr>Enabled := Some False\<rparr>))) (0::nat) =
     (Reply NilHandle (Some ErrNotExist), Make None None (Some (sample_config\<lparr>Enabled := Some False\<rparr>)), 0)"
  using disabled_resolver [of "Some (sample_config\<lparr>Enabled := Some False\<rparr>)" _ None None "[]" "[]" 0 "[]" "[]"]
  by (simp add: Config_IsEnabled_def)

subsection \<open>Panics\<close>

definition calm_processors ::
    "('p \<Rightarrow> 'w \<Rightarrow> 'o list option result \<times> 'w) \<Rightarrow> (Id, 'p option) gomap \<Rightarrow> bool" where
  "calm_processors opts_of ps \<longleftrightarrow>
     (\<forall>i p u. gm_lookup ps i = Some (Some p) \<longrightarrow> fst (opts_of p u) \<noteq> Panics)"

definition calm_exporters ::
    "('e option \<Rightarrow> 'w \<Rightarrow> ('c \<times> 'o list) result \<times> 'w) \<Rightarrow> (Id, 'e option) gomap \<Rightarrow> bool" where
  "calm_exporters build es \<longleftrightarrow> (\<forall>i e u. gm_lookup es i = Some e \<longrightarrow> fst (build e u) \<noteq> Panics)"

lemma add_processors_calm:
  "calm_processors opts_of ps \<Longrightarrow> fst (add_processors ps opts_of what is opts w) \<noteq> Panics"
proof (induction ps opts_of what "is" opts w rule: add_processors.induct)
  case (2 ps opts_of what i "is" opts w)
  have "fst (opts_of c w) \<noteq> Panics" if "gm_lookup ps i = Some (Some c)" for c
    using "2.prems" that by (auto simp: calm_processors_def)
  with 2 show ?case
    by (auto split: option.splits prod.splits result.splits)
qed simp

lemma add_exporters_calm:
  "calm_exporters build es \<Longrightarrow> fst (add_exporters es build is acc w) \<noteq> Panics"
proof (induction es build "is" acc w rule: add_exporters.induct)
  case (2 es build i "is" comps opts w)
  have "fst (build c w) \<noteq> Panics" if "gm_lookup es i = Some c" for c
    using "2.prems" that by (auto simp: calm_exporters_def)
  with 2 show ?case
    by (auto split: option.splits prod.splits result.splits)
qed simp

context provider_method begin

lemma crash_iff:
  assumes "resolver_inv r"
    and "calm_processors opts_of (Processors (resolver_config r))"
    and "calm_exporters build (Exporters (resolver_config r))"
  shows "fst (op name opts r w) = Crash \<longleftrightarrow>
     provider_of r (Id_WithName kind name) = None \<and>
     gm_lookup (Providers (resolver_config r)) (Id_WithName kind name) = Some None"
proof (cases "provider_of r (Id_WithName kind name)")
  case None
  show ?thesis
    using op_fresh [OF None, of opts w] None
      add_processors_calm [OF assms(2)] add_exporters_calm [OF assms(3)]
    by (auto split: option.split prod.split result.split) (metis fst_conv)+
next
  case (Some p)
  with no_assertion_fails [OF assms(1) Some, of opts w] show ?thesis by auto
qed

end




end
