(* ===== verification/Writers.thy ===== *)
theory Writers
  imports Go_Prelude
begin

section \<open>Writers (io.go)\<close>

text \<open>
  The writers of the exporters: a reference-counted writer shared by everybody who opens it,
  a writer that fans out to several, and the store of named outputs. A handle \<open>'h\<close> names an
  \<open>io.WriteCloser\<close>; what writing and closing it does to the world \<open>'w\<close> is the record
  \<open>writer_ops\<close>. The mutex of the shared writer makes its three operations atomic, so each
  is one step. \<open>os.OpenFile\<close> is a parameter.
\<close>

type_synonym ('h, 'w) opener = "'w \<Rightarrow> 'h result \<times> 'w"

record ('h, 'w) writer_ops =
  op_Write :: "'h \<Rightarrow> string \<Rightarrow> 'w \<Rightarrow> (int \<times> goerror option) \<times> 'w"
  op_Close :: "'h \<Rightarrow> 'w \<Rightarrow> goerror option \<times> 'w"

text \<open>\<open>NopCloser\<close> keeps \<open>Write\<close> and closes nothing.\<close>

definition NopCloser ::
    "('h \<Rightarrow> string \<Rightarrow> 'w \<Rightarrow> (int \<times> goerror option) \<times> 'w) \<Rightarrow> ('h, 'w) writer_ops" where
  "NopCloser wr = \<lparr>op_Write = wr, op_Close = (\<lambda>h w. (None, w))\<rparr>"

subsection \<open>The shared writer\<close>

record 'h shared_writer =
  shared_w :: "'h option"
  shared_n :: int

definition new_shared :: "'h shared_writer" where
  "new_shared = \<lparr>shared_w = None, shared_n = 0\<rparr>"

text \<open>The function that \<open>NewSharedWriter\<close> returns; its result is the shared writer itself.\<close>

definition shared_Open ::
    "('h, 'w) opener \<Rightarrow> 'h shared_writer \<Rightarrow> 'w \<Rightarrow> unit result \<times> 'h shared_writer \<times> 'w" where
  "shared_Open open v w =
     (let v = v\<lparr>shared_n := shared_n v + 1\<rparr> in
      if 1 < shared_n v then (Ok (), v, w)
      else (case open w of
              (Err e, w') \<Rightarrow> (Err e, v\<lparr>shared_n := shared_n v - 1\<rparr>, w')
            | (Panics, w') \<Rightarrow> (Panics, v, w')
            | (Ok h, w') \<Rightarrow> (Ok (), v\<lparr>shared_w := Some h\<rparr>, w')))"

text \<open>Writing to or closing the nil interface \<open>s.w\<close> panics.\<close>

definition sharedWriter_Write ::
    "('h, 'w) writer_ops \<Rightarrow> 'h shared_writer \<Rightarrow> string \<Rightarrow> 'w \<Rightarrow> (int \<times> goerror option) result \<times> 'w" where
  "sharedWriter_Write ops s p w =
     (case shared_w s of
        None \<Rightarrow> (Panics, w)
      | Some h \<Rightarrow> (case op_Write ops h p w of (r, w') \<Rightarrow> (Ok r, w')))"

definition sharedWriter_Close ::
    "('h, 'w) writer_ops \<Rightarrow> 'h shared_writer \<Rightarrow> 'w \<Rightarrow> goerror option result \<times> 'h shared_writer \<times> 'w" where
  "sharedWriter_Close ops s w =
     (let s = s\<lparr>shared_n := shared_n s - 1\<rparr> in
      if shared_n s = 0 then
        (case shared_w s of
           None \<Rightarrow> (Panics, s, w)
         | Some h \<Rightarrow> (case op_Close ops h w of (r, w') \<Rightarrow> (Ok r, s, w')))
      else (Ok None, s, w))"

subsection \<open>Several writers as one\<close>

fun MultiWriteCloser_Write ::
    "('h, 'w) writer_ops \<Rightarrow> 'h list \<Rightarrow> string \<Rightarrow> 'w \<Rightarrow> (int \<times> goerror option) \<times> 'w" where
  "MultiWriteCloser_Write ops [] p w = ((int (length p), None), w)"
| "MultiWriteCloser_Write ops (h # hs) p w =
     (case op_Write ops h p w of
        ((n, Some e), w') \<Rightarrow> ((n, Some e), w')
      | ((n, None), w') \<Rightarrow>
          if n \<noteq> int (length p) then ((n, Some (Foreign ''short write'')), w')
          else MultiWriteCloser_Write ops hs p w')"

fun close_loop ::
    "('h, 'w) writer_ops \<Rightarrow> goerror option \<Rightarrow> 'h list \<Rightarrow> 'w \<Rightarrow> goerror option \<times> 'w" where
  "close_loop ops err [] w = (err, w)"
| "close_loop ops err (h # hs) w =
     (case op_Close ops h w of
        (e, w') \<Rightarrow> close_loop ops (if e \<noteq> None \<and> err = None then e else err) hs w')"

definition MultiWriteCloser_Close ::
    "('h, 'w) writer_ops \<Rightarrow> 'h list \<Rightarrow> 'w \<Rightarrow> goerror option \<times> 'w" where
  "MultiWriteCloser_Close ops hs w = close_loop ops None hs w"

subsection \<open>The store of outputs\<close>

type_synonym ('h, 'w) output_store = "(string, ('h, 'w) opener) gomap"

definition OutputStore_Open ::
    "(string \<Rightarrow> ('h, 'w) opener) \<Rightarrow> ('h, 'w) output_store \<Rightarrow> string \<Rightarrow> 'w \<Rightarrow>
     'h result \<times> ('h, 'w) output_store \<times> 'w" where
  "OutputStore_Open os_open outs p w =
     (case gm_lookup outs p of
        Some open \<Rightarrow> (case open w of (r, w') \<Rightarrow> (r, outs, w'))
      | None \<Rightarrow>
          (case gm_store outs p (os_open p) of
             Ok outs' \<Rightarrow> (case os_open p w of (r, w') \<Rightarrow> (r, outs', w'))
           | Err e \<Rightarrow> (Err e, outs, w)
           | Panics \<Rightarrow> (Panics, outs, w)))"

fun open_loop ::
    "(string \<Rightarrow> ('h, 'w) opener) \<Rightarrow> ('h, 'w) writer_ops \<Rightarrow> ('h, 'w) output_store \<Rightarrow> 'h list \<Rightarrow>
     string list \<Rightarrow> 'w \<Rightarrow> 'h list result \<times> ('h, 'w) output_store \<times> 'w" where
  "open_loop os_open ops outs ws [] w = (Ok ws, outs, w)"
| "open_loop os_open ops outs ws (p # ps) w =
     (case OutputStore_Open os_open outs p w of
        (Err e, outs', w') \<Rightarrow>
          (case MultiWriteCloser_Close ops ws w' of
             (_, w'') \<Rightarrow> (Err (Wrapf ''open %q: %w'' [p] e), outs', w''))
      | (Panics, outs', w') \<Rightarrow> (Panics, outs', w')
      | (Ok h, outs', w') \<Rightarrow> open_loop os_open ops outs' (ws @ [h]) ps w')"

definition OutputStore_OpenAll ::
    "(string \<Rightarrow> ('h, 'w) opener) \<Rightarrow> ('h, 'w) writer_ops \<Rightarrow> ('h, 'w) output_store \<Rightarrow> string list \<Rightarrow> 'w \<Rightarrow>
     'h list result \<times> ('h, 'w) output_store \<times> 'w" where
  "OutputStore_OpenAll os_open ops outs paths w = open_loop os_open ops outs [] paths w"

subsection \<open>Watching the calls\<close>

text \<open>An opener and writer operations that also log what was called on which handle. They
  are used in statements only.\<close>

datatype 'h io_call = Opened 'h | OpenFailed | Wrote 'h string | Closed 'h

definition logged_open :: "('h, 'w) opener \<Rightarrow> ('h, 'w \<times> 'h io_call list) opener" where
  "logged_open open = (\<lambda>(w, log).
     case open w of
       (Ok h, w') \<Rightarrow> (Ok h, (w', log @ [Opened h]))
     | (r, w') \<Rightarrow> (r, (w', log @ [OpenFailed])))"

definition logged_ops :: "('h, 'w) writer_ops \<Rightarrow> ('h, 'w \<times> 'h io_call list) writer_ops" where
  "logged_ops ops =
     \<lparr>op_Write = (\<lambda>h p (w, log). case op_Write ops h p w of (r, w') \<Rightarrow> (r, (w', log @ [Wrote h p]))),
      op_Close = (\<lambda>h (w, log). case op_Close ops h w of (r, w') \<Rightarrow> (r, (w', log @ [Closed h])))\<rparr>"

definition logged_store :: "('h, 'w) output_store \<Rightarrow> ('h, 'w \<times> 'h io_call list) output_store" where
  "logged_store = map_option (\<lambda>m p. map_option logged_open (m p))"

lemma logged_open_apply:
  "logged_open open (w, log) =
     (case open w of
       (Ok h, w') \<Rightarrow> (Ok h, (w', log @ [Opened h]))
     | (r, w') \<Rightarrow> (r, (w', log @ [OpenFailed])))"
  by (simp add: logged_open_def)

lemma logged_ops_apply [simp]:
  "op_Write (logged_ops ops) h p (w, log) =
     (fst (op_Write ops h p w), (snd (op_Write ops h p w), log @ [Wrote h p]))"
  "op_Close (logged_ops ops) h (w, log) =
     (fst (op_Close ops h w), (snd (op_Close ops h w), log @ [Closed h]))"
  by (simp_all add: logged_ops_def split: prod.split)

lemma logged_store_lookup [simp]:
  "gm_lookup (logged_store outs) p = map_option logged_open (gm_lookup outs p)"
  by (cases outs) (simp_all add: logged_store_def)

subsection \<open>The life of a shared writer\<close>

text \<open>\<open>track\<close> reads a log as the behaviour of one handle slot: it is opened only when
  nothing is open, and only the open handle is written and closed. The result is the handle
  left open, or \<open>None\<close> when the log breaks this discipline.\<close>

fun track :: "'h option \<Rightarrow> 'h io_call list \<Rightarrow> 'h option option" where
  "track s [] = Some s"
| "track None (Opened h # cs) = track (Some h) cs"
| "track None (OpenFailed # cs) = track None cs"
| "track (Some h) (Wrote h' p # cs) = (if h = h' then track (Some h) cs else None)"
| "track (Some h) (Closed h' # cs) = (if h = h' then track None cs else None)"
| "track s cs = None"

lemma track_append:
  "track s (xs @ ys) = (case track s xs of None \<Rightarrow> None | Some s' \<Rightarrow> track s' ys)"
  by (induction s xs rule: track.induct) auto

text \<open>A step of the clients: the state is the shared writer, the number \<open>k\<close> of handles given
  out and not yet closed, and the world. Only a holder writes or closes.\<close>

inductive shared_step ::
    "('h, 'w) opener \<Rightarrow> ('h, 'w) writer_ops \<Rightarrow> 'h shared_writer \<times> nat \<times> 'w \<Rightarrow>
     'h shared_writer \<times> nat \<times> 'w \<Rightarrow> bool"
  for open' :: "('h, 'w) opener" and ops :: "('h, 'w) writer_ops" where
  opened: "shared_Open open' v w = (Ok (), v', w') \<Longrightarrow> shared_step open' ops (v, k, w) (v', Suc k, w')"
| refused: "shared_Open open' v w = (Err e, v', w') \<Longrightarrow> shared_step open' ops (v, k, w) (v', k, w')"
| written: "0 < k \<Longrightarrow> sharedWriter_Write ops v p w = (r, w') \<Longrightarrow> shared_step open' ops (v, k, w) (v, k, w')"
| closed: "sharedWriter_Close ops v w = (r', v', w') \<Longrightarrow> shared_step open' ops (v, Suc k, w) (v', k, w')"

inductive_cases shared_stepE: "shared_step open' ops (v, k, w) (v', k', w')"

definition shared_reachable ::
    "('h, 'w) opener \<Rightarrow> ('h, 'w) writer_ops \<Rightarrow> 'w \<Rightarrow> 'h shared_writer \<times> nat \<times> 'w \<Rightarrow> bool" where
  "shared_reachable open' ops w = (shared_step open' ops)\<^sup>*\<^sup>* (new_shared, 0, w)"

definition shared_inv :: "'h shared_writer \<times> nat \<times> 'w \<times> 'h io_call list \<Rightarrow> bool" where
  "shared_inv = (\<lambda>(v, k, w, log).
     shared_n v = int k \<and> track None log = Some (if k = 0 then None else shared_w v) \<and>
     (0 < k \<longrightarrow> shared_w v \<noteq> None))"

lemma shared_inv_step:
  assumes "shared_step (logged_open open') (logged_ops ops) s s'" and "shared_inv s"
  shows "shared_inv s'"
  using assms
proof (cases rule: shared_step.cases)
  case (opened v w v' w' k)
  obtain x log where w: "w = (x, log)" by fastforce
  show ?thesis
    using assms(2) opened
    by (auto simp: w shared_inv_def shared_Open_def Let_def logged_open_apply track_append
        split: if_splits prod.splits result.splits)
next
  case (refused v w e v' w' k)
  obtain x log where w: "w = (x, log)" by fastforce
  show ?thesis
    using assms(2) refused
    by (auto simp: w shared_inv_def shared_Open_def Let_def logged_open_apply track_append
        split: if_splits prod.splits result.splits)
next
  case (written k v p w r w')
  obtain x log where w: "w = (x, log)" by fastforce
  show ?thesis
    using assms(2) written
    by (auto simp: w shared_inv_def sharedWriter_Write_def track_append)
next
  case (closed v w r' v' w' k)
  obtain x log where w: "w = (x, log)" by fastforce
  show ?thesis
    using assms(2) closed
    by (auto simp: w shared_inv_def sharedWriter_Close_def Let_def track_append split: if_splits)
qed

lemma shared_inv_new: "shared_inv (new_shared, 0, w, [])"
  by (simp add: shared_inv_def new_shared_def)

lemma shared_reachable_inv:
  "shared_reachable (logged_open open') (logged_ops ops) (w, []) s \<Longrightarrow> shared_inv s"
  unfolding shared_reachable_def
  by (induction rule: rtranclp_induct) (rule shared_inv_new, rule shared_inv_step)

text \<open>C4: however its clients interleave opening, writing and closing, a shared writer opens
  the underlying writer for the first holder only, closes it with the last one, never writes
  to or closes a writer that is not open, never has two open, and never panics for a holder;
  its counter is the number of holders.\<close>

theorem shared_writer_lifecycle:
  assumes "shared_reachable (logged_open open') (logged_ops ops) (w, []) (v, k, w', log)"
  shows "shared_n v = int k \<and> track None log = Some (if k = 0 then None else shared_w v) \<and>
     (0 < k \<longrightarrow> fst (sharedWriter_Write ops' v p x) \<noteq> Panics \<and> fst (sharedWriter_Close ops' v x) \<noteq> Panics)"
  using shared_reachable_inv [OF assms]
  by (auto simp: shared_inv_def sharedWriter_Write_def sharedWriter_Close_def Let_def split: prod.splits)

text \<open>A file system that hands out numbers.\<close>

definition counting_open :: "(nat, nat) opener" where
  "counting_open w = (Ok w, Suc w)"

definition quiet_ops :: "(nat, nat) writer_ops" where
  "quiet_ops = NopCloser (\<lambda>h p w. ((int (length p), None), w))"

lemma shared_two_holders:
  "shared_reachable (logged_open counting_open) (logged_ops quiet_ops) (0, [])
     (\<lparr>shared_w = Some 0, shared_n = 1\<rparr>, Suc 0, 1, [Opened 0, Wrote 0 ''x''])"
proof -
  let ?S = "shared_step (logged_open counting_open) (logged_ops quiet_ops)"
  let ?v = "\<lambda>n. \<lparr>shared_w = Some (0::nat), shared_n = n\<rparr>"
  have "?S (new_shared, 0, 0, []) (?v 1, Suc 0, 1, [Opened 0])"
    by (rule shared_step.opened) (simp add: shared_Open_def new_shared_def logged_open_apply counting_open_def)
  moreover have "?S (?v 1, Suc 0, 1, [Opened 0]) (?v 2, Suc (Suc 0), 1, [Opened 0])"
    by (rule shared_step.opened [where k = "Suc 0", simplified]) (simp add: shared_Open_def Let_def)
  moreover have "?S (?v 2, Suc (Suc 0), 1, [Opened 0]) (?v 2, Suc (Suc 0), 1, [Opened 0, Wrote 0 ''x''])"
    by (rule shared_step.written [where p = "''x''"])
      (simp_all add: sharedWriter_Write_def quiet_ops_def NopCloser_def)
  moreover have "?S (?v 2, Suc (Suc 0), 1, [Opened 0, Wrote 0 ''x'']) (?v 1, Suc 0, 1, [Opened 0, Wrote 0 ''x''])"
    by (rule shared_step.closed) (simp add: sharedWriter_Close_def)
  ultimately show ?thesis
    unfolding shared_reachable_def by (meson rtranclp.rtrancl_refl converse_rtranclp_into_rtranclp One_nat_def)
qed

lemma shared_writer_lifecycle_witness:
  "track None [Opened 0, Wrote (0::nat) ''x''] = Some (Some 0)"
  using shared_writer_lifecycle [OF shared_two_holders] by simp

subsection \<open>Opening several outputs\<close>

definition opened_handles :: "'h io_call list \<Rightarrow> 'h list" where
  "opened_handles log = List.map_filter (\<lambda>c. case c of Opened h \<Rightarrow> Some h | _ \<Rightarrow> None) log"

definition closed_handles :: "'h io_call list \<Rightarrow> 'h list" where
  "closed_handles log = List.map_filter (\<lambda>c. case c of Closed h \<Rightarrow> Some h | _ \<Rightarrow> None) log"

lemma handles_simps [simp]:
  "opened_handles [] = []" "closed_handles [] = []"
  "opened_handles (xs @ ys) = opened_handles xs @ opened_handles ys"
  "closed_handles (xs @ ys) = closed_handles xs @ closed_handles ys"
  "opened_handles (c # cs) = (case c of Opened h \<Rightarrow> [h] | _ \<Rightarrow> []) @ opened_handles cs"
  "closed_handles (c # cs) = (case c of Closed h \<Rightarrow> [h] | _ \<Rightarrow> []) @ closed_handles cs"
  by (simp_all add: opened_handles_def closed_handles_def List.map_filter_def split: io_call.split)

lemma handles_closed [simp]:
  "opened_handles (map Closed hs) = []" "closed_handles (map Closed hs) = hs"
  by (induction hs) auto

lemma close_loop_logged:
  "close_loop (logged_ops ops) err hs (w, log) = (e, w', log') \<Longrightarrow> log' = log @ map Closed hs"
proof (induction hs arbitrary: err w log)
  case (Cons h hs)
  from Cons.prems have "close_loop (logged_ops ops)
      (if fst (op_Close ops h w) \<noteq> None \<and> err = None then fst (op_Close ops h w) else err) hs
      (snd (op_Close ops h w), log @ [Closed h]) = (e, w', log')" by simp
  from Cons.IH [OF this] show ?case by simp
qed simp

lemma logged_store_None [simp]: "logged_store None = None"
  by (simp add: logged_store_def)

lemma OutputStore_Open_logged:
  assumes "OutputStore_Open (\<lambda>p. logged_open (os_open p)) (logged_store outs) p (w, log) = (r, outs', w', log')"
  shows "\<exists>outs''. outs' = logged_store outs''" and
    "case r of Ok h \<Rightarrow> log' = log @ [Opened h] | Err e \<Rightarrow> log' = log @ [OpenFailed] | Panics \<Rightarrow> True"
proof -
  have store: "outs' = logged_store outs \<or>
      gm_store (logged_store outs) p (logged_open (os_open p)) = Ok outs'"
    using assms by (auto simp: OutputStore_Open_def split: option.splits result.splits prod.splits)
  moreover have "outs' = logged_store (Some (m(p \<mapsto> os_open p)))"
    if "gm_store (logged_store outs) p (logged_open (os_open p)) = Ok outs'" "outs = Some m" for m
    using that by (auto simp: logged_store_def fun_eq_iff)
  ultimately show "\<exists>outs''. outs' = logged_store outs''"
    by (cases outs) (auto intro: logged_store_None [symmetric])
  show "case r of Ok h \<Rightarrow> log' = log @ [Opened h] | Err e \<Rightarrow> log' = log @ [OpenFailed] | Panics \<Rightarrow> True"
    using assms
    by (cases outs) (auto simp: OutputStore_Open_def logged_open_apply logged_store_def
        split: option.splits result.splits prod.splits)
qed

lemma open_loop_logged:
  "open_loop (\<lambda>p. logged_open (os_open p)) (logged_ops ops) (logged_store outs) ws ps (w, log) = (r, outs', w', log') \<Longrightarrow>
   case r of
     Ok hs \<Rightarrow> \<exists>new. hs = ws @ new \<and> log' = log @ map Opened new \<and> length new = length ps
   | Err e \<Rightarrow> \<exists>new. log' = log @ map Opened new @ [OpenFailed] @ map Closed (ws @ new) \<and> length new < length ps
   | Panics \<Rightarrow> True"
proof (induction ps arbitrary: outs ws w log)
  case (Cons p ps)
  obtain r1 o1 w1 log1 where one: "OutputStore_Open (\<lambda>p. logged_open (os_open p)) (logged_store outs) p (w, log) =
      (r1, o1, w1, log1)" using prod_cases4 by blast
  note l = OutputStore_Open_logged [OF one]
  show ?case
  proof (cases r1)
    case (Ok h)
    from l(1) obtain outs'' where "o1 = logged_store outs''" ..
    with Cons.prems one Ok have rest:
      "open_loop (\<lambda>p. logged_open (os_open p)) (logged_ops ops) (logged_store outs'') (ws @ [h]) ps (w1, log1) =
        (r, outs', w', log')" by simp
    show ?thesis
    proof (cases r)
      case (Ok hs)
      with Cons.IH [OF rest] l(2) \<open>r1 = Ok h\<close> obtain new where
        "hs = ws @ h # new" "log' = log @ map Opened (h # new)" "length new = length ps" by auto
      with Ok show ?thesis by (auto intro!: exI [of _ "h # new"])
    next
      case (Err e)
      with Cons.IH [OF rest] l(2) \<open>r1 = Ok h\<close> obtain new where
        "log' = log @ map Opened (h # new) @ [OpenFailed] @ map Closed (ws @ h # new)" "length new < length ps"
        by auto
      with Err show ?thesis by (auto intro!: exI [of _ "h # new"])
    qed simp
  next
    case (Err e)
    obtain e2 w2 log2 where c: "close_loop (logged_ops ops) None ws (w1, log1) = (e2, w2, log2)"
      using prod_cases3 by blast
    with Cons.prems one Err l(2) close_loop_logged [OF c] show ?thesis
      by (auto simp: MultiWriteCloser_Close_def intro!: exI [of _ "[]"])
  next
    case Panics
    with Cons.prems one show ?thesis by simp
  qed
qed (auto simp: prod_eq_iff)

lemma handles_opened [simp]:
  "opened_handles (map Opened hs) = hs" "closed_handles (map Opened hs) = []"
  by (induction hs) auto

lemma OpenAll_logged:
  assumes "OutputStore_OpenAll (\<lambda>p. logged_open (os_open p)) (logged_ops ops) (logged_store outs) paths (w, []) =
      (r, outs', w', log)"
  shows "case r of
      Ok hs \<Rightarrow> opened_handles log = hs \<and> closed_handles log = [] \<and> length hs = length paths
    | Err e \<Rightarrow> closed_handles log = opened_handles log \<and> length (opened_handles log) < length paths
    | Panics \<Rightarrow> True"
  using open_loop_logged [OF assms [unfolded OutputStore_OpenAll_def]]
  by (auto split: result.splits)

text \<open>C27: opening a list of outputs leaks nothing. When it succeeds the result holds exactly
  the handles that were opened, in the order of the paths, and none was closed; when one path
  cannot be opened, every handle opened for an earlier path is closed again, once.\<close>

theorem OpenAll_leaks_nothing:
  assumes "OutputStore_OpenAll (\<lambda>p. logged_open (os_open p)) (logged_ops ops) (logged_store outs) paths (w, []) =
      (r, outs', w', log)"
  shows "case r of
      Ok hs \<Rightarrow> opened_handles log = hs \<and> closed_handles log = [] \<and> length hs = length paths
    | Err e \<Rightarrow> closed_handles log = opened_handles log \<and> length (opened_handles log) < length paths
    | Panics \<Rightarrow> True"
  by (rule OpenAll_logged [OF assms])

definition no_such_file :: "string \<Rightarrow> (nat, nat) opener" where
  "no_such_file p = (if p = ''gone'' then (\<lambda>w. (Err (Foreign ''ENOENT''), w)) else counting_open)"

lemma OpenAll_leaks_nothing_witness:
  "closed_handles [Opened (0::nat), Opened 1, OpenFailed, Closed 0, Closed 1] = [0, 1]"
proof -
  have "OutputStore_OpenAll (\<lambda>p. logged_open (no_such_file p)) (logged_ops quiet_ops) (logged_store (Some Map.empty))
      [''a'', ''b'', ''gone'', ''c''] (0, []) =
    (Err (Wrapf ''open %q: %w'' [''gone''] (Foreign ''ENOENT'')),
      Some [''a'' \<mapsto> logged_open (no_such_file ''a''), ''b'' \<mapsto> logged_open (no_such_file ''b''),
        ''gone'' \<mapsto> logged_open (no_such_file ''gone'')],
      2, [Opened 0, Opened 1, OpenFailed, Closed 0, Closed 1])"
    by (simp add: OutputStore_OpenAll_def OutputStore_Open_def logged_store_def logged_open_apply
        no_such_file_def counting_open_def MultiWriteCloser_Close_def quiet_ops_def NopCloser_def)
  from OpenAll_leaks_nothing [OF this] show ?thesis by simp
qed

subsection \<open>Fanning out\<close>

lemma MultiWriteCloser_Write_prefix:
  "MultiWriteCloser_Write (logged_ops ops) hs p (w, log) = ((n, err), w', log') \<Longrightarrow>
   \<exists>done. prefix done hs \<and> log' = log @ map (\<lambda>h. Wrote h p) done \<and>
     (err = None \<longrightarrow> done = hs \<and> n = int (length p)) \<and>
     (err \<noteq> None \<longrightarrow> done \<noteq> [] \<and> (\<exists>u u' e. op_Write ops (last done) p u = ((n, e), u') \<and>
        (if e = None then n \<noteq> int (length p) \<and> err = Some (Foreign ''short write'') else err = e)))"
proof (induction hs arbitrary: w log)
  case (Cons h hs)
  obtain m e u where o: "op_Write ops h p w = ((m, e), u)" by (metis surj_pair)
  show ?case
  proof (cases "e = None \<and> m = int (length p)")
    case True
    with Cons.prems o have "MultiWriteCloser_Write (logged_ops ops) hs p (u, log @ [Wrote h p]) = ((n, err), w', log')"
      by simp
    from Cons.IH [OF this] obtain "done" where d: "prefix done hs"
      "log' = log @ map (\<lambda>h. Wrote h p) (h # done)" "err = None \<longrightarrow> done = hs \<and> n = int (length p)"
      "err \<noteq> None \<longrightarrow> done \<noteq> [] \<and> (\<exists>u u' e. op_Write ops (last done) p u = ((n, e), u') \<and>
        (if e = None then n \<noteq> int (length p) \<and> err = Some (Foreign ''short write'') else err = e))"
      by auto
    then show ?thesis by (intro exI [of _ "h # done"]) auto
  next
    case False
    with Cons.prems o have "n = m" "log' = log @ [Wrote h p]"
      "err = (if e = None then Some (Foreign ''short write'') else e)"
      by (auto split: option.splits if_splits)
    with o False show ?thesis by (intro exI [of _ "[h]"]) auto
  qed
qed auto

text \<open>A write to several writers passes the bytes to a prefix of them, each once and in
  order. It succeeds exactly when all of them took all the bytes; otherwise the last writer
  asked is the one that failed or wrote short, the others are left alone, and the count and
  the error are those of that writer (\<open>ErrShortWrite\<close> when it reported none).\<close>

theorem MultiWriteCloser_Write_outcome:
  assumes "MultiWriteCloser_Write (logged_ops ops) hs p (w, []) = ((n, err), w', log)"
  shows "\<exists>done. prefix done hs \<and> log = map (\<lambda>h. Wrote h p) done \<and>
     (err = None \<longrightarrow> done = hs \<and> n = int (length p)) \<and>
     (err \<noteq> None \<longrightarrow> done \<noteq> [] \<and> (\<exists>u u' e. op_Write ops (last done) p u = ((n, e), u') \<and>
        (if e = None then n \<noteq> int (length p) \<and> err = Some (Foreign ''short write'') else err = e)))"
  using MultiWriteCloser_Write_prefix [OF assms] by simp

definition short_ops :: "(nat, nat) writer_ops" where
  "short_ops = NopCloser (\<lambda>h p w. ((if h = 1 then 0 else int (length p), None), w))"

lemma MultiWriteCloser_Write_outcome_witness:
  "\<exists>done. prefix done [0, 1, 2] \<and> [Wrote (0::nat) ''ab'', Wrote 1 ''ab''] = map (\<lambda>h. Wrote h ''ab'') done"
proof -
  have "MultiWriteCloser_Write (logged_ops short_ops) [0, 1, 2] ''ab'' (0, []) =
      ((0, Some (Foreign ''short write'')), 0, [Wrote 0 ''ab'', Wrote 1 ''ab''])"
    by (simp add: short_ops_def NopCloser_def)
  from MultiWriteCloser_Write_outcome [OF this] show ?thesis by (elim exE conjE) (intro exI conjI)
qed

subsection \<open>Standard output and standard error\<close>

text \<open>The initial store \<open>Outputs\<close> has the two standard streams, each behind a shared writer
  of its own; \<open>'w\<close> is the file system.\<close>

datatype 'f out_handle = Stdout | Stderr | File 'f

record 'w std_world =
  stdout_writer :: "unit shared_writer"
  stderr_writer :: "unit shared_writer"
  os :: 'w

definition open_stdout :: "('f out_handle, 'w std_world) opener" where
  "open_stdout W =
     (case shared_Open (\<lambda>w. (Ok (), w)) (stdout_writer W) (os W) of
        (r, v, w) \<Rightarrow> (bindR r (\<lambda>u. Ok Stdout), W\<lparr>stdout_writer := v, os := w\<rparr>))"

definition open_stderr :: "('f out_handle, 'w std_world) opener" where
  "open_stderr W =
     (case shared_Open (\<lambda>w. (Ok (), w)) (stderr_writer W) (os W) of
        (r, v, w) \<Rightarrow> (bindR r (\<lambda>u. Ok Stderr), W\<lparr>stderr_writer := v, os := w\<rparr>))"

definition open_file :: "(string \<Rightarrow> ('f, 'w) opener) \<Rightarrow> string \<Rightarrow> ('f out_handle, 'w std_world) opener" where
  "open_file OpenFile p W =
     (case OpenFile p (os W) of (r, w) \<Rightarrow> (bindR r (\<lambda>f. Ok (File f)), W\<lparr>os := w\<rparr>))"

definition Outputs :: "('f out_handle, 'w std_world) output_store" where
  "Outputs = Some [''stdout'' \<mapsto> open_stdout, ''stderr'' \<mapsto> open_stderr]"

text \<open>Closing a handle; \<open>close_f\<close> closes a file. The standard streams are never closed,
  only their counters go down.\<close>

fun close_output ::
    "('f \<Rightarrow> 'w \<Rightarrow> goerror option \<times> 'w) \<Rightarrow> 'f out_handle \<Rightarrow> 'w std_world \<Rightarrow> goerror option \<times> 'w std_world" where
  "close_output close_f Stdout W =
     (case sharedWriter_Close (NopCloser (\<lambda>h p w. ((int (length p), None), w))) (stdout_writer W) (os W) of
        (Ok e, v, w) \<Rightarrow> (e, W\<lparr>stdout_writer := v, os := w\<rparr>)
      | (_, v, w) \<Rightarrow> (None, W\<lparr>stdout_writer := v, os := w\<rparr>))"
| "close_output close_f Stderr W =
     (case sharedWriter_Close (NopCloser (\<lambda>h p w. ((int (length p), None), w))) (stderr_writer W) (os W) of
        (Ok e, v, w) \<Rightarrow> (e, W\<lparr>stderr_writer := v, os := w\<rparr>)
      | (_, v, w) \<Rightarrow> (None, W\<lparr>stderr_writer := v, os := w\<rparr>))"
| "close_output close_f (File f) W = (case close_f f (os W) of (e, w) \<Rightarrow> (e, W\<lparr>os := w\<rparr>))"

fun write_output ::
    "('f out_handle \<Rightarrow> string \<Rightarrow> 'w \<Rightarrow> (int \<times> goerror option) \<times> 'w) \<Rightarrow>
     'f out_handle \<Rightarrow> string \<Rightarrow> 'w std_world \<Rightarrow> (int \<times> goerror option) \<times> 'w std_world" where
  "write_output wr h p W = (case wr h p (os W) of (r, w) \<Rightarrow> (r, W\<lparr>os := w\<rparr>))"

definition output_ops ::
    "('f out_handle \<Rightarrow> string \<Rightarrow> 'w \<Rightarrow> (int \<times> goerror option) \<times> 'w) \<Rightarrow>
     ('f \<Rightarrow> 'w \<Rightarrow> goerror option \<times> 'w) \<Rightarrow> ('f out_handle, 'w std_world) writer_ops" where
  "output_ops wr close_f = \<lparr>op_Write = write_output wr, op_Close = close_output close_f\<rparr>"

abbreviation stdout_count :: "'w std_world \<Rightarrow> int" where
  "stdout_count W \<equiv> shared_n (stdout_writer W)"

definition standard_store ::
    "(string \<Rightarrow> ('f, 'w) opener) \<Rightarrow> ('f out_handle, 'w std_world) output_store \<Rightarrow> bool" where
  "standard_store OpenFile outs \<longleftrightarrow>
     outs \<noteq> None \<and> gm_lookup outs ''stdout'' = Some open_stdout \<and> gm_lookup outs ''stderr'' = Some open_stderr \<and>
     (\<forall>p. p \<noteq> ''stdout'' \<longrightarrow> p \<noteq> ''stderr'' \<longrightarrow> gm_lookup outs p \<in> {None, Some (open_file OpenFile p)})"

lemma Outputs_standard: "standard_store OpenFile Outputs"
  by (simp add: standard_store_def Outputs_def)

lemma open_counts:
  "open_stdout W = (r, W') \<Longrightarrow> r = Ok Stdout \<and> stdout_count W' = stdout_count W + 1"
  "open_stderr W = (r, W') \<Longrightarrow> r = Ok Stderr \<and> stdout_count W' = stdout_count W"
  "open_file OpenFile p W = (r, W') \<Longrightarrow>
     (case r of Ok h \<Rightarrow> h \<noteq> Stdout | _ \<Rightarrow> True) \<and> stdout_count W' = stdout_count W"
  by (auto simp: open_stdout_def open_stderr_def open_file_def shared_Open_def Let_def go_result
      split: if_splits prod.splits result.splits)

lemma close_output_count:
  "close_output close_f h W = (e, W') \<Longrightarrow>
   stdout_count W' = stdout_count W - (if h = Stdout then 1 else 0)"
  by (cases h) (auto simp: sharedWriter_Close_def Let_def split: prod.splits result.splits if_splits option.splits)

lemma close_loop_count:
  "close_loop (output_ops wr close_f) err hs W = (e, W') \<Longrightarrow>
   stdout_count W' = stdout_count W - int (count_list hs Stdout)"
proof (induction hs arbitrary: err W)
  case (Cons h hs)
  obtain e1 W1 where c: "close_output close_f h W = (e1, W1)" by fastforce
  with Cons.prems have "close_loop (output_ops wr close_f) (if e1 \<noteq> None \<and> err = None then e1 else err) hs W1 = (e, W')"
    by (simp add: output_ops_def)
  from Cons.IH [OF this] close_output_count [OF c] show ?case by simp
qed simp

lemma OutputStore_Open_counts:
  assumes "standard_store OpenFile outs"
    and "OutputStore_Open (open_file OpenFile) outs p W = (r, outs', W')"
  shows "standard_store OpenFile outs'" and
    "stdout_count W' = stdout_count W + (if p = ''stdout'' then 1 else 0)" and
    "r = Ok h \<Longrightarrow> h = Stdout \<longleftrightarrow> p = ''stdout''" and "p = ''stdout'' \<Longrightarrow> r = Ok Stdout"
proof -
  obtain m where m: "outs = Some m" using assms(1) by (auto simp: standard_store_def)
  let ?op = "case m p of None \<Rightarrow> open_file OpenFile p | Some q \<Rightarrow> q"
  have o: "?op W = (r, W')" and st: "outs' = outs \<or> m p = None \<and> outs' = Some (m(p \<mapsto> open_file OpenFile p))"
    using assms(2) m by (auto simp: OutputStore_Open_def split: option.splits prod.splits)
  have named: "m ''stdout'' = Some open_stdout" "m ''stderr'' = Some open_stderr"
    and other: "q \<noteq> ''stdout'' \<Longrightarrow> q \<noteq> ''stderr'' \<Longrightarrow> m q \<in> {None, Some (open_file OpenFile q)}" for q
    using assms(1) m by (simp_all add: standard_store_def)
  show "standard_store OpenFile outs'"
  proof (cases "outs' = outs")
    case False
    with st have n: "m p = None" and o': "outs' = Some (m(p \<mapsto> open_file OpenFile p))" by simp_all
    from n named have "p \<noteq> ''stdout''" "p \<noteq> ''stderr''" by (metis option.distinct(1))+
    with named other o' show ?thesis by (simp add: standard_store_def)
  qed (use assms(1) in simp)
  have op: "?op = (if p = ''stdout'' then open_stdout else if p = ''stderr'' then open_stderr else open_file OpenFile p)"
    using named other [of p] by (cases "m p") auto
  have "stdout_count W' = stdout_count W + (if p = ''stdout'' then 1 else 0) \<and>
    (r = Ok h \<longrightarrow> (h = Stdout \<longleftrightarrow> p = ''stdout'')) \<and> (p = ''stdout'' \<longrightarrow> r = Ok Stdout)" for h
  proof (cases "p = ''stdout''")
    case True
    with open_counts(1) [of W r W'] o [unfolded op] show ?thesis by auto
  next
    case False
    note no = this
    show ?thesis
    proof (cases "p = ''stderr''")
      case True
      with open_counts(2) [of W r W'] o [unfolded op] no show ?thesis by auto
    next
      case False
      with open_counts(3) [of OpenFile p W r W'] o [unfolded op] no show ?thesis by auto
    qed
  qed
  then show "stdout_count W' = stdout_count W + (if p = ''stdout'' then 1 else 0)"
    "r = Ok h \<Longrightarrow> h = Stdout \<longleftrightarrow> p = ''stdout''" "p = ''stdout'' \<Longrightarrow> r = Ok Stdout"
    by blast+
qed

lemma open_loop_counts:
  assumes "standard_store OpenFile outs"
    and "open_loop (open_file OpenFile) (output_ops wr close_f) outs ws ps W = (r, outs', W')"
  shows "case r of
      Ok hs \<Rightarrow> stdout_count W' = stdout_count W + int (count_list ps ''stdout'')
    | Err e \<Rightarrow> stdout_count W' = stdout_count W - int (count_list ws Stdout)
    | Panics \<Rightarrow> True"
  using assms
proof (induction ps arbitrary: outs ws W)
  case (Cons p ps)
  obtain r1 o1 W1 where one: "OutputStore_Open (open_file OpenFile) outs p W = (r1, o1, W1)"
    using prod_cases3 by blast
  note c = OutputStore_Open_counts [OF Cons.prems(1) one]
  show ?case
  proof (cases r1)
    case (Ok h)
    with Cons.prems(2) one have
      "open_loop (open_file OpenFile) (output_ops wr close_f) o1 (ws @ [h]) ps W1 = (r, outs', W')" by simp
    from Cons.IH [OF c(1) this] c(2) c(3) [OF Ok] show ?thesis by (auto split: result.splits)
  next
    case (Err e)
    obtain e2 W2 where cl: "close_loop (output_ops wr close_f) None ws W1 = (e2, W2)" by fastforce
    with Cons.prems(2) one Err c(2,4) close_loop_count [OF cl] show ?thesis
      by (auto simp: MultiWriteCloser_Close_def)
  next
    case Panics
    with Cons.prems(2) one show ?thesis by simp
  qed
qed auto

text \<open>The count of users of standard output is exact across \<open>OpenAll\<close>: it grows by the
  number of times the paths name stdout when the call succeeds, and is what it was when the
  call fails.\<close>

theorem OpenAll_stdout_count:
  assumes "OutputStore_OpenAll (open_file OpenFile) (output_ops wr close_f) Outputs paths W = (r, outs', W')"
  shows "case r of
      Ok hs \<Rightarrow> stdout_count W' = stdout_count W + int (count_list paths ''stdout'')
    | Err e \<Rightarrow> stdout_count W' = stdout_count W
    | Panics \<Rightarrow> True"
  using open_loop_counts [OF Outputs_standard assms [unfolded OutputStore_OpenAll_def]]
  by (cases r) simp_all

lemma OpenAll_stdout_count_witness:
  "stdout_count (snd (snd (OutputStore_OpenAll (open_file no_such_file)
     (output_ops (\<lambda>h p w. ((0, None), w)) (\<lambda>f w. (None, w))) Outputs [''stdout'', ''gone'']
     \<lparr>stdout_writer = new_shared, stderr_writer = new_shared, os = 0\<rparr>))) = 0"
  using OpenAll_stdout_count [of no_such_file "\<lambda>h p w. ((0, None), w)" "\<lambda>f w. (None, w)" "[''stdout'', ''gone'']"
      "\<lparr>stdout_writer = new_shared, stderr_writer = new_shared, os = 0\<rparr>", OF triple]
  by (simp add: OutputStore_OpenAll_def OutputStore_Open_def Outputs_def open_stdout_def shared_Open_def
      open_file_def no_such_file_def new_shared_def Let_def MultiWriteCloser_Close_def output_ops_def
      sharedWriter_Close_def NopCloser_def)

end
