(* ===== verification/Sdk.thy ===== *)
theory Sdk
  imports Go_Prelude
begin

section \<open>Values of the OpenTelemetry SDK\<close>

text \<open>
  What the program makes of the SDK: samplers and the options of the three kinds of
  provider, each named by the constructor the sources call. \<open>'res\<close> is a resource,
  \<open>'sp\<close> and \<open>'lp\<close> a span and a log processor, \<open>'rd\<close> a metric reader.
\<close>

datatype sampler =
    AlwaysSample
  | NeverSample
  | TraceIDRatioBased float64
  | ParentBased sampler

datatype exemplar_filter = AlwaysOnFilter | AlwaysOffFilter | TraceBasedFilter

datatype ('res, 'sp) tracer_option =
    WithSampler sampler
  | TracerWithResource 'res
  | WithSpanProcessor 'sp

datatype ('res, 'rd) meter_option =
    MeterWithResource 'res
  | WithReader 'rd
  | WithExemplarFilter exemplar_filter

datatype ('res, 'lp) logger_option =
    LoggerWithResource 'res
  | WithProcessor 'lp

text \<open>A periodic reader and its options.\<close>

datatype reader_option = WithInterval int | ReaderWithTimeout int

datatype 'x periodic_reader = PeriodicReader 'x "reader_option list"

end
