(* ===== verification/Processors.thy ===== *)
theory Processors
  imports Sdk Attr Config Resolver_Providers
begin

section \<open>The processors of the default registry (sampler.go, resource.go)\<close>

text \<open>
  The two processors that the package registers: \<open>sampler\<close>, which is for tracers only, and
  \<open>resource\<close>, which is for all three kinds of provider. \<open>resource.New\<close> of the SDK is the
  parameter \<open>resource_New\<close>: it may act on the world, and answers a resource or an error.
\<close>

subsection \<open>The sampler\<close>

record sampler_config =
  sampler_Type :: string
  Ratio :: float64

definition Sampler_build :: "sampler_config \<Rightarrow> sampler result" where
  "Sampler_build c =
     (if sampler_Type c = '''' \<or> sampler_Type c = ''always_on'' then Ok AlwaysSample
      else if sampler_Type c = ''always_off'' then Ok NeverSample
      else if sampler_Type c = ''trace_id_ratio'' then Ok (TraceIDRatioBased (Ratio c))
      else if sampler_Type c = ''parent_based'' then Ok (ParentBased (TraceIDRatioBased (Ratio c)))
      else Err (Errorf ''unknown sampler type %q (want always_on, always_off, trace_id_ratio, or parent_based)''
             [sampler_Type c]))"

definition Sampler_TracerOpts :: "sampler_config \<Rightarrow> ('res, 'sp) tracer_option list option result" where
  "Sampler_TracerOpts c = bindR (Sampler_build c) (\<lambda>s. Ok (Some [WithSampler s]))"

text \<open>The configuration embeds \<open>UnimplementedProcessorConfig\<close>, which answers for the other
  two methods.\<close>

definition Sampler :: "sampler_config \<Rightarrow> ('w, ('res, 'sp) tracer_option, 'mo, 'lo) processor_config" where
  "Sampler c = UnimplementedProcessorConfig\<lparr>TracerOpts := (\<lambda>w. (Sampler_TracerOpts c, w))\<rparr>"

subsection \<open>The resource\<close>

datatype resource_option =
    WithAttributes "(string \<times> attr_value) list"
  | WithFromEnv
  | WithContainer | WithContainerID
  | WithHost | WithHostID
  | WithOS | WithOSDescription | WithOSType
  | WithProcess | WithProcessCommandArgs | WithProcessExecutableName | WithProcessExecutablePath
  | WithProcessOwner | WithProcessPID
  | WithProcessRuntimeDescription | WithProcessRuntimeName | WithProcessRuntimeVersion
  | WithTelemetrySDK

record resource_config =
  Attributes :: "attr list"
  Detectors :: "string list"

text \<open>The cases of the switch; a name without a case adds nothing.\<close>

definition detectors :: "(string \<times> resource_option) list" where
  "detectors =
     [(''env'', WithFromEnv), (''container'', WithContainer), (''container.id'', WithContainerID),
      (''host'', WithHost), (''host.id'', WithHostID), (''os'', WithOS),
      (''os.description'', WithOSDescription), (''os.type'', WithOSType), (''process'', WithProcess),
      (''process.command_args'', WithProcessCommandArgs),
      (''process.executable.name'', WithProcessExecutableName),
      (''process.executable.path'', WithProcessExecutablePath),
      (''process.owner'', WithProcessOwner), (''process.pid'', WithProcessPID),
      (''process.runtime.description'', WithProcessRuntimeDescription),
      (''process.runtime.name'', WithProcessRuntimeName),
      (''process.runtime.version'', WithProcessRuntimeVersion),
      (''telemetry.sdk'', WithTelemetrySDK)]"

fun detector_loop :: "string list \<Rightarrow> resource_option list \<Rightarrow> resource_option list" where
  "detector_loop [] opts = opts"
| "detector_loop (v # vs) opts =
     detector_loop vs (case map_of detectors v of None \<Rightarrow> opts | Some x \<Rightarrow> opts @ [x])"

definition Resource_opts :: "resource_config \<Rightarrow> resource_option list" where
  "Resource_opts c =
     (let kvs = map (\<lambda>a. (Key a, Val a)) (Attributes c);
          opts = (if 0 < length kvs then [] @ [WithAttributes kvs] else [])
      in detector_loop (Detectors c) opts)"

definition Resource_TracerOpts ::
    "(resource_option list \<Rightarrow> 'w \<Rightarrow> 'res result \<times> 'w) \<Rightarrow> resource_config \<Rightarrow> 'w \<Rightarrow>
     ('res, 'sp) tracer_option list option result \<times> 'w" where
  "Resource_TracerOpts resource_New c w =
     (case resource_New (Resource_opts c) w of
        (r, w') \<Rightarrow> (bindR (wrapR (Wrapf ''create resource: %w'' []) r) (\<lambda>v. Ok (Some [TracerWithResource v])), w'))"

definition Resource_MeterOpts ::
    "(resource_option list \<Rightarrow> 'w \<Rightarrow> 'res result \<times> 'w) \<Rightarrow> resource_config \<Rightarrow> 'w \<Rightarrow>
     ('res, 'rd) meter_option list option result \<times> 'w" where
  "Resource_MeterOpts resource_New c w =
     (case resource_New (Resource_opts c) w of
        (r, w') \<Rightarrow> (bindR (wrapR (Wrapf ''create resource: %w'' []) r) (\<lambda>v. Ok (Some [MeterWithResource v])), w'))"

definition Resource_LoggerOpts ::
    "(resource_option list \<Rightarrow> 'w \<Rightarrow> 'res result \<times> 'w) \<Rightarrow> resource_config \<Rightarrow> 'w \<Rightarrow>
     ('res, 'lp) logger_option list option result \<times> 'w" where
  "Resource_LoggerOpts resource_New c w =
     (case resource_New (Resource_opts c) w of
        (r, w') \<Rightarrow> (bindR (wrapR (Wrapf ''create resource: %w'' []) r) (\<lambda>v. Ok (Some [LoggerWithResource v])), w'))"

definition Resource ::
    "(resource_option list \<Rightarrow> 'w \<Rightarrow> 'res result \<times> 'w) \<Rightarrow> resource_config \<Rightarrow>
     ('w, ('res, 'sp) tracer_option, ('res, 'rd) meter_option, ('res, 'lp) logger_option) processor_config" where
  "Resource resource_New c =
     \<lparr>TracerOpts = Resource_TracerOpts resource_New c, MeterOpts = Resource_MeterOpts resource_New c,
      LoggerOpts = Resource_LoggerOpts resource_New c\<rparr>"

subsection \<open>The default registry\<close>

text \<open>The two \<open>init\<close> functions register a constructor of the zero configuration. A registered
  value is a configuration still to be decoded.\<close>

datatype processor_value = SamplerValue sampler_config | ResourceValue resource_config

definition DefaultProcessorRegistry :: "processor_value registry" where
  "DefaultProcessorRegistry =
     (case Registry_Set (Some Map.empty) ''resource'' (\<lambda>u. ResourceValue \<lparr>Attributes = [], Detectors = []\<rparr>) of
        Ok r \<Rightarrow>
          (case Registry_Set r ''sampler'' (\<lambda>u. SamplerValue \<lparr>sampler_Type = '''', Ratio = Finite 0 0\<rparr>) of
             Ok r' \<Rightarrow> r' | _ \<Rightarrow> r)
      | _ \<Rightarrow> None)"

lemma DefaultProcessorRegistry_lookup:
  "Registry_New DefaultProcessorRegistry t =
     (if t = ''sampler'' then Some (SamplerValue \<lparr>sampler_Type = '''', Ratio = Finite 0 0\<rparr>)
      else if t = ''resource'' then Some (ResourceValue \<lparr>Attributes = [], Detectors = []\<rparr>)
      else None)"
  by (simp add: DefaultProcessorRegistry_def Registry_Set_def Registry_New_def Registry_Get_def)

subsection \<open>Properties\<close>

lemma detector_loop_filter: "detector_loop vs opts = opts @ List.map_filter (map_of detectors) vs"
proof (induction vs arbitrary: opts)
  case (Cons v vs)
  then show ?case by (cases "map_of detectors v") (simp_all add: List.map_filter_simps)
qed (simp add: List.map_filter_simps)

text \<open>The resource of a provider is made from all the configured attributes, when there
  are any, and then from the detectors in configuration order; a detector name that is not
  known is passed over without an error. The three kinds of provider get the same resource or
  the same error.\<close>

theorem Resource_same_for_all:
  "Resource_opts c =
     (if Attributes c = [] then [] else [WithAttributes (map (\<lambda>a. (Key a, Val a)) (Attributes c))]) @
     List.map_filter (map_of detectors) (Detectors c) \<and>
   (TracerOpts (Resource resource_New c) w = (Ok (Some [TracerWithResource v]), w') \<longleftrightarrow>
      resource_New (Resource_opts c) w = (Ok v, w')) \<and>
   (MeterOpts (Resource resource_New c) w = (Ok (Some [MeterWithResource v]), w') \<longleftrightarrow>
      resource_New (Resource_opts c) w = (Ok v, w')) \<and>
   (LoggerOpts (Resource resource_New c) w = (Ok (Some [LoggerWithResource v]), w') \<longleftrightarrow>
      resource_New (Resource_opts c) w = (Ok v, w'))"
  by (auto simp: Resource_def Resource_opts_def detector_loop_filter Let_def go_result
      Resource_TracerOpts_def Resource_MeterOpts_def Resource_LoggerOpts_def split: prod.splits)

text \<open>A sampler governs tracers and nothing else. A tracer that lists it gets exactly the
  configured sampler, or an error when its type is unknown; a meter or a logger that lists it
  cannot be built.\<close>

theorem Sampler_is_for_tracers:
  assumes "gm_lookup ps i = Some (Some (Sampler c))"
  shows "add_processors ps TracerOpts what [i] opts w =
      (case Sampler_build c of
         Ok s \<Rightarrow> (Ok (opts @ [WithSampler s]), w)
       | Err e \<Rightarrow> (Err (Wrapf ''processor %q: %w'' [i] e), w)
       | Panics \<Rightarrow> (Panics, w)) \<and>
    (Sampler_build c = Panics \<longleftrightarrow> False) \<and>
    ((\<exists>s. Sampler_build c = Ok s) \<longleftrightarrow>
       sampler_Type c \<in> {'''', ''always_on'', ''always_off'', ''trace_id_ratio'', ''parent_based''}) \<and>
    add_processors ps MeterOpts ''not for the meter'' (i # is) mopts w =
      (Err (Wrapf ''processor %q: %w'' [i] (Errorf ''not for the meter'' [])), w) \<and>
    add_processors ps LoggerOpts ''not for the logger'' (i # is) lopts w =
      (Err (Wrapf ''processor %q: %w'' [i] (Errorf ''not for the logger'' [])), w)"
  using assms
  by (simp add: Sampler_def Sampler_TracerOpts_def UnimplementedProcessorConfig_def Id_String_def
      split: result.split) (simp add: Sampler_build_def)

lemma Sampler_is_for_tracers_witness:
  "add_processors (Some [''sampler'' \<mapsto> Some (Sampler \<lparr>sampler_Type = ''parent_based'', Ratio = Finite 1 (- 1)\<rparr>)])
     TracerOpts ''not for the tracer'' [''sampler''] [] () =
   (Ok [WithSampler (ParentBased (TraceIDRatioBased (Finite 1 (- 1)))) :: (unit, unit) tracer_option], ())"
  by (rule trans [OF conjunct1 [OF Sampler_is_for_tracers
        [where c = "\<lparr>sampler_Type = ''parent_based'', Ratio = Finite 1 (- 1)\<rparr>"]]])
    (simp_all add: Sampler_build_def del: add_processors.simps)

end
