(* ===== verification/Go_Action.thy ===== *)
theory Go_Action
  imports Go_Prelude
begin

section \<open>Fallible calls that act on the world\<close>

text \<open>
  A call that may read files, dial or look at the clock is an action: from the world it gives
  a result and the next world. \<open>bindA\<close> is the sequence \<open>x, err := m(); if err != nil
  { return err }; f(x)\<close>; what was done to the world before the error stays done.
\<close>

type_synonym ('w, 'a) action = "'w \<Rightarrow> 'a result \<times> 'w"

definition doA :: "'a result \<Rightarrow> ('w, 'a) action" where
  "doA r w = (r, w)"

definition bindA :: "('w, 'a) action \<Rightarrow> ('a \<Rightarrow> ('w, 'b) action) \<Rightarrow> ('w, 'b) action" where
  "bindA m f w =
     (case m w of
        (Ok x, w') \<Rightarrow> f x w'
      | (Err e, w') \<Rightarrow> (Err e, w')
      | (Panics, w') \<Rightarrow> (Panics, w'))"

definition wrapA :: "(goerror \<Rightarrow> goerror) \<Rightarrow> ('w, 'a) action \<Rightarrow> ('w, 'a) action" where
  "wrapA g m w = (case m w of (r, w') \<Rightarrow> (wrapR g r, w'))"

lemma bindA_Ok [go_result]:
  "bindA m f w = (Ok y, w') \<longleftrightarrow> (\<exists>x u. m w = (Ok x, u) \<and> f x u = (Ok y, w'))"
  by (auto simp: bindA_def split: prod.splits result.splits)

lemma bindA_Err [go_result]:
  "bindA m f w = (Err e, w') \<longleftrightarrow> m w = (Err e, w') \<or> (\<exists>x u. m w = (Ok x, u) \<and> f x u = (Err e, w'))"
  by (auto simp: bindA_def split: prod.splits result.splits)

lemma bindA_Panics [go_result]:
  "bindA m f w = (Panics, w') \<longleftrightarrow> m w = (Panics, w') \<or> (\<exists>x u. m w = (Ok x, u) \<and> f x u = (Panics, w'))"
  by (auto simp: bindA_def split: prod.splits result.splits)

lemma doA_eq [go_result]: "doA r w = (r', w') \<longleftrightarrow> r = r' \<and> w = w'"
  by (auto simp: doA_def)

lemma wrapA_Ok [go_result]: "wrapA g m w = (Ok y, w') \<longleftrightarrow> m w = (Ok y, w')"
  by (auto simp: wrapA_def go_result split: prod.splits)

lemma wrapA_Err [go_result]: "wrapA g m w = (Err e, w') \<longleftrightarrow> (\<exists>e'. m w = (Err e', w') \<and> e = g e')"
  by (auto simp: wrapA_def go_result split: prod.splits)

lemma wrapA_Panics [go_result]: "wrapA g m w = (Panics, w') \<longleftrightarrow> m w = (Panics, w')"
  by (auto simp: wrapA_def go_result split: prod.splits)

lemma bindA_doA [simp]:
  "bindA (doA (Ok x)) f w = f x w" "bindA (doA (Err e)) f w = (Err e, w)" "bindA (doA Panics) f w = (Panics, w)"
  by (simp_all add: bindA_def doA_def)

end
