(* ===== verification/Tls.thy ===== *)
theory Tls
  imports Go_Action Opaque
begin

section \<open>TLS settings (tls.go)\<close>

text \<open>
  \<open>ClientTlsConfig.Build\<close> turns the settings into a \<open>tls.Config\<close>; \<open>certReloader\<close>
  serves a client certificate that is re-read from disk. The packages os, crypto/x509 and
  crypto/tls are the record \<open>crypto\<close>: reading files and the clock act on the world \<open>'w\<close>,
  \<open>'pool\<close> is a certificate pool and \<open>'cert\<close> a parsed key pair. Protocol versions, cipher
  suites and curves are 16-bit identifiers.
\<close>

record ('w, 'pool, 'cert) crypto =
  ReadFile :: "string \<Rightarrow> ('w, string) action"
  SystemCertPool :: "('w, 'pool) action"
  NewCertPool :: 'pool
  AppendCertsFromPEM :: "'pool \<Rightarrow> string \<Rightarrow> 'pool \<times> bool"
  LoadX509KeyPair :: "string \<Rightarrow> string \<Rightarrow> ('w, 'cert) action"
  X509KeyPair :: "string \<Rightarrow> string \<Rightarrow> 'cert result"
  Now :: "'w \<Rightarrow> int \<times> 'w"
  tls_CipherSuites :: "(string \<times> 16 word) list"
  tls_InsecureCipherSuites :: "(string \<times> 16 word) list"

subsection \<open>Names\<close>

definition parseTLSVersion :: "string \<Rightarrow> 16 word result" where
  "parseTLSVersion s =
     (if s = ''1.0'' then Ok 0x0301
      else if s = ''1.1'' then Ok 0x0302
      else if s = ''1.2'' then Ok 0x0303
      else if s = ''1.3'' then Ok 0x0304
      else Err (Errorf ''unsupported version %q (want 1.0, 1.1, 1.2, or 1.3)'' [s]))"

text \<open>The two loops that fill \<open>by_name\<close>: a later entry of the same name wins.\<close>

fun fill :: "(string \<times> 16 word) list \<Rightarrow> (string \<rightharpoonup> 16 word) \<Rightarrow> (string \<rightharpoonup> 16 word)" where
  "fill [] m = m"
| "fill ((n, i) # cs) m = fill cs (m(n \<mapsto> i))"

definition cipher_names :: "('w, 'pool, 'cert) crypto \<Rightarrow> (string \<rightharpoonup> 16 word)" where
  "cipher_names K = fill (tls_InsecureCipherSuites K) (fill (tls_CipherSuites K) Map.empty)"

definition parseCipherSuites :: "('w, 'pool, 'cert) crypto \<Rightarrow> string list \<Rightarrow> 16 word list result" where
  "parseCipherSuites K names =
     (if length names = 0 then Ok []
      else traverseR (\<lambda>n. case cipher_names K n of
          None \<Rightarrow> Err (Errorf ''unsupported cipher suite %q'' [n]) | Some i \<Rightarrow> Ok i) names)"

definition curve_names :: "string \<rightharpoonup> 16 word" where
  "curve_names = [''X25519'' \<mapsto> 29, ''P256'' \<mapsto> 23, ''P384'' \<mapsto> 24, ''P521'' \<mapsto> 25]"

definition parseCurvePreferences :: "string list \<Rightarrow> 16 word list result" where
  "parseCurvePreferences names =
     (if length names = 0 then Ok []
      else traverseR (\<lambda>n. case curve_names n of
          None \<Rightarrow> Err (Errorf ''unsupported curve %q (want X25519, P256, P384, or P521)'' [n]) | Some i \<Rightarrow> Ok i) names)"

subsection \<open>The certificate reloader\<close>

record 'cert cert_reloader =
  certFile :: string
  keyFile :: string
  reload_interval :: int
  cert :: "'cert option"
  loadedAt :: int

text \<open>The age is only looked at when a certificate is there.\<close>

definition certReloader_get ::
    "('w, 'pool, 'cert) crypto \<Rightarrow> 'cert cert_reloader \<Rightarrow> 'w \<Rightarrow> 'cert result \<times> 'cert cert_reloader \<times> 'w" where
  "certReloader_get K r w0 =
     (case (case cert r of
              None \<Rightarrow> (False, w0)
            | Some c \<Rightarrow> (case Now K w0 of (t, w) \<Rightarrow> (t - loadedAt r < reload_interval r, w))) of
        (young, w) \<Rightarrow>
          if cert r \<noteq> None \<and> young then (Ok (the (cert r)), r, w)
          else (case LoadX509KeyPair K (certFile r) (keyFile r) w of
                  (Err e, w1) \<Rightarrow>
                    (case cert r of Some c \<Rightarrow> (Ok c, r, w1) | None \<Rightarrow> (Err e, r, w1))
                | (Panics, w1) \<Rightarrow> (Panics, r, w1)
                | (Ok c, w1) \<Rightarrow>
                    (case Now K w1 of (t, w2) \<Rightarrow> (Ok c, r\<lparr>cert := Some c, loadedAt := t\<rparr>, w2))))"

subsection \<open>Building the configuration\<close>

record tls_settings =
  CAFile :: string
  CAPem :: opaque_string
  IncludeSystemCACertsPool :: bool
  CertFile :: string
  CertPem :: opaque_string
  KeyFile :: string
  KeyPem :: opaque_string
  MinVersion :: string
  MaxVersion :: string
  CipherSuites :: "string list"
  ReloadInterval :: int
  CurvePreferences :: "string list"

record client_tls_settings = tls_settings +
  Insecure :: bool
  InsecureSkipVerify :: bool
  ServerName :: string

record ('pool, 'cert) tls_config =
  out_Certificates :: "'cert list"
  out_GetClientCertificate :: "'cert cert_reloader option"
  out_RootCAs :: 'pool
  out_MinVersion :: "16 word"
  out_MaxVersion :: "16 word"
  out_CipherSuites :: "16 word list"
  out_CurvePreferences :: "16 word list"
  out_InsecureSkipVerify :: bool
  out_ServerName :: string

text \<open>The PEM text in memory, else the contents of the file, else nil.\<close>

definition pem_or_file ::
    "('w, 'pool, 'cert) crypto \<Rightarrow> opaque_string \<Rightarrow> string \<Rightarrow> string \<Rightarrow> ('w, string option) action" where
  "pem_or_file K pem file what =
     (if raw pem \<noteq> [] then doA (Ok (Some (raw pem)))
      else if file \<noteq> [] then
        bindA (wrapA (Wrapf what []) (ReadFile K file)) (\<lambda>s. doA (Ok (Some s)))
      else doA (Ok None))"

definition build_pool ::
    "('w, 'pool, 'cert) crypto \<Rightarrow> client_tls_settings \<Rightarrow> ('w, 'pool) action" where
  "build_pool K c =
     bindA (pem_or_file K (CAPem c) (CAFile c) ''read CA file: %w'') (\<lambda>ca_pem.
     bindA (if ca_pem = None \<or> IncludeSystemCACertsPool c
            then wrapA (Wrapf ''get system cert pool: %w'' []) (SystemCertPool K)
            else doA (Ok (NewCertPool K))) (\<lambda>pool.
     case ca_pem of
       None \<Rightarrow> doA (Ok pool)
     | Some pem \<Rightarrow>
         (case AppendCertsFromPEM K pool pem of
            (pool', ok) \<Rightarrow>
              if \<not> ok then doA (Err (Errorf ''failed to append CA cert from PEM'' []))
              else doA (Ok pool'))))"

definition build_certs ::
    "('w, 'pool, 'cert) crypto \<Rightarrow> client_tls_settings \<Rightarrow>
     ('w, 'cert list \<times> 'cert cert_reloader option) action" where
  "build_certs K c =
     (if 0 < ReloadInterval c then
        (if CertFile c = [] \<or> KeyFile c = []
         then doA (Err (Errorf ''reload_interval requires cert_file and key_file'' []))
         else (\<lambda>w.
           case certReloader_get K
               \<lparr>certFile = CertFile c, keyFile = KeyFile c, reload_interval = ReloadInterval c,
                cert = None, loadedAt = 0\<rparr> w of
             (Ok _, r, w') \<Rightarrow> (Ok ([], Some r), w')
           | (Err e, r, w') \<Rightarrow> (Err (Wrapf ''load TLS cert: %w'' [] e), w')
           | (Panics, r, w') \<Rightarrow> (Panics, w')))
      else
        bindA (pem_or_file K (CertPem c) (CertFile c) ''read cert file: %w'') (\<lambda>cert_pem.
        bindA (pem_or_file K (KeyPem c) (KeyFile c) ''read key file: %w'') (\<lambda>key_pem.
        case (cert_pem, key_pem) of
          (Some cp, Some kp) \<Rightarrow>
            bindA (doA (wrapR (Wrapf ''load TLS cert from PEM: %w'' []) (X509KeyPair K cp kp)))
              (\<lambda>x. doA (Ok ([x], None)))
        | (None, None) \<Rightarrow> doA (Ok ([], None))
        | _ \<Rightarrow> doA (Err (Errorf ''both cert and key must be provided together'' [])))))"

definition build_version :: "string \<Rightarrow> string \<Rightarrow> 16 word result" where
  "build_version what v =
     (if v \<noteq> [] then wrapR (Wrapf what []) (parseTLSVersion v) else Ok 0)"

definition ClientTlsConfig_Build ::
    "('w, 'pool, 'cert) crypto \<Rightarrow> client_tls_settings \<Rightarrow> ('w, ('pool, 'cert) tls_config) action" where
  "ClientTlsConfig_Build K c =
     bindA (build_pool K c) (\<lambda>pool.
     bindA (build_certs K c) (\<lambda>(certs, get_client_cert).
     bindA (doA (build_version ''min_version: %w'' (MinVersion c))) (\<lambda>min_version.
     bindA (doA (build_version ''max_version: %w'' (MaxVersion c))) (\<lambda>max_version.
     bindA (doA (parseCipherSuites K (CipherSuites c))) (\<lambda>cipher_suites.
     bindA (doA (parseCurvePreferences (CurvePreferences c))) (\<lambda>curve_preferences.
     doA (Ok \<lparr>out_Certificates = certs, out_GetClientCertificate = get_client_cert,
        out_RootCAs = pool, out_MinVersion = min_version, out_MaxVersion = max_version,
        out_CipherSuites = cipher_suites, out_CurvePreferences = curve_preferences,
        out_InsecureSkipVerify = InsecureSkipVerify c, out_ServerName = ServerName c\<rparr>)))))))"

subsection \<open>Lists of names\<close>

text \<open>The two lists are resolved alike: a resolver of names is a table and an error per unknown
  name.\<close>

locale name_resolver =
  fixes parse :: "string list \<Rightarrow> 16 word list result"
    and table :: "string \<rightharpoonup> 16 word"
    and unknown :: "string \<Rightarrow> goerror"
  assumes parse_traverses: "parse names =
      traverseR (\<lambda>n. case table n of None \<Rightarrow> Err (unknown n) | Some i \<Rightarrow> Ok i) names"
begin

lemma parse_Ok: "parse names = Ok is \<longleftrightarrow> map Some is = map table names"
proof -
  have "parse names = Ok is \<longleftrightarrow> list_all2 (\<lambda>n i. table n = Some i) names is"
    unfolding parse_traverses by (auto simp: go_result list_all2_conv_all_nth split: option.splits)
  also have "\<dots> \<longleftrightarrow> map Some is = map table names"
    by (auto simp: list_all2_conv_all_nth list_eq_iff_nth_eq)
  finally show ?thesis .
qed

lemma parse_Err: "parse names = Err e \<longleftrightarrow>
    (\<exists>pre n post. names = pre @ n # post \<and> (\<forall>m \<in> set pre. table m \<noteq> None) \<and> table n = None \<and> e = unknown n)"
  unfolding parse_traverses traverseR_eq_Err by (force split: option.splits)

lemma parse_total: "parse names \<noteq> Panics"
  unfolding parse_traverses by (rule traverseR_not_Panics) (auto split: option.splits)

end

interpretation curves: name_resolver parseCurvePreferences curve_names
    "\<lambda>n. Errorf ''unsupported curve %q (want X25519, P256, P384, or P521)'' [n]"
  by unfold_locales (auto simp: parseCurvePreferences_def)

interpretation ciphers: name_resolver "parseCipherSuites K" "cipher_names K"
    "\<lambda>n. Errorf ''unsupported cipher suite %q'' [n]" for K
  by unfold_locales (auto simp: parseCipherSuites_def)

lemma fill_map_of: "fill cs m = m ++ map_of (rev cs)"
proof (induction cs m rule: fill.induct)
  case (2 n i cs m)
  have "fill ((n, i) # cs) m = m(n \<mapsto> i) ++ map_of (rev cs)" unfolding fill.simps by (rule 2)
  also have "\<dots> = m ++ ([n \<mapsto> i] ++ map_of (rev cs))" by (auto simp: map_add_def fun_eq_iff split: option.split)
  also have "[n \<mapsto> i] ++ map_of (rev cs) = map_of (rev ((n, i) # cs))" by (simp add: map_of_append)
  finally show ?case .
qed simp

text \<open>A list of cipher suites or curves is either resolved completely, name by name and in
  the order of preference, or refused naming the first unknown entry: a restriction is never
  dropped. A suite name means what the insecure list says, else what the secure list says.\<close>

theorem tls_names_exact:
  "(parseCurvePreferences names = Ok cs \<longleftrightarrow> map Some cs = map curve_names names) \<and>
   (parseCipherSuites K names = Ok is \<longleftrightarrow> map Some is = map (cipher_names K) names) \<and>
   (parseCurvePreferences names = Err e \<longleftrightarrow>
      (\<exists>pre n post. names = pre @ n # post \<and> (\<forall>m \<in> set pre. curve_names m \<noteq> None) \<and> curve_names n = None \<and>
         e = Errorf ''unsupported curve %q (want X25519, P256, P384, or P521)'' [n])) \<and>
   (parseCipherSuites K names = Err e \<longleftrightarrow>
      (\<exists>pre n post. names = pre @ n # post \<and> (\<forall>m \<in> set pre. cipher_names K m \<noteq> None) \<and>
         cipher_names K n = None \<and> e = Errorf ''unsupported cipher suite %q'' [n])) \<and>
   cipher_names K n = (case map_of (rev (tls_InsecureCipherSuites K)) n of
      Some i \<Rightarrow> Some i | None \<Rightarrow> map_of (rev (tls_CipherSuites K)) n)"
  by (intro conjI; (rule curves.parse_Ok ciphers.parse_Ok curves.parse_Err ciphers.parse_Err)?)
    (simp add: cipher_names_def fill_map_of map_add_def)

definition no_crypto :: "(int, string, string) crypto" where
  "no_crypto =
     \<lparr>ReadFile = (\<lambda>f w. if f = ''gone'' then (Err (Foreign ''ENOENT''), w) else (Ok f, w)),
      SystemCertPool = (\<lambda>w. (Ok ''system'', w)), NewCertPool = '''',
      AppendCertsFromPEM = (\<lambda>p s. (p @ '' '' @ s, True)),
      LoadX509KeyPair = (\<lambda>c k w. (if w = 20 then (Err (Foreign ''EACCES'')) else Ok (c @ k), w)),
      X509KeyPair = (\<lambda>c k. Ok (c @ k)), Now = (\<lambda>w. (w, 20)),
      tls_CipherSuites = [(''TLS_AES_128_GCM_SHA256'', 0x1301)],
      tls_InsecureCipherSuites = [(''TLS_RSA_WITH_RC4_128_SHA'', 5)]\<rparr>"

lemma tls_names_exact_witness:
  "parseCurvePreferences [''P256'', ''P255''] =
     Err (Errorf ''unsupported curve %q (want X25519, P256, P384, or P521)'' [''P255'']) \<and>
   parseCipherSuites no_crypto [''TLS_RSA_WITH_RC4_128_SHA'', ''TLS_AES_128_GCM_SHA256''] = Ok [5, 0x1301]"
proof
  have "\<exists>pre n post. [''P256'', ''P255''] = pre @ n # post \<and> (\<forall>m \<in> set pre. curve_names m \<noteq> None) \<and>
      curve_names n = None \<and> Errorf ''unsupported curve %q (want X25519, P256, P384, or P521)'' [''P255''] =
        Errorf ''unsupported curve %q (want X25519, P256, P384, or P521)'' [n]"
    by (intro exI [of _ "[''P256'']"] exI [of _ "''P255''"] exI [of _ "[]"]) (simp add: curve_names_def)
  then show "parseCurvePreferences [''P256'', ''P255''] =
     Err (Errorf ''unsupported curve %q (want X25519, P256, P384, or P521)'' [''P255''])"
    by (rule iffD2 [OF tls_names_exact [THEN conjunct2, THEN conjunct2, THEN conjunct1]])
  have "cipher_names no_crypto ''TLS_RSA_WITH_RC4_128_SHA'' = Some 5"
    "cipher_names no_crypto ''TLS_AES_128_GCM_SHA256'' = Some 0x1301"
    by (simp_all add: cipher_names_def no_crypto_def)
  then show "parseCipherSuites no_crypto [''TLS_RSA_WITH_RC4_128_SHA'', ''TLS_AES_128_GCM_SHA256''] = Ok [5, 0x1301]"
    by (intro iffD2 [OF tls_names_exact [THEN conjunct2, THEN conjunct1]]) simp
qed

subsection \<open>The certificate that is served\<close>

text \<open>\<open>watched\<close> logs the result of every attempt to load the key pair. It is used in
  statements only.\<close>

definition lift_act :: "('w \<Rightarrow> 'b \<times> 'w) \<Rightarrow> 'w \<times> 'l \<Rightarrow> 'b \<times> 'w \<times> 'l" where
  "lift_act m = (\<lambda>(w, l). case m w of (r, w') \<Rightarrow> (r, w', l))"

definition watched :: "('w, 'pool, 'cert) crypto \<Rightarrow> ('w \<times> 'cert result list, 'pool, 'cert) crypto" where
  "watched K =
     \<lparr>ReadFile = (\<lambda>f. lift_act (ReadFile K f)), SystemCertPool = lift_act (SystemCertPool K),
      NewCertPool = NewCertPool K, AppendCertsFromPEM = AppendCertsFromPEM K,
      LoadX509KeyPair = (\<lambda>c k (w, l). case LoadX509KeyPair K c k w of (r, w') \<Rightarrow> (r, w', l @ [r])),
      X509KeyPair = X509KeyPair K, Now = lift_act (Now K),
      tls_CipherSuites = tls_CipherSuites K, tls_InsecureCipherSuites = tls_InsecureCipherSuites K\<rparr>"

lemma watched_simps [simp]:
  "Now (watched K) (w, l) = (fst (Now K w), snd (Now K w), l)"
  "LoadX509KeyPair (watched K) c k (w, l) =
     (fst (LoadX509KeyPair K c k w), snd (LoadX509KeyPair K c k w), l @ [fst (LoadX509KeyPair K c k w)])"
  by (simp_all add: watched_def lift_act_def split: prod.split)

definition last_good :: "'cert result list \<Rightarrow> 'cert option" where
  "last_good = foldl (\<lambda>c r. case r of Ok x \<Rightarrow> Some x | _ \<Rightarrow> c) None"

lemma last_good_simps [simp]:
  "last_good [] = None"
  "last_good (l @ [r]) = (case r of Ok x \<Rightarrow> Some x | _ \<Rightarrow> last_good l)"
  by (simp_all add: last_good_def split: result.split)

definition new_reloader :: "string \<Rightarrow> string \<Rightarrow> int \<Rightarrow> 'cert cert_reloader" where
  "new_reloader c k i = \<lparr>certFile = c, keyFile = k, reload_interval = i, cert = None, loadedAt = 0\<rparr>"








subsection \<open>What a built configuration is\<close>

text \<open>\<open>loaded\<close>: the text of a PEM setting, from memory first and else from its file.\<close>

definition given :: "opaque_string \<Rightarrow> string \<Rightarrow> bool" where
  "given pem file \<longleftrightarrow> raw pem \<noteq> [] \<or> file \<noteq> []"

definition loaded :: "('w, 'pool, 'cert) crypto \<Rightarrow> opaque_string \<Rightarrow> string \<Rightarrow> string \<Rightarrow> bool" where
  "loaded K pem file s \<longleftrightarrow>
     (if raw pem \<noteq> [] then s = raw pem else file \<noteq> [] \<and> (\<exists>u u'. ReadFile K file u = (Ok s, u')))"

lemma pem_or_file_Ok:
  "pem_or_file K pem file what w = (Ok x, w') \<Longrightarrow>
   (case x of None \<Rightarrow> \<not> given pem file | Some s \<Rightarrow> given pem file \<and> loaded K pem file s)"
  by (auto simp: pem_or_file_def given_def loaded_def go_result split: if_splits) blast

definition roots :: "('w, 'pool, 'cert) crypto \<Rightarrow> client_tls_settings \<Rightarrow> 'pool \<Rightarrow> bool" where
  "roots K c pool \<longleftrightarrow>
     (if \<not> given (CAPem c) (CAFile c) then \<exists>u u'. SystemCertPool K u = (Ok pool, u')
      else \<exists>base pem. loaded K (CAPem c) (CAFile c) pem \<and> AppendCertsFromPEM K base pem = (pool, True) \<and>
        (if IncludeSystemCACertsPool c then \<exists>u u'. SystemCertPool K u = (Ok base, u') else base = NewCertPool K))"

lemma build_pool_roots: "build_pool K c w = (Ok pool, w') \<Longrightarrow> roots K c pool"
  unfolding build_pool_def bindA_Ok
  by (elim exE conjE, drule pem_or_file_Ok)
    (auto simp: roots_def go_result split: option.splits if_splits prod.splits)

lemma certReloader_get_new:
  "certReloader_get K (new_reloader cf kf i) w = (Ok c, r, w') \<Longrightarrow>
   cert r = Some c \<and> certFile r = cf \<and> keyFile r = kf \<and> reload_interval r = i \<and>
   (\<exists>u u'. LoadX509KeyPair K cf kf u = (Ok c, u'))"
  by (auto simp: certReloader_get_def new_reloader_def split: prod.splits result.splits)

definition identity ::
    "('w, 'pool, 'cert) crypto \<Rightarrow> client_tls_settings \<Rightarrow> 'cert list \<Rightarrow> 'cert cert_reloader option \<Rightarrow> bool" where
  "identity K c certs reloader \<longleftrightarrow>
     (if 0 < ReloadInterval c
      then certs = [] \<and> CertFile c \<noteq> [] \<and> KeyFile c \<noteq> [] \<and>
        (\<exists>r x. reloader = Some r \<and> certFile r = CertFile c \<and> keyFile r = KeyFile c \<and>
           reload_interval r = ReloadInterval c \<and> cert r = Some x)
      else reloader = None \<and> (given (CertPem c) (CertFile c) \<longleftrightarrow> given (KeyPem c) (KeyFile c)) \<and>
        (if given (CertPem c) (CertFile c)
         then \<exists>cp kp x. loaded K (CertPem c) (CertFile c) cp \<and> loaded K (KeyPem c) (KeyFile c) kp \<and>
           X509KeyPair K cp kp = Ok x \<and> certs = [x]
         else certs = []))"

lemma build_certs_identity:
  assumes "build_certs K c w = (Ok (certs, reloader), w')"
  shows "identity K c certs reloader"
proof (cases "0 < ReloadInterval c")
  case True
  with assms obtain x r where "certReloader_get K (new_reloader (CertFile c) (KeyFile c) (ReloadInterval c)) w = (Ok x, r, w')"
    "certs = []" "reloader = Some r" "CertFile c \<noteq> []" "KeyFile c \<noteq> []"
    by (auto simp: build_certs_def new_reloader_def go_result split: if_splits prod.splits result.splits)
  with True show ?thesis by (auto simp: identity_def dest: certReloader_get_new)
next
  case False
  with assms obtain x y u v where "pem_or_file K (CertPem c) (CertFile c) ''read cert file: %w'' w = (Ok x, u)"
    "pem_or_file K (KeyPem c) (KeyFile c) ''read key file: %w'' u = (Ok y, v)"
    and rest: "case (x, y) of
          (Some cp, Some kp) \<Rightarrow> \<exists>z. X509KeyPair K cp kp = Ok z \<and> certs = [z] \<and> reloader = None
        | (None, None) \<Rightarrow> certs = [] \<and> reloader = None
        | _ \<Rightarrow> False"
    by (auto simp: build_certs_def go_result split: option.splits)
  from this(1,2) [THEN pem_or_file_Ok] rest False show ?thesis
    by (auto simp: identity_def split: option.splits)
qed

lemma build_version_Ok:
  "build_version what v = Ok n \<longleftrightarrow> (if v = [] then n = 0 else parseTLSVersion v = Ok n)"
  by (auto simp: build_version_def go_result)

text \<open>C23: a configuration that \<open>Build\<close> returns is the one that was asked for. The server is
  verified against the configured CA alone, unless the system roots are to be included, and
  against the system roots when there is no CA; the client identity is the reloader over the
  two files, the one key pair, or none, never half a pair; the version bounds, cipher suites
  and curves are exactly the parsed ones; verification is skipped only when asked.\<close>

theorem Build_is_as_configured:
  assumes "ClientTlsConfig_Build K c w = (Ok t, w')"
  shows "roots K c (out_RootCAs t) \<and> identity K c (out_Certificates t) (out_GetClientCertificate t) \<and>
     (if MinVersion c = [] then out_MinVersion t = 0 else parseTLSVersion (MinVersion c) = Ok (out_MinVersion t)) \<and>
     (if MaxVersion c = [] then out_MaxVersion t = 0 else parseTLSVersion (MaxVersion c) = Ok (out_MaxVersion t)) \<and>
     map Some (out_CipherSuites t) = map (cipher_names K) (CipherSuites c) \<and>
     map Some (out_CurvePreferences t) = map curve_names (CurvePreferences c) \<and>
     out_InsecureSkipVerify t = InsecureSkipVerify c \<and> out_ServerName t = ServerName c"
proof -
  from assms obtain pool certs rl min max cs cv u v where
    p: "build_pool K c w = (Ok pool, u)" and i: "build_certs K c u = (Ok (certs, rl), v)"
    and min: "build_version ''min_version: %w'' (MinVersion c) = Ok min"
    and max: "build_version ''max_version: %w'' (MaxVersion c) = Ok max"
    and cs: "parseCipherSuites K (CipherSuites c) = Ok cs"
    and cv: "parseCurvePreferences (CurvePreferences c) = Ok cv"
    and t: "t = \<lparr>out_Certificates = certs, out_GetClientCertificate = rl, out_RootCAs = pool,
        out_MinVersion = min, out_MaxVersion = max, out_CipherSuites = cs, out_CurvePreferences = cv,
        out_InsecureSkipVerify = InsecureSkipVerify c, out_ServerName = ServerName c\<rparr>"
    unfolding ClientTlsConfig_Build_def by (auto simp: go_result)
  show ?thesis
    using build_pool_roots [OF p] build_certs_identity [OF i] min max
      ciphers.parse_Ok [THEN iffD1, OF cs] curves.parse_Ok [THEN iffD1, OF cv]
    by (simp add: t build_version_Ok split: if_splits)
qed

definition sample_tls :: client_tls_settings where
  "sample_tls =
     \<lparr>CAFile = ''ca'', CAPem = Opaque_String [], IncludeSystemCACertsPool = False,
      CertFile = ''c'', CertPem = Opaque_String ''pem'', KeyFile = ''k'', KeyPem = Opaque_String [],
      MinVersion = ''1.2'', MaxVersion = [], CipherSuites = [], ReloadInterval = 0,
      CurvePreferences = [''X25519''], Insecure = False, InsecureSkipVerify = False, ServerName = ''s''\<rparr>"

lemma Build_is_as_configured_witness:
  "\<exists>t. ClientTlsConfig_Build no_crypto sample_tls 0 = (Ok t, 0) \<and> out_MinVersion t = 0x0303 \<and>
     map Some (out_CurvePreferences t) = [Some 29]"
proof -
  have "ClientTlsConfig_Build no_crypto sample_tls 0 =
    (Ok \<lparr>out_Certificates = [''pemk''], out_GetClientCertificate = None, out_RootCAs = '' ca'',
        out_MinVersion = 0x0303, out_MaxVersion = 0, out_CipherSuites = [], out_CurvePreferences = [29],
        out_InsecureSkipVerify = False, out_ServerName = ''s''\<rparr>, 0)"
    by (simp add: ClientTlsConfig_Build_def build_pool_def build_certs_def pem_or_file_def sample_tls_def
        no_crypto_def bindA_def doA_def wrapA_def build_version_def parseTLSVersion_def
        parseCipherSuites_def parseCurvePreferences_def curve_names_def)
  with Build_is_as_configured [OF this] show ?thesis by (simp add: sample_tls_def curve_names_def)
qed

subsection \<open>Which configurations are accepted\<close>





context name_resolver begin

lemma parse_accepts: "(\<exists>is. parse names = Ok is) \<longleftrightarrow> (\<forall>n \<in> set names. table n \<noteq> None)"
  unfolding parse_traverses traverseR_Ok_iff by (auto split: option.splits)

end







end
