(* ===== verification/Queue_Config.thy ===== *)
theory Queue_Config
  imports Go_Prelude
begin

section \<open>Queue and retry settings (queue.go, retry.go)\<close>

text \<open>
  How the \<open>sending_queue\<close> settings become an SDK processor. \<open>time.Duration\<close> is an
  \<open>int64\<close> of nanoseconds; sizes are \<open>int64\<close> and \<open>int\<close>, both 64 bits wide, so the
  conversions keep the value. An SDK processor is its constructor with the exporter and the
  options it was given; \<open>apply_span\<close> and \<open>apply_log\<close> say what each option sets.
\<close>

subsection \<open>Configuration\<close>

record batch_config =
  FlushTimeout :: int
  MinSize :: int
  MaxSize :: int

record queue_config =
  queue_Enabled :: "bool option"
  NumConsumers :: int
  WaitForResult :: bool
  BlockOnOverflow :: bool
  QueueSize :: int
  Batch :: batch_config

definition QueueConfig_IsEnabled :: "queue_config \<Rightarrow> bool" where
  "QueueConfig_IsEnabled c = (case queue_Enabled c of None \<Rightarrow> True | Some b \<Rightarrow> b)"

record retry_config =
  retry_Enabled :: "bool option"
  InitialInterval :: int
  RandomizationFactor :: float64
  Multiplier :: float64
  MaxInterval :: int
  MaxElapsedTime :: int

definition RetryConfig_IsEnabled :: "retry_config \<Rightarrow> bool" where
  "RetryConfig_IsEnabled c = (case retry_Enabled c of None \<Rightarrow> True | Some b \<Rightarrow> b)"

definition rejectUnsupported :: "bool \<Rightarrow> queue_config \<Rightarrow> goerror option" where
  "rejectUnsupported isLog c =
     (if NumConsumers c \<noteq> 0 then Some (Errorf ''sending_queue: num_consumers is not supported (the SDK batch processor is single-consumer)'' [])
      else if WaitForResult c then Some (Errorf ''sending_queue: wait_for_result is not supported (the SDK batch processor is asynchronous)'' [])
      else if MinSize (Batch c) \<noteq> 0 then Some (Errorf ''sending_queue: batch.min_size is not supported (the SDK has no minimum-batch-size)'' [])
      else if isLog \<and> BlockOnOverflow c then Some (Errorf ''sending_queue: block_on_overflow is not supported for logs (the SDK log batch processor drops on overflow)'' [])
      else None)"

subsection \<open>Processors\<close>

datatype span_batch_option =
    WithMaxQueueSize int
  | WithBatchTimeout int
  | WithMaxExportBatchSize int
  | WithBlocking

datatype log_batch_option =
    LogWithMaxQueueSize int
  | WithExportInterval int
  | WithExportMaxBatchSize int

datatype ('x, 'o) processor = SimpleProcessor 'x | BatchProcessor 'x "'o list"

definition BuildSpanProcessor :: "queue_config \<Rightarrow> 'x \<Rightarrow> ('x, span_batch_option) processor result" where
  "BuildSpanProcessor c v =
     (if \<not> QueueConfig_IsEnabled c then Ok (SimpleProcessor v)
      else (case rejectUnsupported False c of
              Some e \<Rightarrow> Err e
            | None \<Rightarrow>
                let opts = [];
                    opts = (if 0 < QueueSize c then opts @ [WithMaxQueueSize (QueueSize c)] else opts);
                    opts = (if 0 < FlushTimeout (Batch c) then opts @ [WithBatchTimeout (FlushTimeout (Batch c))] else opts);
                    opts = (if 0 < MaxSize (Batch c) then opts @ [WithMaxExportBatchSize (MaxSize (Batch c))] else opts);
                    opts = (if BlockOnOverflow c then opts @ [WithBlocking] else opts)
                in Ok (BatchProcessor v opts)))"

definition BuildLogProcessor :: "queue_config \<Rightarrow> 'x \<Rightarrow> ('x, log_batch_option) processor result" where
  "BuildLogProcessor c v =
     (if \<not> QueueConfig_IsEnabled c then Ok (SimpleProcessor v)
      else (case rejectUnsupported True c of
              Some e \<Rightarrow> Err e
            | None \<Rightarrow>
                let opts = [];
                    opts = (if 0 < QueueSize c then opts @ [LogWithMaxQueueSize (QueueSize c)] else opts);
                    opts = (if 0 < FlushTimeout (Batch c) then opts @ [WithExportInterval (FlushTimeout (Batch c))] else opts);
                    opts = (if 0 < MaxSize (Batch c) then opts @ [WithExportMaxBatchSize (MaxSize (Batch c))] else opts)
                in Ok (BatchProcessor v opts)))"

subsection \<open>What the options amount to\<close>

text \<open>The settings of an SDK batch processor; the options are applied in order to the
  defaults of the SDK.\<close>

record settings =
  max_queue :: int
  interval :: int
  max_batch :: int
  blocking :: bool

fun apply_span :: "span_batch_option \<Rightarrow> settings \<Rightarrow> settings" where
  "apply_span (WithMaxQueueSize n) s = s\<lparr>max_queue := n\<rparr>"
| "apply_span (WithBatchTimeout n) s = s\<lparr>interval := n\<rparr>"
| "apply_span (WithMaxExportBatchSize n) s = s\<lparr>max_batch := n\<rparr>"
| "apply_span WithBlocking s = s\<lparr>blocking := True\<rparr>"

fun apply_log :: "log_batch_option \<Rightarrow> settings \<Rightarrow> settings" where
  "apply_log (LogWithMaxQueueSize n) s = s\<lparr>max_queue := n\<rparr>"
| "apply_log (WithExportInterval n) s = s\<lparr>interval := n\<rparr>"
| "apply_log (WithExportMaxBatchSize n) s = s\<lparr>max_batch := n\<rparr>"

text \<open>What the configuration asks for: a positive value, or the default of the SDK.\<close>

definition wanted :: "queue_config \<Rightarrow> settings \<Rightarrow> settings" where
  "wanted c d =
     \<lparr>max_queue = (if 0 < QueueSize c then QueueSize c else max_queue d),
      interval = (if 0 < FlushTimeout (Batch c) then FlushTimeout (Batch c) else interval d),
      max_batch = (if 0 < MaxSize (Batch c) then MaxSize (Batch c) else max_batch d),
      blocking = (BlockOnOverflow c \<or> blocking d)\<rparr>"

definition supported :: "bool \<Rightarrow> queue_config \<Rightarrow> bool" where
  "supported isLog c \<longleftrightarrow>
     NumConsumers c = 0 \<and> \<not> WaitForResult c \<and> MinSize (Batch c) = 0 \<and> \<not> (isLog \<and> BlockOnOverflow c)"

lemma rejectUnsupported_iff: "rejectUnsupported isLog c = None \<longleftrightarrow> supported isLog c"
  by (simp add: rejectUnsupported_def supported_def)

text \<open>The contract that the two processors share: a method that builds a processor from a
  configuration, for a signal whose options are applied by \<open>apply\<close>.\<close>

locale batch_pipeline =
  fixes build :: "queue_config \<Rightarrow> 'x \<Rightarrow> ('x, 'o) processor result"
    and "apply" :: "'o \<Rightarrow> settings \<Rightarrow> settings"
    and isLog :: bool
  assumes disabled: "\<not> QueueConfig_IsEnabled c \<Longrightarrow> build c v = Ok (SimpleProcessor v)"
    and refused: "QueueConfig_IsEnabled c \<Longrightarrow> \<not> supported isLog c \<Longrightarrow> \<exists>e. build c v = Err e"
    and batched: "QueueConfig_IsEnabled c \<Longrightarrow> supported isLog c \<Longrightarrow>
      \<exists>opts. build c v = Ok (BatchProcessor v opts) \<and> fold apply opts d = wanted c d"
begin

lemma accepts_iff: "(\<exists>p. build c v = Ok p) \<longleftrightarrow> \<not> QueueConfig_IsEnabled c \<or> supported isLog c"
  using disabled refused batched [of c v undefined] by (metis result.distinct(1))

lemma never_panics: "build c v \<noteq> Panics"
  using disabled refused batched [of c v undefined] by (metis result.distinct(3) result.distinct(5))

lemma settings_wanted:
  "build c v = Ok (BatchProcessor v' opts) \<Longrightarrow> v' = v \<and> fold apply opts d = wanted c d"
  using disabled [of c v] refused [of c v] batched [of c v d]
  by (cases "QueueConfig_IsEnabled c"; cases "supported isLog c") auto

end

lemma fold_if_append:
  "fold f (if b then xs @ [x] else xs) s = (if b then f x (fold f xs s) else fold f xs s)"
  by simp

interpretation span: batch_pipeline BuildSpanProcessor apply_span False
proof
  fix c and v :: 'x and d
  show "\<not> QueueConfig_IsEnabled c \<Longrightarrow> BuildSpanProcessor c v = Ok (SimpleProcessor v)"
    by (simp add: BuildSpanProcessor_def)
  show "QueueConfig_IsEnabled c \<Longrightarrow> \<not> supported False c \<Longrightarrow> \<exists>e. BuildSpanProcessor c v = Err e"
    by (cases "rejectUnsupported False c") (simp_all add: BuildSpanProcessor_def rejectUnsupported_iff)
  assume "QueueConfig_IsEnabled c" "supported False c"
  then show "\<exists>opts. BuildSpanProcessor c v = Ok (BatchProcessor v opts) \<and> fold apply_span opts d = wanted c d"
    by (simp add: BuildSpanProcessor_def Let_def fold_if_append rejectUnsupported_iff [THEN iffD2] wanted_def
        split del: if_split) simp
qed

interpretation log: batch_pipeline BuildLogProcessor apply_log True
proof
  fix c and v :: 'x and d
  show "\<not> QueueConfig_IsEnabled c \<Longrightarrow> BuildLogProcessor c v = Ok (SimpleProcessor v)"
    by (simp add: BuildLogProcessor_def)
  show "QueueConfig_IsEnabled c \<Longrightarrow> \<not> supported True c \<Longrightarrow> \<exists>e. BuildLogProcessor c v = Err e"
    by (cases "rejectUnsupported True c") (simp_all add: BuildLogProcessor_def rejectUnsupported_iff)
  assume "QueueConfig_IsEnabled c" "supported True c"
  then show "\<exists>opts. BuildLogProcessor c v = Ok (BatchProcessor v opts) \<and> fold apply_log opts d = wanted c d"
    by (simp add: BuildLogProcessor_def Let_def fold_if_append rejectUnsupported_iff [THEN iffD2] wanted_def
        split del: if_split) (simp add: supported_def)
qed

text \<open>C25: every branch of the two builders. A disabled queue gives the synchronous processor;
  an unsupported setting is an error; otherwise the batch processor runs with exactly the
  wanted settings, for any defaults of the SDK: a zero or negative value never reaches the
  SDK.\<close>

theorem processors_run_as_wanted:
  "BuildSpanProcessor c v \<noteq> Panics \<and> BuildLogProcessor c v \<noteq> Panics \<and>
   ((\<exists>p. BuildSpanProcessor c v = Ok p) \<longleftrightarrow> \<not> QueueConfig_IsEnabled c \<or> supported False c) \<and>
   ((\<exists>p. BuildLogProcessor c v = Ok p) \<longleftrightarrow> \<not> QueueConfig_IsEnabled c \<or> supported True c) \<and>
   (BuildSpanProcessor c v = Ok (SimpleProcessor v) \<longleftrightarrow> \<not> QueueConfig_IsEnabled c) \<and>
   (BuildLogProcessor c v = Ok (SimpleProcessor v) \<longleftrightarrow> \<not> QueueConfig_IsEnabled c) \<and>
   (BuildSpanProcessor c v = Ok (BatchProcessor v opts) \<longrightarrow> fold apply_span opts d = wanted c d) \<and>
   (BuildLogProcessor c v = Ok (BatchProcessor v opts') \<longrightarrow> fold apply_log opts' d = wanted c d)"
proof -
  have s: "BuildSpanProcessor c v = Ok (SimpleProcessor v) \<longleftrightarrow> \<not> QueueConfig_IsEnabled c"
    by (auto simp: BuildSpanProcessor_def Let_def split: option.splits)
  have l: "BuildLogProcessor c v = Ok (SimpleProcessor v) \<longleftrightarrow> \<not> QueueConfig_IsEnabled c"
    by (auto simp: BuildLogProcessor_def Let_def split: option.splits)
  show ?thesis
    by (intro conjI impI; (rule span.never_panics log.never_panics span.accepts_iff log.accepts_iff s l)?)
      (drule span.settings_wanted log.settings_wanted, erule conjunct2)+
qed

lemma processors_run_as_wanted_witness:
  "fold apply_span [WithMaxQueueSize 10, WithBlocking] \<lparr>max_queue = 2048, interval = 5, max_batch = 512, blocking = False\<rparr> =
     \<lparr>max_queue = 10, interval = 5, max_batch = 512, blocking = True\<rparr>"
  using processors_run_as_wanted [of "\<lparr>queue_Enabled = None, NumConsumers = 0, WaitForResult = False,
      BlockOnOverflow = True, QueueSize = 10, Batch = \<lparr>FlushTimeout = 0, MinSize = 0, MaxSize = - 3\<rparr>\<rparr>" "()"
      "[WithMaxQueueSize 10, WithBlocking]" "\<lparr>max_queue = 2048, interval = 5, max_batch = 512, blocking = False\<rparr>" "[]"]
  by (simp add: BuildSpanProcessor_def QueueConfig_IsEnabled_def rejectUnsupported_def wanted_def)

text \<open>The two signals agree. A configuration without \<open>block_on_overflow\<close> is accepted for
  logs exactly when it is accepted for spans and then runs with the same settings; with it,
  logs refuse every enabled queue.\<close>

theorem span_log_parity:
  "(\<not> BlockOnOverflow c \<longrightarrow>
      ((\<exists>p. BuildLogProcessor c v = Ok p) \<longleftrightarrow> (\<exists>p. BuildSpanProcessor c v = Ok p)) \<and>
      (\<forall>lo so. BuildLogProcessor c v = Ok (BatchProcessor v lo) \<longrightarrow>
         BuildSpanProcessor c v = Ok (BatchProcessor v so) \<longrightarrow> fold apply_log lo d = fold apply_span so d)) \<and>
   (BlockOnOverflow c \<longrightarrow> QueueConfig_IsEnabled c \<longrightarrow> (\<exists>e. BuildLogProcessor c v = Err e))"
proof -
  have "supported True c = supported False c" if "\<not> BlockOnOverflow c"
    using that by (simp add: supported_def)
  moreover have "\<not> supported True c" if "BlockOnOverflow c"
    using that by (simp add: supported_def)
  ultimately show ?thesis
    using span.settings_wanted [of c v v _ d] log.settings_wanted [of c v v _ d] log.refused [of c v]
    by (intro conjI impI allI) (simp_all add: span.accepts_iff log.accepts_iff)
qed

lemma span_log_parity_witness:
  "\<exists>e. BuildLogProcessor \<lparr>queue_Enabled = None, NumConsumers = 0, WaitForResult = False,
      BlockOnOverflow = True, QueueSize = 10, Batch = \<lparr>FlushTimeout = 0, MinSize = 0, MaxSize = 0\<rparr>\<rparr> () = Err e"
  using span_log_parity [of "\<lparr>queue_Enabled = None, NumConsumers = 0, WaitForResult = False,
      BlockOnOverflow = True, QueueSize = 10, Batch = \<lparr>FlushTimeout = 0, MinSize = 0, MaxSize = 0\<rparr>\<rparr>" "()"]
  by (simp add: QueueConfig_IsEnabled_def)

end
