(* ===== verification/Otlp_Options.thy ===== *)
theory Otlp_Options
  imports Sdk Tls Queue_Config Opaque
begin

section \<open>Options of the OTLP exporters (otlp/exporter.go, otlp/http.go)\<close>

text \<open>
  How an exporter configuration becomes the options of the SDK exporters, over gRPC and over
  HTTP, for the three signals. The six SDK packages have options of the same names; they are
  the constructors of one datatype. What is not in the repository is the record
  \<open>otlp_env\<close>: the TLS builder with its files, the version of the SDK, and the part of
  \<open>url.Parse\<close> that looks at what follows the scheme.
\<close>

subsection \<open>Configuration\<close>

record keepalive_config =
  Time :: int
  Timeout :: int
  PermitWithoutStream :: bool

record otlp_config =
  Protocol :: string
  Endpoint :: string
  Compression :: string
  TLS :: "client_tls_settings option"
  Keepalive :: "keepalive_config option"
  ReadBufferSize :: int
  WriteBufferSize :: int
  WaitForReady :: bool
  Headers :: maplist
  BalancerName :: string
  Authority :: string
  ReconnectionPeriod :: int
  ExportTimeout :: int
  Retry :: retry_config
  Queue :: queue_config
  Interval :: int
  Temporality :: string
  ExemplarFilter :: string

datatype dial_option =
    WithUserAgent string
  | WithReadBufferSize int
  | WithWriteBufferSize int
  | WithAuthority string
  | WithKeepaliveParams keepalive_config
  | WithDefaultCallOptions_WaitForReady bool
  | WithDefaultServiceConfig string "string list"

record retry_policy =
  enabled :: bool
  initial :: int
  max_interval :: int
  elapsed :: int

datatype temporality = DeltaTemporalitySelector | LowMemoryTemporalitySelector

datatype 'tls otlp_option =
    WithInsecure
  | WithTLSCredentials 'tls
  | WithTLSClientConfig 'tls
  | WithDialOption "dial_option list"
  | WithEndpointURL string
  | WithEndpoint string
  | WithCompressor string
  | WithCompression_Gzip
  | WithHeaders "string \<rightharpoonup> string"
  | WithTimeout int
  | WithReconnectionPeriod int
  | WithRetry retry_policy
  | WithTemporalitySelector temporality

record ('w, 'tls) otlp_env =
  TLS_Build :: "client_tls_settings \<Rightarrow> ('w, 'tls) action"
  otlptrace_Version :: string
  url_rest_error :: "string \<Rightarrow> goerror option"

subsection \<open>The endpoint\<close>

text \<open>The scheme of a URL as \<open>url.Parse\<close> finds it: the text before the first colon when it is a
  letter followed by letters, digits, plus, minus and dot. A character that cannot be in a
  scheme ends the search without one; a leading colon is an error.\<close>

definition code :: "char \<Rightarrow> nat" where
  "code c = of_char c"

definition letter :: "char \<Rightarrow> bool" where
  "letter c \<longleftrightarrow> 97 \<le> code c \<and> code c \<le> 122 \<or> 65 \<le> code c \<and> code c \<le> 90"

definition scheme_tail :: "char \<Rightarrow> bool" where
  "scheme_tail c \<longleftrightarrow> 48 \<le> code c \<and> code c \<le> 57 \<or> c \<in> set ''+-.''"

fun getScheme :: "string \<Rightarrow> string \<Rightarrow> string result" where
  "getScheme acc [] = Ok []"
| "getScheme acc (c # cs) =
     (if letter c then getScheme (acc @ [c]) cs
      else if scheme_tail c then (if acc = [] then Ok [] else getScheme (acc @ [c]) cs)
      else if c = CHR '':'' then (if acc = [] then Err (Foreign ''missing protocol scheme'') else Ok acc)
      else Ok [])"

definition to_lower :: "char \<Rightarrow> char" where
  "to_lower c = (if 65 \<le> code c \<and> code c \<le> 90 then char_of (code c + 32) else c)"

definition url_Parse_Scheme :: "('w, 'tls) otlp_env \<Rightarrow> string \<Rightarrow> string result" where
  "url_Parse_Scheme env s =
     (case Cut s ''#'' of (u, _, _) \<Rightarrow>
      if \<exists>c \<in> set u. code c < 32 \<or> code c = 127
      then Err (Foreign ''invalid control character in URL'')
      else bindR (getScheme [] u) (\<lambda>scheme.
        case url_rest_error env s of Some e \<Rightarrow> Err e | None \<Rightarrow> Ok (map to_lower scheme)))"

definition endpointHasScheme :: "('w, 'tls) otlp_env \<Rightarrow> otlp_config \<Rightarrow> bool result" where
  "endpointHasScheme env e =
     (if str_index ''://'' (Endpoint e) = None then Ok False
      else bindR (wrapR (Wrapf ''invalid endpoint URL %q: %w'' [Endpoint e]) (url_Parse_Scheme env (Endpoint e)))
        (\<lambda>scheme.
          if scheme \<noteq> ''http'' \<and> scheme \<noteq> ''https''
          then Err (Errorf ''unsupported endpoint scheme %q (want http or https)'' [scheme])
          else Ok True))"

subsection \<open>Compression, headers, retries and dialing\<close>

definition compressor :: "otlp_config \<Rightarrow> string result" where
  "compressor e =
     (if Compression e = [] \<or> Compression e = ''none'' then Ok []
      else if Compression e = ''gzip'' then Ok ''gzip''
      else Err (Errorf ''unsupported compression %q (only gzip is supported)'' [Compression e]))"

text \<open>The loop body over \<open>Iter\<close>: an early return answers false to the iterator.\<close>

definition header_body ::
    "string \<Rightarrow> opaque_string \<Rightarrow> (string \<rightharpoonup> string) result \<Rightarrow> bool \<times> (string \<rightharpoonup> string) result" where
  "header_body name val s =
     (case s of
        Ok m \<Rightarrow>
          if m name \<noteq> None then (False, Err (Errorf ''headers: duplicate name %q'' [name]))
          else (True, Ok (m(name \<mapsto> raw val)))
      | _ \<Rightarrow> (False, s))"

definition headers :: "otlp_config \<Rightarrow> (string, string) gomap result" where
  "headers e =
     (if length (Headers e) = 0 then Ok None
      else bindR (MapList_Iter (Headers e) header_body (Ok Map.empty)) (\<lambda>m. Ok (Some m)))"

definition retryPolicy :: "otlp_config \<Rightarrow> retry_policy option result" where
  "retryPolicy e =
     (let c = Retry e in
      if float_nonzero (RandomizationFactor c) \<or> float_nonzero (Multiplier c)
      then Err (Errorf ''retry_on_failure: randomization_factor and multiplier are not supported by the OTLP gRPC exporter'' [])
      else if retry_Enabled c = None \<and> InitialInterval c = 0 \<and> MaxInterval c = 0 \<and> MaxElapsedTime c = 0
      then Ok None
      else
        let p = \<lparr>enabled = RetryConfig_IsEnabled c, initial = InitialInterval c,
                 max_interval = MaxInterval c, elapsed = MaxElapsedTime c\<rparr>;
            p = (if initial p \<le> 0 then p\<lparr>initial := 5 * 1000000000\<rparr> else p);
            p = (if max_interval p \<le> 0 then p\<lparr>max_interval := 30 * 1000000000\<rparr> else p)
        in Ok (Some p))"

definition dialOpts :: "('w, 'tls) otlp_env \<Rightarrow> otlp_config \<Rightarrow> dial_option list result" where
  "dialOpts env e =
     (let opts = [];
          opts = (if 0 < ReadBufferSize e then opts @ [WithReadBufferSize (ReadBufferSize e)] else opts);
          opts = (if 0 < WriteBufferSize e then opts @ [WithWriteBufferSize (WriteBufferSize e)] else opts);
          opts = (if Authority e \<noteq> [] then opts @ [WithAuthority (Authority e)] else opts)
      in bindR (case Keepalive e of
             None \<Rightarrow> Ok opts
           | Some k \<Rightarrow>
               if Time k \<le> 0 then
                 (if Timeout k \<noteq> 0 \<or> PermitWithoutStream k
                  then Err (Errorf ''keepalive: time must be set when timeout or permit_without_stream is configured'' [])
                  else Ok opts)
               else Ok (opts @ [WithKeepaliveParams k]))
           (\<lambda>opts.
              let opts = (if WaitForReady e then opts @ [WithDefaultCallOptions_WaitForReady True] else opts);
                  opts = (if BalancerName e \<noteq> []
                          then opts @ [WithDefaultServiceConfig ''{\"loadBalancingConfig\": [{%q: {}}]}'' [BalancerName e]]
                          else opts)
              in if length opts = 0 then Ok opts
                 else Ok ([WithUserAgent (''OTel OTLP Exporter Go/'' @ otlptrace_Version env)] @ opts)))"

subsection \<open>The pieces that the builders share\<close>

definition add_tls ::
    "('tls \<Rightarrow> 'tls otlp_option) \<Rightarrow> ('w, 'tls) otlp_env \<Rightarrow> otlp_config \<Rightarrow> 'tls otlp_option list \<Rightarrow>
     ('w, 'tls otlp_option list) action" where
  "add_tls with_tls env e opts =
     (case TLS e of
        None \<Rightarrow> doA (Ok opts)
      | Some t \<Rightarrow>
          if Insecure t then doA (Ok (opts @ [WithInsecure]))
          else bindA (wrapA (Wrapf ''build TLS config: %w'' []) (TLS_Build env t))
                 (\<lambda>c. doA (Ok (opts @ [with_tls c]))))"

definition add_dial ::
    "('w, 'tls) otlp_env \<Rightarrow> otlp_config \<Rightarrow> 'tls otlp_option list \<Rightarrow> 'tls otlp_option list result" where
  "add_dial env e opts =
     bindR (wrapR (Wrapf ''build dial options: %w'' []) (dialOpts env e))
       (\<lambda>dials. if 0 < length dials then Ok (opts @ [WithDialOption dials]) else Ok opts)"

definition add_endpoint ::
    "('w, 'tls) otlp_env \<Rightarrow> otlp_config \<Rightarrow> 'tls otlp_option list \<Rightarrow> 'tls otlp_option list result" where
  "add_endpoint env e opts =
     (if Endpoint e \<noteq> [] then
        bindR (endpointHasScheme env e) (\<lambda>scheme.
          if scheme then Ok (opts @ [WithEndpointURL (Endpoint e)])
          else Ok (opts @ [WithEndpoint (Endpoint e)]))
      else Ok opts)"

definition add_compressor :: "otlp_config \<Rightarrow> 'tls otlp_option list \<Rightarrow> 'tls otlp_option list result" where
  "add_compressor e opts =
     bindR (compressor e) (\<lambda>c. if c \<noteq> [] then Ok (opts @ [WithCompressor c]) else Ok opts)"

definition add_compression :: "otlp_config \<Rightarrow> 'tls otlp_option list \<Rightarrow> 'tls otlp_option list result" where
  "add_compression e opts =
     bindR (compressor e) (\<lambda>c. if c = ''gzip'' then Ok (opts @ [WithCompression_Gzip]) else Ok opts)"

definition add_headers :: "otlp_config \<Rightarrow> 'tls otlp_option list \<Rightarrow> 'tls otlp_option list result" where
  "add_headers e opts =
     bindR (headers e) (\<lambda>h. case h of Some m \<Rightarrow> Ok (opts @ [WithHeaders m]) | None \<Rightarrow> Ok opts)"

definition add_timeout :: "otlp_config \<Rightarrow> 'tls otlp_option list \<Rightarrow> 'tls otlp_option list" where
  "add_timeout e opts = (if 0 < ExportTimeout e then opts @ [WithTimeout (ExportTimeout e)] else opts)"

definition add_reconnection :: "otlp_config \<Rightarrow> 'tls otlp_option list \<Rightarrow> 'tls otlp_option list" where
  "add_reconnection e opts =
     (if 0 < ReconnectionPeriod e then opts @ [WithReconnectionPeriod (ReconnectionPeriod e)] else opts)"

definition add_retry :: "otlp_config \<Rightarrow> 'tls otlp_option list \<Rightarrow> 'tls otlp_option list result" where
  "add_retry e opts =
     bindR (retryPolicy e) (\<lambda>p. case p of Some p \<Rightarrow> Ok (opts @ [WithRetry p]) | None \<Rightarrow> Ok opts)"

definition add_temporality :: "otlp_config \<Rightarrow> 'tls otlp_option list \<Rightarrow> 'tls otlp_option list result" where
  "add_temporality e opts =
     (if Temporality e = [] \<or> Temporality e = ''cumulative'' then Ok opts
      else if Temporality e = ''delta'' then Ok (opts @ [WithTemporalitySelector DeltaTemporalitySelector])
      else if Temporality e = ''lowmemory'' then Ok (opts @ [WithTemporalitySelector LowMemoryTemporalitySelector])
      else Err (Errorf ''unknown temporality %q (want cumulative, delta, or lowmemory)'' [Temporality e]))"

subsection \<open>Headers\<close>

definition header_map :: "maplist \<Rightarrow> (string \<rightharpoonup> string) \<Rightarrow> (string \<rightharpoonup> string)" where
  "header_map hs m = (\<lambda>n. case MapList_Get hs n of Some v \<Rightarrow> Some (raw v) | None \<Rightarrow> m n)"

lemma header_step:
  "MapList_Iter (h # hs) header_body (Ok m) =
     (if m (Name h) = None then MapList_Iter hs header_body (Ok (m(Name h \<mapsto> raw (Value h))))
      else Err (Errorf ''headers: duplicate name %q'' [Name h]))"
  by (simp add: header_body_def)

lemma distinct_names_Cons: "distinct_names (h # hs) \<longleftrightarrow> Name h \<notin> Name ` set hs \<and> distinct_names hs"
  by (simp add: distinct_names_def)

lemma header_map_Cons:
  assumes "Name h \<notin> Name ` set hs"
  shows "header_map hs (m(Name h \<mapsto> raw (Value h))) = header_map (h # hs) m"
proof -
  have "MapList_Get hs (Name h) = None"
    using assms by (auto simp: MapList_Get_map_of map_of_eq_None_iff)
  then show ?thesis by (auto simp: header_map_def fun_eq_iff split: option.split)
qed

lemma header_loop:
  "MapList_Iter hs header_body (Ok m) = Ok m' \<longleftrightarrow>
   distinct_names hs \<and> Name ` set hs \<inter> dom m = {} \<and> m' = header_map hs m"
proof (induction hs arbitrary: m)
  case Nil
  then show ?case by (auto simp: distinct_names_def header_map_def)
next
  case (Cons h hs)
  show ?case
  proof (cases "m (Name h) = None")
    case True
    have "Name ` set hs \<inter> dom (m(Name h \<mapsto> raw (Value h))) = {} \<longleftrightarrow>
        Name h \<notin> Name ` set hs \<and> Name ` set hs \<inter> dom m = {}" by auto
    moreover have "Name ` set (h # hs) \<inter> dom m = {} \<longleftrightarrow> Name ` set hs \<inter> dom m = {}" using True by auto
    ultimately show ?thesis
      unfolding header_step if_P [OF True] Cons.IH distinct_names_Cons using header_map_Cons by metis
  next
    case False
    then show ?thesis unfolding header_step if_not_P [OF False] by auto
  qed
qed

lemma header_loop_Err:
  "MapList_Iter hs header_body (Ok m) = Err x \<longleftrightarrow>
   (\<exists>pre p post. hs = pre @ p # post \<and> distinct_names pre \<and> Name ` set pre \<inter> dom m = {} \<and>
      Name p \<in> dom m \<union> Name ` set pre \<and> x = Errorf ''headers: duplicate name %q'' [Name p])"
proof (induction hs arbitrary: m)
  case (Cons h hs)
  show ?case
  proof (cases "m (Name h) = None")
    case True
    show ?thesis unfolding header_step if_P [OF True] Cons.IH
    proof (intro iffI; elim exE conjE)
      fix pre p post
      assume "hs = pre @ p # post" "distinct_names pre" "Name ` set pre \<inter> dom (m(Name h \<mapsto> raw (Value h))) = {}"
        "Name p \<in> dom (m(Name h \<mapsto> raw (Value h))) \<union> Name ` set pre"
        "x = Errorf ''headers: duplicate name %q'' [Name p]"
      then show "\<exists>pre p post. h # hs = pre @ p # post \<and> distinct_names pre \<and> Name ` set pre \<inter> dom m = {} \<and>
          Name p \<in> dom m \<union> Name ` set pre \<and> x = Errorf ''headers: duplicate name %q'' [Name p]"
        using True by (intro exI [of _ "h # pre"] exI [of _ p] exI [of _ post]) (auto simp: distinct_names_Cons)
    next
      fix pre p post
      assume r: "h # hs = pre @ p # post" "distinct_names pre" "Name ` set pre \<inter> dom m = {}"
        "Name p \<in> dom m \<union> Name ` set pre" "x = Errorf ''headers: duplicate name %q'' [Name p]"
      then obtain pre' where "pre = h # pre'" using True by (cases pre) auto
      with r show "\<exists>pre p post. hs = pre @ p # post \<and> distinct_names pre \<and>
          Name ` set pre \<inter> dom (m(Name h \<mapsto> raw (Value h))) = {} \<and>
          Name p \<in> dom (m(Name h \<mapsto> raw (Value h))) \<union> Name ` set pre \<and>
          x = Errorf ''headers: duplicate name %q'' [Name p]"
        by (intro exI [of _ pre'] exI [of _ p] exI [of _ post]) (auto simp: distinct_names_Cons)
    qed
  next
    case False
    have "(\<exists>pre p post. h # hs = pre @ p # post \<and> distinct_names pre \<and> Name ` set pre \<inter> dom m = {} \<and>
        Name p \<in> dom m \<union> Name ` set pre \<and> x = Errorf ''headers: duplicate name %q'' [Name p]) \<longleftrightarrow>
        Errorf ''headers: duplicate name %q'' [Name h] = x" (is "?l \<longleftrightarrow> ?r")
    proof
      assume ?l
      then obtain pre p post where "h # hs = pre @ p # post" "Name ` set pre \<inter> dom m = {}"
        "x = Errorf ''headers: duplicate name %q'' [Name p]" by blast
      with False show ?r by (cases pre) auto
    next
      assume ?r
      with False show ?l by (intro exI [of _ "[]"] exI [of _ h] exI [of _ hs]) (auto simp: distinct_names_def)
    qed
    then show ?thesis unfolding header_step if_not_P [OF False] result.inject(2) by (rule sym)
  qed
qed simp

text \<open>The headers that are sent are the configured list read as a map, \<open>Get\<close> of every
  name included; nothing is sent for an empty list, and a repeated name is an error that names
  its first repetition.\<close>

theorem headers_exact:
  "(headers e = Ok None \<longleftrightarrow> Headers e = []) \<and>
   (headers e = Ok (Some m) \<longleftrightarrow> Headers e \<noteq> [] \<and> distinct_names (Headers e) \<and>
      m = (\<lambda>n. map_option raw (MapList_Get (Headers e) n))) \<and>
   (headers e = Err x \<longleftrightarrow>
      (\<exists>pre p post. Headers e = pre @ p # post \<and> distinct_names pre \<and> Name p \<in> Name ` set pre \<and>
         x = Errorf ''headers: duplicate name %q'' [Name p]))"
proof -
  have o: "header_map hs Map.empty = (\<lambda>n. map_option raw (MapList_Get hs n))" for hs
    by (auto simp: header_map_def fun_eq_iff split: option.split)
  have "headers e = Ok None \<longleftrightarrow> Headers e = []"
    by (simp add: headers_def go_result)
  moreover have "headers e = Ok (Some m) \<longleftrightarrow> Headers e \<noteq> [] \<and> distinct_names (Headers e) \<and>
      m = (\<lambda>n. map_option raw (MapList_Get (Headers e) n))"
    by (auto simp: headers_def go_result header_loop o)
  moreover have "headers e = Err x \<longleftrightarrow>
      (\<exists>pre p post. Headers e = pre @ p # post \<and> distinct_names pre \<and> Name p \<in> Name ` set pre \<and>
         x = Errorf ''headers: duplicate name %q'' [Name p])"
    by (cases "Headers e = []") (simp_all add: headers_def go_result header_loop_Err)
  ultimately show ?thesis by blast
qed

subsection \<open>Retries\<close>

definition retry_untouched :: "retry_config \<Rightarrow> bool" where
  "retry_untouched c \<longleftrightarrow>
     retry_Enabled c = None \<and> InitialInterval c = 0 \<and> MaxInterval c = 0 \<and> MaxElapsedTime c = 0"

text \<open>Every branch of the retry settings. Knobs that the exporters cannot express are an
  error; an untouched block leaves the defaults of the exporter; otherwise the policy keeps
  what was set, and neither backoff interval is ever zero or negative, so there is no hot
  retry loop.\<close>

theorem retryPolicy_no_hot_loop:
  "case retryPolicy e of
     Err x \<Rightarrow> float_nonzero (RandomizationFactor (Retry e)) \<or> float_nonzero (Multiplier (Retry e))
   | Panics \<Rightarrow> False
   | Ok None \<Rightarrow> retry_untouched (Retry e)
   | Ok (Some p) \<Rightarrow> \<not> retry_untouched (Retry e) \<and> 0 < initial p \<and> 0 < max_interval p \<and>
       initial p \<in> {InitialInterval (Retry e), 5000000000} \<and>
       (0 < InitialInterval (Retry e) \<longrightarrow> initial p = InitialInterval (Retry e)) \<and>
       max_interval p \<in> {MaxInterval (Retry e), 30000000000} \<and>
       (0 < MaxInterval (Retry e) \<longrightarrow> max_interval p = MaxInterval (Retry e)) \<and>
       elapsed p = MaxElapsedTime (Retry e) \<and> enabled p = RetryConfig_IsEnabled (Retry e)"
  by (simp add: retryPolicy_def Let_def retry_untouched_def)

subsection \<open>Dialing\<close>

definition only_if :: "bool \<Rightarrow> 'a \<Rightarrow> 'a list" where
  "only_if b x = (if b then [x] else [])"

lemma append_only_if: "(if b then xs @ [x] else xs) = xs @ only_if b x"
  by (simp add: only_if_def)

lemma set_only_if [simp]: "set (only_if b x) = {y. y = x \<and> b}"
  by (cases b) (simp_all add: only_if_def)

lemma only_if_simps [simp]: "only_if True x = [x]" "only_if False x = []"
  by (simp_all add: only_if_def)

text \<open>The dial options that the configuration asks for, in order.\<close>

definition dial_knobs :: "otlp_config \<Rightarrow> dial_option list" where
  "dial_knobs e =
     only_if (0 < ReadBufferSize e) (WithReadBufferSize (ReadBufferSize e)) @
     only_if (0 < WriteBufferSize e) (WithWriteBufferSize (WriteBufferSize e)) @
     only_if (Authority e \<noteq> []) (WithAuthority (Authority e)) @
     (case Keepalive e of None \<Rightarrow> [] | Some k \<Rightarrow> only_if (0 < Time k) (WithKeepaliveParams k)) @
     only_if (WaitForReady e) (WithDefaultCallOptions_WaitForReady True) @
     only_if (BalancerName e \<noteq> []) (WithDefaultServiceConfig ''{\"loadBalancingConfig\": [{%q: {}}]}'' [BalancerName e])"

definition partial_keepalive :: "otlp_config \<Rightarrow> bool" where
  "partial_keepalive e \<longleftrightarrow>
     (case Keepalive e of
        None \<Rightarrow> False
      | Some k \<Rightarrow> Time k \<le> 0 \<and> (Timeout k \<noteq> 0 \<or> PermitWithoutStream k))"

text \<open>Setting any dial knob keeps the identity of the exporter: the options are empty when
  nothing was asked for, and otherwise the user agent of the SDK followed by exactly the
  configured knobs. Keepalive pings are only enabled with an explicit positive interval; a
  keepalive block that sets other fields without it is an error.\<close>

theorem dialOpts_exact:
  "dialOpts env e =
     (if partial_keepalive e
      then Err (Errorf ''keepalive: time must be set when timeout or permit_without_stream is configured'' [])
      else Ok (if dial_knobs e = [] then []
               else WithUserAgent (''OTel OTLP Exporter Go/'' @ otlptrace_Version env) # dial_knobs e)) \<and>
   (\<forall>k. WithKeepaliveParams k \<in> set (dial_knobs e) \<longleftrightarrow> Keepalive e = Some k \<and> 0 < Time k)"
proof (cases "Keepalive e")
  case None
  then show ?thesis
    by (simp add: dialOpts_def Let_def append_only_if dial_knobs_def partial_keepalive_def)
next
  case (Some k)
  then show ?thesis
    by (auto simp: dialOpts_def Let_def append_only_if dial_knobs_def partial_keepalive_def)
qed

subsection \<open>Endpoints\<close>

lemma getScheme_letters:
  "\<forall>c \<in> set s. letter c \<Longrightarrow> acc @ s \<noteq> [] \<Longrightarrow> getScheme acc (s @ CHR '':'' # r) = Ok (acc @ s)"
proof (induction s arbitrary: acc)
  case Nil
  then show ?case by (simp add: letter_def scheme_tail_def code_def)
qed simp

lemma letter_facts:
  "letter c \<Longrightarrow> \<not> (code c < 32 \<or> code c = 127) \<and> c \<noteq> CHR ''#''"
  by (auto simp: letter_def code_def)

lemma str_index_append: "str_index sep (xs @ sep @ ys) \<noteq> None"
proof (induction xs)
  case Nil
  then show ?case by (cases "sep @ ys") (auto simp del: append_eq_Cons_conv, metis prefixI)
qed auto

definition url_clean :: "string \<Rightarrow> bool" where
  "url_clean s \<longleftrightarrow> (\<forall>c \<in> set s. \<not> (code c < 32 \<or> code c = 127))"

text \<open>An endpoint is handed to the SDK as a URL exactly when it carries the scheme http or
  https in any case of its letters; every other scheme is refused, so a URL never reaches the
  dialer as a literal target. An endpoint without \<open>://\<close> is a bare target.\<close>

theorem endpoint_scheme:
  assumes "Endpoint e = scheme @ ''://'' @ rest" and "scheme \<noteq> []" and "\<forall>c \<in> set scheme. letter c"
    and "url_clean rest" and "url_rest_error env (Endpoint e) = None"
  shows "endpointHasScheme env e =
      (if map to_lower scheme = ''http'' \<or> map to_lower scheme = ''https'' then Ok True
       else Err (Errorf ''unsupported endpoint scheme %q (want http or https)'' [map to_lower scheme])) \<and>
    (str_index ''://'' (Endpoint e') = None \<longrightarrow> endpointHasScheme env e' = Ok False) \<and>
    (endpointHasScheme env e' = Ok False \<longrightarrow> str_index ''://'' (Endpoint e') = None)"
proof -
  have no_hash: "CHR ''#'' \<notin> set (scheme @ ''://'')" using assms(3) letter_facts by auto
  obtain u x y where cut: "Cut (Endpoint e) ''#'' = (scheme @ ''://'' @ u, x, y)" and u: "set u \<subseteq> set rest"
  proof (rule Cut_char_cases [of "CHR ''#''" rest])
    assume "CHR ''#'' \<notin> set rest"
    then have "Cut (Endpoint e) ''#'' = (scheme @ ''://'' @ rest, [], False)"
      using Cut_char_out [of "CHR ''#''" "Endpoint e"] no_hash assms(1) by simp
    then show thesis using that by blast
  next
    fix xs ys
    assume a: "CHR ''#'' \<notin> set xs" "rest = xs @ CHR ''#'' # ys"
    then have "Cut (Endpoint e) ''#'' = (scheme @ ''://'' @ xs, ys, True)"
      using Cut_char_in [of "CHR ''#''" "scheme @ ''://'' @ xs" ys] no_hash assms(1) by simp
    then show thesis using that a by auto
  qed
  have "\<not> (\<exists>c \<in> set (scheme @ ''://'' @ u). code c < 32 \<or> code c = 127)"
    using assms(3,4) u letter_facts by (auto simp: url_clean_def code_def)
  moreover have "getScheme [] (scheme @ ''://'' @ u) = Ok scheme"
    using getScheme_letters [of scheme "[]" "''//'' @ u"] assms(2,3) by simp
  ultimately have "url_Parse_Scheme env (Endpoint e) = Ok (map to_lower scheme)"
    by (simp add: url_Parse_Scheme_def cut assms(5))
  moreover have "str_index ''://'' (Endpoint e) \<noteq> None" unfolding assms(1) by (rule str_index_append)
  ultimately show ?thesis
    by (auto simp: endpointHasScheme_def go_result split: if_splits)
qed

definition plain_env :: "(unit, unit) otlp_env" where
  "plain_env = \<lparr>TLS_Build = (\<lambda>t. doA (Ok ())), otlptrace_Version = ''1'', url_rest_error = (\<lambda>s. None)\<rparr>"

definition plain_otlp :: otlp_config where
  "plain_otlp =
     \<lparr>Protocol = [], Endpoint = [], Compression = [], TLS = None, Keepalive = None, ReadBufferSize = 0,
      WriteBufferSize = 0, WaitForReady = False, Headers = [], BalancerName = [], Authority = [],
      ReconnectionPeriod = 0, ExportTimeout = 0,
      Retry = \<lparr>retry_Enabled = None, InitialInterval = 0, RandomizationFactor = Finite 0 0,
        Multiplier = Finite 0 0, MaxInterval = 0, MaxElapsedTime = 0\<rparr>,
      Queue = \<lparr>queue_Enabled = None, NumConsumers = 0, WaitForResult = False, BlockOnOverflow = False,
        QueueSize = 0, Batch = \<lparr>FlushTimeout = 0, MinSize = 0, MaxSize = 0\<rparr>\<rparr>,
      Interval = 0, Temporality = [], ExemplarFilter = []\<rparr>"

lemma endpoint_scheme_witness:
  "endpointHasScheme plain_env (plain_otlp\<lparr>Endpoint := ''HTTPS://a:4317''\<rparr>) = Ok True"
proof -
  have "map to_lower ''HTTPS'' = ''https''" by code_simp
  with endpoint_scheme [of "plain_otlp\<lparr>Endpoint := ''HTTPS://a:4317''\<rparr>" "''HTTPS''" "''a:4317''" plain_env plain_otlp]
  show ?thesis by (simp add: plain_env_def letter_def url_clean_def code_def)
qed

lemma retryPolicy_no_hot_loop_witness:
  "retryPolicy (plain_otlp\<lparr>Retry := (Retry plain_otlp)\<lparr>MaxElapsedTime := 60\<rparr>\<rparr>) =
     Ok (Some \<lparr>enabled = True, initial = 5000000000, max_interval = 30000000000, elapsed = 60\<rparr>)"
  using retryPolicy_no_hot_loop [of "plain_otlp\<lparr>Retry := (Retry plain_otlp)\<lparr>MaxElapsedTime := 60\<rparr>\<rparr>"]
  by (simp add: retryPolicy_def plain_otlp_def RetryConfig_IsEnabled_def)

end
