(* ===== verification/Otlp_Exporter.thy ===== *)
theory Otlp_Exporter
  imports Otlp_Options Component Config
begin

section \<open>The OTLP exporters (otlp/exporter.go, otlp/http.go)\<close>

text \<open>
  The six option builders, the choice of transport, and the four methods of the exporter
  configuration. The constructors of the SDK are the record \<open>otlp_sdk\<close>: the trace exporters
  are made unstarted and cannot fail; the metric and log exporters dial when they are made.
\<close>

subsection \<open>Options over gRPC\<close>

definition spanOpts :: "('w, 'tls) otlp_env \<Rightarrow> otlp_config \<Rightarrow> ('w, 'tls otlp_option list) action" where
  "spanOpts env e =
     bindA (add_tls WithTLSCredentials env e []) (\<lambda>opts.
     bindA (doA (add_dial env e opts)) (\<lambda>opts.
     bindA (doA (add_endpoint env e opts)) (\<lambda>opts.
     bindA (doA (add_compressor e opts)) (\<lambda>opts.
     bindA (doA (add_headers e opts)) (\<lambda>opts.
     let opts = add_timeout e opts; opts = add_reconnection e opts in
     bindA (doA (add_retry e opts)) (\<lambda>opts. doA (Ok opts)))))))"

definition metricOpts :: "('w, 'tls) otlp_env \<Rightarrow> otlp_config \<Rightarrow> ('w, 'tls otlp_option list) action" where
  "metricOpts env e =
     bindA (add_tls WithTLSCredentials env e []) (\<lambda>opts.
     bindA (doA (add_dial env e opts)) (\<lambda>opts.
     bindA (doA (add_endpoint env e opts)) (\<lambda>opts.
     bindA (doA (add_compressor e opts)) (\<lambda>opts.
     bindA (doA (add_headers e opts)) (\<lambda>opts.
     let opts = add_timeout e opts; opts = add_reconnection e opts in
     bindA (doA (add_retry e opts)) (\<lambda>opts.
     bindA (doA (add_temporality e opts)) (\<lambda>opts. doA (Ok opts))))))))"

definition logOpts :: "('w, 'tls) otlp_env \<Rightarrow> otlp_config \<Rightarrow> ('w, 'tls otlp_option list) action" where
  "logOpts env e =
     bindA (add_tls WithTLSCredentials env e []) (\<lambda>opts.
     bindA (doA (add_dial env e opts)) (\<lambda>opts.
     bindA (doA (add_endpoint env e opts)) (\<lambda>opts.
     bindA (doA (add_compressor e opts)) (\<lambda>opts.
     bindA (doA (add_headers e opts)) (\<lambda>opts.
     let opts = add_timeout e opts; opts = add_reconnection e opts in
     bindA (doA (add_retry e opts)) (\<lambda>opts. doA (Ok opts)))))))"

subsection \<open>Options over HTTP\<close>

definition rejectGRPCOnly :: "otlp_config \<Rightarrow> goerror option" where
  "rejectGRPCOnly e =
     (if Keepalive e \<noteq> None then Some (Errorf ''keepalive is not supported with protocol http'' [])
      else if ReadBufferSize e \<noteq> 0 then Some (Errorf ''read_buffer_size is not supported with protocol http'' [])
      else if WriteBufferSize e \<noteq> 0 then Some (Errorf ''write_buffer_size is not supported with protocol http'' [])
      else if WaitForReady e then Some (Errorf ''wait_for_ready is not supported with protocol http'' [])
      else if BalancerName e \<noteq> [] then Some (Errorf ''balancer_name is not supported with protocol http'' [])
      else if Authority e \<noteq> [] then Some (Errorf ''authority is not supported with protocol http'' [])
      else if ReconnectionPeriod e \<noteq> 0 then Some (Errorf ''reconnection_period is not supported with protocol http'' [])
      else None)"

definition spanHTTPOpts :: "('w, 'tls) otlp_env \<Rightarrow> otlp_config \<Rightarrow> ('w, 'tls otlp_option list) action" where
  "spanHTTPOpts env e =
     (case rejectGRPCOnly e of
        Some x \<Rightarrow> doA (Err x)
      | None \<Rightarrow>
          bindA (add_tls WithTLSClientConfig env e []) (\<lambda>opts.
          bindA (doA (add_endpoint env e opts)) (\<lambda>opts.
          bindA (doA (add_compression e opts)) (\<lambda>opts.
          bindA (doA (add_headers e opts)) (\<lambda>opts.
          let opts = add_timeout e opts in
          bindA (doA (add_retry e opts)) (\<lambda>opts. doA (Ok opts)))))))"

definition metricHTTPOpts :: "('w, 'tls) otlp_env \<Rightarrow> otlp_config \<Rightarrow> ('w, 'tls otlp_option list) action" where
  "metricHTTPOpts env e =
     (case rejectGRPCOnly e of
        Some x \<Rightarrow> doA (Err x)
      | None \<Rightarrow>
          bindA (add_tls WithTLSClientConfig env e []) (\<lambda>opts.
          bindA (doA (add_endpoint env e opts)) (\<lambda>opts.
          bindA (doA (add_compression e opts)) (\<lambda>opts.
          bindA (doA (add_headers e opts)) (\<lambda>opts.
          let opts = add_timeout e opts in
          bindA (doA (add_retry e opts)) (\<lambda>opts.
          bindA (doA (add_temporality e opts)) (\<lambda>opts. doA (Ok opts))))))))"

definition logHTTPOpts :: "('w, 'tls) otlp_env \<Rightarrow> otlp_config \<Rightarrow> ('w, 'tls otlp_option list) action" where
  "logHTTPOpts env e =
     (case rejectGRPCOnly e of
        Some x \<Rightarrow> doA (Err x)
      | None \<Rightarrow>
          bindA (add_tls WithTLSClientConfig env e []) (\<lambda>opts.
          bindA (doA (add_endpoint env e opts)) (\<lambda>opts.
          bindA (doA (add_compression e opts)) (\<lambda>opts.
          bindA (doA (add_headers e opts)) (\<lambda>opts.
          let opts = add_timeout e opts in
          bindA (doA (add_retry e opts)) (\<lambda>opts. doA (Ok opts)))))))"

subsection \<open>The choice of transport\<close>

datatype transport = protocolGRPC | protocolHTTP

definition protocol :: "otlp_config \<Rightarrow> transport result" where
  "protocol e =
     (if Protocol e = [] \<or> Protocol e = ''grpc'' then Ok protocolGRPC
      else if Protocol e = ''http'' \<or> Protocol e = ''http/protobuf'' then Ok protocolHTTP
      else Err (Errorf ''unknown protocol %q (want grpc or http/protobuf)'' [Protocol e]))"

datatype 'tls otlp_span_exporter =
    otlptracegrpc "'tls otlp_option list"
  | otlptracehttp "'tls otlp_option list"

record ('w, 'tls, 'm, 'l) otlp_sdk =
  otlpmetricgrpc_New :: "'tls otlp_option list \<Rightarrow> ('w, 'm) action"
  otlpmetrichttp_New :: "'tls otlp_option list \<Rightarrow> ('w, 'm) action"
  otlploggrpc_New :: "'tls otlp_option list \<Rightarrow> ('w, 'l) action"
  otlploghttp_New :: "'tls otlp_option list \<Rightarrow> ('w, 'l) action"

definition newSpanExporter :: "('w, 'tls) otlp_env \<Rightarrow> otlp_config \<Rightarrow> ('w, 'tls otlp_span_exporter) action" where
  "newSpanExporter env e =
     bindA (doA (protocol e)) (\<lambda>p.
       if p = protocolHTTP then
         bindA (wrapA (Wrapf ''build conn options: %w'' []) (spanHTTPOpts env e)) (\<lambda>opts. doA (Ok (otlptracehttp opts)))
       else
         bindA (wrapA (Wrapf ''build conn options: %w'' []) (spanOpts env e)) (\<lambda>opts. doA (Ok (otlptracegrpc opts))))"

definition newMetricExporter ::
    "('w, 'tls) otlp_env \<Rightarrow> ('w, 'tls, 'm, 'l) otlp_sdk \<Rightarrow> otlp_config \<Rightarrow> ('w, 'm) action" where
  "newMetricExporter env S e =
     bindA (doA (protocol e)) (\<lambda>p.
       if p = protocolHTTP then
         bindA (wrapA (Wrapf ''build conn options: %w'' []) (metricHTTPOpts env e)) (\<lambda>opts.
           wrapA (Wrapf ''create HTTP metric exporter: %w'' []) (otlpmetrichttp_New S opts))
       else
         bindA (wrapA (Wrapf ''build conn options: %w'' []) (metricOpts env e)) (\<lambda>opts.
           wrapA (Wrapf ''create gRPC metric exporter: %w'' []) (otlpmetricgrpc_New S opts)))"

definition newLogExporter ::
    "('w, 'tls) otlp_env \<Rightarrow> ('w, 'tls, 'm, 'l) otlp_sdk \<Rightarrow> otlp_config \<Rightarrow> ('w, 'l) action" where
  "newLogExporter env S e =
     bindA (doA (protocol e)) (\<lambda>p.
       if p = protocolHTTP then
         bindA (wrapA (Wrapf ''build conn options: %w'' []) (logHTTPOpts env e)) (\<lambda>opts.
           wrapA (Wrapf ''create HTTP log exporter: %w'' []) (otlploghttp_New S opts))
       else
         bindA (wrapA (Wrapf ''build conn options: %w'' []) (logOpts env e)) (\<lambda>opts.
           wrapA (Wrapf ''create gRPC log exporter: %w'' []) (otlploggrpc_New S opts)))"

subsection \<open>The methods of the exporter configuration\<close>

text \<open>What the four methods return as a component.\<close>

datatype ('tls, 'm, 'l) otlp_component =
    SpanC "('tls otlp_span_exporter, ('tls otlp_span_exporter, span_batch_option) processor) component"
  | LogC "('l, ('l, log_batch_option) processor) component"
  | MetricC 'm
  | ReaderC "'m periodic_reader"

definition meterProviderOpts :: "otlp_config \<Rightarrow> ('res, 'rd) meter_option list result" where
  "meterProviderOpts e =
     (if ExemplarFilter e = [] then Ok []
      else if ExemplarFilter e = ''always_on'' then Ok [WithExemplarFilter AlwaysOnFilter]
      else if ExemplarFilter e = ''always_off'' then Ok [WithExemplarFilter AlwaysOffFilter]
      else if ExemplarFilter e = ''trace_based'' then Ok [WithExemplarFilter TraceBasedFilter]
      else Err (Errorf ''unknown exemplar_filter %q (want always_on, always_off, or trace_based)'' [ExemplarFilter e]))"

definition Otlp_SpanExporter ::
    "('w, 'tls) otlp_env \<Rightarrow> otlp_config \<Rightarrow>
     ('w, ('tls, 'm, 'l) otlp_component \<times>
        ('res, ('tls otlp_span_exporter, span_batch_option) processor) tracer_option list) action" where
  "Otlp_SpanExporter env e =
     bindA (newSpanExporter env e) (\<lambda>v.
     bindA (doA (BuildSpanProcessor (Queue e) v)) (\<lambda>p.
     doA (Ok (SpanC (SpanComponent v p), [WithSpanProcessor p]))))"

definition Otlp_MetricExporter ::
    "('w, 'tls) otlp_env \<Rightarrow> ('w, 'tls, 'm, 'l) otlp_sdk \<Rightarrow> otlp_config \<Rightarrow>
     ('w, ('tls, 'm, 'l) otlp_component \<times> ('res, 'm periodic_reader) meter_option list) action" where
  "Otlp_MetricExporter env S e =
     bindA (newMetricExporter env S e) (\<lambda>v.
     bindA (doA (meterProviderOpts e)) (\<lambda>mopts.
     doA (Ok (MetricC v, [WithReader (PeriodicReader v [])] @ mopts))))"

definition Otlp_MetricReader ::
    "('w, 'tls) otlp_env \<Rightarrow> ('w, 'tls, 'm, 'l) otlp_sdk \<Rightarrow> otlp_config \<Rightarrow>
     ('w, ('tls, 'm, 'l) otlp_component \<times> ('res, 'm periodic_reader) meter_option list) action" where
  "Otlp_MetricReader env S e =
     bindA (newMetricExporter env S e) (\<lambda>v.
       let ropts = [];
           ropts = (if 0 < Interval e then ropts @ [WithInterval (Interval e)] else ropts);
           ropts = (if 0 < ExportTimeout e then ropts @ [ReaderWithTimeout (ExportTimeout e)] else ropts)
       in bindA (doA (meterProviderOpts e)) (\<lambda>mopts.
            let r = PeriodicReader v ropts in
            doA (Ok (ReaderC r, [WithReader r] @ mopts))))"

definition Otlp_LogExporter ::
    "('w, 'tls) otlp_env \<Rightarrow> ('w, 'tls, 'm, 'l) otlp_sdk \<Rightarrow> otlp_config \<Rightarrow>
     ('w, ('tls, 'm, 'l) otlp_component \<times> ('res, ('l, log_batch_option) processor) logger_option list) action" where
  "Otlp_LogExporter env S e =
     bindA (newLogExporter env S e) (\<lambda>v.
     bindA (doA (BuildLogProcessor (Queue e) v)) (\<lambda>p.
     doA (Ok (LogC (LogComponent v p), [WithProcessor p]))))"

definition OtlpExporter ::
    "('w, 'tls) otlp_env \<Rightarrow> ('w, 'tls, 'm, 'l) otlp_sdk \<Rightarrow> otlp_config \<Rightarrow>
     ('w, ('tls, 'm, 'l) otlp_component,
      ('res, ('tls otlp_span_exporter, span_batch_option) processor) tracer_option,
      ('res, 'm periodic_reader) meter_option,
      ('res, ('l, log_batch_option) processor) logger_option) exporter_config" where
  "OtlpExporter env S e =
     \<lparr>SpanExporter = Otlp_SpanExporter env e, MetricExporter = Otlp_MetricExporter env S e,
      MetricReader = Otlp_MetricReader env S e, LogExporter = Otlp_LogExporter env S e\<rparr>"

subsection \<open>The pieces\<close>


definition endpoint_piece :: "('w, 'tls) otlp_env \<Rightarrow> otlp_config \<Rightarrow> 'tls otlp_option list result" where
  "endpoint_piece env e =
     (if Endpoint e = [] then Ok []
      else bindR (endpointHasScheme env e) (\<lambda>url.
        Ok [(if url then WithEndpointURL else WithEndpoint) (Endpoint e)]))"


definition header_piece :: "otlp_config \<Rightarrow> 'tls otlp_option list result" where
  "header_piece e =
     bindR (headers e) (\<lambda>h. Ok (case h of None \<Rightarrow> [] | Some m \<Rightarrow> [WithHeaders m]))"

definition retry_piece :: "otlp_config \<Rightarrow> 'tls otlp_option list result" where
  "retry_piece e =
     bindR (retryPolicy e) (\<lambda>p. Ok (case p of None \<Rightarrow> [] | Some p \<Rightarrow> [WithRetry p]))"

definition timeout_piece :: "otlp_config \<Rightarrow> 'tls otlp_option list" where
  "timeout_piece e = only_if (0 < ExportTimeout e) (WithTimeout (ExportTimeout e))"

















subsection \<open>The three signals\<close>



subsection \<open>The two transports\<close>

fun to_http :: "'tls otlp_option \<Rightarrow> 'tls otlp_option" where
  "to_http (WithTLSCredentials c) = WithTLSClientConfig c"
| "to_http (WithCompressor s) = WithCompression_Gzip"
| "to_http x = x"

lemma to_http_pieces [simp]:
  "endpoint_piece env e = Ok p \<Longrightarrow> map to_http p = p"
  "header_piece e = Ok p \<Longrightarrow> map to_http p = p"
  "retry_piece e = Ok p \<Longrightarrow> map to_http p = p"
  "map to_http (timeout_piece e) = timeout_piece e"
     apply (cases "endpointHasScheme env e"; simp add: endpoint_piece_def split: if_splits; fastforce)
    apply (cases "headers e"; simp add: header_piece_def; fastforce split: option.split)
   apply (cases "retryPolicy e"; simp add: retry_piece_def; fastforce split: option.split)
  apply (simp add: timeout_piece_def only_if_def)
  done






subsection \<open>Options say what is configured\<close>







subsection \<open>Which configurations are accepted\<close>














end
