(* ===== verification/Debug_Exporter.thy ===== *)
theory Debug_Exporter
  imports Go_Action Writers Sdk Queue_Config Component Config
begin

section \<open>The debug exporters (debug/exporter.go)\<close>

text \<open>
  Telemetry printed to named outputs. The state is the store of outputs together with the
  world; the constructors of the stdout exporters of the SDK are the record \<open>stdout_sdk\<close>:
  each makes an exporter that writes to the opened handles.
\<close>

record debug_config =
  OutputPaths :: "string list"
  DebugQueue :: queue_config

record ('h, 'sx, 'mx, 'lx) stdout_sdk =
  stdouttrace_New :: "'h list \<Rightarrow> 'sx result"
  stdoutmetric_New :: "'h list \<Rightarrow> 'mx result"
  stdoutlog_New :: "'h list \<Rightarrow> 'lx result"

type_synonym ('h, 'w) output_world = "('h, 'w) output_store \<times> 'w"

text \<open>The effective queue: an entirely unset one is switched off.\<close>

definition untouched :: "queue_config \<Rightarrow> bool" where
  "untouched c \<longleftrightarrow>
     queue_Enabled c = None \<and> NumConsumers c = 0 \<and> \<not> WaitForResult c \<and> \<not> BlockOnOverflow c \<and> QueueSize c = 0 \<and>
     Batch c = \<lparr>FlushTimeout = 0, MinSize = 0, MaxSize = 0\<rparr>"

definition debug_queue :: "debug_config \<Rightarrow> queue_config" where
  "debug_queue e = (let c = DebugQueue e in if untouched c then c\<lparr>queue_Enabled := Some False\<rparr> else c)"

definition debug_paths :: "debug_config \<Rightarrow> string list" where
  "debug_paths e = (if length (OutputPaths e) = 0 then [''stdout''] else OutputPaths e)"

definition debug_open ::
    "(string \<Rightarrow> ('h, 'w) opener) \<Rightarrow> ('h, 'w) writer_ops \<Rightarrow> debug_config \<Rightarrow>
     (('h, 'w) output_world, 'h list) action" where
  "debug_open os_open ops e W =
     (case OutputStore_OpenAll os_open ops (fst W) (debug_paths e) (snd W) of
        (r, outs', w') \<Rightarrow> (wrapR (Wrapf ''open: %w'' []) r, (outs', w')))"

datatype ('sx, 'mx, 'lx) debug_component =
    DSpan "('sx, ('sx, span_batch_option) processor) component"
  | DLog "('lx, ('lx, log_batch_option) processor) component"
  | DMetric 'mx
  | DReader "'mx periodic_reader"

definition Debug_SpanExporter ::
    "(string \<Rightarrow> ('h, 'w) opener) \<Rightarrow> ('h, 'w) writer_ops \<Rightarrow> ('h, 'sx, 'mx, 'lx) stdout_sdk \<Rightarrow> debug_config \<Rightarrow>
     (('h, 'w) output_world, ('sx, 'mx, 'lx) debug_component \<times>
        ('res, ('sx, span_batch_option) processor) tracer_option list) action" where
  "Debug_SpanExporter os_open ops S e =
     bindA (wrapA (Wrapf ''open: %w'' []) (debug_open os_open ops e)) (\<lambda>hs.
     bindA (doA (stdouttrace_New S hs)) (\<lambda>v.
     bindA (doA (BuildSpanProcessor (debug_queue e) v)) (\<lambda>p.
     doA (Ok (DSpan (SpanComponent v p), [WithSpanProcessor p])))))"

definition Debug_MetricExporter ::
    "(string \<Rightarrow> ('h, 'w) opener) \<Rightarrow> ('h, 'w) writer_ops \<Rightarrow> ('h, 'sx, 'mx, 'lx) stdout_sdk \<Rightarrow> debug_config \<Rightarrow>
     (('h, 'w) output_world, ('sx, 'mx, 'lx) debug_component \<times> ('res, 'mx periodic_reader) meter_option list) action" where
  "Debug_MetricExporter os_open ops S e =
     bindA (wrapA (Wrapf ''open: %w'' []) (debug_open os_open ops e)) (\<lambda>hs.
     bindA (doA (stdoutmetric_New S hs)) (\<lambda>v.
     doA (Ok (DMetric v, [WithReader (PeriodicReader v [])]))))"

definition Debug_MetricReader ::
    "(string \<Rightarrow> ('h, 'w) opener) \<Rightarrow> ('h, 'w) writer_ops \<Rightarrow> ('h, 'sx, 'mx, 'lx) stdout_sdk \<Rightarrow> debug_config \<Rightarrow>
     (('h, 'w) output_world, ('sx, 'mx, 'lx) debug_component \<times> ('res, 'mx periodic_reader) meter_option list) action" where
  "Debug_MetricReader os_open ops S e =
     bindA (wrapA (Wrapf ''open: %w'' []) (debug_open os_open ops e)) (\<lambda>hs.
     bindA (doA (stdoutmetric_New S hs)) (\<lambda>v.
     let r = PeriodicReader v [] in doA (Ok (DReader r, [WithReader r]))))"

definition Debug_LogExporter ::
    "(string \<Rightarrow> ('h, 'w) opener) \<Rightarrow> ('h, 'w) writer_ops \<Rightarrow> ('h, 'sx, 'mx, 'lx) stdout_sdk \<Rightarrow> debug_config \<Rightarrow>
     (('h, 'w) output_world, ('sx, 'mx, 'lx) debug_component \<times>
        ('res, ('lx, log_batch_option) processor) logger_option list) action" where
  "Debug_LogExporter os_open ops S e =
     bindA (wrapA (Wrapf ''open: %w'' []) (debug_open os_open ops e)) (\<lambda>hs.
     bindA (doA (stdoutlog_New S hs)) (\<lambda>v.
     bindA (doA (BuildLogProcessor (debug_queue e) v)) (\<lambda>p.
     doA (Ok (DLog (LogComponent v p), [WithProcessor p])))))"

definition DebugExporter ::
    "(string \<Rightarrow> ('h, 'w) opener) \<Rightarrow> ('h, 'w) writer_ops \<Rightarrow> ('h, 'sx, 'mx, 'lx) stdout_sdk \<Rightarrow> debug_config \<Rightarrow>
     (('h, 'w) output_world, ('sx, 'mx, 'lx) debug_component,
      ('res, ('sx, span_batch_option) processor) tracer_option,
      ('res, 'mx periodic_reader) meter_option,
      ('res, ('lx, log_batch_option) processor) logger_option) exporter_config" where
  "DebugExporter os_open ops S e =
     \<lparr>SpanExporter = Debug_SpanExporter os_open ops S e, MetricExporter = Debug_MetricExporter os_open ops S e,
      MetricReader = Debug_MetricReader os_open ops S e, LogExporter = Debug_LogExporter os_open ops S e\<rparr>"

subsection \<open>The outputs of an exporter\<close>

lemma debug_queue_supported: "QueueConfig_IsEnabled (debug_queue e) \<Longrightarrow> debug_queue e = DebugQueue e"
  by (simp add: debug_queue_def Let_def QueueConfig_IsEnabled_def split: if_splits)

lemma untouched_synchronous: "untouched (DebugQueue e) \<Longrightarrow> \<not> QueueConfig_IsEnabled (debug_queue e)"
  by (simp add: debug_queue_def QueueConfig_IsEnabled_def)

lemma debug_open_logged:
  assumes "debug_open (\<lambda>p. logged_open (os_open p)) (logged_ops ops) e (logged_store outs, (w, [])) = (Ok hs, outs', w', log)"
  shows "opened_handles log = hs \<and> closed_handles log = [] \<and> length hs = length (debug_paths e)"
proof -
  have "OutputStore_OpenAll (\<lambda>p. logged_open (os_open p)) (logged_ops ops) (logged_store outs) (debug_paths e) (w, []) =
      (Ok hs, outs', w', log)"
    using assms by (auto simp: debug_open_def go_result split: prod.splits)
  from OpenAll_logged [OF this] show ?thesis by simp
qed

text \<open>C20: without any queue setting the exporters print synchronously; a queue that is refused
  makes the trace and log exporters fail, and the outputs they had opened for it all stay open
  with nobody holding them.\<close>

theorem debug_queue_outcome:
  assumes "debug_open (\<lambda>p. logged_open (os_open p)) (logged_ops ops) e (logged_store outs, (w, [])) = (Ok hs, W)"
    and "stdouttrace_New S hs = Ok sv" and "stdoutlog_New S hs = Ok lv"
  shows "(untouched (DebugQueue e) \<longrightarrow>
      Debug_SpanExporter (\<lambda>p. logged_open (os_open p)) (logged_ops ops) S e (logged_store outs, (w, [])) =
        (Ok (DSpan (SpanComponent sv (SimpleProcessor sv)), [WithSpanProcessor (SimpleProcessor sv)]), W) \<and>
      Debug_LogExporter (\<lambda>p. logged_open (os_open p)) (logged_ops ops) S e (logged_store outs, (w, [])) =
        (Ok (DLog (LogComponent lv (SimpleProcessor lv)), [WithProcessor (SimpleProcessor lv)]), W)) \<and>
    (QueueConfig_IsEnabled (debug_queue e) \<and> \<not> supported False (DebugQueue e) \<longrightarrow>
      (\<exists>x. Debug_SpanExporter (\<lambda>p. logged_open (os_open p)) (logged_ops ops) S e (logged_store outs, (w, [])) = (Err x, W))) \<and>
    (QueueConfig_IsEnabled (debug_queue e) \<and> \<not> supported True (DebugQueue e) \<longrightarrow>
      (\<exists>x. Debug_LogExporter (\<lambda>p. logged_open (os_open p)) (logged_ops ops) S e (logged_store outs, (w, [])) = (Err x, W))) \<and>
    opened_handles (snd (snd W)) = hs \<and> closed_handles (snd (snd W)) = [] \<and> length hs = length (debug_paths e)"
proof -
  obtain outs' w' log where W: "W = (outs', w', log)" using prod_cases3 by blast
  have o: "wrapA (Wrapf ''open: %w'' []) (debug_open (\<lambda>p. logged_open (os_open p)) (logged_ops ops) e)
      (logged_store outs, (w, [])) = (Ok hs, W)"
    using assms(1) by (simp add: wrapA_Ok)
  have q: "\<exists>x. BuildSpanProcessor (debug_queue e) sv = Err x"
    if "QueueConfig_IsEnabled (debug_queue e)" "\<not> supported False (DebugQueue e)"
    using that span.refused [of "debug_queue e" sv] debug_queue_supported [of e] by simp
  have q': "\<exists>x. BuildLogProcessor (debug_queue e) lv = Err x"
    if "QueueConfig_IsEnabled (debug_queue e)" "\<not> supported True (DebugQueue e)"
    using that log.refused [of "debug_queue e" lv] debug_queue_supported [of e] by simp
  have d: "BuildSpanProcessor (debug_queue e) sv = Ok (SimpleProcessor sv)"
    "BuildLogProcessor (debug_queue e) lv = Ok (SimpleProcessor lv)" if "untouched (DebugQueue e)"
    using untouched_synchronous [OF that] by (simp_all add: span.disabled log.disabled)
  show ?thesis
    using debug_open_logged [OF assms(1) [unfolded W]] o assms(2,3) q q' d
    by (auto simp: W Debug_SpanExporter_def Debug_LogExporter_def bindA_def doA_def)
qed

definition two_consumers :: debug_config where
  "two_consumers =
     \<lparr>OutputPaths = [''a''],
      DebugQueue = \<lparr>queue_Enabled = None, NumConsumers = 2, WaitForResult = False, BlockOnOverflow = False,
        QueueSize = 0, Batch = \<lparr>FlushTimeout = 0, MinSize = 0, MaxSize = 0\<rparr>\<rparr>\<rparr>"

definition handle_sdk :: "(nat, nat list, nat list, nat list) stdout_sdk" where
  "handle_sdk = \<lparr>stdouttrace_New = Ok, stdoutmetric_New = Ok, stdoutlog_New = Ok\<rparr>"

lemma debug_queue_outcome_witness:
  "\<exists>x outs'. Debug_LogExporter (\<lambda>p. logged_open (no_such_file p)) (logged_ops quiet_ops) handle_sdk two_consumers
     (logged_store (Some Map.empty), (0, [])) = (Err x, outs', 1, [Opened 0])"
proof -
  have o: "debug_open (\<lambda>p. logged_open (no_such_file p)) (logged_ops quiet_ops) two_consumers
      (logged_store (Some Map.empty), (0, [])) =
    (Ok [0], (Some [''a'' \<mapsto> logged_open (no_such_file ''a'')], 1, [Opened 0]))"
    by (simp add: debug_open_def debug_paths_def two_consumers_def OutputStore_OpenAll_def OutputStore_Open_def
        logged_store_def logged_open_apply no_such_file_def counting_open_def)
  have "QueueConfig_IsEnabled (debug_queue two_consumers)" "\<not> supported True (DebugQueue two_consumers)"
    by (simp_all add: debug_queue_def untouched_def two_consumers_def QueueConfig_IsEnabled_def supported_def)
  with debug_queue_outcome [OF o, of handle_sdk "[0]" "[0]"] show ?thesis
    by (auto simp: handle_sdk_def)
qed

end
