(* ===== verification/Pretty_Color.thy ===== *)
theory Pretty_Color
  imports Go_Prelude
begin

section \<open>Coloured text (pretty/color.go)\<close>

text \<open>
  The palette of package pretty, and the text written with it. A buffer is the list of its
  pieces: plain text written with \<open>WriteString\<close>, or text painted with a colour. The escape
  codes that the library color puts around a painted piece (none when colours are switched
  off) are the parameter of \<open>bytes_of\<close>; \<open>visible\<close> is the text without them.
\<close>

datatype attribute = Bold | Faint | Underline | FgBlack | FgWhite | FgHiRed | FgHiGreen | FgHiYellow | FgHiBlue | FgHiWhite

datatype color = New "attribute list" | RGB nat nat nat

definition c_underline :: color where "c_underline = New [Underline]"

definition c_faint :: color where "c_faint = New [FgBlack, Faint]"

definition c_time :: color where "c_time = New [FgWhite, Faint]"

definition c_debug :: color where "c_debug = New [FgHiGreen]"

definition c_info :: color where "c_info = New [FgHiBlue]"

definition c_warn :: color where "c_warn = New [FgHiYellow]"

definition c_error :: color where "c_error = New [FgHiRed]"

definition c_msg :: color where "c_msg = New [FgHiWhite]"

definition c_req :: color where "c_req = RGB 169 255 255"

definition c_res :: color where "c_res = RGB 255 194 169"

definition c_http_method :: color where "c_http_method = New [Bold]"

definition light_colors :: "color list" where
  "light_colors =
     [RGB 255 80 80, RGB 255 140 80, RGB 255 190 80, RGB 255 223 186, RGB 255 255 186,
      RGB 210 255 80, RGB 130 255 80, RGB 186 255 201, RGB 80 255 120, RGB 80 255 200,
      RGB 186 255 255, RGB 80 240 255, RGB 80 180 255, RGB 186 201 255, RGB 120 80 255,
      RGB 201 186 255, RGB 255 186 255, RGB 255 80 200, RGB 255 179 186]"

definition dimmed_colors :: "color list" where
  "dimmed_colors =
     [RGB 139 0 0, RGB 80 0 0, RGB 128 64 0, RGB 204 85 0, RGB 0 102 102,
      RGB 0 100 0, RGB 85 107 47, RGB 46 139 87, RGB 47 79 79, RGB 77 57 57,
      RGB 72 61 139, RGB 72 61 178, RGB 58 95 205, RGB 70 130 180, RGB 45 82 160,
      RGB 47 79 117, RGB 39 64 139, RGB 0 51 102, RGB 0 51 153, RGB 25 25 112,
      RGB 128 0 128, RGB 75 0 130, RGB 108 52 131, RGB 79 48 89, RGB 95 158 160,
      RGB 54 69 79, RGB 0 77 77, RGB 72 61 178]"

definition c_bracket :: color where "c_bracket = New [FgWhite, Faint]"

definition c_map_key :: color where "c_map_key = RGB 180 160 100"

subsection \<open>Buffers\<close>

type_synonym piece = "color option \<times> string"

abbreviation plain :: "string \<Rightarrow> piece" where
  "plain s \<equiv> (None, s)"

abbreviation painted :: "color \<Rightarrow> string \<Rightarrow> piece" where
  "painted c s \<equiv> (Some c, s)"

definition bytes_of :: "(color \<Rightarrow> string \<Rightarrow> string) \<Rightarrow> piece list \<Rightarrow> string" where
  "bytes_of paint ps = concat (map (\<lambda>(c, s). case c of None \<Rightarrow> s | Some c \<Rightarrow> paint c s) ps)"

definition visible :: "piece list \<Rightarrow> string" where
  "visible ps = concat (map snd ps)"

lemma visible_Nil [simp]: "visible [] = []"
  by (simp add: visible_def)

lemma visible_Cons [simp]: "visible ((c, s) # ps) = s @ visible ps"
  by (simp add: visible_def)

lemma visible_append [simp]: "visible (ps @ qs) = visible ps @ visible qs"
  by (simp add: visible_def)

lemma visible_if [simp]: "visible (if b then ps else qs) = (if b then visible ps else visible qs)"
  by simp

lemma bytes_of_no_color: "bytes_of (\<lambda>c s. s) ps = visible ps"
  by (simp add: bytes_of_def visible_def case_prod_beta option.case_eq_if cong: map_cong)

text \<open>The number of characters of a UTF-8 text: the bytes that do not continue a character.\<close>

definition continues :: "char \<Rightarrow> bool" where
  "continues c \<longleftrightarrow> 128 \<le> (of_char c :: nat) \<and> (of_char c :: nat) < 192"

definition columns :: "string \<Rightarrow> nat" where
  "columns s = length (filter (\<lambda>c. \<not> continues c) s)"

lemma columns_append [simp]: "columns (s @ t) = columns s + columns t"
  by (simp add: columns_def)

lemma columns_Nil [simp]: "columns [] = 0"
  by (simp add: columns_def)

lemma columns_Cons: "columns (c # s) = (if continues c then 0 else 1) + columns s"
  by (simp add: columns_def)

lemma columns_ascii: "\<forall>c \<in> set s. \<not> continues c \<Longrightarrow> columns s = length s"
  by (simp add: columns_def filter_id_conv)

text \<open>A number padded to a fixed width with zeros on the left.\<close>

definition padded :: "nat \<Rightarrow> nat \<Rightarrow> string" where
  "padded w n = replicate (w - length (show_nat n)) (CHR ''0'') @ show_nat n"

lemma digit_ascii: "n < 10 \<Longrightarrow> \<not> continues (digit n)"
  by (simp add: continues_def digit_def)

lemma show_nat_ascii: "c \<in> set (show_nat n) \<Longrightarrow> \<not> continues c"
  using set_show_nat [of n] digit_ascii by auto

lemma columns_show_nat [simp]: "columns (show_nat n) = length (show_nat n)"
  by (rule columns_ascii) (use show_nat_ascii in blast)

lemma columns_zeros [simp]: "columns (replicate n (CHR ''0'')) = n"
  by (subst columns_ascii) (simp_all add: continues_def)

lemma length_show_nat_le: "0 < k \<Longrightarrow> n < 10 ^ k \<Longrightarrow> length (show_nat n) \<le> k"
proof (induction k arbitrary: n)
  case (Suc k)
  show ?case
  proof (cases "n < 10")
    case True
    then show ?thesis by (simp add: length_show_nat_1)
  next
    case False
    with Suc.prems have "0 < k" by (cases k) auto
    moreover from Suc.prems have "n div 10 < 10 ^ k" by (simp add: less_mult_imp_div_less mult.commute)
    ultimately have "length (show_nat (n div 10)) \<le> k" by (rule Suc.IH)
    with False show ?thesis by (simp add: show_nat.simps [of n])
  qed
qed simp

lemma columns_padded: "0 < w \<Longrightarrow> n < 10 ^ w \<Longrightarrow> columns (padded w n) = w"
  using length_show_nat_le [of w n] by (simp add: padded_def)

lemma length_padded: "0 < w \<Longrightarrow> n < 10 ^ w \<Longrightarrow> length (padded w n) = w"
  using length_show_nat_le [of w n] by (simp add: padded_def)

end
