(* ===== verification/Pretty_String.thy ===== *)
theory Pretty_String
  imports Pretty_Color
begin

unbundle bit_operations_syntax

section \<open>Durations, sizes, abbreviations and the line header (pretty/string.go)\<close>

text \<open>
  The fixed-width columns of the log output. A function that writes to a buffer gives the
  pieces it appends; a slice or index expression that is out of range is \<open>Panics\<close>.
  Durations are in nanoseconds; Go's \<open>/\<close> and \<open>%\<close> are \<open>sdiv\<close> and \<open>smod\<close>.
\<close>

definition Microsecond :: int where "Microsecond = 1000"

definition Millisecond :: int where "Millisecond = 1000000"

definition Second :: int where "Second = 1000000000"

definition Minute :: int where "Minute = 60000000000"

definition Hour :: int where "Hour = 3600000000000"

lemmas units = Microsecond_def Millisecond_def Second_def Minute_def Hour_def

definition micro_sign :: string where
  "micro_sign = [CHR 0xC2, CHR 0xB5]"

subsection \<open>Durations\<close>

definition zero_if :: "bool \<Rightarrow> piece list" where
  "zero_if b = (if b then [painted c_faint ''0''] else [])"

text \<open>The five formats, in the order of the code.\<close>

definition render_micros :: "int \<Rightarrow> piece list" where
  "render_micros d =
     (let us = (d smod Millisecond) sdiv Microsecond; ns = d smod Microsecond in
      zero_if (us < 100) @ zero_if (us < 10) @
      (if us = 0 then [painted c_faint ''0''] else [painted c_msg (show_int us)]) @
      [plain ''.''] @
      (if ns < 100 then
         (if us = 0 \<or> ns = 0 then [painted c_faint ''0''] else [plain ''0''])
       else []) @
      (if ns < 10 then [painted c_faint ''0''] else [painted c_msg (show_int (ns sdiv 10))]) @
      [plain (micro_sign @ ''s'')])"

definition render_millis :: "int \<Rightarrow> piece list" where
  "render_millis d =
     (let ms = (d smod Second) sdiv Millisecond; us = (d smod Millisecond) sdiv Microsecond in
      zero_if (ms < 100) @ zero_if (ms < 10) @
      (if ms = 0 then [painted c_faint ''0''] else [painted c_msg (show_int ms)]) @
      [plain ''.''] @
      (if us < 100 then [plain ''0''] else []) @
      (if us < 10 then [painted c_faint ''0''] else [painted c_msg (show_int (us sdiv 10))]) @
      [plain ''ms''])"

definition render_minutes :: "int \<Rightarrow> piece list" where
  "render_minutes d =
     (let min = (d smod Hour) sdiv Minute; sec = (d smod Minute) sdiv Second; ms = (d smod Second) sdiv Millisecond in
      zero_if (min < 10) @
      (if 0 < min then [painted c_msg (show_int min)] else [plain ''0'']) @
      [plain ''m''] @
      zero_if (sec < 10) @
      (if sec = 0 then [painted c_faint ''0''] else [painted c_msg (show_int sec)]) @
      [plain ''.''] @
      (if 100 \<le> ms then [painted c_msg (show_int (ms sdiv 100))] else [painted c_faint ''0'']) @
      [plain ''s''])"

definition render_days :: "int \<Rightarrow> piece list" where
  "render_days d =
     (let day = d sdiv (Hour * 24); h = (d smod (Hour * 24)) sdiv Hour; min = (d smod Hour) sdiv Minute in
      zero_if (day < 10) @ [painted c_msg (show_int day)] @ [plain ''d''] @
      zero_if (h < 10) @ (if 0 < h then [painted c_msg (show_int h)] else [plain ''0'']) @
      [plain '':''] @
      zero_if (min < 10) @ (if 0 < min then [painted c_msg (show_int min)] else [plain ''0'']))"

definition render_long :: "int \<Rightarrow> piece list" where
  "render_long d =
     (let day = d sdiv (Hour * 24); d' = d smod (Hour * 24); h = (d' smod (Hour * 24)) sdiv Hour in
      zero_if (day < 1000) @ [painted c_msg (show_int day)] @ [plain ''d''] @
      zero_if (h < 10) @ (if 0 < h then [painted c_msg (show_int h)] else [plain ''0'']) @
      [plain ''h''])"

definition renderDuration :: "int \<Rightarrow> piece list" where
  "renderDuration d =
     (if d < Millisecond then render_micros d
      else if d < Second then render_millis d
      else if d < Hour then render_minutes d
      else if d < Hour * 24 * 100 then render_days d
      else if d < Hour * 24 * 10000 then render_long d
      else [plain ''TOO_LONG''])"

subsection \<open>Sizes\<close>

text \<open>The loop that divides by 1024; \<open>i\<close> counts its rounds.\<close>

function humanize_loop :: "int \<Rightarrow> nat \<Rightarrow> int \<times> nat" where
  "humanize_loop n i = (if 9999 < n then humanize_loop (n sdiv 1024) (i + 1) else (n, i))"
  by pat_completeness auto

termination
  by (relation "measure (\<lambda>(n, i). nat n)") (auto simp: signed_divide_int_def sgn_if nat_less_iff)

declare humanize_loop.simps [simp del]

definition size_units :: string where
  "size_units = ''BKMGTPE''"

definition humanizeBytes :: "int \<Rightarrow> piece list result" where
  "humanizeBytes n0 =
     (case humanize_loop n0 0 of
        (n, i) \<Rightarrow>
          if i < length size_units then
            Ok (zero_if (n < 1000) @ zero_if (n < 100) @ zero_if (n < 10) @
                (if n = 0 then [painted c_faint ''0''] else [painted c_msg (show_int n)]) @
                [plain [size_units ! i]])
          else Panics)"

subsection \<open>Abbreviations\<close>

definition httpMethodAbbr :: "string \<Rightarrow> string" where
  "httpMethodAbbr v =
     (if v = ''GET'' then ''GET''
      else if v = ''HEAD'' then ''HED''
      else if v = ''POST'' then ''PST''
      else if v = ''PUT'' then ''PUT''
      else if v = ''PATCH'' then ''PAT''
      else if v = ''DELETE'' then ''DEL''
      else if v = ''CONNECT'' then ''CON''
      else if v = ''OPTIONS'' then ''OPT''
      else if v = ''TRACE'' then ''TRC''
      else if 3 < length v then take 3 v
      else v)"

definition grpcCodeAbbr :: "int \<Rightarrow> string" where
  "grpcCodeAbbr c =
     (if c = 0 then ''.OK'' else if c = 1 then ''.CX'' else if c = 2 then ''UNK''
      else if c = 3 then ''ARG'' else if c = 4 then ''EXP'' else if c = 5 then ''404''
      else if c = 6 then ''DUP'' else if c = 7 then ''PDN'' else if c = 8 then ''OOM''
      else if c = 9 then ''RJT'' else if c = 10 then ''ABT'' else if c = 11 then ''OOR''
      else if c = 12 then ''IMP'' else if c = 13 then ''INT'' else if c = 14 then ''OFF''
      else if c = 15 then ''DLS'' else if c = 16 then ''ATH'' else ''???'')"

subsection \<open>The header of a line\<close>

text \<open>FNV-1a over 32 bits, as hash/fnv computes it; \<open>int\<close> of the sum is not negative.\<close>

definition fnv32a :: "string \<Rightarrow> 32 word" where
  "fnv32a s = foldl (\<lambda>h c. (h XOR of_nat (of_char c)) * 16777619) 2166136261 s"

definition fnv_sum :: "string \<Rightarrow> nat" where
  "fnv_sum s = unat (fnv32a s)"

definition index_of :: "'a list \<Rightarrow> nat \<Rightarrow> 'a result" where
  "index_of xs i = (if i < length xs then Ok (xs ! i) else Panics)"

definition first_bytes :: "nat \<Rightarrow> string \<Rightarrow> string result" where
  "first_bytes n s = (if n \<le> length s then Ok (take n s) else Panics)"

text \<open>A trace or span id by what \<open>String\<close> and \<open>IsValid\<close> answer, and the time of day by
  its fields; \<open>Format\<close> is \<open>t.Format("15:04:05.000")\<close>.\<close>

record id_ref =
  id_String :: string
  id_IsValid :: bool

record clock =
  clock_Hour :: nat
  clock_Minute :: nat
  clock_Second :: nat
  clock_Milli :: nat

definition Format :: "clock \<Rightarrow> string" where
  "Format t =
     padded 2 (clock_Hour t) @ '':'' @ padded 2 (clock_Minute t) @ '':'' @ padded 2 (clock_Second t) @
     ''.'' @ padded 3 (clock_Milli t)"

definition id_column :: "id_ref \<Rightarrow> (string \<times> color) result" where
  "id_column r =
     bindR (first_bytes 6 (id_String r)) (\<lambda>s.
       if id_IsValid r
       then bindR (index_of dimmed_colors (fnv_sum s mod length dimmed_colors)) (\<lambda>c. Ok (s, c))
       else Ok (s, c_faint))"

definition writeHeader :: "string \<Rightarrow> clock \<Rightarrow> piece list \<Rightarrow> id_ref \<Rightarrow> id_ref \<Rightarrow> piece list result" where
  "writeHeader title0 t mark trace_id span_id =
     (let title = (if 8 < length title0 then take 8 title0 else title0) in
      bindR (if title \<noteq> [] then index_of light_colors (fnv_sum title mod length light_colors) else Ok c_faint)
        (\<lambda>c_title.
      bindR (id_column trace_id) (\<lambda>(tid, c_trace_id).
      bindR (id_column span_id) (\<lambda>(sid, c_span_id).
        Ok ([painted c_title (''|'' @ replicate (8 - length title) (CHR ''.'') @ title @ ''| '')] @
            [painted c_time (Format t)] @ mark @
            [painted c_trace_id (tid @ '' '')] @ [painted c_span_id (sid @ '' '')])))))"


subsection \<open>Durations as numbers\<close>

lemma sdiv_nonneg: "0 \<le> (a::int) \<Longrightarrow> 0 < b \<Longrightarrow> a sdiv b = a div b"
  by (auto simp: signed_divide_int_def le_less)

lemma smod_nonneg: "0 \<le> (a::int) \<Longrightarrow> 0 < b \<Longrightarrow> a smod b = a mod b"
  by (auto simp: signed_modulo_int_def le_less minus_div_mult_eq_mod)

text \<open>The columns that the five formats are made of.\<close>

lemma show_int_nonneg: "0 \<le> n \<Longrightarrow> show_int n = show_nat (nat n)"
  by (simp add: show_int_def)

lemma visible_zero_if [simp]: "visible (zero_if b) = (if b then ''0'' else [])"
  by (simp add: zero_if_def)

lemma show_nat_0 [simp]: "show_nat 0 = ''0''"
  by code_simp

lemma digits [simp]:
  "digit 1 = CHR ''1''" "digit 2 = CHR ''2''" "digit 3 = CHR ''3''" "digit 4 = CHR ''4''" "digit 5 = CHR ''5''"
  "digit 6 = CHR ''6''" "digit 7 = CHR ''7''" "digit 8 = CHR ''8''" "digit 9 = CHR ''9''" "digit 0 = CHR ''0''"
  by code_simp+

text \<open>Printing a numeral, one digit at a time.\<close>

lemma show_nat_numeral [simp]:
  "show_nat (numeral k) =
     (if (numeral k :: nat) < 10 then [digit (numeral k)]
      else show_nat (numeral k div 10) @ [digit (numeral k mod 10)])"
  by (subst show_nat.simps) simp

lemma padded_cases:
  "n < 10 \<Longrightarrow> padded (Suc 0) n = show_nat n"
  "n < 10 \<Longrightarrow> padded 2 n = CHR ''0'' # show_nat n"
  "10 \<le> n \<Longrightarrow> n < 100 \<Longrightarrow> padded 2 n = show_nat n"
  "n < 10 \<Longrightarrow> padded 3 n = CHR ''0'' # CHR ''0'' # show_nat n"
  "10 \<le> n \<Longrightarrow> n < 100 \<Longrightarrow> padded 3 n = CHR ''0'' # show_nat n"
  "100 \<le> n \<Longrightarrow> n < 1000 \<Longrightarrow> padded 3 n = show_nat n"
  "n < 10 \<Longrightarrow> padded 4 n = CHR ''0'' # CHR ''0'' # CHR ''0'' # show_nat n"
  "10 \<le> n \<Longrightarrow> n < 100 \<Longrightarrow> padded 4 n = CHR ''0'' # CHR ''0'' # show_nat n"
  "100 \<le> n \<Longrightarrow> n < 1000 \<Longrightarrow> padded 4 n = CHR ''0'' # show_nat n"
  "1000 \<le> n \<Longrightarrow> n < 10000 \<Longrightarrow> padded 4 n = show_nat n"
  by (simp_all add: padded_def go_text numeral_2_eq_2 numeral_3_eq_3)

lemma two_digits:
  assumes "0 \<le> n" "n < 100"
  shows "visible (zero_if (n < 10) @ (if 0 < n then [painted c (show_int n)] else [plain ''0'']) @ ps) =
      padded 2 (nat n) @ visible ps" (is ?a)
    and "visible (zero_if (n < 10) @ (if n = 0 then [painted c' ''0''] else [painted c (show_int n)]) @ ps) =
      padded 2 (nat n) @ visible ps" (is ?b)
    and "visible (zero_if (n < 10) @ painted c (show_int n) # ps) = padded 2 (nat n) @ visible ps" (is ?c)
proof -
  have "n = 0 \<or> 0 < n \<and> nat n < 10 \<and> n < 10 \<or> 10 \<le> nat n \<and> nat n < 100 \<and> \<not> n < 10 \<and> 0 < n" using assms by auto
  then show ?a ?b ?c using assms(1) by (auto simp: show_int_nonneg padded_cases)
qed

lemma three_digits:
  assumes "0 \<le> n" "n < 1000"
  shows "visible (zero_if (n < 100) @ zero_if (n < 10) @
      (if n = 0 then [painted c' ''0''] else [painted c (show_int n)]) @ ps) = padded 3 (nat n) @ visible ps"
proof -
  have "n = 0 \<or> 0 < n \<and> nat n < 10 \<and> n < 10 \<or> 10 \<le> nat n \<and> nat n < 100 \<and> \<not> n < 10 \<and> n < 100 \<or>
      100 \<le> nat n \<and> nat n < 1000 \<and> \<not> n < 100" using assms by auto
  then show ?thesis using assms(1) by (auto simp: show_int_nonneg padded_cases)
qed

text \<open>The two digits after the point: hundredths of a number below 1000.\<close>

lemma hundredths:
  assumes "0 \<le> n" "n < 1000"
  shows "visible ((if n < 100 then (if b then [painted c ''0''] else [plain ''0'']) else []) @
      (if n < 10 then [painted c ''0''] else [painted c' (show_int (n sdiv 10))]) @ ps) =
      padded 2 (nat (n div 10)) @ visible ps"
proof -
  have s: "n sdiv 10 = n div 10" using assms(1) by (simp add: sdiv_nonneg)
  consider "n < 10" | "10 \<le> n" "n < 100" | "100 \<le> n" using assms by linarith
  then show ?thesis
  proof cases
    case 1
    with assms have "n div 10 = 0" by simp
    with 1 show ?thesis by (simp add: padded_cases)
  next
    case 2
    then have "1 \<le> n div 10" "n div 10 < 10" by linarith+
    with 2 s show ?thesis by (simp add: show_int_nonneg padded_cases)
  next
    case 3
    with assms(2) have "10 \<le> n div 10" "n div 10 < 100" by linarith+
    with 3 s show ?thesis by (simp add: show_int_nonneg padded_cases)
  qed
qed

lemma tenths:
  assumes "0 \<le> n" "n < 1000"
  shows "visible ((if 100 \<le> n then [painted c (show_int (n sdiv 100))] else [painted c' ''0'']) @ ps) =
      padded 1 (nat (n div 100)) @ visible ps"
proof (cases "100 \<le> n")
  case True
  with assms have "0 \<le> n div 100" "n div 100 < 10" by linarith+
  then have "nat (n div 100) < 10" by linarith
  with assms True show ?thesis by (simp add: sdiv_nonneg show_int_nonneg padded_cases)
next
  case False
  with assms have "n div 100 = 0" by simp
  with False show ?thesis by (simp add: padded_cases)
qed

subsection \<open>The formats as specified\<close>

text \<open>What the comment above the code promises: fixed-width numbers of the duration, rounded
  down.\<close>

definition duration_text :: "nat \<Rightarrow> string" where
  "duration_text d =
     (let day = 86400000000000; hour = 3600000000000; minute = 60000000000; second = 1000000000 in
      if d < 1000000 then padded 3 (d div 1000) @ ''.'' @ padded 2 (d mod 1000 div 10) @ micro_sign @ ''s''
      else if d < second then padded 3 (d div 1000000) @ ''.'' @ padded 2 (d mod 1000000 div 10000) @ ''ms''
      else if d < hour then
        padded 2 (d div minute) @ ''m'' @ padded 2 (d mod minute div second) @ ''.'' @
        padded 1 (d mod second div 100000000) @ ''s''
      else if d < 100 * day then
        padded 2 (d div day) @ ''d'' @ padded 2 (d mod day div hour) @ '':'' @ padded 2 (d mod hour div minute)
      else if d < 10000 * day then padded 4 (d div day) @ ''d'' @ padded 2 (d mod day div hour) @ ''h''
      else ''TOO_LONG'')"

lemma continues_ascii:
  "\<not> continues (CHR ''m'')" "\<not> continues (CHR ''s'')" "\<not> continues (CHR ''d'')" "\<not> continues (CHR ''h'')"
  "\<not> continues (CHR ''.'')" "\<not> continues (CHR '':'')" "\<not> continues (CHR ''T'')" "\<not> continues (CHR ''O'')"
  "\<not> continues (CHR ''_'')" "\<not> continues (CHR ''L'')" "\<not> continues (CHR ''N'')" "\<not> continues (CHR ''G'')"
  by code_simp+

lemma columns_marks: "columns micro_sign = 1"
  by code_simp

lemma columns_duration_text: "columns (duration_text d) = 8"
proof -
  let ?day = "86400000000000::nat"
  consider "d < 1000000" | "1000000 \<le> d" "d < 1000000000" | "1000000000 \<le> d" "d < 3600000000000"
    | "3600000000000 \<le> d" "d < 100 * ?day" | "100 * ?day \<le> d" "d < 10000 * ?day" | "10000 * ?day \<le> d"
    by linarith
  then show ?thesis
    by cases (simp_all add: duration_text_def Let_def columns_padded less_mult_imp_div_less
        columns_Cons continues_ascii columns_marks del: One_nat_def)
qed

lemmas nat_parts = nat_div_distrib nat_mod_distrib

lemma render_micros_text:
  assumes "0 \<le> d" "d < 1000000"
  shows "visible (render_micros d) = padded 3 (nat d div 1000) @ ''.'' @ padded 2 (nat d mod 1000 div 10) @ micro_sign @ ''s''"
proof -
  have us: "(d smod Millisecond) sdiv Microsecond = d div 1000" "d smod Microsecond = d mod 1000"
    using assms by (simp_all add: smod_nonneg sdiv_nonneg units)
  have b: "0 \<le> d div 1000" "d div 1000 < 1000" "0 \<le> d mod 1000" "d mod 1000 < 1000" using assms by linarith+
  show ?thesis
    unfolding render_micros_def Let_def us three_digits [OF b(1,2)] append.simps visible_Cons hundredths [OF b(3,4)]
    using assms by (simp add: nat_parts)
qed

lemma render_millis_text:
  assumes "0 \<le> d" "d < 1000000000"
  shows "visible (render_millis d) = padded 3 (nat d div 1000000) @ ''.'' @ padded 2 (nat d mod 1000000 div 10000) @ ''ms''"
proof -
  have ms: "(d smod Second) sdiv Millisecond = d div 1000000" "(d smod Millisecond) sdiv Microsecond = d mod 1000000 div 1000"
    using assms by (simp_all add: smod_nonneg sdiv_nonneg units)
  have b: "0 \<le> d div 1000000" "d div 1000000 < 1000" "0 \<le> d mod 1000000 div 1000" "d mod 1000000 div 1000 < 1000"
    using assms by linarith+
  have h: "nat (d mod 1000000 div 1000 div 10) = nat d mod 1000000 div 10000"
    using assms by (simp add: nat_parts div_mult2_eq [symmetric] zdiv_zmult2_eq [symmetric])
  show ?thesis
    unfolding render_millis_def Let_def ms three_digits [OF b(1,2)] append.simps visible_Cons
      hundredths [OF b(3,4), where b = False and c = c_faint, simplified if_False] h
    using assms by (simp add: nat_parts)
qed

lemma render_minutes_text:
  assumes "0 \<le> d" "d < 3600000000000"
  shows "visible (render_minutes d) = padded 2 (nat d div 60000000000) @ ''m'' @
    padded 2 (nat d mod 60000000000 div 1000000000) @ ''.'' @ padded 1 (nat d mod 1000000000 div 100000000) @ ''s''"
proof -
  have p: "(d smod Hour) sdiv Minute = d div 60000000000" "(d smod Minute) sdiv Second = d mod 60000000000 div 1000000000"
    "(d smod Second) sdiv Millisecond = d mod 1000000000 div 1000000"
    using assms by (simp_all add: smod_nonneg sdiv_nonneg units)
  have b: "0 \<le> d div 60000000000" "d div 60000000000 < 100" "0 \<le> d mod 60000000000 div 1000000000"
    "d mod 60000000000 div 1000000000 < 100" "0 \<le> d mod 1000000000 div 1000000" "d mod 1000000000 div 1000000 < 1000"
    using assms by linarith+
  let ?ms = "d mod 1000000000 div 1000000"
  have "?ms div 100 = d mod 1000000000 div 100000000" by (simp add: zdiv_zmult2_eq [symmetric])
  then have h: "nat (?ms div 100) = nat d mod 1000000000 div 100000000" using assms by (simp add: nat_parts)
  show ?thesis
    unfolding render_minutes_def Let_def p two_digits(1) [OF b(1,2)] append.simps visible_Cons
      two_digits(2) [OF b(3,4)] tenths [OF b(5,6)] h
    using assms by (simp add: nat_parts)
qed

lemma render_days_text:
  assumes "3600000000000 \<le> d" "d < 8640000000000000"
  shows "visible (render_days d) = padded 2 (nat d div 86400000000000) @ ''d'' @
    padded 2 (nat d mod 86400000000000 div 3600000000000) @ '':'' @ padded 2 (nat d mod 3600000000000 div 60000000000)"
proof -
  have p: "d sdiv (Hour * 24) = d div 86400000000000"
    "(d smod (Hour * 24)) sdiv Hour = d mod 86400000000000 div 3600000000000"
    "(d smod Hour) sdiv Minute = d mod 3600000000000 div 60000000000"
    using assms by (simp_all add: smod_nonneg sdiv_nonneg units)
  have b: "0 \<le> d div 86400000000000" "d div 86400000000000 < 100" "0 \<le> d mod 86400000000000 div 3600000000000"
    "d mod 86400000000000 div 3600000000000 < 100" "0 \<le> d mod 3600000000000 div 60000000000"
    "d mod 3600000000000 div 60000000000 < 100"
    using assms by linarith+
  show ?thesis
    unfolding render_days_def Let_def p two_digits(3) [OF b(1,2)] append.simps visible_Cons two_digits(1) [OF b(3,4)]
      two_digits(1) [OF b(5,6), where ps = "[]", simplified append_Nil2]
    using assms by (simp add: nat_parts)
qed

lemma render_long_text:
  assumes "8640000000000000 \<le> d" "d < 864000000000000000"
  shows "visible (render_long d) = padded 4 (nat d div 86400000000000) @ ''d'' @
    padded 2 (nat d mod 86400000000000 div 3600000000000) @ ''h''"
proof -
  have p: "d sdiv (Hour * 24) = d div 86400000000000"
    "((d smod (Hour * 24)) smod (Hour * 24)) sdiv Hour = d mod 86400000000000 div 3600000000000"
    using assms by (simp_all add: smod_nonneg sdiv_nonneg units)
  have b: "100 \<le> d div 86400000000000" "d div 86400000000000 < 10000" "0 \<le> d mod 86400000000000 div 3600000000000"
    "d mod 86400000000000 div 3600000000000 < 100"
    using assms by linarith+
  have day: "visible (zero_if (n < 1000) @ painted c (show_int n) # ps) = padded 4 (nat n) @ visible ps"
    if "100 \<le> n" "n < 10000" for n c ps
  proof -
    have "100 \<le> nat n" "nat n < 10000" "n < 1000 \<longleftrightarrow> nat n < 1000" using that by linarith+
    with that show ?thesis by (cases "nat n < 1000") (simp_all add: show_int_nonneg padded_cases)
  qed
  show ?thesis
    unfolding render_long_def Let_def p day [OF b(1,2)] append.simps visible_Cons two_digits(1) [OF b(3,4)]
    using assms by (simp add: nat_parts)
qed

lemma renderDuration_duration_text: "0 \<le> d \<Longrightarrow> visible (renderDuration d) = duration_text (nat d)"
proof -
  assume d: "0 \<le> d"
  consider "d < 1000000" | "1000000 \<le> d" "d < 1000000000" | "1000000000 \<le> d" "d < 3600000000000"
    | "3600000000000 \<le> d" "d < 8640000000000000" | "8640000000000000 \<le> d" "d < 864000000000000000"
    | "864000000000000000 \<le> d"
    by linarith
  then show ?thesis
  proof cases
    case 1 with d show ?thesis by (simp add: renderDuration_def units duration_text_def Let_def nat_less_iff render_micros_text)
  next
    case 2 with d show ?thesis by (simp add: renderDuration_def units duration_text_def Let_def nat_less_iff render_millis_text)
  next
    case 3 with d show ?thesis by (simp add: renderDuration_def units duration_text_def Let_def nat_less_iff render_minutes_text)
  next
    case 4 with d show ?thesis by (simp add: renderDuration_def units duration_text_def Let_def nat_less_iff render_days_text)
  next
    case 5 with d show ?thesis by (simp add: renderDuration_def units duration_text_def Let_def nat_less_iff render_long_text)
  next
    case 6 with d show ?thesis by (simp add: renderDuration_def units duration_text_def Let_def nat_less_iff)
  qed
qed

text \<open>C15: a duration is printed in the promised fixed format, rounded down to its last digit, and
  every duration that is not negative takes exactly eight columns.\<close>

theorem renderDuration_fixed_format:
  assumes "0 \<le> d"
  shows "visible (renderDuration d) = duration_text (nat d) \<and> columns (visible (renderDuration d)) = 8"
  using renderDuration_duration_text [OF assms] columns_duration_text by simp

lemma renderDuration_fixed_format_witness:
  "visible (renderDuration 7654321) = ''007.65ms'' \<and> visible (renderDuration 414321000000) = ''06m54.3s''"
proof -
  have "duration_text (nat 7654321) = ''007.65ms''" "duration_text (nat 414321000000) = ''06m54.3s''"
    by (simp_all add: duration_text_def padded_cases)
  with renderDuration_fixed_format [of 7654321] renderDuration_fixed_format [of 414321000000] show ?thesis by simp
qed

subsection \<open>Sizes as numbers\<close>

lemma humanize_loop_spec:
  assumes "0 \<le> n" "n < 10000 * 1024 ^ k"
  shows "\<exists>j \<le> k. humanize_loop n i = (n div 1024 ^ j, i + j) \<and> n div 1024 ^ j \<le> 9999 \<and>
    (\<forall>l < j. 9999 < n div 1024 ^ l)"
  using assms
proof (induction k arbitrary: n i)
  case 0
  then show ?case by (simp add: humanize_loop.simps)
next
  case (Suc k)
  show ?case
  proof (cases "9999 < n")
    case False
    then show ?thesis by (intro exI [of _ 0]) (simp add: humanize_loop.simps)
  next
    case True
    let ?m = "n div 1024"
    from Suc.prems have "n < 1024 * (10000 * 1024 ^ k)" by (simp add: ac_simps)
    with Suc.prems(1) have "0 \<le> ?m" "?m < 10000 * 1024 ^ k" by linarith+
    from Suc.IH [OF this, of "i + 1"] obtain j where j: "j \<le> k" "humanize_loop ?m (i + 1) = (?m div 1024 ^ j, i + 1 + j)"
      "?m div 1024 ^ j \<le> 9999" "\<forall>l < j. 9999 < ?m div 1024 ^ l" by blast
    have d: "?m div 1024 ^ l = n div 1024 ^ Suc l" for l by (simp add: zdiv_zmult2_eq)
    have "humanize_loop n i = humanize_loop ?m (i + 1)"
      using True by (simp add: humanize_loop.simps [of n] sdiv_nonneg)
    moreover have "9999 < n div 1024 ^ l" if "l < Suc j" for l
      using that True j(4) d by (cases l) auto
    ultimately show ?thesis using j d by (intro exI [of _ "Suc j"]) auto
  qed
qed

lemma four_digits:
  assumes "0 \<le> n" "n < 10000"
  shows "visible (zero_if (n < 1000) @ zero_if (n < 100) @ zero_if (n < 10) @
      (if n = 0 then [painted c' ''0''] else [painted c (show_int n)]) @ ps) = padded 4 (nat n) @ visible ps"
proof -
  have "n = 0 \<or> 0 < n \<and> nat n < 10 \<and> n < 10 \<or> 10 \<le> nat n \<and> nat n < 100 \<and> \<not> n < 10 \<and> n < 100 \<or>
      100 \<le> nat n \<and> nat n < 1000 \<and> \<not> n < 100 \<and> n < 1000 \<or> 1000 \<le> nat n \<and> nat n < 10000 \<and> \<not> n < 1000"
    using assms by auto
  then show ?thesis using assms(1) by (auto simp: show_int_nonneg padded_cases)
qed

lemma humanizeBytes_Ok_spec:
  assumes "n \<in> int64_range"
  shows "\<exists>ps. humanizeBytes n = Ok ps \<and>
    (0 \<le> n \<longrightarrow> (\<exists>i \<le> 5. visible ps = padded 4 (nat (n div 1024 ^ i)) @ [''BKMGTP'' ! i] \<and>
       n div 1024 ^ i \<le> 9999 \<and> (\<forall>j < i. 9999 < n div 1024 ^ j) \<and> length (visible ps) = 5))"
proof (cases "0 \<le> n")
  case False
  then have "humanize_loop n 0 = (n, 0)" by (simp add: humanize_loop.simps)
  with False show ?thesis by (simp add: humanizeBytes_def size_units_def)
next
  case True
  have "n < 10000 * 1024 ^ 5" using assms by (simp add: int64_range_def)
  from humanize_loop_spec [OF True this, of 0] obtain i where i: "i \<le> 5" "humanize_loop n 0 = (n div 1024 ^ i, i)"
    "n div 1024 ^ i \<le> 9999" "\<forall>l < i. 9999 < n div 1024 ^ l" by auto
  have b: "0 \<le> n div 1024 ^ i" "n div 1024 ^ i < 10000" using True i(3) by (simp_all add: pos_imp_zdiv_nonneg_iff)
  have u: "i < length size_units" "size_units ! i = ''BKMGTP'' ! i"
    using i(1) by (auto simp: size_units_def le_Suc_eq eval_nat_numeral)
  define ps where "ps = zero_if (n div 1024 ^ i < 1000) @ zero_if (n div 1024 ^ i < 100) @ zero_if (n div 1024 ^ i < 10) @
      (if n div 1024 ^ i = 0 then [painted c_faint ''0''] else [painted c_msg (show_int (n div 1024 ^ i))]) @
      [plain [size_units ! i]]"
  have "humanizeBytes n = Ok ps" by (simp only: ps_def humanizeBytes_def i(2) prod.case u(1) if_True)
  moreover have "visible ps = padded 4 (nat (n div 1024 ^ i)) @ [''BKMGTP'' ! i]"
    unfolding ps_def four_digits [OF b] visible_Cons visible_Nil u(2) by simp
  moreover have "nat (n div 1024 ^ i) < 10 ^ 4" using b by simp
  ultimately show ?thesis using i length_padded [of 4 "nat (n div 1024 ^ i)"]
    by (intro exI [of _ ps] conjI impI exI [of _ i]) simp_all
qed

text \<open>C14: the loop of \<open>humanizeBytes\<close> ends after at most five rounds for every \<open>int64\<close>, so
  that the unit always exists and the call cannot panic; a count that is not negative is shown
  in the first unit in which it has at most four digits, rounded down, in five columns.\<close>

theorem humanizeBytes_total:
  assumes "n \<in> int64_range"
  shows "\<exists>ps. humanizeBytes n = Ok ps \<and>
    (0 \<le> n \<longrightarrow> (\<exists>i \<le> 5. visible ps = padded 4 (nat (n div 1024 ^ i)) @ [''BKMGTP'' ! i] \<and>
       n div 1024 ^ i \<le> 9999 \<and> (\<forall>j < i. 9999 < n div 1024 ^ j) \<and> length (visible ps) = 5))"
  by (rule humanizeBytes_Ok_spec [OF assms])

lemma humanizeBytes_total_witness:
  "\<exists>ps. humanizeBytes (2 ^ 63 - 1) = Ok ps \<and> (\<exists>i \<le> 5. visible ps = padded 4 (nat ((2 ^ 63 - 1) div 1024 ^ i)) @ [''BKMGTP'' ! i])"
  using humanizeBytes_total [of "2 ^ 63 - 1"] by (auto simp: int64_range_def)

subsection \<open>The header as specified\<close>

lemma index_of_mod: "xs \<noteq> [] \<Longrightarrow> index_of xs (n mod length xs) = Ok (xs ! (n mod length xs))"
  by (simp add: index_of_def)

lemma palettes: "light_colors \<noteq> []" "dimmed_colors \<noteq> []"
  by (simp_all add: light_colors_def dimmed_colors_def)

lemma id_column_text:
  assumes "6 \<le> length (id_String r)"
  shows "\<exists>c. id_column r = Ok (take 6 (id_String r), c)"
  using assms by (simp add: id_column_def first_bytes_def index_of_mod [OF palettes(2)])

lemma writeHeader_text:
  assumes "6 \<le> length (id_String tr)" "6 \<le> length (id_String sp)"
  shows "\<exists>ps. writeHeader title t mark tr sp = Ok ps \<and>
    visible ps = ''|'' @ replicate (8 - length title) (CHR ''.'') @ take 8 title @ ''| '' @ Format t @
      visible mark @ take 6 (id_String tr) @ '' '' @ take 6 (id_String sp) @ '' ''"
proof -
  obtain c d where "id_column tr = Ok (take 6 (id_String tr), c)" "id_column sp = Ok (take 6 (id_String sp), d)"
    using id_column_text [OF assms(1)] id_column_text [OF assms(2)] by blast
  then show ?thesis
    by (simp add: writeHeader_def Let_def index_of_mod [OF palettes(1)])
qed

subsection \<open>Abbreviations\<close>

lemma grpcCodeAbbr_length: "length (grpcCodeAbbr c) = 3"
  by (simp add: grpcCodeAbbr_def)

lemma grpcCodeAbbr_inj: "inj_on grpcCodeAbbr {0..16}"
proof -
  have "distinct (map grpcCodeAbbr [0..16])" by code_simp
  then have "inj_on grpcCodeAbbr (set [0..16])" by (simp only: distinct_map)
  then show ?thesis by simp
qed

lemma httpMethodAbbr_length: "length (httpMethodAbbr v) \<le> 3"
  by (simp add: httpMethodAbbr_def)

end
