(* ===== verification/Pretty_Value.thy ===== *)
theory Pretty_Value
  imports Pretty_String
begin

section \<open>Attribute values (pretty/value.go)\<close>

text \<open>
  How the value of a log attribute is printed: scalars in full, bytes in hexadecimal, sequences
  and maps up to a limit with a count of what was left out. The values are those of the
  package log of OpenTelemetry; printing a \<open>float64\<close> with three significant digits
  (\<open>%.3g\<close>) is the parameter \<open>g3\<close>.
\<close>

datatype log_value =
    EmptyValue
  | BoolValue bool
  | Float64Value float64
  | Int64Value int
  | StringValue string
  | BytesValue string
  | SliceValue "log_value list"
  | MapValue "(string \<times> log_value) list"

definition maxBytes :: nat where "maxBytes = 8"

definition maxSlice :: nat where "maxSlice = 5"

definition maxMap :: nat where "maxMap = 5"

text \<open>The table \<open>attr_colors\<close>, by the kind of the value.\<close>

fun attr_colors :: "log_value \<Rightarrow> color" where
  "attr_colors (BoolValue b) = RGB 50 100 100"
| "attr_colors (Float64Value x) = RGB 129 76 129"
| "attr_colors (Int64Value n) = RGB 129 76 129"
| "attr_colors (StringValue s) = RGB 120 110 60"
| "attr_colors v = c_faint"

definition hex_digit :: "nat \<Rightarrow> char" where
  "hex_digit n = char_of (if n < 10 then 48 + n else 87 + n)"

text \<open>\<open>%02x\<close> of a byte.\<close>

definition hex_byte :: "char \<Rightarrow> string" where
  "hex_byte b = [hex_digit (of_char b div 16), hex_digit (of_char b mod 16)]"

fun render_bytes :: "nat \<Rightarrow> string \<Rightarrow> piece list" where
  "render_bytes i [] = []"
| "render_bytes i (b # bs) =
     (if 0 < i then [painted c_faint ''.''] else []) @ [painted c_faint (hex_byte b)] @ render_bytes (Suc i) bs"

text \<open>The two loops over a prefix of the elements; \<open>i\<close> is the index of the next one.\<close>

fun renderAttrValue :: "(float64 \<Rightarrow> string) \<Rightarrow> log_value \<Rightarrow> piece list"
  and render_items :: "(float64 \<Rightarrow> string) \<Rightarrow> nat \<Rightarrow> log_value list \<Rightarrow> piece list"
  and render_entries :: "(float64 \<Rightarrow> string) \<Rightarrow> nat \<Rightarrow> (string \<times> log_value) list \<Rightarrow> piece list" where
  "renderAttrValue g3 EmptyValue = []"
| "renderAttrValue g3 (BoolValue b) =
     [painted (attr_colors (BoolValue b)) (if b then ''true'' else ''false'')]"
| "renderAttrValue g3 (Int64Value n) = [painted (attr_colors (Int64Value n)) (show_int n)]"
| "renderAttrValue g3 (StringValue s) = [painted (attr_colors (StringValue s)) s]"
| "renderAttrValue g3 (Float64Value x) = [painted (attr_colors (Float64Value x)) (g3 x)]"
| "renderAttrValue g3 (BytesValue bs) =
     render_bytes 0 (take maxBytes bs) @
     (if maxBytes < length bs then [painted c_faint (''..(+'' @ show_nat (length bs - maxBytes) @ '')'')] else [])"
| "renderAttrValue g3 (SliceValue vs) =
     [painted c_bracket ''[''] @ render_items g3 0 vs @
     (if maxSlice < length vs then [painted c_faint ('', ...(+'' @ show_nat (length vs - maxSlice) @ '')'')] else []) @
     [painted c_bracket '']'']"
| "renderAttrValue g3 (MapValue kvs) =
     [painted c_bracket ''{''] @ render_entries g3 0 kvs @
     (if maxMap < length kvs then [painted c_faint ('', ...(+'' @ show_nat (length kvs - maxMap) @ '')'')] else []) @
     [painted c_bracket ''}'']"
| "render_items g3 i [] = []"
| "render_items g3 i (v # vs) =
     (if maxSlice \<le> i then []
      else (if 0 < i then [painted c_faint '', ''] else []) @ renderAttrValue g3 v @ render_items g3 (Suc i) vs)"
| "render_entries g3 i [] = []"
| "render_entries g3 i ((k, v) # kvs) =
     (if maxMap \<le> i then []
      else (if 0 < i then [painted c_faint '', ''] else []) @ [painted c_map_key k] @ [painted c_faint '':''] @
        renderAttrValue g3 v @ render_entries g3 (Suc i) kvs)"

subsection \<open>The text of a value\<close>

fun join :: "string \<Rightarrow> string list \<Rightarrow> string" where
  "join sep [] = []"
| "join sep [s] = s"
| "join sep (s # t # ss) = s @ sep @ join sep (t # ss)"

text \<open>At most \<open>n\<close> of the texts, then how many were left out.\<close>

definition shortened :: "nat \<Rightarrow> string list \<Rightarrow> string list" where
  "shortened n ss = take n ss @ (if n < length ss then [''...(+'' @ show_nat (length ss - n) @ '')''] else [])"

primrec value_text :: "(float64 \<Rightarrow> string) \<Rightarrow> log_value \<Rightarrow> string" where
  "value_text g3 EmptyValue = []"
| "value_text g3 (BoolValue b) = (if b then ''true'' else ''false'')"
| "value_text g3 (Float64Value x) = g3 x"
| "value_text g3 (Int64Value n) = show_int n"
| "value_text g3 (StringValue s) = s"
| "value_text g3 (BytesValue bs) =
     join ''.'' (map hex_byte (take maxBytes bs)) @
     (if maxBytes < length bs then ''..(+'' @ show_nat (length bs - maxBytes) @ '')'' else [])"
| "value_text g3 (SliceValue vs) = ''['' @ join '', '' (shortened maxSlice (map (value_text g3) vs)) @ '']''"
| "value_text g3 (MapValue kvs) =
     ''{'' @ join '', '' (shortened maxMap (map (\<lambda>(k, t). k @ '':'' @ t) (map (map_prod id (value_text g3)) kvs))) @ ''}''"

fun prefixed :: "string \<Rightarrow> string list \<Rightarrow> string" where
  "prefixed sep [] = []"
| "prefixed sep (s # ss) = sep @ s @ prefixed sep ss"

lemma prefixed_append: "prefixed sep (ss @ ts) = prefixed sep ss @ prefixed sep ts"
  by (induction ss) auto

lemma join_Cons: "join sep (s # ss) = s @ prefixed sep ss"
  by (induction ss arbitrary: s) auto

lemma join_snoc: "join sep (ss @ [t]) = (if ss = [] then t else join sep ss @ sep @ t)"
  by (cases ss) (simp_all add: join_Cons prefixed_append)

lemma render_bytes_text:
  "visible (render_bytes i bs) =
     (if i = 0 then join ''.'' (map hex_byte bs) else prefixed ''.'' (map hex_byte bs))"
  by (induction i bs rule: render_bytes.induct) (auto simp: join_Cons)

abbreviation entry_text :: "(float64 \<Rightarrow> string) \<Rightarrow> string \<times> log_value \<Rightarrow> string" where
  "entry_text g3 kv \<equiv> fst kv @ '':'' @ value_text g3 (snd kv)"

definition listed :: "nat \<Rightarrow> nat \<Rightarrow> string list \<Rightarrow> string" where
  "listed n i ts = (if i = 0 then join '', '' (take n ts) else prefixed '', '' (take (n - i) ts))"

lemma listed_step:
  "listed n i [] = []"
  "n \<le> i \<Longrightarrow> 0 < n \<Longrightarrow> listed n i (t # ts) = []"
  "i < n \<Longrightarrow> listed n i (t # ts) = (if 0 < i then '', '' else []) @ t @ listed n (Suc i) ts"
  by (auto simp: listed_def join_Cons take_Cons' Suc_diff_Suc)

lemma listed_shortened:
  assumes "0 < n"
  shows "listed n 0 ts @ (if n < length ts then '', ...(+'' @ show_nat (length ts - n) @ '')'' else []) =
      join '', '' (shortened n ts)"
  using assms by (cases ts) (auto simp: listed_def shortened_def join_snoc)

lemma render_texts:
  "visible (renderAttrValue g3 v) = value_text g3 v"
  "visible (render_items g3 i vs) = listed maxSlice i (map (value_text g3) vs)"
  "visible (render_entries g3 i kvs) = listed maxMap i (map (entry_text g3) kvs)"
proof (induction g3 v and g3 i vs and g3 i kvs rule: renderAttrValue_render_items_render_entries.induct)
  case (6 g3 bs)
  show ?case by (simp add: render_bytes_text)
next
  case (7 g3 vs)
  then show ?case by (simp add: listed_shortened [symmetric] maxSlice_def)
next
  case (8 g3 kvs)
  have m: "map (\<lambda>(k, t). k @ '':'' @ t) (map (map_prod id (value_text g3)) kvs) = map (entry_text g3) kvs"
    by (simp add: case_prod_beta)
  show ?case
    using 8 unfolding value_text.simps m by (simp add: listed_shortened [symmetric] maxMap_def)
next
  case (10 g3 i v vs)
  then show ?case by (cases "maxSlice \<le> i") (simp_all add: listed_step maxSlice_def)
next
  case (12 g3 i k v kvs)
  then show ?case by (cases "maxMap \<le> i") (simp_all add: listed_step maxMap_def)
qed (simp_all add: listed_step)

text \<open>C17: the printed value is the value itself: scalars in full, at most eight bytes in
  hexadecimal, at most five elements of a sequence or entries of a map, at every depth, and
  then exactly how many were left out.\<close>

theorem renderAttrValue_text:
  "visible (renderAttrValue g3 v) = value_text g3 v"
  by (rule render_texts)

end
