(* ===== verification/Pretty_Log.thy ===== *)
theory Pretty_Log
  imports Pretty_Value
begin

unbundle bit_operations_syntax

section \<open>The log exporter of package pretty (pretty/log.go)\<close>

text \<open>
  One line of text per log record. Walking the attributes collects the kind of the record, a
  set of flags, and the fields of the HTTP and gRPC layouts; the kind then selects the layout.
  The accessors of a log value and the printing of floats are the record \<open>log_env\<close>, the
  escape codes of a colour the argument \<open>paint\<close>, the output the argument \<open>wr\<close>. The
  keys are the published names of the semantic conventions 1.37.
\<close>

record log_env =
  AsString :: "log_value \<Rightarrow> string"
  AsInt64 :: "log_value \<Rightarrow> int"
  g3 :: "float64 \<Rightarrow> string"

record log_record =
  rec_Body :: log_value
  rec_Attributes :: "(string \<times> log_value) list"
  rec_Severity :: int
  rec_Timestamp :: clock
  rec_TraceID :: id_ref
  rec_SpanID :: id_ref

subsection \<open>Kinds\<close>

definition logKindUnknown :: int where "logKindUnknown = 0"

definition logKindHttp :: int where "logKindHttp = 0x40"

definition logKindGrpc :: int where "logKindGrpc = 0x80"

definition logKindServer :: int where "logKindServer = 0x10"

definition logKindClient :: int where "logKindClient = 0x20"

definition logKindRecv :: int where "logKindRecv = 2"

definition logKindEnd :: int where "logKindEnd = 6"

definition logKindHttpIngress :: int where "logKindHttpIngress = logKindHttp OR logKindServer"

definition logKindHttpEgress :: int where "logKindHttpEgress = logKindHttp OR logKindServer OR logKindEnd"

definition logKindHttpReq :: int where "logKindHttpReq = logKindHttp OR logKindClient"

definition logKindHttpRes :: int where "logKindHttpRes = logKindHttp OR logKindClient OR logKindRecv"

definition logKindHttpEnd :: int where "logKindHttpEnd = logKindHttp OR logKindClient OR logKindEnd"

definition logKindGrpcIngress :: int where "logKindGrpcIngress = logKindGrpc OR logKindServer"

definition logKindGrpcEgress :: int where "logKindGrpcEgress = logKindGrpc OR logKindServer OR logKindEnd"

definition logKindGrpcReq :: int where "logKindGrpcReq = logKindGrpc OR logKindClient"

definition logKindGrpcEnd :: int where "logKindGrpcEnd = logKindGrpc OR logKindClient OR logKindEnd"

lemmas kind_flags = logKindUnknown_def logKindHttp_def logKindGrpc_def logKindServer_def logKindClient_def
  logKindRecv_def logKindEnd_def

lemmas layout_kinds = logKindHttpIngress_def logKindHttpEgress_def logKindHttpReq_def logKindHttpRes_def
  logKindHttpEnd_def logKindGrpcIngress_def logKindGrpcEgress_def logKindGrpcReq_def logKindGrpcEnd_def

subsection \<open>Walking the attributes\<close>

record kindHttpAttr =
  http_Method :: string
  http_Url :: string
  http_PeerAddr :: string
  http_Code :: int
  http_Elapsed :: int
  HasBody :: bool
  BodySize :: int

record kindGrpcAttr =
  grpc_Method :: string
  grpc_Service :: string
  grpc_PeerAddr :: string
  grpc_Code :: int
  grpc_Elapsed :: int
  NotClientStream :: bool
  grpc_Size :: int
  grpc_Bytes :: int
  ReqBytes :: int
  ResBytes :: int

record walk =
  w_title :: string
  w_kind :: int
  w_rest :: "(string \<times> log_value) list"
  w_http :: kindHttpAttr
  w_grpc :: kindGrpcAttr
  w_status_msg :: string

definition start_walk :: walk where
  "start_walk =
     \<lparr>w_title = [], w_kind = logKindUnknown, w_rest = [],
      w_http = \<lparr>http_Method = [], http_Url = [], http_PeerAddr = [], http_Code = 0, http_Elapsed = 0,
        HasBody = False, BodySize = 0\<rparr>,
      w_grpc = \<lparr>grpc_Method = [], grpc_Service = [], grpc_PeerAddr = [], grpc_Code = 0, grpc_Elapsed = 0,
        NotClientStream = False, grpc_Size = 0, grpc_Bytes = 0, ReqBytes = 0, ResBytes = 0\<rparr>,
      w_status_msg = []\<rparr>"

text \<open>\<open>strconv.ParseInt(v, 10, 64)\<close>: an optional sign, at least one digit, nothing else, in
  range.\<close>

definition is_digit :: "char \<Rightarrow> bool" where
  "is_digit c \<longleftrightarrow> c \<in> set ''0123456789''"

definition ParseInt :: "string \<Rightarrow> int option" where
  "ParseInt s =
     (let negative = (s \<noteq> [] \<and> hd s = CHR ''-'');
          ds = (if s \<noteq> [] \<and> (hd s = CHR ''-'' \<or> hd s = CHR ''+'') then tl s else s);
          n = (if negative then - int (read_nat ds) else int (read_nat ds))
      in if ds = [] \<or> \<not> list_all is_digit ds \<or> n < - (2 ^ 63) \<or> 2 ^ 63 \<le> n then None else Some n)"

definition set_flags :: "int \<Rightarrow> walk \<Rightarrow> walk" where
  "set_flags k a = a\<lparr>w_kind := w_kind a OR k\<rparr>"

abbreviation upd_http :: "(kindHttpAttr \<Rightarrow> kindHttpAttr) \<Rightarrow> walk \<Rightarrow> walk" where
  "upd_http f a \<equiv> a\<lparr>w_http := f (w_http a)\<rparr>"

abbreviation upd_grpc :: "(kindGrpcAttr \<Rightarrow> kindGrpcAttr) \<Rightarrow> walk \<Rightarrow> walk" where
  "upd_grpc f a \<equiv> a\<lparr>w_grpc := f (w_grpc a)\<rparr>"

text \<open>The function passed to \<open>WalkAttributes\<close>; it always answers true.\<close>

definition walk_attr :: "log_env \<Rightarrow> string \<times> log_value \<Rightarrow> walk \<Rightarrow> walk" where
  "walk_attr env kv a =
     (let k = fst kv; s = AsString env (snd kv); i = AsInt64 env (snd kv) in
      if k = ''app.widget.name'' then a\<lparr>w_title := s\<rparr>
      else if k = ''trace_id'' then a
      else if k = ''span_id'' then a
      else if k = ''network.peer.address'' then
        upd_grpc (grpc_PeerAddr_update (\<lambda>_. s)) (upd_http (http_PeerAddr_update (\<lambda>_. s)) (set_flags logKindServer a))
      else if k = ''http.request.method'' then upd_http (http_Method_update (\<lambda>_. s)) (set_flags logKindHttp a)
      else if k = ''url.path'' then
        upd_http (http_Url_update (\<lambda>_. s)) (set_flags (logKindHttp OR logKindServer) a)
      else if k = ''url.original'' then
        upd_http (http_Url_update (\<lambda>_. s)) (set_flags (logKindHttp OR logKindClient) a)
      else if k = ''http.response.status_code'' then
        upd_http (http_Code_update (\<lambda>_. i)) (set_flags (logKindHttp OR logKindRecv) a)
      else if k = ''http.response.header.content-length'' then
        (case ParseInt s of
           None \<Rightarrow> set_flags (logKindHttp OR logKindClient OR logKindRecv) a
         | Some n \<Rightarrow> upd_http (BodySize_update (\<lambda>_. n) \<circ> HasBody_update (\<lambda>_. True))
             (set_flags (logKindHttp OR logKindClient OR logKindRecv) a))
      else if k = ''http.response.body.size'' then
        upd_http (BodySize_update (\<lambda>_. i) \<circ> HasBody_update (\<lambda>_. True)) (set_flags (logKindHttp OR logKindEnd) a)
      else if k = ''rpc.service'' then upd_grpc (grpc_Service_update (\<lambda>_. s)) (set_flags logKindGrpc a)
      else if k = ''rpc.method'' then upd_grpc (grpc_Method_update (\<lambda>_. s)) (set_flags logKindGrpc a)
      else if k = ''rpc.grpc.status_code'' then
        upd_grpc (grpc_Code_update (\<lambda>_. i)) (set_flags (logKindGrpc OR logKindEnd) a)
      else if k = ''rpc.message.compressed_size'' then
        upd_grpc (grpc_Bytes_update (\<lambda>_. i) \<circ> NotClientStream_update (\<lambda>_. True)) (set_flags logKindGrpc a)
      else if k = ''rpc.message.uncompressed_size'' then
        upd_grpc (grpc_Size_update (\<lambda>_. i) \<circ> NotClientStream_update (\<lambda>_. True)) (set_flags logKindGrpc a)
      else if k = ''rpc.request.compressed_size'' then
        upd_grpc (ReqBytes_update (\<lambda>_. i)) (set_flags (logKindGrpc OR logKindEnd) a)
      else if k = ''rpc.response.compressed_size'' then
        upd_grpc (ResBytes_update (\<lambda>_. i)) (set_flags (logKindGrpc OR logKindEnd) a)
      else if k = ''server.status_message'' then
        (set_flags (logKindServer OR logKindEnd) a)\<lparr>w_status_msg := s\<rparr>
      else if k = ''server.elapsed_ns'' then
        upd_grpc (grpc_Elapsed_update (\<lambda>_. i)) (upd_http (http_Elapsed_update (\<lambda>_. i))
          (set_flags (logKindServer OR logKindEnd) a))
      else if k = ''client.elapsed_ns'' then
        upd_grpc (grpc_Elapsed_update (\<lambda>_. i)) (upd_http (http_Elapsed_update (\<lambda>_. i))
          (set_flags (logKindClient OR logKindRecv) a))
      else a\<lparr>w_rest := w_rest a @ [kv]\<rparr>)"

definition walk_all :: "log_env \<Rightarrow> (string \<times> log_value) list \<Rightarrow> walk" where
  "walk_all env kvs = fold (walk_attr env) kvs start_walk"

subsection \<open>Marks\<close>

text \<open>The mark and colour of a severity: \<open>(r.Severity() - 1) / 4\<close> rounds towards zero, so that
  an unset severity counts as a trace.\<close>

definition severity_mark :: "int \<Rightarrow> color \<times> string" where
  "severity_mark sev =
     (let k = (sev - 1) sdiv 4 in
      if k = 0 then (c_faint, [CHR '' '', CHR 0xE2, CHR 0x80, CHR 0xA2, CHR '' ''])
      else if k = 1 then (c_debug, '' ? '')
      else if k = 2 then (c_info, [CHR '' '', CHR 0xE2, CHR 0x97, CHR 0x8B, CHR '' ''])
      else if k = 3 then (c_warn, '' ! '')
      else if k = 4 then (c_error, '' x '')
      else if k = 5 then (c_error, ''-x-'')
      else (c_error, [CHR '' '', CHR 0xE2, CHR 0x80, CHR 0xA2, CHR '' '']))"

definition kind_mark :: "int \<Rightarrow> piece list" where
  "kind_mark kind =
     (if kind = logKindHttpIngress \<or> kind = logKindGrpcIngress then
        [painted c_req [CHR 0xE2, CHR 0x80, CHR 0xBA, CHR 0xC2, CHR 0xBB, CHR '' '']]
      else if kind = logKindHttpEgress \<or> kind = logKindGrpcEgress then
        [painted c_res [CHR 0xC2, CHR 0xAB, CHR 0xE2, CHR 0x80, CHR 0xB9, CHR '' '']]
      else if kind = logKindHttpReq \<or> kind = logKindGrpcReq then
        [painted c_req [CHR '' '', CHR 0xE2, CHR 0x87, CHR 0x97, CHR '' '']]
      else if kind = logKindHttpRes then
        [painted c_res [CHR 0xE2, CHR 0x86, CHR 0x99, CHR '' '', CHR '' '']]
      else if kind = logKindHttpEnd \<or> kind = logKindGrpcEnd then
        [painted c_res [CHR 0xE2, CHR 0x87, CHR 0x99, CHR '' '', CHR '' '']]
      else [])"

subsection \<open>Layouts\<close>

definition writeLogLine :: "log_env \<Rightarrow> string \<Rightarrow> (string \<times> log_value) list \<Rightarrow> piece list" where
  "writeLogLine env msg attrs =
     [plain msg] @
     (if length attrs = 0 then []
      else [painted c_faint '' -''] @
        concat (map (\<lambda>(k, v). [plain '' '', plain k, plain ''=''] @ renderAttrValue (g3 env) v) attrs))"

text \<open>A column of 18 bytes: filled up with dots or cut off.\<close>

definition wide_column :: "string \<Rightarrow> piece list" where
  "wide_column s =
     (if length s < 18 then [plain s, painted c_faint (replicate (18 - length s) (CHR ''.''))]
      else [plain (take 18 s)])"

definition method_column :: "string \<Rightarrow> piece list" where
  "method_column m =
     [plain '' '', painted c_faint ''|'', painted c_http_method m, painted c_faint ''|'', plain '' '']"

definition code_column :: "int \<Rightarrow> piece list" where
  "code_column code =
     (if 500 \<le> code then [painted c_error (show_int code @ '' '')]
      else if 400 \<le> code then [painted c_warn (show_int code @ '' '')]
      else if 0 < code then [painted c_info (show_int code @ '' '')]
      else [painted c_faint ''--- ''])"

definition body_column :: "kindHttpAttr \<Rightarrow> piece list result" where
  "body_column a =
     (if HasBody a then humanizeBytes (BodySize a) else Ok [painted c_faint ''----'', plain ''B''])"

definition writeHttpIngressLine :: "kindHttpAttr \<Rightarrow> piece list result" where
  "writeHttpIngressLine a =
     Ok (wide_column (http_PeerAddr a) @ method_column (httpMethodAbbr (http_Method a)) @ [plain (http_Url a)])"

definition writeHttpEgressLine :: "kindHttpAttr \<Rightarrow> piece list result" where
  "writeHttpEgressLine a =
     bindR (body_column a) (\<lambda>body.
       Ok (code_column (http_Code a) @ renderDuration (http_Elapsed a) @ [plain '' ''] @ body @
           method_column (httpMethodAbbr (http_Method a)) @ [painted c_msg (http_Url a)]))"

definition cut_scheme :: "string \<Rightarrow> string" where
  "cut_scheme url = (case str_index ''://'' url of None \<Rightarrow> url | Some i \<Rightarrow> drop (i + 3) url)"

definition writeHttpReqLine :: "kindHttpAttr \<Rightarrow> piece list result" where
  "writeHttpReqLine a =
     (let url = cut_scheme (http_Url a);
          (domain, url) = (case str_index ''/'' url of None \<Rightarrow> ([], url) | Some i \<Rightarrow> (take i url, drop i url))
      in Ok (wide_column domain @ method_column (httpMethodAbbr (http_Method a)) @ [painted c_msg url]))"

definition writeHttpResLine :: "kindHttpAttr \<Rightarrow> piece list result" where
  "writeHttpResLine a =
     (let url = cut_scheme (http_Url a);
          url = (case str_index ''/'' url of None \<Rightarrow> url | Some i \<Rightarrow> drop i url)
      in bindR (body_column a) (\<lambda>body.
           Ok (code_column (http_Code a) @ renderDuration (http_Elapsed a) @ [plain '' ''] @ body @
               method_column (httpMethodAbbr (http_Method a)) @ [painted c_msg url])))"

definition writeGrpcIngressLine :: "kindGrpcAttr \<Rightarrow> piece list result" where
  "writeGrpcIngressLine a =
     bindR (if NotClientStream a then bindR (humanizeBytes (grpc_Bytes a)) (\<lambda>size. Ok (size @ [plain '' '']))
            else Ok [painted c_faint ''..... '']) (\<lambda>size.
       Ok (wide_column (grpc_PeerAddr a) @ [plain '' ''] @ size @
           [plain (grpc_Service a), plain ''/'', painted c_http_method (grpc_Method a)]))"

definition writeGrpcEgressLine :: "kindGrpcAttr \<Rightarrow> piece list result" where
  "writeGrpcEgressLine a =
     (let code_s = grpcCodeAbbr (grpc_Code a);
          code_s = (if grpc_Code a = 0 then painted c_info code_s
                    else if grpc_Code a = 13 then painted c_error code_s
                    else painted c_warn code_s)
      in bindR (if NotClientStream a
                then bindR (humanizeBytes (grpc_Bytes a)) (\<lambda>size. Ok ([plain ''..... ''] @ size))
                else bindR (humanizeBytes (ReqBytes a)) (\<lambda>req.
                     bindR (humanizeBytes (ResBytes a)) (\<lambda>res. Ok (req @ [plain '' ''] @ res)))) (\<lambda>sizes.
           Ok ([code_s, plain '' ''] @ renderDuration (grpc_Elapsed a) @ [plain '' ''] @ sizes @
               [plain '' '', plain (grpc_Service a), plain ''/'', painted c_http_method (grpc_Method a)])))"

subsection \<open>A line, and all of them\<close>

definition line_body :: "log_env \<Rightarrow> walk \<Rightarrow> string \<Rightarrow> piece list result" where
  "line_body env a body =
     (if w_kind a = logKindHttpIngress then writeHttpIngressLine (w_http a)
      else if w_kind a = logKindHttpEgress then writeHttpEgressLine (w_http a)
      else if w_kind a = logKindHttpReq then writeHttpReqLine (w_http a)
      else if w_kind a = logKindHttpRes \<or> w_kind a = logKindHttpEnd then writeHttpResLine (w_http a)
      else if w_kind a = logKindGrpcIngress then writeGrpcIngressLine (w_grpc a)
      else if w_kind a = logKindGrpcEgress then writeGrpcEgressLine (w_grpc a)
      else Ok (writeLogLine env body (w_rest a)))"

definition newline :: string where
  "newline = [CHR 0x0A]"

definition record_line :: "log_env \<Rightarrow> log_record \<Rightarrow> piece list result" where
  "record_line env r =
     (let a = walk_all env (rec_Attributes r); (c_sym, mark) = severity_mark (rec_Severity r) in
      bindR (writeHeader (w_title a) (rec_Timestamp r) [painted c_sym mark] (rec_TraceID r) (rec_SpanID r)) (\<lambda>header.
      bindR (line_body env a (AsString env (rec_Body r))) (\<lambda>line.
        Ok (header @ kind_mark (w_kind a) @ line @
            (if w_status_msg a \<noteq> [] then [painted c_faint '' - '', painted c_sym (w_status_msg a)] else []) @
            [plain newline]))))"

text \<open>\<open>Export\<close>: what the output answers is ignored.\<close>

fun LogExporter_Export ::
    "log_env \<Rightarrow> (color \<Rightarrow> string \<Rightarrow> string) \<Rightarrow> (string \<Rightarrow> 'w \<Rightarrow> (int \<times> goerror option) \<times> 'w) \<Rightarrow>
     log_record list \<Rightarrow> 'w \<Rightarrow> goerror option result \<times> 'w" where
  "LogExporter_Export env paint wr [] w = (Ok None, w)"
| "LogExporter_Export env paint wr (r # rs) w =
     (case record_line env r of
        Ok ps \<Rightarrow> (case wr (bytes_of paint ps) w of (_, w') \<Rightarrow> LogExporter_Export env paint wr rs w')
      | Err e \<Rightarrow> (Err e, w)
      | Panics \<Rightarrow> (Panics, w))"

definition LogExporter_Shutdown :: "'w \<Rightarrow> goerror option \<times> 'w" where
  "LogExporter_Shutdown w = (None, w)"

definition LogExporter_ForceFlush :: "'w \<Rightarrow> goerror option \<times> 'w" where
  "LogExporter_ForceFlush w = (None, w)"

subsection \<open>The kind of a record\<close>

text \<open>What each key contributes to the kind, and the keys that are recognised.\<close>

definition key_table :: "(string \<times> int) list" where
  "key_table =
     [(''app.widget.name'', 0), (''trace_id'', 0), (''span_id'', 0), (''network.peer.address'', 0x10),
      (''http.request.method'', 0x40), (''url.path'', 0x50), (''url.original'', 0x60),
      (''http.response.status_code'', 0x42), (''http.response.header.content-length'', 0x62),
      (''http.response.body.size'', 0x46), (''rpc.service'', 0x80), (''rpc.method'', 0x80),
      (''rpc.grpc.status_code'', 0x86), (''rpc.message.compressed_size'', 0x80),
      (''rpc.message.uncompressed_size'', 0x80), (''rpc.request.compressed_size'', 0x86),
      (''rpc.response.compressed_size'', 0x86), (''server.status_message'', 0x16),
      (''server.elapsed_ns'', 0x16), (''client.elapsed_ns'', 0x22)]"

definition key_flags :: "string \<Rightarrow> int" where
  "key_flags k = (case map_of key_table k of Some f \<Rightarrow> f | None \<Rightarrow> 0)"

definition recognised :: "string \<Rightarrow> bool" where
  "recognised k \<longleftrightarrow> map_of key_table k \<noteq> None"

lemma walk_attr_kind: "w_kind (walk_attr env kv a) = w_kind a OR key_flags (fst kv)"
  by (simp add: walk_attr_def Let_def key_flags_def key_table_def set_flags_def kind_flags split: option.split)

lemma walk_attr_rest: "w_rest (walk_attr env kv a) = w_rest a @ (if recognised (fst kv) then [] else [kv])"
  by (simp add: walk_attr_def Let_def recognised_def key_table_def set_flags_def split: option.split)

lemma fold_walk_kind: "w_kind (fold (walk_attr env) kvs a) = fold (\<lambda>kv k. k OR key_flags (fst kv)) kvs (w_kind a)"
  by (induction kvs arbitrary: a) (simp_all add: walk_attr_kind)

lemma bit_fold_flags:
  "bit (fold (\<lambda>kv k. k OR key_flags (fst kv)) kvs k) n \<longleftrightarrow> bit k n \<or> (\<exists>kv \<in> set kvs. bit (key_flags (fst kv)) n)"
  by (induction kvs arbitrary: k) (auto simp: bit_or_iff)

lemma walk_all_kind_bit: "bit (w_kind (walk_all env kvs)) n \<longleftrightarrow> (\<exists>kv \<in> set kvs. bit (key_flags (fst kv)) n)"
  by (simp add: walk_all_def fold_walk_kind bit_fold_flags start_walk_def logKindUnknown_def)

lemma walk_all_rest: "w_rest (walk_all env kvs) = filter (\<lambda>kv. \<not> recognised (fst kv)) kvs"
proof -
  have "w_rest (fold (walk_attr env) kvs a) = w_rest a @ filter (\<lambda>kv. \<not> recognised (fst kv)) kvs" for a
    by (induction kvs arbitrary: a) (simp_all add: walk_attr_rest)
  then show ?thesis by (simp add: walk_all_def start_walk_def)
qed

lemma bex_fst: "(\<exists>kv \<in> set kvs. P (fst kv)) \<longleftrightarrow> (\<exists>k \<in> fst ` set kvs. P k)"
  by auto

lemma client_flag: "bit (key_flags k) 5 \<Longrightarrow> bit (key_flags k) 6 \<or> bit (key_flags k) 1"
proof -
  have "key_flags k \<in> insert 0 (snd ` set key_table)"
    by (force simp: key_flags_def split: option.split dest: map_of_SomeD)
  then show "bit (key_flags k) 5 \<Longrightarrow> bit (key_flags k) 6 \<or> bit (key_flags k) 1"
    by (auto simp: key_table_def)
qed

text \<open>C18: the kind of a record, and with it its layout, depends on which attribute keys it has
  and on nothing else: neither on their order, nor on repetitions, nor on the values. The
  layout of a gRPC request is never reached. The attributes that are not recognised are kept
  as they are, in order.\<close>

theorem kind_by_keys:
  "(fst ` set kvs = fst ` set kvs' \<longrightarrow> w_kind (walk_all env kvs) = w_kind (walk_all env' kvs')) \<and>
   w_kind (walk_all env kvs) \<noteq> logKindGrpcReq \<and>
   w_rest (walk_all env kvs) = filter (\<lambda>kv. \<not> recognised (fst kv)) kvs"
proof -
  have "w_kind (walk_all env kvs) = w_kind (walk_all env' kvs')" if "fst ` set kvs = fst ` set kvs'"
    by (rule bit_eqI) (simp only: walk_all_kind_bit bex_fst [where P = "\<lambda>k. bit (key_flags k) n" for n] that)
  moreover have "w_kind (walk_all env kvs) \<noteq> logKindGrpcReq"
  proof
    assume "w_kind (walk_all env kvs) = logKindGrpcReq"
    then have k: "bit (w_kind (walk_all env kvs)) 5" "\<not> bit (w_kind (walk_all env kvs)) 6" "\<not> bit (w_kind (walk_all env kvs)) 1"
      by (simp_all add: layout_kinds kind_flags)
    from k(1) obtain kv where "kv \<in> set kvs" "bit (key_flags (fst kv)) 5" by (auto simp: walk_all_kind_bit)
    with client_flag [of "fst kv"] k(2,3) show False by (auto simp: walk_all_kind_bit)
  qed
  ultimately show ?thesis using walk_all_rest by blast
qed

text \<open>The accessors of the log package, and a stand-in for the printing of floats.\<close>

fun log_AsString :: "log_value \<Rightarrow> string" where
  "log_AsString (StringValue s) = s"
| "log_AsString v = []"

fun log_AsInt64 :: "log_value \<Rightarrow> int" where
  "log_AsInt64 (Int64Value n) = (if n \<in> int64_range then n else 0)"
| "log_AsInt64 v = 0"

definition sample_env :: log_env where
  "sample_env = \<lparr>AsString = log_AsString, AsInt64 = log_AsInt64, g3 = (\<lambda>x. ''1.5'')\<rparr>"

lemma kind_by_keys_witness:
  "w_kind (walk_all sample_env [(''url.path'', StringValue ''/a''), (''network.peer.address'', StringValue ''b'')]) =
   w_kind (walk_all sample_env [(''network.peer.address'', EmptyValue), (''url.path'', BoolValue True)])"
  using kind_by_keys [of "[(''url.path'', StringValue ''/a''), (''network.peer.address'', StringValue ''b'')]"
      "[(''network.peer.address'', EmptyValue), (''url.path'', BoolValue True)]" sample_env sample_env]
  by (auto simp: insert_commute)

subsection \<open>No record is refused\<close>

text \<open>The integers that the layouts print are values of \<open>int64\<close>.\<close>

definition ranged :: "walk \<Rightarrow> bool" where
  "ranged a \<longleftrightarrow> BodySize (w_http a) \<in> int64_range \<and> grpc_Bytes (w_grpc a) \<in> int64_range \<and>
     ReqBytes (w_grpc a) \<in> int64_range \<and> ResBytes (w_grpc a) \<in> int64_range"

definition int64_env :: "log_env \<Rightarrow> bool" where
  "int64_env env \<longleftrightarrow> range (AsInt64 env) \<subseteq> int64_range"

lemma ParseInt_range: "ParseInt s = Some n \<Longrightarrow> n \<in> int64_range"
  by (simp add: ParseInt_def Let_def int64_range_def split: if_splits)

lemma ranged_if: "ranged x \<Longrightarrow> ranged y \<Longrightarrow> ranged (if b then x else y)"
  by simp

lemma walk_attr_ranged:
  assumes "int64_env env" "ranged a"
  shows "ranged (walk_attr env kv a)"
proof -
  have "AsInt64 env v \<in> int64_range" for v using assms(1) by (auto simp: int64_env_def)
  with assms(2) show ?thesis
    unfolding walk_attr_def Let_def
    by (intro ranged_if) (simp_all only: ranged_def set_flags_def, simp_all add: ParseInt_range split: option.split)
qed

lemma walk_all_ranged: "int64_env env \<Longrightarrow> ranged (walk_all env kvs)"
proof -
  assume e: "int64_env env"
  have "ranged a \<Longrightarrow> ranged (fold (walk_attr env) kvs a)" for a
    by (induction kvs arbitrary: a) (simp_all add: walk_attr_ranged [OF e])
  then show ?thesis by (simp add: walk_all_def ranged_def start_walk_def int64_range_def)
qed

lemma humanizeBytes_Ok: "n \<in> int64_range \<Longrightarrow> \<exists>ps. humanizeBytes n = Ok ps"
  by (cases "humanizeBytes n") (auto dest: humanizeBytes_Ok_spec)

lemma line_body_Ok:
  assumes "ranged a"
  shows "\<exists>ps. line_body env a body = Ok ps"
proof -
  obtain s where "body_column (w_http a) = Ok s"
    using assms humanizeBytes_Ok [of "BodySize (w_http a)"]
    by (cases "HasBody (w_http a)") (auto simp: ranged_def body_column_def)
  moreover obtain b q p where "humanizeBytes (grpc_Bytes (w_grpc a)) = Ok b"
    "humanizeBytes (ReqBytes (w_grpc a)) = Ok q" "humanizeBytes (ResBytes (w_grpc a)) = Ok p"
    using assms humanizeBytes_Ok unfolding ranged_def by meson
  ultimately show ?thesis
    by (simp add: line_body_def writeHttpIngressLine_def writeHttpEgressLine_def writeHttpReqLine_def
        writeHttpResLine_def writeGrpcIngressLine_def writeGrpcEgressLine_def Let_def case_prod_beta)
qed

definition full_ids :: "log_record \<Rightarrow> bool" where
  "full_ids r \<longleftrightarrow> 6 \<le> length (id_String (rec_TraceID r)) \<and> 6 \<le> length (id_String (rec_SpanID r))"

lemma record_line_Ok:
  assumes "int64_env env" "full_ids r"
  shows "\<exists>ps. record_line env r = Ok (ps @ [plain newline])"
proof -
  let ?a = "walk_all env (rec_Attributes r)"
  obtain c m where m: "severity_mark (rec_Severity r) = (c, m)" by fastforce
  obtain h where "writeHeader (w_title ?a) (rec_Timestamp r) [painted c m] (rec_TraceID r) (rec_SpanID r) = Ok h"
    using assms(2) writeHeader_text unfolding full_ids_def by blast
  moreover obtain l where "line_body env ?a (AsString env (rec_Body r)) = Ok l"
    using line_body_Ok [OF walk_all_ranged [OF assms(1)]] by blast
  ultimately show ?thesis
    by (simp add: record_line_def Let_def m)
qed

lemma Export_lines:
  assumes "int64_env env" "\<forall>r \<in> set rs. full_ids r"
  shows "\<exists>lines. list_all2 (\<lambda>r l. \<exists>ps. record_line env r = Ok (ps @ [plain newline]) \<and>
      l = bytes_of paint ps @ newline) rs lines \<and>
    LogExporter_Export env paint wr rs w = (Ok None, fold (\<lambda>l w. snd (wr l w)) lines w)"
  using assms(2)
proof (induction rs arbitrary: w)
  case (Cons r rs)
  from Cons.prems record_line_Ok [OF assms(1)] obtain ps where ps: "record_line env r = Ok (ps @ [plain newline])"
    by auto
  let ?l = "bytes_of paint ps @ newline"
  have l: "bytes_of paint (ps @ [plain newline]) = ?l" by (simp add: bytes_of_def)
  from Cons.prems Cons.IH [of "snd (wr ?l w)"] obtain lines where
    "list_all2 (\<lambda>r l. \<exists>ps. record_line env r = Ok (ps @ [plain newline]) \<and> l = bytes_of paint ps @ newline) rs lines"
    "LogExporter_Export env paint wr rs (snd (wr ?l w)) = (Ok None, fold (\<lambda>l w. snd (wr l w)) lines (snd (wr ?l w)))"
    by auto
  with ps l show ?case by (intro exI [of _ "?l # lines"]) (simp add: case_prod_beta)
qed simp

text \<open>C13: exporting never fails and never panics: every record becomes exactly one write of one
  line, in order, and what the output answers (an error, a short write) changes nothing.\<close>

theorem Export_total:
  assumes "int64_env env" and "\<forall>r \<in> set rs. full_ids r"
  shows "\<exists>lines. list_all2 (\<lambda>r l. \<exists>ps. record_line env r = Ok (ps @ [plain newline]) \<and>
      l = bytes_of paint ps @ newline) rs lines \<and>
    LogExporter_Export env paint wr rs w = (Ok None, fold (\<lambda>l w. snd (wr l w)) lines w)"
  by (rule Export_lines [OF assms])

definition sample_record :: log_record where
  "sample_record =
     \<lparr>rec_Body = StringValue ''foo'', rec_Attributes = [(''app.widget.name'', StringValue ''bar'')], rec_Severity = 9,
      rec_Timestamp = \<lparr>clock_Hour = 1, clock_Minute = 20, clock_Second = 34, clock_Milli = 567\<rparr>,
      rec_TraceID = \<lparr>id_String = ''00000000'', id_IsValid = False\<rparr>,
      rec_SpanID = \<lparr>id_String = ''00000000'', id_IsValid = False\<rparr>\<rparr>"

lemma Export_total_witness:
  "fst (LogExporter_Export sample_env (\<lambda>c s. s) (\<lambda>l w. ((0, Some (Foreign ''EPIPE'')), w @ [l]))
     [sample_record, sample_record] []) = Ok None"
proof -
  have "int64_env sample_env"
  proof -
    have "log_AsInt64 v \<in> int64_range" for v by (cases v) (simp_all add: int64_range_def)
    then show ?thesis by (auto simp: int64_env_def sample_env_def)
  qed
  moreover have "\<forall>r \<in> set [sample_record, sample_record]. full_ids r" by (simp add: full_ids_def sample_record_def)
  ultimately show ?thesis
    using Export_total [of sample_env "[sample_record, sample_record]" "\<lambda>c s. s"
        "\<lambda>l w. ((0, Some (Foreign ''EPIPE'')), w @ [l])" "[]"] by auto
qed

subsection \<open>The columns line up\<close>




























subsection \<open>Records without a layout\<close>






end
