(* ===== verification/Pretty_Exporter.thy ===== *)
theory Pretty_Exporter
  imports Go_Action Writers Sdk Queue_Config Component Config Pretty_Log
begin

section \<open>The exporter of package pretty (pretty/exporter.go)\<close>

text \<open>
  The log exporter is wired to the named outputs and to writers that the program passes in as
  functions. The exporter is its output, the list of the opened handles; the state is the
  store of outputs together with the world.
\<close>

record ('h, 'w) pretty_config =
  pretty_OutputPaths :: "string list"
  pretty_Outputs :: "('h, 'w) opener list"

fun outputs_loop ::
    "('h, 'w) writer_ops \<Rightarrow> 'h list \<Rightarrow> ('h, 'w) opener list \<Rightarrow> 'w \<Rightarrow> 'h list result \<times> 'w" where
  "outputs_loop ops ws [] w = (Ok ws, w)"
| "outputs_loop ops ws (open # opens) w =
     (case open w of
        (Err e, w') \<Rightarrow> (case MultiWriteCloser_Close ops ws w' of (_, w'') \<Rightarrow> (Err e, w''))
      | (Panics, w') \<Rightarrow> (Panics, w')
      | (Ok h, w') \<Rightarrow> outputs_loop ops (ws @ [h]) opens w')"

definition pretty_paths :: "('h, 'w) pretty_config \<Rightarrow> string list" where
  "pretty_paths e = (if length (pretty_OutputPaths e) = 0 then [''stderr''] else pretty_OutputPaths e)"

definition pretty_open ::
    "(string \<Rightarrow> ('h, 'w) opener) \<Rightarrow> ('h, 'w) writer_ops \<Rightarrow> ('h, 'w) pretty_config \<Rightarrow>
     (('h, 'w) output_store \<times> 'w, 'h list) action" where
  "pretty_open os_open ops e W =
     (case OutputStore_OpenAll os_open ops (fst W) (pretty_paths e) (snd W) of
        (Ok ws, outs', w') \<Rightarrow> (case outputs_loop ops ws (pretty_Outputs e) w' of (r, w'') \<Rightarrow> (r, (outs', w'')))
      | (r, outs', w') \<Rightarrow> (r, (outs', w')))"

definition Pretty_LogExporter ::
    "(string \<Rightarrow> ('h, 'w) opener) \<Rightarrow> ('h, 'w) writer_ops \<Rightarrow> ('h, 'w) pretty_config \<Rightarrow>
     (('h, 'w) output_store \<times> 'w, ('h list, ('h list, log_batch_option) processor) component \<times>
        ('res, ('h list, log_batch_option) processor) logger_option list) action" where
  "Pretty_LogExporter os_open ops e =
     bindA (pretty_open os_open ops e) (\<lambda>hs.
       let p = SimpleProcessor hs in doA (Ok (Bare hs, [WithProcessor p])))"

definition PrettyExporter ::
    "(string \<Rightarrow> ('h, 'w) opener) \<Rightarrow> ('h, 'w) writer_ops \<Rightarrow> ('h, 'w) pretty_config \<Rightarrow>
     (('h, 'w) output_store \<times> 'w, ('h list, ('h list, log_batch_option) processor) component, 'to, 'mo,
      ('res, ('h list, log_batch_option) processor) logger_option) exporter_config" where
  "PrettyExporter os_open ops e = UnimplementedExporterConfig\<lparr>LogExporter := Pretty_LogExporter os_open ops e\<rparr>"

lemma outputs_loop_logged:
  "outputs_loop (logged_ops ops) ws (map logged_open opens) (w, log) = (r, w', log') \<Longrightarrow>
   case r of
     Ok hs \<Rightarrow> \<exists>new. hs = ws @ new \<and> log' = log @ map Opened new \<and> length new = length opens
   | Err e \<Rightarrow> \<exists>new. log' = log @ map Opened new @ [OpenFailed] @ map Closed (ws @ new)
   | Panics \<Rightarrow> True"
proof (induction opens arbitrary: ws w log)
  case (Cons open' opens)
  obtain r1 w1 where one: "open' w = (r1, w1)" by fastforce
  show ?case
  proof (cases r1)
    case (Ok h)
    with Cons.prems one have rest: "outputs_loop (logged_ops ops) (ws @ [h]) (map logged_open opens) (w1, log @ [Opened h]) = (r, w', log')"
      by (simp add: logged_open_apply)
    show ?thesis
    proof (cases r)
      case (Ok hs)
      with Cons.IH [OF rest] obtain new where "hs = ws @ h # new" "log' = log @ map Opened (h # new)"
        "length new = length opens" by auto
      with Ok show ?thesis by (auto intro!: exI [of _ "h # new"])
    next
      case (Err e)
      with Cons.IH [OF rest] obtain new where
        "log' = log @ map Opened (h # new) @ [OpenFailed] @ map Closed (ws @ h # new)" by auto
      with Err show ?thesis by (auto intro!: exI [of _ "h # new"])
    qed simp
  next
    case (Err e)
    obtain e2 w2 log2 where c: "close_loop (logged_ops ops) None ws (w1, log @ [OpenFailed]) = (e2, w2, log2)"
      using prod_cases3 by blast
    with Cons.prems one Err close_loop_logged [OF c] show ?thesis
      by (auto simp: logged_open_apply MultiWriteCloser_Close_def intro!: exI [of _ "[]"])
  next
    case Panics
    with Cons.prems one show ?thesis by (simp add: logged_open_apply)
  qed
qed auto

text \<open>C19: the exporter holds every output it was asked for, those named in the configuration and
  then those passed in as functions; when one of them cannot be opened all the others are
  closed again. The other signals are not implemented and open nothing.\<close>

theorem pretty_open_leaks_nothing:
  assumes "pretty_open (\<lambda>p. logged_open (os_open p)) (logged_ops ops)
      \<lparr>pretty_OutputPaths = paths, pretty_Outputs = map logged_open opens\<rparr> (logged_store outs, (w, [])) = (r, outs', w', log)"
  shows "case r of
      Ok hs \<Rightarrow> opened_handles log = hs \<and> closed_handles log = [] \<and>
        length hs = (if paths = [] then 1 else length paths) + length opens
    | Err e \<Rightarrow> closed_handles log = opened_handles log
    | Panics \<Rightarrow> True"
proof -
  let ?e = "\<lparr>pretty_OutputPaths = paths, pretty_Outputs = map logged_open opens\<rparr>"
  obtain r1 o1 w1 log1 where one: "OutputStore_OpenAll (\<lambda>p. logged_open (os_open p)) (logged_ops ops) (logged_store outs)
      (pretty_paths ?e) (w, []) = (r1, o1, w1, log1)" using prod_cases4 by blast
  note all = open_loop_logged [OF one [unfolded OutputStore_OpenAll_def]]
  show ?thesis
  proof (cases r1)
    case (Ok ws)
    obtain r2 w2 log2 where two: "outputs_loop (logged_ops ops) ws (map logged_open opens) (w1, log1) = (r2, w2, log2)"
      using prod_cases3 by blast
    with assms one Ok have "r2 = r" "log2 = log" by (simp_all add: pretty_open_def)
    with outputs_loop_logged [OF two] all Ok show ?thesis
      by (auto simp: pretty_paths_def split: result.splits)
  next
    case (Err e)
    with assms one all show ?thesis by (auto simp: pretty_open_def)
  next
    case Panics
    with assms one show ?thesis by (auto simp: pretty_open_def)
  qed
qed

lemma pretty_open_leaks_nothing_witness:
  "\<exists>outs' w' log. pretty_open (\<lambda>p. logged_open (no_such_file p)) (logged_ops quiet_ops)
      \<lparr>pretty_OutputPaths = [''a''], pretty_Outputs = map logged_open [counting_open, no_such_file ''gone'']\<rparr>
      (logged_store (Some Map.empty), (0, [])) = (Err (Foreign ''ENOENT''), outs', w', log) \<and>
    opened_handles log = [0, 1] \<and> closed_handles log = [0, 1]"
proof -
  have "pretty_open (\<lambda>p. logged_open (no_such_file p)) (logged_ops quiet_ops)
      \<lparr>pretty_OutputPaths = [''a''], pretty_Outputs = map logged_open [counting_open, no_such_file ''gone'']\<rparr>
      (logged_store (Some Map.empty), (0, [])) =
    (Err (Foreign ''ENOENT''), Some [''a'' \<mapsto> logged_open (no_such_file ''a'')], 2,
      [Opened 0, Opened 1, OpenFailed, Closed 0, Closed 1])"
    by (simp add: pretty_open_def pretty_paths_def OutputStore_OpenAll_def OutputStore_Open_def logged_store_def
        logged_open_apply no_such_file_def counting_open_def MultiWriteCloser_Close_def quiet_ops_def NopCloser_def)
  from this pretty_open_leaks_nothing [OF this] show ?thesis by simp
qed

end
