(* ===== verification/Prometheus_Exporter.thy ===== *)
theory Prometheus_Exporter
  imports Go_Action Sdk Config
begin

section \<open>The Prometheus reader (prometheus/exporter.go)\<close>

text \<open>
  A metric reader that serves its metrics over HTTP. \<open>Start\<close> and \<open>Shutdown\<close> run under a
  mutex; \<open>Start\<close> spawns a goroutine that serves until the context of that call is done, and
  restarts the server when it stops for another reason; \<open>Shutdown\<close> asks the goroutine to end
  and waits for it while holding the mutex. The program is a step relation over the reader,
  its goroutines and the contexts that were cancelled. The constructors of the libraries are
  parameters.
\<close>

subsection \<open>Construction\<close>

record prom_config =
  prom_Endpoint :: string
  prom_Namespace :: string

datatype 'reg prom_option = WithRegisterer 'reg | WithNamespace string

text \<open>The struct \<open>reader\<close>: whether its own context is done and how often \<open>done\<close> was closed
  stand for the two channels. The server is made for \<open>serve_Addr\<close>.\<close>

record 'x reader =
  embedded :: 'x
  serve_Addr :: string
  ctx_done :: bool
  started :: bool
  closed :: bool
  done_closes :: nat

definition prom_options :: "'reg \<Rightarrow> prom_config \<Rightarrow> 'reg prom_option list" where
  "prom_options reg c =
     (let opts = [WithRegisterer reg] in
      if prom_Namespace c \<noteq> [] then opts @ [WithNamespace (prom_Namespace c)] else opts)"

definition Prom_MetricReader ::
    "('w, 'reg) action \<Rightarrow> ('reg prom_option list \<Rightarrow> ('w, 'x) action) \<Rightarrow> prom_config \<Rightarrow>
     ('w, 'x reader \<times> ('res, 'x reader) meter_option list) action" where
  "Prom_MetricReader NewRegistry prometheus_New c =
     bindA NewRegistry (\<lambda>reg.
     bindA (prometheus_New (prom_options reg c)) (\<lambda>r.
       let r' = \<lparr>embedded = r, serve_Addr = prom_Endpoint c, ctx_done = False, started = False, closed = False,
                 done_closes = 0\<rparr>
       in doA (Ok (r', [WithReader r']))))"

definition PrometheusExporter ::
    "('w, 'reg) action \<Rightarrow> ('reg prom_option list \<Rightarrow> ('w, 'x) action) \<Rightarrow> prom_config \<Rightarrow>
     ('w, 'x reader, 'to, ('res, 'x reader) meter_option, 'lo) exporter_config" where
  "PrometheusExporter NewRegistry prometheus_New c =
     UnimplementedExporterConfig\<lparr>MetricReader := Prom_MetricReader NewRegistry prometheus_New c\<rparr>"

subsection \<open>Start and Shutdown\<close>

text \<open>\<open>Start\<close> answers an error, the new reader and whether it spawned the goroutine.\<close>

definition reader_Start :: "'x reader \<Rightarrow> goerror option \<times> 'x reader \<times> bool" where
  "reader_Start r =
     (if closed r then (Some (Errorf ''already closed'' []), r, False)
      else if started r then (None, r, False)
      else (None, r\<lparr>started := True\<rparr>, True))"

text \<open>\<open>Shutdown\<close> up to the receive from \<open>done\<close>: the new reader and whether it waits there.\<close>

definition reader_Shutdown :: "'x reader \<Rightarrow> 'x reader \<times> bool" where
  "reader_Shutdown r = (if closed r then (r, False) else (r\<lparr>closed := True, ctx_done := True\<rparr>, True))"

text \<open>Where the goroutine is: in \<open>ListenAndServe\<close>, at the \<open>select\<close>, or gone.\<close>

datatype phase = Serving | Selecting | Finished

record 'x prom_state =
  rd :: "'x reader"
  goroutines :: "(phase \<times> nat) list"
  waiting :: bool
  cancelled :: "nat set"

text \<open>
  The steps. A goroutine carries the number of the context of its \<open>Start\<close>. A call can begin
  only while no \<open>Shutdown\<close> waits, since that one holds the mutex. \<open>ListenAndServe\<close> returns
  when the context is done, for then \<open>AfterFunc\<close> shuts the server down, or by a failure of
  its own, which \<open>ok\<close> excludes. At the \<open>select\<close> the timer can win even when the reader's
  context is done. Contexts outside \<open>C\<close> are never cancelled.
\<close>

inductive prom_step :: "bool \<Rightarrow> nat set \<Rightarrow> 'x prom_state \<Rightarrow> 'x prom_state \<Rightarrow> bool"
  for ok :: bool and C :: "nat set" where
  start: "\<not> waiting s \<Longrightarrow> reader_Start (rd s) = (err, r, spawn) \<Longrightarrow>
    prom_step ok C s (s\<lparr>rd := r, goroutines := goroutines s @ (if spawn then [(Serving, c)] else [])\<rparr>)"
| shutdown: "\<not> waiting s \<Longrightarrow> reader_Shutdown (rd s) = (r, b) \<Longrightarrow> prom_step ok C s (s\<lparr>rd := r, waiting := b\<rparr>)"
| shutdown_return: "waiting s \<Longrightarrow> 0 < done_closes (rd s) \<Longrightarrow> prom_step ok C s (s\<lparr>waiting := False\<rparr>)"
| cancel: "c \<in> C \<Longrightarrow> prom_step ok C s (s\<lparr>cancelled := insert c (cancelled s)\<rparr>)"
| serve_stops: "goroutines s = gs @ (Serving, c) # hs \<Longrightarrow> c \<in> cancelled s \<Longrightarrow>
    prom_step ok C s (s\<lparr>goroutines := gs @ (Selecting, c) # hs\<rparr>)"
| serve_fails: "\<not> ok \<Longrightarrow> goroutines s = gs @ (Serving, c) # hs \<Longrightarrow>
    prom_step ok C s (s\<lparr>goroutines := gs @ (Selecting, c) # hs\<rparr>)"
| select_ctx: "goroutines s = gs @ (Selecting, c) # hs \<Longrightarrow> ctx_done (rd s) \<Longrightarrow>
    prom_step ok C s (s\<lparr>goroutines := gs @ (Finished, c) # hs,
      rd := (rd s)\<lparr>done_closes := done_closes (rd s) + 1\<rparr>\<rparr>)"
| select_timer: "goroutines s = gs @ (Selecting, c) # hs \<Longrightarrow>
    prom_step ok C s (s\<lparr>goroutines := gs @ (Serving, c) # hs\<rparr>)"

definition fresh_prom :: "'x \<Rightarrow> string \<Rightarrow> 'x prom_state" where
  "fresh_prom x a =
     \<lparr>rd = \<lparr>embedded = x, serve_Addr = a, ctx_done = False, started = False, closed = False, done_closes = 0\<rparr>,
      goroutines = [], waiting = False, cancelled = {}\<rparr>"

definition prom_reachable :: "bool \<Rightarrow> nat set \<Rightarrow> 'x \<Rightarrow> string \<Rightarrow> 'x prom_state \<Rightarrow> bool" where
  "prom_reachable ok C x a = (prom_step ok C)\<^sup>*\<^sup>* (fresh_prom x a)"

subsection \<open>One goroutine, closing once\<close>

definition prom_inv :: "'x prom_state \<Rightarrow> bool" where
  "prom_inv s \<longleftrightarrow>
     (if started (rd s)
      then \<exists>p c. goroutines s = [(p, c)] \<and> done_closes (rd s) = (if p = Finished then 1 else 0) \<and>
        (p = Finished \<longrightarrow> closed (rd s))
      else goroutines s = [] \<and> done_closes (rd s) = 0) \<and>
     (ctx_done (rd s) \<longleftrightarrow> closed (rd s)) \<and> (waiting s \<longrightarrow> closed (rd s)) \<and>
     (closed (rd s) \<longrightarrow> waiting s \<or> 0 < done_closes (rd s))"

lemma prom_inv_step: "prom_step ok C s s' \<Longrightarrow> prom_inv s \<Longrightarrow> prom_inv s'"
  by (induction rule: prom_step.induct)
    (auto simp: prom_inv_def reader_Start_def reader_Shutdown_def Cons_eq_append_conv append_eq_Cons_conv split: if_splits)

lemma prom_inv_reachable: "prom_reachable ok C x a s \<Longrightarrow> prom_inv s"
  unfolding prom_reachable_def
  by (induction rule: rtranclp_induct) (simp add: prom_inv_def fresh_prom_def, rule prom_inv_step)

text \<open>C7: however the calls, the contexts and the server interleave, at most one goroutine ever
  serves, it closes \<open>done\<close> at most once (a second close would panic), and once a \<open>Shutdown\<close>
  has returned it is gone and no server is started again.\<close>

theorem reader_single_goroutine:
  assumes "prom_reachable ok C x a s"
  shows "length (goroutines s) \<le> 1 \<and> (goroutines s \<noteq> [] \<longleftrightarrow> started (rd s)) \<and> done_closes (rd s) \<le> 1 \<and>
    (0 < done_closes (rd s) \<longleftrightarrow> (\<exists>c. goroutines s = [(Finished, c)])) \<and>
    (closed (rd s) \<and> \<not> waiting s \<longrightarrow>
       (\<exists>c. goroutines s = [(Finished, c)]) \<and> reader_Start (rd s) = (Some (Errorf ''already closed'' []), rd s, False))"
  using prom_inv_reachable [OF assms]
  by (auto simp: prom_inv_def reader_Start_def split: if_splits)

lemma prom_served:
  "prom_reachable True {0} x a
     \<lparr>rd = \<lparr>embedded = x, serve_Addr = a, ctx_done = True, started = True, closed = True, done_closes = 1\<rparr>,
      goroutines = [(Finished, 0)], waiting = False, cancelled = {0}\<rparr>"
proof -
  let ?r = "\<lambda>b n. \<lparr>embedded = x, serve_Addr = a, ctx_done = b, started = True, closed = b, done_closes = n\<rparr>"
  let ?s = "\<lambda>b n p w C. \<lparr>rd = ?r b n, goroutines = [(p, 0)], waiting = w, cancelled = C\<rparr>"
  have "prom_step True {0} (fresh_prom x a) (?s False 0 Serving False {})"
    using prom_step.start [of "fresh_prom x a" None "?r False 0" True True "{0}" 0]
    by (simp add: fresh_prom_def reader_Start_def)
  moreover have "prom_step True {0} (?s False 0 Serving False {}) (?s False 0 Serving False {0})"
    using prom_step.cancel [of 0 "{0}" True "?s False 0 Serving False {}"] by simp
  moreover have "prom_step True {0} (?s False 0 Serving False {0}) (?s True 0 Serving True {0})"
    using prom_step.shutdown [of "?s False 0 Serving False {0}" "?r True 0" True True "{0}"]
    by (simp add: reader_Shutdown_def)
  moreover have "prom_step True {0} (?s True 0 Serving True {0}) (?s True 0 Selecting True {0})"
    using prom_step.serve_stops [of "?s True 0 Serving True {0}" "[]" 0 "[]" True "{0}"] by simp
  moreover have "prom_step True {0} (?s True 0 Selecting True {0}) (?s True 1 Finished True {0})"
    using prom_step.select_ctx [of "?s True 0 Selecting True {0}" "[]" 0 "[]" True "{0}"] by simp
  moreover have "prom_step True {0} (?s True 1 Finished True {0}) (?s True 1 Finished False {0})"
    using prom_step.shutdown_return [of "?s True 1 Finished True {0}" True "{0}"] by simp
  ultimately show ?thesis
    unfolding prom_reachable_def by (meson converse_rtranclp_into_rtranclp rtranclp.rtrancl_refl)
qed

lemma reader_single_goroutine_witness:
  "reader_Start \<lparr>embedded = (), serve_Addr = '':9464'', ctx_done = True, started = True, closed = True, done_closes = 1\<rparr> =
     (Some (Errorf ''already closed'' []),
      \<lparr>embedded = (), serve_Addr = '':9464'', ctx_done = True, started = True, closed = True, done_closes = 1\<rparr>, False)"
  using reader_single_goroutine [OF prom_served [of "()" "'':9464''"]] by simp

subsection \<open>When Shutdown returns\<close>







end
