(* ===== verification/Spec2Isabelle.thy ===== *)
theory Spec2Isabelle
  imports Opaque Identifiable Registry Attr Z_Util Config Component Resolver_Properties Writers Processors
    Otlp_Exporter Debug_Exporter Pretty_Exporter Prometheus_Exporter
begin

text \<open>
  \<^bold>\<open>mkot, verified.\<close> The library turns a configuration in the style of the OpenTelemetry
  collector into the providers of the OpenTelemetry Go SDK. This development models its Go code
  (the repository without tests) and proves what each part promises. The program's parts, in the
  order of the imports, with the theory that models each:

  \<^item> \<open>Go_Prelude\<close>, \<open>Go_Action\<close>: what the code uses of Go. Errors with their chains (error.go),
    calls that return a value and an error or panic (\<open>result\<close>), the same with an effect on a
    world (\<open>action\<close>), maps that may be nil and are ranged over in any order, \<open>strings.Cut\<close> and
    \<open>strings.Index\<close> on bytes, decimal printing, 64-bit integers. The locale \<open>keyed_store\<close> is the
    interface of tables where the last write wins.
  \<^item> \<open>Opaque\<close> (opaque/): secret strings; the association list of headers whose \<open>Set\<close> mutates a
    shared array, over an explicit heap, refined to a functional update.
  \<^item> \<open>Identifiable\<close> (identifiable.go): ids \<open>type/name\<close>, the regular expressions as functions on
    bytes. The Unicode classes beyond ASCII are a parameter.
  \<^item> \<open>Registry\<close> (registry.go), \<open>Attr\<close> (attr.go), \<open>Z_Util\<close> (internal/z/), \<open>Config\<close> (config.go):
    constructors by type name, attribute values, option helpers, and the decoding of a
    configuration, for every order in which the maps of nodes are visited. The YAML library is a
    parameter.
  \<^item> \<open>Component\<close> (component.go, logger.go), \<open>Resolver\<close> (resolver.go): the lifecycle wrappers, the
    three provider methods, \<open>Start\<close> and \<open>Shutdown\<close>. \<open>Resolver_Providers\<close> has the locale
    \<open>provider_method\<close>, interpreted by \<open>Tracer\<close>, \<open>Meter\<close> and \<open>Logger\<close>, and the reachable
    resolvers; \<open>Resolver_Properties\<close> what follows.
  \<^item> \<open>Writers\<close> (io.go): the reference-counted writer shared by its holders as a step relation,
    the fan-out, and the store of outputs. Statements on opening and closing watch the calls
    through \<open>logged_open\<close> and \<open>logged_ops\<close>.
  \<^item> \<open>Sdk\<close>, \<open>Queue_Config\<close> (queue.go, retry.go), \<open>Processors\<close> (sampler.go, resource.go): options
    of the SDK as constructors; the locale \<open>batch_pipeline\<close> is the contract of the two builders
    of processors.
  \<^item> \<open>Tls\<close> (tls.go): names of versions, suites and curves (locale \<open>name_resolver\<close>), the certificate
    reloader, and the client configuration. Files, clock and crypto are the record \<open>crypto\<close>.
  \<^item> \<open>Otlp_Options\<close>, \<open>Otlp_Exporter\<close> (otlp/exporter.go, otlp/http.go): how the configuration becomes
    the options of six SDK exporters (three signals, two transports), which configurations are
    refused, and the four methods of the exporter.
  \<^item> \<open>Debug_Exporter\<close> (debug/exporter.go), \<open>Prometheus_Exporter\<close> (prometheus/exporter.go): output
    to the writers above; the reader whose \<open>Start\<close> spawns a serving goroutine and whose
    \<open>Shutdown\<close> waits for it, as a step relation over calls, contexts and the goroutine.
  \<^item> \<open>Pretty_Color\<close>, \<open>Pretty_String\<close>, \<open>Pretty_Value\<close>, \<open>Pretty_Log\<close>, \<open>Pretty_Exporter\<close> (pretty/): log
    lines in aligned columns. A buffer is the list of its painted pieces; \<open>visible\<close> is the text
    without escape codes and \<open>columns\<close> counts its characters.
  \<^item> this theory: the \<open>init\<close> functions that fill the default registry of exporters, and what spans
    the parts.

  \<^bold>\<open>How the parts meet.\<close> A configuration is decoded with the registries (\<open>Config\<close>, \<open>Registry\<close>,
  \<open>Processors\<close>, here). \<open>Make\<close> wraps it; a provider method asks the processors and exporters it
  lists for options and components (records of functions, \<open>processor_config\<close> and
  \<open>exporter_config\<close>) and caches the provider. \<open>Start\<close> and \<open>Shutdown\<close> drive the components of all
  providers. \<open>sampled_otlp_pipeline\<close> follows one configuration through all of it.

  \<^bold>\<open>What is shown.\<close> Of every operation the outcome on every branch, errors and panics included,
  where a condition decides it as an equivalence (\<open>otlp_accepts_iff\<close>, \<open>Build_accepts_iff\<close>,
  \<open>shutdown_returns_iff\<close>, \<open>decodeValue_panics_iff\<close>); invariants over all sequences of calls (the
  resolver, the shared writer, the certificate reloader, the Prometheus reader); that handles are
  not leaked; refinements and round trips for ids, registries and headers; the exact text of
  durations, sizes, values and log lines.

  \<^bold>\<open>Bounds and loops.\<close> No definition uses fuel: the one loop that is not structural,
  \<open>humanize_loop\<close>, is total on all integers by the measure \<open>nat n\<close>, and \<open>humanizeBytes_total\<close>
  bounds its rounds by five for every \<open>int64\<close>. Integers that are only compared or printed are HOL
  integers, with \<open>int64_range\<close> where the width matters; bits, hashes and the conversion from
  \<open>uint64\<close> are words. A mutex makes the operation it guards one step; the \<open>Shutdown\<close> of the
  Prometheus reader, which waits inside its mutex, is two.

  \<^bold>\<open>Not modelled.\<close> Code that is not in the repository is a parameter: the SDK and its exporters,
  the YAML and color libraries, os, crypto/x509, crypto/tls, net/http, and of net/url what follows
  the scheme. The printing of a \<open>float64\<close> is a parameter too. The order of effects between
  goroutines other than the ones named above is not modelled, nor is internal/x, a helper of the
  tests.
\<close>

section \<open>The default registries\<close>

text \<open>What a freshly constructed exporter configuration is, by the package that registers it; each
  \<open>init\<close> adds its constructor to the default registry, and runs when the package is
  imported.\<close>

datatype exporter_value =
    OtlpValue otlp_config
  | DebugValue debug_config
  | PrettyValue "string list"
  | PrometheusValue prom_config

definition init_otlp :: "exporter_value registry \<Rightarrow> exporter_value registry result" where
  "init_otlp r = Registry_Set r ''otlp'' (\<lambda>u. OtlpValue plain_otlp)"

definition init_debug :: "exporter_value registry \<Rightarrow> exporter_value registry result" where
  "init_debug r = Registry_Set r ''debug'' (\<lambda>u. DebugValue \<lparr>OutputPaths = [],
     DebugQueue = \<lparr>queue_Enabled = None, NumConsumers = 0, WaitForResult = False, BlockOnOverflow = False,
       QueueSize = 0, Batch = \<lparr>FlushTimeout = 0, MinSize = 0, MaxSize = 0\<rparr>\<rparr>\<rparr>)"

definition init_pretty :: "exporter_value registry \<Rightarrow> exporter_value registry result" where
  "init_pretty r = Registry_Set r ''pretty'' (\<lambda>u. PrettyValue [])"

definition init_prometheus :: "exporter_value registry \<Rightarrow> exporter_value registry result" where
  "init_prometheus r = Registry_Set r ''prometheus'' (\<lambda>u. PrometheusValue \<lparr>prom_Endpoint = [], prom_Namespace = []\<rparr>)"

datatype package = Otlp | Debug | Pretty | Prometheus

primrec package_init :: "package \<Rightarrow> exporter_value registry \<Rightarrow> exporter_value registry result" where
  "package_init Otlp = init_otlp"
| "package_init Debug = init_debug"
| "package_init Pretty = init_pretty"
| "package_init Prometheus = init_prometheus"

text \<open>The initialisation of a program that imports these packages, in this order.\<close>

fun run_inits :: "package list \<Rightarrow> exporter_value registry \<Rightarrow> exporter_value registry result" where
  "run_inits [] r = Ok r"
| "run_inits (p # ps) r = bindR (package_init p r) (run_inits ps)"

primrec package_name :: "package \<Rightarrow> string" where
  "package_name Otlp = ''otlp''"
| "package_name Debug = ''debug''"
| "package_name Pretty = ''pretty''"
| "package_name Prometheus = ''prometheus''"

primrec has_package :: "exporter_value \<Rightarrow> package" where
  "has_package (OtlpValue e) = Otlp"
| "has_package (DebugValue e) = Debug"
| "has_package (PrettyValue e) = Pretty"
| "has_package (PrometheusValue e) = Prometheus"

lemma package_name_inj: "package_name p = package_name q \<longleftrightarrow> p = q"
  by (cases p; cases q) simp_all

lemma package_init_Ok:
  "\<exists>m' v. package_init p (Some m) = Ok (Some m') \<and> m' = m(package_name p \<mapsto> (\<lambda>u. v)) \<and> has_package v = p"
  by (cases p) (auto simp: init_otlp_def init_debug_def init_pretty_def init_prometheus_def Registry_Set_def)

lemma run_inits_Ok:
  "\<exists>m'. run_inits ps (Some m) = Ok (Some m') \<and>
    (\<forall>t. (t \<in> package_name ` set ps \<longrightarrow> (\<exists>v. m' t = Some (\<lambda>u. v) \<and> package_name (has_package v) = t)) \<and>
      (t \<notin> package_name ` set ps \<longrightarrow> m' t = m t))"
proof (induction ps arbitrary: m)
  case (Cons p ps)
  obtain v where v: "package_init p (Some m) = Ok (Some (m(package_name p \<mapsto> (\<lambda>u. v))))" "has_package v = p"
    using package_init_Ok [of p m] by auto
  let ?m = "m(package_name p \<mapsto> (\<lambda>u. v))"
  from Cons.IH [of ?m] obtain m' where m': "run_inits ps (Some ?m) = Ok (Some m')"
    "\<forall>t. (t \<in> package_name ` set ps \<longrightarrow> (\<exists>v. m' t = Some (\<lambda>u. v) \<and> package_name (has_package v) = t)) \<and>
      (t \<notin> package_name ` set ps \<longrightarrow> m' t = ?m t)" by blast
  have "run_inits (p # ps) (Some m) = Ok (Some m')" using v(1) m'(1) by (simp del: fun_upd_apply)
  moreover have "\<exists>v. m' t = Some (\<lambda>u. v) \<and> package_name (has_package v) = t" if "t \<in> package_name ` set (p # ps)" for t
  proof (cases "t \<in> package_name ` set ps")
    case False
    with that m'(2) v(2) show ?thesis by (intro exI [of _ v]) auto
  qed (use m'(2) in blast)
  moreover have "m' t = m t" if "t \<notin> package_name ` set (p # ps)" for t
    using that m'(2) by auto
  ultimately show ?case by blast
qed simp

text \<open>C40: initialisation never panics, and the default exporter registry then has exactly the types
  of the imported packages, whatever the order of the imports; under each name it constructs a
  configuration of that package's own type.\<close>

theorem default_exporter_types:
  "\<exists>r. run_inits ps (Some Map.empty) = Ok r \<and>
    (\<forall>t. ((\<exists>v. Registry_New r t = Some v) \<longleftrightarrow> t \<in> package_name ` set ps) \<and>
      (\<forall>v. Registry_New r t = Some v \<longrightarrow> package_name (has_package v) = t))"
proof -
  from run_inits_Ok [of ps Map.empty] obtain m where m: "run_inits ps (Some Map.empty) = Ok (Some m)"
    "\<And>t. t \<in> package_name ` set ps \<Longrightarrow> \<exists>v. m t = Some (\<lambda>u. v) \<and> package_name (has_package v) = t"
    "\<And>t. t \<notin> package_name ` set ps \<Longrightarrow> m t = None" by auto
  have n: "Registry_New (Some m) t = (case m t of None \<Rightarrow> None | Some f \<Rightarrow> Some (f ()))" for t
    by (simp add: Registry_New_def Registry_Get_def)
  have types: "((\<exists>v. Registry_New (Some m) t = Some v) \<longleftrightarrow> t \<in> package_name ` set ps) \<and>
      (\<forall>v. Registry_New (Some m) t = Some v \<longrightarrow> package_name (has_package v) = t)" for t
  proof (intro conjI allI impI)
    show "(\<exists>v. Registry_New (Some m) t = Some v) \<longleftrightarrow> t \<in> package_name ` set ps"
      unfolding n using m(2,3) [of t] by (cases "m t") auto
    show "package_name (has_package v) = t" if "Registry_New (Some m) t = Some v" for v using that
      unfolding n using m(2,3) [of t] by (cases "t \<in> package_name ` set ps") auto
  qed
  show ?thesis by (intro exI [of _ "Some m"] conjI) (rule m(1), rule allI, rule types)
qed

lemma default_exporter_types_witness:
  "\<exists>r. run_inits [Otlp, Pretty] (Some Map.empty) = Ok r \<and> Registry_New r ''debug'' = None"
proof -
  from default_exporter_types [of "[Otlp, Pretty]"] obtain r where "run_inits [Otlp, Pretty] (Some Map.empty) = Ok r"
    and t: "\<forall>t. ((\<exists>v. Registry_New r t = Some v) \<longleftrightarrow> t \<in> package_name ` set [Otlp, Pretty]) \<and>
      (\<forall>v. Registry_New r t = Some v \<longrightarrow> package_name (has_package v) = t)" by blast
  moreover have "\<not> (\<exists>v. Registry_New r ''debug'' = Some v)" using spec [OF t, of "''debug''"] by simp
  ultimately show ?thesis by (cases "Registry_New r ''debug''") auto
qed

section \<open>A configuration from its text to its components\<close>

lemma unknown_type_refused:
  assumes "(k, node) \<in> set (raw_Processors c)" "Registry_New dp (Id_Type k) = None"
  shows "snd (Config_UnmarshalYAML dp de marshal um_p um_e (Inr c) (NewConfig None None)) \<noteq> None"
proof -
  have "errors_of dp marshal um_p (k, node) \<noteq> []" using assms(2) by (simp add: errors_of_def)
  with assms(1) have "snd (decode_components dp marshal um_p (raw_Processors c) (Map.empty, [])) \<noteq> []"
    unfolding decode_components_errors by fastforce
  then show ?thesis
    by (auto simp: Config_UnmarshalYAML_def Let_def NewConfig_def errors_Join_Some z_Err_def simp del: not_None_eq
        split: prod.splits)
qed

text \<open>With the registries that the package fills by itself, a configuration is decoded without
  an error only if all its processors are samplers and resources; the one in the README, which
  has a \<open>batcher/foo\<close>, is refused.\<close>

theorem default_processors_only:
  assumes "snd (Config_UnmarshalYAML DefaultProcessorRegistry de marshal um_p um_e (Inr c) (NewConfig None None)) = None"
  shows "\<forall>k \<in> fst ` set (raw_Processors c). Id_Type k \<in> {''sampler'', ''resource''} \<and> k \<noteq> ''batcher/foo''"
proof -
  have b: "Id_Type ''batcher/foo'' = ''batcher''" by code_simp
  have "Id_Type k \<in> {''sampler'', ''resource''}" if "(k, node) \<in> set (raw_Processors c)" for k node
    using unknown_type_refused [OF that, of DefaultProcessorRegistry de marshal um_p um_e] assms
    by (cases "Id_Type k \<in> {''sampler'', ''resource''}") (auto simp: DefaultProcessorRegistry_lookup)
  with b show ?thesis by force
qed

lemma default_processors_only_witness:
  "Id_Type ''resource/x'' \<in> {''sampler'', ''resource''}"
proof -
  let ?c = "\<lparr>raw_Enabled = None, raw_Processors = [(''resource/x'', None :: string option)], raw_Exporters = [],
      raw_Providers = None\<rparr>"
  have "Id_Type ''resource/x'' = ''resource''" by code_simp
  then have "snd (Config_UnmarshalYAML DefaultProcessorRegistry (None :: unit registry) (\<lambda>n. (n, None)) (\<lambda>raw d. (d, None))
      (\<lambda>raw d. (d, None)) (Inr ?c) (NewConfig None None)) = None"
    by (simp add: Config_UnmarshalYAML_def NewConfig_def DefaultProcessorRegistry_lookup decode_node_def z_Err_def errors_Join_def
        List.map_filter_def)
  from default_processors_only [OF this] show ?thesis by simp
qed









end
